(* ===== verification/Prelude.thy ===== *)
theory Prelude
  imports Main "HOL-Library.Product_Lexorder" "HOL-Library.Sublist" "HOL-Library.Char_ord"
begin

text \<open>
  Shared vocabulary of the development: the types that stand for Python values
  (identifiers, dates, instants, money, strings), the few string functions of Python's
  standard library that the program calls, the pagination arithmetic every list endpoint
  uses, and the list lemmas and theorem collections the component theories build on.
\<close>

named_theorems svc "execution rules of the service monad"
named_theorems atomic_intros "rules that show a service method commits all or nothing"
named_theorems trail_intros "rules that compute the audit entries a service method writes"
named_theorems table_simps "rewrite rules for table updates"

section \<open>Python values\<close>

text \<open>
  A UUID is a 128-bit number that PostgreSQL orders byte-wise, hence a natural number.
  A \<open>date\<close> is its proleptic Gregorian ordinal (\<open>date.toordinal()\<close>), an instant is a
  number of microseconds in UTC, and a \<open>Decimal\<close> amount of money is a number of cents
  (every money column is \<open>Numeric(12, 2)\<close>).
\<close>

type_synonym uuid = nat
type_synonym date = int
type_synonym instant = int
type_synonym money = int

text \<open>
  An attribute of a partial-update payload: \<open>None\<close> when the client did not send the
  field, \<open>Some v\<close> when it did (\<open>v = None\<close> for an explicit \<open>null\<close>). Reading the
  attribute in Python gives \<open>None\<close> in both of the first cases.
\<close>

type_synonym 'a patch = "'a option option"

definition attr :: "'a patch \<Rightarrow> 'a option" where
  "attr p = Option.bind p id"

lemma attr_simps [simp]: "attr None = None" "attr (Some v) = v"
  by (simp_all add: attr_def)

text \<open>Storing a patch field in a nullable and in a non-nullable column.\<close>

fun set_null :: "'a patch \<Rightarrow> 'a option \<Rightarrow> 'a option" where
  "set_null None old = old"
| "set_null (Some v) old = v"

fun set_req :: "'a patch \<Rightarrow> 'a \<Rightarrow> 'a" where
  "set_req None old = old"
| "set_req (Some None) old = old"
| "set_req (Some (Some v)) old = v"

text \<open>An explicit \<open>null\<close> for a non-nullable column is a not-null violation of that column.\<close>

definition null_viol :: "string \<Rightarrow> 'a patch \<Rightarrow> string list" where
  "null_viol col p = (if p = Some None then [col] else [])"

lemma null_viol_simps [simp]:
  "null_viol c None = []" "null_viol c (Some (Some v)) = []" "null_viol c (Some None) = [c]"
  by (simp_all add: null_viol_def)

section \<open>Python strings\<close>

text \<open>Strings are ASCII; \<open>str.strip\<close>, \<open>str.lower\<close> and \<open>str.upper\<close> act on ASCII letters.\<close>

definition is_space :: "char \<Rightarrow> bool" where
  "is_space c = (of_char c \<in> {9::nat, 10, 11, 12, 13, 28, 29, 30, 31, 32})"

definition py_strip :: "string \<Rightarrow> string" where
  "py_strip s = rev (dropWhile is_space (rev (dropWhile is_space s)))"

definition lower_char :: "char \<Rightarrow> char" where
  "lower_char c = (let n = of_char c :: nat in if 65 \<le> n \<and> n \<le> 90 then char_of (n + 32) else c)"

definition upper_char :: "char \<Rightarrow> char" where
  "upper_char c = (let n = of_char c :: nat in if 97 \<le> n \<and> n \<le> 122 then char_of (n - 32) else c)"

definition py_lower :: "string \<Rightarrow> string" where
  "py_lower = map lower_char"

definition py_upper :: "string \<Rightarrow> string" where
  "py_upper = map upper_char"

definition is_digit :: "char \<Rightarrow> bool" where
  "is_digit c = (let n = of_char c :: nat in 48 \<le> n \<and> n \<le> 57)"

definition is_alpha :: "char \<Rightarrow> bool" where
  "is_alpha c = (let n = of_char c :: nat in 65 \<le> n \<and> n \<le> 90 \<or> 97 \<le> n \<and> n \<le> 122)"

text \<open>Python's \<open>sub in s\<close> on strings.\<close>

definition substr :: "string \<Rightarrow> string \<Rightarrow> bool" where
  "substr sub s = sublist sub s"

lemma substr_refl [simp]: "substr s s"
  by (simp add: substr_def)

lemma of_char_char_of_small: "n < 256 \<Longrightarrow> (of_char (char_of n :: char) :: nat) = n"
  by (simp add: of_char_of)

lemma lower_char_idem [simp]: "lower_char (lower_char c) = lower_char c"
  by (simp add: lower_char_def Let_def of_char_char_of_small)

lemma py_lower_idem [simp]: "py_lower (py_lower s) = py_lower s"
  by (simp add: py_lower_def)

lemma is_space_lower [simp]: "is_space (lower_char c) = is_space c"
  by (auto simp: is_space_def lower_char_def Let_def of_char_char_of_small)

lemma dropWhile_map_space:
  "dropWhile is_space (map lower_char s) = map lower_char (dropWhile is_space s)"
  by (simp add: dropWhile_map comp_def)

lemma py_strip_lower: "py_strip (py_lower s) = py_lower (py_strip s)"
  by (simp add: py_strip_def py_lower_def dropWhile_map_space rev_map)

lemma dropWhile_idem [simp]: "dropWhile P (dropWhile P xs) = dropWhile P xs"
  by (induction xs) auto

lemma dropWhile_rev_keeps_head:
  assumes "dropWhile P xs = xs"
  shows "dropWhile P (rev (dropWhile P (rev xs))) = rev (dropWhile P (rev xs))"
proof (cases "rev (dropWhile P (rev xs))")
  case Nil
  then show ?thesis by (simp only: dropWhile.simps)
next
  case (Cons y ys)
  have "xs = rev (dropWhile P (rev xs)) @ rev (takeWhile P (rev xs))"
    by (metis rev_append rev_rev_ident takeWhile_dropWhile_id)
  with Cons have "xs = y # (ys @ rev (takeWhile P (rev xs)))" by simp
  with assms have "\<not> P y"
    by (metis dropWhile_eq_Cons_conv list.sel(1))
  with Cons show ?thesis by simp
qed

lemma py_strip_idem [simp]: "py_strip (py_strip s) = py_strip s"
  unfolding py_strip_def
  by (subst dropWhile_rev_keeps_head [where xs = "dropWhile is_space s"]) simp_all

text \<open>Removing the \<open>/\<close>-separated directories of a path: \<open>pathlib.Path(s).name\<close>.\<close>

fun split_slash :: "string \<Rightarrow> string list" where
  "split_slash [] = [[]]"
| "split_slash (c # cs) =
     (if c = CHR ''/'' then [] # split_slash cs
      else (case split_slash cs of [] \<Rightarrow> [[c]] | p # ps \<Rightarrow> (c # p) # ps))"

definition path_name :: "string \<Rightarrow> string" where
  "path_name s = (let parts = filter (\<lambda>p. p \<noteq> [] \<and> p \<noteq> ''.'') (split_slash s)
                  in if parts = [] then [] else last parts)"

lemma split_slash_no_slash: "p \<in> set (split_slash s) \<Longrightarrow> CHR ''/'' \<notin> set p"
proof (induction s arbitrary: p rule: split_slash.induct)
  case 1
  then show ?case by simp
next
  case (2 c cs)
  show ?case
  proof (cases "c = CHR ''/''")
    case True
    with 2 show ?thesis by auto
  next
    case False
    then show ?thesis
      using 2 by (cases "split_slash cs") auto
  qed
qed

lemma path_name_no_slash: "CHR ''/'' \<notin> set (path_name s)"
proof -
  let ?parts = "filter (\<lambda>p. p \<noteq> [] \<and> p \<noteq> ''.'') (split_slash s)"
  have "?parts \<noteq> [] \<Longrightarrow> last ?parts \<in> set (split_slash s)"
    using last_in_set by fastforce
  then show ?thesis
    by (auto simp: path_name_def Let_def dest: split_slash_no_slash)
qed

section \<open>Numerals\<close>

text \<open>\<open>str(n)\<close>, zero padding in format strings, and the value of a numeral.\<close>

definition digit_char :: "nat \<Rightarrow> char" where
  "digit_char d = char_of (48 + d)"

fun decimal :: "nat \<Rightarrow> string" where
  "decimal n = (if n < 10 then [digit_char n] else decimal (n div 10) @ [digit_char (n mod 10)])"

declare decimal.simps [simp del]

definition zero_pad :: "nat \<Rightarrow> string \<Rightarrow> string" where
  "zero_pad w s = replicate (w - length s) CHR ''0'' @ s"

definition digit_val :: "char \<Rightarrow> nat" where
  "digit_val c = of_char c - 48"

definition decimal_val :: "string \<Rightarrow> nat" where
  "decimal_val s = foldl (\<lambda>a c. 10 * a + digit_val c) 0 s"

lemma digit_val_char: "d < 10 \<Longrightarrow> digit_val (digit_char d) = d"
  by (simp add: digit_val_def digit_char_def of_char_char_of_small)

lemma decimal_val_decimal: "decimal_val (decimal n) = n"
proof (induction n rule: decimal.induct)
  case (1 n)
  then show ?case
    by (subst decimal.simps) (auto simp: decimal_val_def digit_val_char)
qed

lemma decimal_val_zeros: "decimal_val (replicate k CHR ''0'' @ s) = decimal_val s"
proof -
  have "foldl (\<lambda>a c. 10 * a + digit_val c) 0 (replicate k CHR ''0'') = 0"
    by (induction k) (simp_all add: digit_val_def)
  then show ?thesis by (simp add: decimal_val_def)
qed

text \<open>
  \<open>int(s)\<close>: surrounding space, a sign, digits with single underscores between them.
\<close>

fun underscored :: "string \<Rightarrow> bool" where
  "underscored [] = False"
| "underscored [c] = is_digit c"
| "underscored (c # d # cs) =
     (is_digit c \<and> (if d = CHR ''_'' then underscored cs else underscored (d # cs)))"

definition py_int :: "string \<Rightarrow> int option" where
  "py_int s =
     (let t = py_strip s;
          neg = prefix ''-'' t;
          u = (if neg \<or> prefix ''+'' t then tl t else t);
          v = int (decimal_val (filter (\<lambda>c. c \<noteq> CHR ''_'') u))
      in if underscored u then Some (if neg then - v else v) else None)"

text \<open>\<open>str(id)\<close> of a UUID: 32 hexadecimal digits in five groups; and reading one back.\<close>

definition hex_char :: "nat \<Rightarrow> char" where
  "hex_char d = char_of (if d < 10 then 48 + d else 87 + d)"

fun hex_digits :: "nat \<Rightarrow> nat \<Rightarrow> string" where
  "hex_digits 0 n = []"
| "hex_digits (Suc w) n = hex_digits w (n div 16) @ [hex_char (n mod 16)]"

definition hex_val :: "char \<Rightarrow> nat option" where
  "hex_val c =
     (let n = of_char c :: nat
      in if 48 \<le> n \<and> n \<le> 57 then Some (n - 48)
         else if 97 \<le> n \<and> n \<le> 102 then Some (n - 87)
         else if 65 \<le> n \<and> n \<le> 70 then Some (n - 55)
         else None)"

fun hex_value :: "nat \<Rightarrow> string \<Rightarrow> nat option" where
  "hex_value a [] = Some a"
| "hex_value a (c # cs) = Option.bind (hex_val c) (\<lambda>d. hex_value (16 * a + d) cs)"

definition uuid_str :: "uuid \<Rightarrow> string" where
  "uuid_str i =
     (let h = hex_digits 32 i
      in take 8 h @ ''-'' @ take 4 (drop 8 h) @ ''-'' @ take 4 (drop 12 h) @ ''-'' @
         take 4 (drop 16 h) @ ''-'' @ drop 20 h)"

lemma hex_val_char: "d < 16 \<Longrightarrow> hex_val (hex_char d) = Some d"
  by (auto simp: hex_val_def hex_char_def Let_def of_char_char_of_small)

lemma hex_char_no_dash: "d < 16 \<Longrightarrow> hex_char d \<noteq> CHR ''-''"
proof
  have "hex_val CHR ''-'' = None" by code_simp
  moreover assume "d < 16" "hex_char d = CHR ''-''"
  ultimately show False using hex_val_char [of d] by simp
qed

lemma length_hex_digits [simp]: "length (hex_digits w n) = w"
  by (induction w arbitrary: n) simp_all

lemma hex_digits_no_dash: "CHR ''-'' \<notin> set (hex_digits w n)"
  using hex_char_no_dash by (induction w arbitrary: n) (auto dest: sym)

lemma hex_value_append: "hex_value a (xs @ ys) = Option.bind (hex_value a xs) (\<lambda>b. hex_value b ys)"
  by (induction xs arbitrary: a) (simp_all split: bind_split)

lemma hex_value_digits: "n < 16 ^ w \<Longrightarrow> hex_value 0 (hex_digits w n) = Some n"
  by (induction w arbitrary: n) (auto simp: hex_value_append hex_val_char less_mult_imp_div_less mult.commute)

text \<open>\<open>s.split(sep)\<close> for a one-character separator.\<close>

fun split_on :: "char \<Rightarrow> string \<Rightarrow> string list" where
  "split_on sep [] = [[]]"
| "split_on sep (c # cs) =
     (if c = sep then [] # split_on sep cs
      else (case split_on sep cs of [] \<Rightarrow> [[c]] | p # ps \<Rightarrow> (c # p) # ps))"

section \<open>Pagination\<close>

text \<open>\<open>skip = max(0, skip)\<close>, \<open>limit = min(max(0, limit), 100)\<close>, then OFFSET and LIMIT.\<close>

definition page :: "int \<Rightarrow> int \<Rightarrow> 'a list \<Rightarrow> 'a list" where
  "page skip limit xs = take (nat (min (max 0 limit) 100)) (drop (nat (max 0 skip)) xs)"

lemma length_page_le: "length (page skip limit xs) \<le> 100"
  by (simp add: page_def)

lemma set_page_subset: "set (page skip limit xs) \<subseteq> set xs"
  by (auto simp: page_def dest: in_set_takeD in_set_dropD)

lemma in_page_D: "x \<in> set (page skip limit xs) \<Longrightarrow> x \<in> set xs"
  using set_page_subset by fastforce

text \<open>Reading pages of \<open>n\<close> rows one after the other gives back the whole list.\<close>

lemma page_concat_aux:
  assumes "0 < n" "n \<le> 100"
  shows "concat (map (\<lambda>i. page (int (i * n)) (int n) xs) [0..<k]) = take (k * n) xs"
proof (induction k)
  case 0
  then show ?case by simp
next
  case (Suc k)
  from assms have "page (int (k * n)) (int n) xs = take n (drop (k * n) xs)"
    by (simp add: page_def nat_mult_distrib)
  with Suc show ?case
    by (simp add: take_add add.commute [of n])
qed

lemma page_concat:
  assumes "0 < n" "n \<le> 100" "length xs \<le> k * n"
  shows "concat (map (\<lambda>i. page (int (i * n)) (int n) xs) [0..<k]) = xs"
  using page_concat_aux [OF assms(1,2), of xs k] assms(3) by simp

section \<open>Lists of rows\<close>

lemma sum_list_map_filter_split:
  fixes f :: "'a \<Rightarrow> int"
  shows "(\<Sum>x\<leftarrow>xs. if P x then f x else 0) = (\<Sum>x\<leftarrow>filter P xs. f x)"
  by (induction xs) auto

lemma sum_list_filter_mono:
  fixes f :: "'a \<Rightarrow> int"
  assumes "\<And>x. x \<in> set xs \<Longrightarrow> 0 \<le> f x" "\<And>x. Q x \<Longrightarrow> P x"
  shows "(\<Sum>x\<leftarrow>filter Q xs. f x) \<le> (\<Sum>x\<leftarrow>filter P xs. f x)"
  using assms(1)
proof (induction xs)
  case Nil
  then show ?case by simp
next
  case (Cons x xs)
  then have "0 \<le> f x" "(\<Sum>x\<leftarrow>filter Q xs. f x) \<le> (\<Sum>x\<leftarrow>filter P xs. f x)" by auto
  then show ?case using assms(2) by auto
qed

lemma find_filter: "(case filter P xs of [] \<Rightarrow> None | x # _ \<Rightarrow> Some x) = find P xs"
  by (induction xs) auto

end
