(* ===== verification/Exceptions.thy ===== *)
theory Exceptions
  imports Prelude
begin

text \<open>
  The exceptions of the program as values (app/core/services/exceptions.py), the exceptions
  of the libraries that the services catch or let through, and the table of app/main.py
  that turns an exception reaching the framework into an HTTP status.
\<close>

section \<open>Service exceptions\<close>

text \<open>
  The subclasses of \<open>ResourceForbiddenError\<close>, which each service selects with its
  \<open>forbidden_error\<close> class attribute; the base class itself is the default.
\<close>

datatype forbidden_kind =
    ResourceForbidden
  | ContractForbidden
  | DocumentForbidden
  | PropertyForbidden
  | TenantForbidden
  | ActivityFeedForbidden
  | DashboardForbidden
  | PaymentForbidden
  | CollectionForbidden
  | LeaseForbidden
  | BillingRecordForbidden
  | ReceiptForbidden
  | ReceiptTemplateForbidden

text \<open>
  Exceptions as values. Where the message distinguishes cases it is an argument; a
  not-found message carries the kind of resource and the identifier. The last group are
  not \<open>ServiceException\<close>s: the driver's constraint violation with its message, a Redis
  failure, an \<open>HTTPException\<close> raised in a dependency, a rejected request body, an error
  of the object store, and six of Python's own exceptions.
\<close>

datatype svc_error =
    InvalidCredentialsError
  | AccountLockedError int
  | IpRateLimitExceededError int
  | LoginThrottleUnavailableError
  | CurrentPasswordRequiredError
  | AccountInactiveError
  | TokenExpiredError
  | InvalidTokenError
  | UserNotFoundError
  | UserForbiddenError string
  | PropertyManagerAssignmentError
  | EmailAlreadyExistsError
  | UsernameAlreadyExistsError
  | UnauthorizedError
  | ForbiddenError
  | ContractActiveError
  | ResourceForbiddenError forbidden_kind string
  | DocumentUploadError string
  | DocumentDeletionError
  | DocumentStorageInconsistentError
  | DocumentValidationError string
  | RelatedResourceNotFoundError string uuid
  | PropertyAlreadyExistsError
  | TenantAlreadyLinkedError string
  | TenantAlreadyExistsError
  | PaymentAlreadyVoidedError uuid
  | CollectionValidationError
  | LeaseRentalTypeError
  | LeaseAlreadyExistsError
  | PropertyInUseError
  | ContractInUseError
  | TenantInUseError
  | ManagerAssignedToPropertyError
  | BillingRecordAlreadyGeneratedError
  | InvalidBillingRecordTransitionError
  | BillingRecordCorrectionNotAllowedError
  | ReceiptCreationError
  | ReceiptTemplateUploadError
  | ReceiptTemplateValidationError string
  | ServiceException string
  | IntegrityError string
  | RedisError
  | HTTPException nat string
  | ValidationError string
  | StorageClientError
  | DatabaseError
  | RuntimeError
  | TypeError
  | AttributeError
  | UnicodeDecodeError
  | IndexError

fun is_service_exception :: "svc_error \<Rightarrow> bool" where
  "is_service_exception (IntegrityError _) = False"
| "is_service_exception RedisError = False"
| "is_service_exception (HTTPException _ _) = False"
| "is_service_exception (ValidationError _) = False"
| "is_service_exception StorageClientError = False"
| "is_service_exception DatabaseError = False"
| "is_service_exception RuntimeError = False"
| "is_service_exception TypeError = False"
| "is_service_exception AttributeError = False"
| "is_service_exception UnicodeDecodeError = False"
| "is_service_exception IndexError = False"
| "is_service_exception _ = True"

section \<open>Global exception handlers\<close>

text \<open>
  The handlers registered on the application: 404 for a missing related resource, 403 for
  the two families of forbidden errors, 500 with a generic message for every other service
  exception, 409 for an untranslated constraint violation, 503 for a Redis failure. The
  framework answers 422 for a rejected body, the given status for an \<open>HTTPException\<close>
  and 500 for anything else. A \<open>ValidationError\<close> stands for a rejected body: one raised by the
  schema that \<open>generate_billing_record\<close> fills itself would be answered with 500, but the check
  constraint on the rent of a lease keeps it from being rejected.
\<close>

fun http_status :: "svc_error \<Rightarrow> nat" where
  "http_status (RelatedResourceNotFoundError _ _) = 404"
| "http_status (ResourceForbiddenError _ _) = 403"
| "http_status (UserForbiddenError _) = 403"
| "http_status (IntegrityError _) = 409"
| "http_status RedisError = 503"
| "http_status (HTTPException n _) = n"
| "http_status (ValidationError _) = 422"
| "http_status _ = 500"

lemma http_status_service_exception:
  "is_service_exception e \<Longrightarrow> http_status e \<in> {403, 404, 500}"
  by (cases e) simp_all

end
