(* ===== verification/Schema.thy ===== *)
theory Schema
  imports Exceptions
begin

text \<open>
  The mapped classes of the \<open>models\<close> packages: one record per table with the columns of
  the class, the enumerations, the database as a record of tables, and the CHECK, UNIQUE,
  primary-key and foreign-key constraints the classes declare, each under the name the
  database reports.
\<close>

section \<open>Rows\<close>

text \<open>
  Every table has \<open>id\<close> and \<open>created_at\<close>; every table but the audit log also has the
  \<open>updated_at\<close> of \<open>TimestampMixin\<close>.
\<close>

record row =
  row_id :: uuid
  created_at :: instant

record stamped = row +
  updated_at :: instant

datatype user_role = ADMIN | MANAGER | USER

record user = stamped +
  username :: string
  user_email :: string
  user_full_name :: string
  password_hash :: string
  password_changed_at :: instant
  role :: user_role
  user_is_active :: bool

datatype property_status = Vacant | Occupied

record property = stamped +
  prop_name :: string
  prop_address :: string
  prop_description :: "string option"
  manager_id :: "uuid option"
  prop_status :: property_status
  prop_is_active :: bool

record tenant = stamped +
  tenant_full_name :: string
  tenant_email :: string
  phone_number :: string
  current_address :: string
  date_of_birth :: date
  occupation :: "string option"
  tenant_notes :: "string option"
  tenant_is_active :: bool
  tenant_user_id :: "uuid option"

datatype rental_type = LongTerm | ShortTerm

datatype contract_status = ContractActive | ContractExpired | ContractTerminated

definition BOOKING_SOURCE :: "string list" where
  "BOOKING_SOURCE = [''direct'', ''airbnb'', ''booking'', ''agoda'']"

record contract = stamped +
  contract_property_id :: uuid
  contract_tenant_id :: uuid
  contract_rental_type :: rental_type
  contract_start :: date
  contract_end :: "date option"
  rent_amount :: money
  deposit :: "money option"
  booking_source :: string
  contract_status :: contract_status

datatype billing_cycle = Monthly

datatype renewal_option = RenewAuto | RenewManual | RenewNone

datatype lease_status = LeaseActive | LeaseEnded

text \<open>\<open>late_fee_percent\<close> is \<open>Numeric(5, 2)\<close>: it counts hundredths of a percent.\<close>

record lease = stamped +
  lease_contract_id :: uuid
  monthly_rent :: money
  due_day :: int
  billing_cycle :: billing_cycle
  security_deposit :: "money option"
  advance_payment :: "money option"
  late_fee_amount :: "money option"
  late_fee_percent :: "int option"
  grace_period_days :: int
  renewal_option :: renewal_option
  lease_status :: lease_status
  lease_start :: date
  lease_end :: "date option"

datatype br_status = Pending | PartiallyPaid | Paid | Overdue | WrittenOff

definition UNPAID_STATUSES :: "br_status list" where
  "UNPAID_STATUSES = [Pending, PartiallyPaid, Overdue]"

record billing_record = stamped +
  br_lease_id :: uuid
  period_start :: date
  period_end :: date
  due_date :: date
  amount_due :: money
  late_fee_applied :: bool
  late_fee_amount_charged :: "money option"
  overpaid_amount :: "money option"
  br_status :: br_status

datatype payment_status = PAID | PENDING | VOIDED | REFUNDED

definition PAYMENT_METHODS :: "string list" where
  "PAYMENT_METHODS = [''cash'', ''bank transfer'', ''gcash'', ''maya'', ''check'']"

record payment = stamped +
  pay_contract_id :: uuid
  billing_record_id :: "uuid option"
  pay_amount :: money
  paid_at :: instant
  payment_method :: "string option"
  pay_status :: payment_status
  reference_number :: "string option"
  corrects_payment_id :: "uuid option"

record document = stamped +
  file_name :: string
  file_url :: string
  file_type :: string
  doc_contract_id :: "uuid option"
  doc_property_id :: "uuid option"
  doc_tenant_id :: "uuid option"
  doc_collection_id :: "uuid option"

record collection = stamped +
  coll_name :: string
  coll_description :: "string option"
  coll_property_id :: uuid
  coll_contract_id :: "uuid option"

record receipt = stamped +
  receipt_number :: nat
  rcpt_payment_id :: uuid
  rcpt_document_id :: uuid

record receipt_template = stamped +
  tmpl_name :: string
  tmpl_property_id :: "uuid option"
  storage_key :: string
  tmpl_file_url :: string
  tmpl_is_active :: bool

datatype audit_action = CREATE | UPDATE | DELETE

text \<open>The \<open>diff\<close> column is never filled: no caller of \<open>write_audit_log\<close> passes one.\<close>

record audit_log = row +
  actor_id :: "uuid option"
  action :: audit_action
  entity_type :: string
  entity_id :: uuid
  diff :: "(string \<times> string) list option"

section \<open>The database\<close>

record tables =
  users :: "user list"
  properties :: "property list"
  tenants :: "tenant list"
  contracts :: "contract list"
  leases :: "lease list"
  billing_records :: "billing_record list"
  payments :: "payment list"
  documents :: "document list"
  collections :: "collection list"
  receipts :: "receipt list"
  receipt_templates :: "receipt_template list"
  audit_logs :: "audit_log list"

definition empty_tables :: tables where
  "empty_tables = \<lparr>users = [], properties = [], tenants = [], contracts = [], leases = [],
     billing_records = [], payments = [], documents = [], collections = [], receipts = [],
     receipt_templates = [], audit_logs = []\<rparr>"

definition ids :: "'a row_scheme list \<Rightarrow> uuid list" where
  "ids rs = map row_id rs"

definition opt_in :: "uuid option \<Rightarrow> uuid list \<Rightarrow> bool" where
  "opt_in k xs = (case k of None \<Rightarrow> True | Some x \<Rightarrow> x \<in> set xs)"

definition opt_pos :: "int option \<Rightarrow> bool" where
  "opt_pos v = (case v of None \<Rightarrow> True | Some x \<Rightarrow> 0 < x)"

text \<open>The non-null values of a nullable column: a unique index ignores nulls.\<close>

definition non_null :: "('r \<Rightarrow> 'k option) \<Rightarrow> 'r list \<Rightarrow> 'k list" where
  "non_null f rs = List.map_filter f rs"

lemma ids_simps [simp]:
  "ids [] = []" "ids (r # rs) = row_id r # ids rs" "ids (xs @ ys) = ids xs @ ids ys"
  by (simp_all add: ids_def)

lemma opt_in_simps [simp]: "opt_in None xs" "opt_in (Some x) xs = (x \<in> set xs)"
  by (simp_all add: opt_in_def)

lemma opt_pos_simps [simp]: "opt_pos None" "opt_pos (Some x) = (0 < x)"
  by (simp_all add: opt_pos_def)

lemma non_null_simps [simp]:
  "non_null f [] = []"
  "non_null f (r # rs) = (case f r of None \<Rightarrow> non_null f rs | Some k \<Rightarrow> k # non_null f rs)"
  "non_null f (xs @ ys) = non_null f xs @ non_null f ys"
  by (simp_all add: non_null_def map_filter_def split: option.split)

section \<open>Constraints\<close>

text \<open>A declared constraint with its name and whether the tables satisfy it.\<close>

type_synonym constr = "string \<times> bool"

definition users_constraints :: "tables \<Rightarrow> constr list" where
  "users_constraints t =
    [(''users_pkey'', distinct (ids (users t))),
     (''ix_users_username'', distinct (map username (users t))),
     (''ix_users_email'', distinct (map user_email (users t)))]"

definition properties_constraints :: "tables \<Rightarrow> constr list" where
  "properties_constraints t =
    [(''properties_pkey'', distinct (ids (properties t))),
     (''uq_property_name_address'', distinct (map (\<lambda>p. (prop_name p, prop_address p)) (properties t))),
     (''properties_manager_id_fkey'', list_all (\<lambda>p. opt_in (manager_id p) (ids (users t))) (properties t))]"

definition tenants_constraints :: "tables \<Rightarrow> constr list" where
  "tenants_constraints t =
    [(''tenants_pkey'', distinct (ids (tenants t))),
     (''ix_tenants_email'', distinct (map tenant_email (tenants t))),
     (''ix_tenants_user_id'', distinct (non_null tenant_user_id (tenants t))),
     (''tenants_user_id_fkey'', list_all (\<lambda>n. opt_in (tenant_user_id n) (ids (users t))) (tenants t))]"

definition active_contracts :: "tables \<Rightarrow> contract list" where
  "active_contracts t = filter (\<lambda>c. contract_status c = ContractActive) (contracts t)"

definition ck_contract :: "contract \<Rightarrow> constr list" where
  "ck_contract c =
    [(''ck_contract_booking_source'', booking_source c \<in> set BOOKING_SOURCE),
     (''ck_contract_dates'', (case contract_end c of None \<Rightarrow> True | Some e \<Rightarrow> contract_start c < e)),
     (''ck_contract_rent_positive'', 0 < rent_amount c),
     (''ck_contract_deposit_positive'', opt_pos (deposit c))]"

definition contracts_constraints :: "tables \<Rightarrow> constr list" where
  "contracts_constraints t =
    concat (map ck_contract (contracts t)) @
    [(''contracts_pkey'', distinct (ids (contracts t))),
     (''uq_active_contract_property'', distinct (map contract_property_id (active_contracts t))),
     (''contracts_property_id_fkey'', list_all (\<lambda>c. contract_property_id c \<in> set (ids (properties t))) (contracts t)),
     (''contracts_tenant_id_fkey'', list_all (\<lambda>c. contract_tenant_id c \<in> set (ids (tenants t))) (contracts t))]"

definition ck_lease :: "lease \<Rightarrow> constr list" where
  "ck_lease l =
    [(''ck_lease_monthly_rent_positive'', 0 < monthly_rent l),
     (''ck_lease_due_day_range'', 1 \<le> due_day l \<and> due_day l \<le> 31),
     (''ck_lease_security_deposit_positive'', opt_pos (security_deposit l)),
     (''ck_lease_advance_payment_positive'', opt_pos (advance_payment l)),
     (''ck_lease_grace_period_days_nonnegative'', 0 \<le> grace_period_days l),
     (''ck_lease_late_fee_exactly_one'', (late_fee_amount l = None) \<noteq> (late_fee_percent l = None)),
     (''ck_lease_late_fee_amount_positive'', opt_pos (late_fee_amount l)),
     (''ck_lease_late_fee_percent_range'',
        (case late_fee_percent l of None \<Rightarrow> True | Some p \<Rightarrow> 0 < p \<and> p \<le> 10000)),
     (''ck_lease_dates'', (case lease_end l of None \<Rightarrow> True | Some e \<Rightarrow> lease_start l < e))]"

definition leases_constraints :: "tables \<Rightarrow> constr list" where
  "leases_constraints t =
    concat (map ck_lease (leases t)) @
    [(''leases_pkey'', distinct (ids (leases t))),
     (''uq_lease_contract_id'', distinct (map lease_contract_id (leases t))),
     (''leases_contract_id_fkey'', list_all (\<lambda>l. lease_contract_id l \<in> set (ids (contracts t))) (leases t))]"

definition ck_billing_record :: "billing_record \<Rightarrow> constr list" where
  "ck_billing_record r =
    [(''ck_billing_record_amount_due_positive'', 0 < amount_due r),
     (''ck_billing_record_late_fee_amount_positive'', opt_pos (late_fee_amount_charged r)),
     (''ck_billing_record_overpaid_amount_positive'', opt_pos (overpaid_amount r)),
     (''ck_billing_record_late_fee_consistency'', late_fee_applied r = (late_fee_amount_charged r \<noteq> None)),
     (''ck_billing_record_period_dates'', period_start r < period_end r),
     (''ck_billing_record_due_date_after_period_start'', period_start r \<le> due_date r)]"

definition billing_records_constraints :: "tables \<Rightarrow> constr list" where
  "billing_records_constraints t =
    concat (map ck_billing_record (billing_records t)) @
    [(''billing_records_pkey'', distinct (ids (billing_records t))),
     (''uq_billing_record_lease_id_period_start'',
        distinct (map (\<lambda>r. (br_lease_id r, period_start r)) (billing_records t))),
     (''billing_records_lease_id_fkey'', list_all (\<lambda>r. br_lease_id r \<in> set (ids (leases t))) (billing_records t))]"

definition ck_payment :: "payment \<Rightarrow> constr list" where
  "ck_payment p =
    [(''ck_payment_method'', (case payment_method p of None \<Rightarrow> True | Some m \<Rightarrow> m \<in> set PAYMENT_METHODS))]"

definition payments_constraints :: "tables \<Rightarrow> constr list" where
  "payments_constraints t =
    concat (map ck_payment (payments t)) @
    [(''payments_pkey'', distinct (ids (payments t))),
     (''payments_contract_id_fkey'', list_all (\<lambda>p. pay_contract_id p \<in> set (ids (contracts t))) (payments t)),
     (''payments_billing_record_id_fkey'',
        list_all (\<lambda>p. opt_in (billing_record_id p) (ids (billing_records t))) (payments t)),
     (''payments_corrects_payment_id_fkey'',
        list_all (\<lambda>p. opt_in (corrects_payment_id p) (ids (payments t))) (payments t))]"

definition documents_constraints :: "tables \<Rightarrow> constr list" where
  "documents_constraints t =
    [(''documents_pkey'', distinct (ids (documents t))),
     (''documents_contract_id_fkey'', list_all (\<lambda>d. opt_in (doc_contract_id d) (ids (contracts t))) (documents t)),
     (''documents_property_id_fkey'', list_all (\<lambda>d. opt_in (doc_property_id d) (ids (properties t))) (documents t)),
     (''documents_tenant_id_fkey'', list_all (\<lambda>d. opt_in (doc_tenant_id d) (ids (tenants t))) (documents t)),
     (''documents_collection_id_fkey'',
        list_all (\<lambda>d. opt_in (doc_collection_id d) (ids (collections t))) (documents t))]"

definition collections_constraints :: "tables \<Rightarrow> constr list" where
  "collections_constraints t =
    [(''collections_pkey'', distinct (ids (collections t))),
     (''collections_property_id_fkey'',
        list_all (\<lambda>c. coll_property_id c \<in> set (ids (properties t))) (collections t)),
     (''collections_contract_id_fkey'',
        list_all (\<lambda>c. opt_in (coll_contract_id c) (ids (contracts t))) (collections t))]"

definition receipts_constraints :: "tables \<Rightarrow> constr list" where
  "receipts_constraints t =
    [(''receipts_pkey'', distinct (ids (receipts t))),
     (''ix_receipts_receipt_number'', distinct (map receipt_number (receipts t))),
     (''receipts_document_id_key'', distinct (map rcpt_document_id (receipts t))),
     (''receipts_payment_id_fkey'', list_all (\<lambda>r. rcpt_payment_id r \<in> set (ids (payments t))) (receipts t)),
     (''receipts_document_id_fkey'', list_all (\<lambda>r. rcpt_document_id r \<in> set (ids (documents t))) (receipts t))]"

text \<open>
  At most one active template per scope: the partial unique index on
  \<open>COALESCE(property_id, <sentinel>)\<close>, so that the global scope counts as one key.
\<close>

definition active_templates :: "tables \<Rightarrow> receipt_template list" where
  "active_templates t = filter tmpl_is_active (receipt_templates t)"

definition receipt_templates_constraints :: "tables \<Rightarrow> constr list" where
  "receipt_templates_constraints t =
    [(''receipt_templates_pkey'', distinct (ids (receipt_templates t))),
     (''uq_active_receipt_template_scope'', distinct (map tmpl_property_id (active_templates t))),
     (''receipt_templates_property_id_fkey'',
        list_all (\<lambda>r. opt_in (tmpl_property_id r) (ids (properties t))) (receipt_templates t))]"

definition audit_logs_constraints :: "tables \<Rightarrow> constr list" where
  "audit_logs_constraints t =
    [(''audit_logs_pkey'', distinct (ids (audit_logs t))),
     (''audit_logs_actor_id_fkey'', list_all (\<lambda>a. opt_in (actor_id a) (ids (users t))) (audit_logs t))]"

definition constraints :: "tables \<Rightarrow> constr list" where
  "constraints t =
     users_constraints t @ properties_constraints t @ tenants_constraints t @
     contracts_constraints t @ leases_constraints t @ billing_records_constraints t @
     payments_constraints t @ documents_constraints t @ collections_constraints t @
     receipts_constraints t @ receipt_templates_constraints t @ audit_logs_constraints t"

definition broken :: "constr list \<Rightarrow> string list" where
  "broken cs = map fst (filter (\<lambda>c. \<not> snd c) cs)"

definition violations :: "tables \<Rightarrow> string list" where
  "violations t = broken (constraints t)"

definition holds_all :: "constr list \<Rightarrow> bool" where
  "holds_all cs = list_all snd cs"

definition schema_ok :: "tables \<Rightarrow> bool" where
  "schema_ok t = holds_all (constraints t)"

lemma broken_simps [simp]:
  "broken [] = []" "broken ((n, b) # cs) = (if b then broken cs else n # broken cs)"
  "broken (cs @ ds) = broken cs @ broken ds"
  by (simp_all add: broken_def)

lemma broken_Nil_iff: "broken cs = [] \<longleftrightarrow> holds_all cs"
  by (simp add: broken_def holds_all_def list_all_iff filter_empty_conv)

lemma violations_Nil_iff: "violations t = [] \<longleftrightarrow> schema_ok t"
  by (simp add: violations_def schema_ok_def broken_Nil_iff)

lemma holds_all_simps [simp]:
  "holds_all []" "holds_all ((n, b) # cs) = (b \<and> holds_all cs)"
  "holds_all (cs @ ds) = (holds_all cs \<and> holds_all ds)"
  by (simp_all add: holds_all_def)

lemma holds_all_concat_map [simp]:
  "holds_all (concat (map f xs)) = (\<forall>x\<in>set xs. holds_all (f x))"
  by (induction xs) simp_all

lemmas table_constraints_defs =
  users_constraints_def properties_constraints_def tenants_constraints_def
  contracts_constraints_def leases_constraints_def billing_records_constraints_def
  payments_constraints_def documents_constraints_def collections_constraints_def
  receipts_constraints_def receipt_templates_constraints_def audit_logs_constraints_def

lemma schema_ok_tables:
  "schema_ok t \<longleftrightarrow>
     holds_all (users_constraints t) \<and> holds_all (properties_constraints t) \<and>
     holds_all (tenants_constraints t) \<and> holds_all (contracts_constraints t) \<and>
     holds_all (leases_constraints t) \<and> holds_all (billing_records_constraints t) \<and>
     holds_all (payments_constraints t) \<and> holds_all (documents_constraints t) \<and>
     holds_all (collections_constraints t) \<and> holds_all (receipts_constraints t) \<and>
     holds_all (receipt_templates_constraints t) \<and> holds_all (audit_logs_constraints t)"
  by (simp add: schema_ok_def constraints_def)

lemma schema_ok_empty: "schema_ok empty_tables"
  by (simp add: schema_ok_tables table_constraints_defs empty_tables_def active_contracts_def
      active_templates_def)

section \<open>Type class instances\<close>

text \<open>The role hierarchy: \<open>USER < MANAGER < ADMIN\<close>.\<close>

instantiation user_role :: linorder
begin

fun role_rank :: "user_role \<Rightarrow> nat" where
  "role_rank USER = 0"
| "role_rank MANAGER = 1"
| "role_rank ADMIN = 2"

definition less_eq_user_role :: "user_role \<Rightarrow> user_role \<Rightarrow> bool" where
  "less_eq_user_role a b = (role_rank a \<le> role_rank b)"

definition less_user_role :: "user_role \<Rightarrow> user_role \<Rightarrow> bool" where
  "less_user_role a b = (role_rank a < role_rank b)"

instance
proof
  fix x y z :: user_role
  show "(x < y) = (x \<le> y \<and> \<not> y \<le> x)"
    by (auto simp: less_eq_user_role_def less_user_role_def)
  show "x \<le> x" by (simp add: less_eq_user_role_def)
  show "x \<le> y \<Longrightarrow> y \<le> z \<Longrightarrow> x \<le> z" by (simp add: less_eq_user_role_def)
  show "x \<le> y \<Longrightarrow> y \<le> x \<Longrightarrow> x = y"
    by (cases x; cases y) (simp_all add: less_eq_user_role_def)
  show "x \<le> y \<or> y \<le> x" by (auto simp: less_eq_user_role_def)
qed

end

lemma role_le_simps [simp]:
  "MANAGER \<le> r \<longleftrightarrow> r = ADMIN \<or> r = MANAGER" "ADMIN \<le> r \<longleftrightarrow> r = ADMIN"
  by (cases r; simp add: less_eq_user_role_def)+

end
