(* ===== verification/Session.thy ===== *)
theory Session
  imports Schema
begin

text \<open>
  The service monad and the database session (app/db/session.py). A service method runs on
  a session that holds the committed tables and the tables of the open transaction; it
  returns a value or raises an exception, and the session survives in both cases. Flush
  checks the declared constraints, commit publishes the transaction, rollback and the end
  of the request discard it.
\<close>

section \<open>Sessions\<close>

text \<open>
  Next to the two copies of the tables a session holds what the program reads from outside:
  the two PostgreSQL sequences (never rolled back), the clock, the local date, the source of
  \<open>uuid4\<close> values with the number already drawn, and the text the database driver reports
  for a set of violated constraints.
\<close>

record session =
  committed :: tables
  working :: tables
  cash_seq :: nat
  receipt_seq :: nat
  clock :: instant
  local_today :: date
  uuid_source :: "nat \<Rightarrow> uuid"
  uuid_drawn :: nat
  pg_error :: "string list \<Rightarrow> string"

type_synonym 'a result = "svc_error + 'a"

type_synonym ('s, 'a) prog = "'s \<Rightarrow> 'a result \<times> 's"

type_synonym 'a svc = "(session, 'a) prog"

section \<open>Sequencing\<close>

text \<open>
  Sequencing does not depend on the state: the same operators run programs over a session,
  over a Redis server, and over a session next to an object store.
\<close>

definition ret :: "'a \<Rightarrow> ('s, 'a) prog" where
  "ret x s = (Inr x, s)"

definition raise :: "svc_error \<Rightarrow> ('s, 'a) prog" where
  "raise e s = (Inl e, s)"

definition bnd :: "('s, 'a) prog \<Rightarrow> ('a \<Rightarrow> ('s, 'b) prog) \<Rightarrow> ('s, 'b) prog" where
  "bnd m f s = (case m s of (Inl e, s1) \<Rightarrow> (Inl e, s1) | (Inr x, s1) \<Rightarrow> f x s1)"

text \<open>\<open>try: m except e: h e\<close>; the handler re-raises what it does not translate.\<close>

definition try_except :: "('s, 'a) prog \<Rightarrow> (svc_error \<Rightarrow> ('s, 'a) prog) \<Rightarrow> ('s, 'a) prog" where
  "try_except m h s = (case m s of (Inl e, s1) \<Rightarrow> h e s1 | (Inr x, s1) \<Rightarrow> (Inr x, s1))"

text \<open>
  How a concrete run is evaluated: the first step is run before its continuation is looked at.
\<close>

fun continue_with :: "('a \<Rightarrow> ('s, 'b) prog) \<Rightarrow> 'a result \<times> 's \<Rightarrow> 'b result \<times> 's" where
  "continue_with f (Inl e, s1) = (Inl e, s1)"
| "continue_with f (Inr x, s1) = f x s1"

fun recover_with :: "(svc_error \<Rightarrow> ('s, 'a) prog) \<Rightarrow> 'a result \<times> 's \<Rightarrow> 'a result \<times> 's" where
  "recover_with h (Inl e, s1) = h e s1"
| "recover_with h (Inr x, s1) = (Inr x, s1)"

lemma bnd_code [code]: "bnd m f s = continue_with f (m s)"
  by (simp add: bnd_def split: prod.splits sum.splits)

lemma try_except_code [code]: "try_except m h s = recover_with h (m s)"
  by (simp add: try_except_def split: prod.splits sum.splits)

text \<open>\<open>if c: raise e\<close>.\<close>

definition raise_if :: "bool \<Rightarrow> svc_error \<Rightarrow> ('s, unit) prog" where
  "raise_if c e = (if c then raise e else ret ())"

text \<open>Reading the transaction's tables, and writing them.\<close>

definition query :: "(tables \<Rightarrow> 'a) \<Rightarrow> 'a svc" where
  "query f s = (Inr (f (working s)), s)"

definition modify :: "(tables \<Rightarrow> tables) \<Rightarrow> unit svc" where
  "modify f s = (Inr (), s\<lparr>working := f (working s)\<rparr>)"

text \<open>\<open>x = await lookup; if not x: raise e\<close>.\<close>

definition found_or :: "svc_error \<Rightarrow> ('s, 'a option) prog \<Rightarrow> ('s, 'a) prog" where
  "found_or e m = bnd m (\<lambda>r. case r of None \<Rightarrow> raise e | Some x \<Rightarrow> ret x)"

lemmas svc_code [code] = fun_cong [OF raise_if_def] fun_cong [OF found_or_def]

lemma bnd_Inr_iff:
  "bnd m f s = (Inr y, s') \<longleftrightarrow> (\<exists>x s1. m s = (Inr x, s1) \<and> f x s1 = (Inr y, s'))"
  by (auto simp: bnd_def split: prod.splits sum.splits)

lemma bnd_Inl_iff:
  "bnd m f s = (Inl e, s') \<longleftrightarrow>
     m s = (Inl e, s') \<or> (\<exists>x s1. m s = (Inr x, s1) \<and> f x s1 = (Inl e, s'))"
  by (auto simp: bnd_def split: prod.splits sum.splits)

lemma bnd_InrI: "m s = (Inr x, s1) \<Longrightarrow> bnd m f s = f x s1"
  by (simp add: bnd_def)

lemma bnd_InlI: "m s = (Inl e, s1) \<Longrightarrow> bnd m f s = (Inl e, s1)"
  by (simp add: bnd_def)

lemma bnd_assoc: "bnd (bnd m f) g s = bnd m (\<lambda>x. bnd (f x) g) s"
  by (simp add: bnd_def split: prod.splits sum.splits)

lemma ret_iff [simp]: "ret x s = (r, s') \<longleftrightarrow> r = Inr x \<and> s' = s"
  by (auto simp: ret_def)

lemma raise_iff [simp]: "raise e s = (r, s') \<longleftrightarrow> r = Inl e \<and> s' = s"
  by (auto simp: raise_def)

lemma query_iff [simp]: "query f s = (r, s') \<longleftrightarrow> Inr (f (working s)) = r \<and> s' = s"
  by (auto simp: query_def)

lemma modify_iff [simp]:
  "modify f s = (r, s') \<longleftrightarrow> r = Inr () \<and> s' = s\<lparr>working := f (working s)\<rparr>"
  by (auto simp: modify_def)

lemma raise_if_Inr [simp]: "raise_if c e s = (Inr u, s') \<longleftrightarrow> \<not> c \<and> s' = s"
  by (auto simp: raise_if_def)

lemma raise_if_Inl [simp]: "raise_if c e s = (Inl e', s') \<longleftrightarrow> c \<and> e' = e \<and> s' = s"
  by (auto simp: raise_if_def)

lemma found_or_Inr [simp]:
  "found_or e m s = (Inr x, s') \<longleftrightarrow> m s = (Inr (Some x), s')"
  by (auto simp: found_or_def bnd_Inr_iff split: option.splits)

lemma found_or_Inl:
  "found_or e m s = (Inl e', s') \<longleftrightarrow> m s = (Inl e', s') \<or> m s = (Inr None, s') \<and> e' = e"
  by (auto simp: found_or_def bnd_Inl_iff split: option.splits)

lemma try_except_Inr_iff:
  "try_except m h s = (Inr y, s') \<longleftrightarrow>
     m s = (Inr y, s') \<or> (\<exists>e s1. m s = (Inl e, s1) \<and> h e s1 = (Inr y, s'))"
  by (auto simp: try_except_def split: prod.splits sum.splits)

lemma try_except_Inl_iff:
  "try_except m h s = (Inl e', s') \<longleftrightarrow> (\<exists>e s1. m s = (Inl e, s1) \<and> h e s1 = (Inl e', s'))"
  by (auto simp: try_except_def split: prod.splits sum.splits)

text \<open>Forward execution: the value of a step is known.\<close>

lemma bnd_ret [svc]: "bnd (ret x) f s = f x s"
  by (simp add: bnd_def ret_def)

lemma bnd_raise [svc]: "bnd (raise e) f s = (Inl e, s)"
  by (simp add: bnd_def raise_def)

lemma bnd_query [svc]: "bnd (query q) f s = f (q (working s)) s"
  by (simp add: bnd_def query_def)

lemma bnd_modify [svc]: "bnd (modify g) f s = f () (s\<lparr>working := g (working s)\<rparr>)"
  by (simp add: bnd_def modify_def)

lemma bnd_raise_if [svc]: "bnd (raise_if c e) f s = (if c then (Inl e, s) else f () s)"
  by (simp add: bnd_def raise_if_def ret_def raise_def)

lemma bnd_found_or_query [svc]:
  "bnd (found_or e (query q)) f s = (case q (working s) of None \<Rightarrow> (Inl e, s) | Some x \<Rightarrow> f x s)"
  by (simp add: bnd_def found_or_def query_def ret_def raise_def split: option.splits)

lemma svc_case_iff:
  "(case z of None \<Rightarrow> a | Some x \<Rightarrow> b x) s = out \<longleftrightarrow>
     z = None \<and> a s = out \<or> (\<exists>x. z = Some x \<and> b x s = out)"
  by (cases z) simp_all

lemma svc_if_iff:
  "(if c then a else b) s = out \<longleftrightarrow> (if c then a s = out else b s = out)"
  by simp

lemmas svc_iffs = svc_case_iff svc_if_iff bnd_Inr_iff bnd_Inl_iff found_or_Inl

text \<open>
  \<open>except IntegrityError as e\<close>: the handler gets \<open>integrity_error_message(e)\<close>
  (app/core/services/utils.py), every other exception passes through.
\<close>

fun on_integrity :: "(string \<Rightarrow> ('s, 'a) prog) \<Rightarrow> svc_error \<Rightarrow> ('s, 'a) prog" where
  "on_integrity h (IntegrityError msg) = h msg"
| "on_integrity h e = raise e"

lemma on_integrity_iff:
  "on_integrity h e s = out \<longleftrightarrow>
     (\<exists>m. e = IntegrityError m \<and> h m s = out) \<or>
     (\<forall>m. e \<noteq> IntegrityError m) \<and> out = (Inl e, s)"
  by (cases e) (auto simp: raise_def)

text \<open>
  A handler that always raises, and commits nothing, does not turn a failure into a value.
\<close>

definition raises :: "('e \<Rightarrow> 'a svc) \<Rightarrow> bool" where
  "raises h \<longleftrightarrow> (\<forall>e s. \<exists>e' s'. h e s = (Inl e', s') \<and> committed s' = committed s)"

lemma raisesD: "raises h \<Longrightarrow> h e s = (r, s') \<Longrightarrow> (\<exists>e'. r = Inl e') \<and> committed s' = committed s"
  unfolding raises_def by (metis prod.inject)

lemma raises_raise [simp]: "raises (\<lambda>_. raise e)" "raises (\<lambda>m. raise (f m))" "raises raise"
  by (simp_all add: raises_def)

lemma raises_if [simp]: "raises g \<Longrightarrow> raises h \<Longrightarrow> raises (\<lambda>m. if c m then g m else h m)"
  by (simp add: raises_def)

lemma raises_on_integrity [simp]:
  assumes "raises h"
  shows "raises (on_integrity h)"
  unfolding raises_def
proof (intro allI)
  fix e s
  show "\<exists>e' s'. on_integrity h e s = (Inl e', s') \<and> committed s' = committed s"
    using assms by (cases e) (simp_all add: raises_def)
qed

lemma try_raises_Inr [simp]:
  assumes "raises h"
  shows "try_except m h s = (Inr y, s') \<longleftrightarrow> m s = (Inr y, s')"
  using raisesD [OF assms] by (fastforce simp: try_except_Inr_iff)

section \<open>The outside world\<close>

text \<open>\<open>uuid4()\<close>, \<open>datetime.now(timezone.utc)\<close>, \<open>date.today()\<close> and \<open>nextval\<close>.\<close>

definition uuid4 :: "uuid svc" where
  "uuid4 s = (Inr (uuid_source s (uuid_drawn s)), s\<lparr>uuid_drawn := Suc (uuid_drawn s)\<rparr>)"

definition now :: "instant svc" where
  "now s = (Inr (clock s), s)"

definition date_today :: "date svc" where
  "date_today s = (Inr (local_today s), s)"

definition nextval_cash :: "nat svc" where
  "nextval_cash s = (Inr (Suc (cash_seq s)), s\<lparr>cash_seq := Suc (cash_seq s)\<rparr>)"

definition nextval_receipt :: "nat svc" where
  "nextval_receipt s = (Inr (Suc (receipt_seq s)), s\<lparr>receipt_seq := Suc (receipt_seq s)\<rparr>)"

lemmas outside_defs = uuid4_def now_def date_today_def nextval_cash_def nextval_receipt_def

lemma bnd_uuid4 [svc]:
  "bnd uuid4 f s = f (uuid_source s (uuid_drawn s)) (s\<lparr>uuid_drawn := Suc (uuid_drawn s)\<rparr>)"
  by (simp add: bnd_def uuid4_def)

lemma bnd_now [svc]: "bnd now f s = f (clock s) s"
  by (simp add: bnd_def now_def)

lemma bnd_date_today [svc]: "bnd date_today f s = f (local_today s) s"
  by (simp add: bnd_def date_today_def)

section \<open>Transactions\<close>

text \<open>
  \<open>db.flush()\<close> sends the pending statements; the server rejects them when a declared
  constraint is violated. The committed tables satisfy every constraint, so checking the
  whole transaction is checking the rows it touched. \<open>nulls\<close> are the non-nullable columns
  that the pending statement sets to null.
\<close>

definition flush_nulls :: "string list \<Rightarrow> unit svc" where
  "flush_nulls nulls s =
     (let v = nulls @ violations (working s)
      in if v = [] then (Inr (), s) else (Inl (IntegrityError (pg_error s v)), s))"

definition flush :: "unit svc" where
  "flush = flush_nulls []"

definition commit :: "unit svc" where
  "commit = bnd flush (\<lambda>_ s. (Inr (), s\<lparr>committed := working s\<rparr>))"

lemmas flush_code [code] = fun_cong [OF flush_def] fun_cong [OF commit_def]

definition rollback :: "unit svc" where
  "rollback s = (Inr (), s\<lparr>working := committed s\<rparr>)"

text \<open>
  \<open>get_db\<close>: one session per request, rolled back when the handler raises; closing the
  session discards whatever was not committed.
\<close>

definition get_db :: "'a svc \<Rightarrow> 'a svc" where
  "get_db handler s =
     (case handler (s\<lparr>working := committed s\<rparr>) of
        (Inl e, s1) \<Rightarrow> (Inl e, s1\<lparr>working := committed s1\<rparr>)
      | (Inr x, s1) \<Rightarrow> (Inr x, s1\<lparr>working := committed s1\<rparr>))"

lemma flush_nulls_Inr [simp]:
  "flush_nulls ns s = (Inr u, s') \<longleftrightarrow> ns = [] \<and> schema_ok (working s) \<and> s' = s"
  by (auto simp: flush_nulls_def Let_def violations_Nil_iff)

lemma flush_nulls_Inl [simp]:
  "flush_nulls ns s = (Inl e, s') \<longleftrightarrow>
     (ns \<noteq> [] \<or> \<not> schema_ok (working s)) \<and>
     e = IntegrityError (pg_error s (ns @ violations (working s))) \<and> s' = s"
  by (auto simp: flush_nulls_def Let_def violations_Nil_iff)

lemma flush_Inr [simp]: "flush s = (Inr u, s') \<longleftrightarrow> schema_ok (working s) \<and> s' = s"
  by (simp add: flush_def)

lemma flush_Inl [simp]:
  "flush s = (Inl e, s') \<longleftrightarrow> \<not> schema_ok (working s) \<and>
     e = IntegrityError (pg_error s (violations (working s))) \<and> s' = s"
  by (simp add: flush_def)

lemma commit_Inr [simp]:
  "commit s = (Inr u, s') \<longleftrightarrow> schema_ok (working s) \<and> s' = s\<lparr>committed := working s\<rparr>"
  by (auto simp: commit_def bnd_Inr_iff)

lemma commit_Inl [simp]:
  "commit s = (Inl e, s') \<longleftrightarrow> \<not> schema_ok (working s) \<and>
     e = IntegrityError (pg_error s (violations (working s))) \<and> s' = s"
  by (auto simp: commit_def bnd_Inl_iff)

lemma rollback_iff [simp]: "rollback s = (r, s') \<longleftrightarrow> r = Inr () \<and> s' = s\<lparr>working := committed s\<rparr>"
  by (auto simp: rollback_def)

lemma bnd_flush [svc]:
  "bnd flush f s = (if schema_ok (working s) then f () s
     else (Inl (IntegrityError (pg_error s (violations (working s)))), s))"
  by (simp add: bnd_def flush_def flush_nulls_def Let_def violations_Nil_iff)

lemma bnd_commit [svc]:
  "bnd commit f s = (if schema_ok (working s) then f () (s\<lparr>committed := working s\<rparr>)
     else (Inl (IntegrityError (pg_error s (violations (working s)))), s))"
  by (simp add: commit_def bnd_assoc bnd_flush) (simp add: bnd_def)

lemma get_db_Inl:
  "get_db m s = (Inl e, s') \<longleftrightarrow>
     (\<exists>s1. m (s\<lparr>working := committed s\<rparr>) = (Inl e, s1) \<and> s' = s1\<lparr>working := committed s1\<rparr>)"
  by (auto simp: get_db_def split: prod.splits sum.splits)

lemma get_db_Inr:
  "get_db m s = (Inr x, s') \<longleftrightarrow>
     (\<exists>s1. m (s\<lparr>working := committed s\<rparr>) = (Inr x, s1) \<and> s' = s1\<lparr>working := committed s1\<rparr>)"
  by (auto simp: get_db_def split: prod.splits sum.splits)

section \<open>All or nothing\<close>

text \<open>
  A method is \<open>silent\<close> when it never commits, \<open>pure_read\<close> when it leaves the session
  as it is, and \<open>atomic\<close> when an exception leaves the committed tables as they were and
  success publishes the whole transaction.
\<close>

definition silent :: "'a svc \<Rightarrow> bool" where
  "silent m \<longleftrightarrow> (\<forall>s. committed (snd (m s)) = committed s)"

definition pure_read :: "'a svc \<Rightarrow> bool" where
  "pure_read m \<longleftrightarrow> (\<forall>s. snd (m s) = s)"

definition atomic :: "'a svc \<Rightarrow> bool" where
  "atomic m \<longleftrightarrow>
     (\<forall>s. case m s of
        (Inl e, s') \<Rightarrow> committed s' = committed s
      | (Inr x, s') \<Rightarrow> committed s' = working s' \<and> schema_ok (committed s'))"

lemma silentD: "silent m \<Longrightarrow> m s = (r, s') \<Longrightarrow> committed s' = committed s"
  by (metis silent_def snd_conv)

lemma pure_readD: "pure_read m \<Longrightarrow> m s = (r, s') \<Longrightarrow> s' = s"
  by (metis pure_read_def snd_conv)

lemma atomic_Inl: "atomic m \<Longrightarrow> m s = (Inl e, s') \<Longrightarrow> committed s' = committed s"
  by (metis (mono_tags, lifting) atomic_def old.sum.simps(5) split_conv)

lemma atomic_Inr: "atomic m \<Longrightarrow> m s = (Inr x, s') \<Longrightarrow> committed s' = working s'"
  by (metis (mono_tags, lifting) atomic_def old.sum.simps(6) split_conv)

lemma atomic_schema: "atomic m \<Longrightarrow> m s = (Inr x, s') \<Longrightarrow> schema_ok (committed s')"
  by (metis (mono_tags, lifting) atomic_def old.sum.simps(6) split_conv)

lemma atomicI:
  assumes "\<And>s e s'. m s = (Inl e, s') \<Longrightarrow> committed s' = committed s"
    and "\<And>s x s'. m s = (Inr x, s') \<Longrightarrow> committed s' = working s' \<and> schema_ok (committed s')"
  shows "atomic m"
  unfolding atomic_def
proof
  fix s
  show "case m s of
        (Inl e, s') \<Rightarrow> committed s' = committed s
      | (Inr x, s') \<Rightarrow> committed s' = working s' \<and> schema_ok (committed s')"
  proof (cases "m s")
    case (Pair r s1)
    show ?thesis
    proof (cases r)
      case (Inl e)
      with Pair assms(1) show ?thesis by simp
    next
      case (Inr x)
      with Pair assms(2) [of s x s1] show ?thesis by auto
    qed
  qed
qed

lemma pure_read_silent: "pure_read m \<Longrightarrow> silent m"
  by (simp add: pure_read_def silent_def)

lemma pure_read_ret [atomic_intros]: "pure_read (ret x)"
  by (simp add: pure_read_def ret_def)

lemma pure_read_raise [atomic_intros]: "pure_read (raise e)"
  by (simp add: pure_read_def raise_def)

lemma pure_read_query [atomic_intros]: "pure_read (query f)"
  by (simp add: pure_read_def query_def)

lemma pure_read_raise_if [atomic_intros]: "pure_read (raise_if c e)"
  by (simp add: pure_read_def raise_if_def ret_def raise_def)

lemma pure_read_now [atomic_intros]: "pure_read now" "pure_read date_today"
  by (simp_all add: pure_read_def now_def date_today_def)

lemma pure_read_bnd [atomic_intros]:
  assumes "pure_read m" "\<And>x. pure_read (f x)"
  shows "pure_read (bnd m f)"
proof -
  have "snd (bnd m f s) = s" for s
  proof (cases "m s")
    case (Pair r s1)
    with assms(1) have "s1 = s" by (blast dest: pure_readD)
    with Pair assms(2) show ?thesis
      by (cases r) (auto simp: bnd_def pure_read_def)
  qed
  then show ?thesis by (simp add: pure_read_def)
qed

lemma pure_read_found_or [atomic_intros]: "pure_read m \<Longrightarrow> pure_read (found_or e m)"
  unfolding found_or_def by (rule pure_read_bnd) (auto intro: atomic_intros split: option.splits)

lemma pure_read_flush [atomic_intros]: "pure_read flush" "pure_read (flush_nulls ns)"
  by (simp_all add: pure_read_def flush_def flush_nulls_def Let_def)

lemma silent_bnd [atomic_intros]:
  assumes "silent m" "\<And>x. silent (f x)"
  shows "silent (bnd m f)"
proof -
  have "committed (snd (bnd m f s)) = committed s" for s
  proof (cases "m s")
    case (Pair r s1)
    with assms(1) have "committed s1 = committed s" by (rule silentD)
    with Pair assms(2) show ?thesis
      by (cases r) (auto simp: bnd_def silent_def)
  qed
  then show ?thesis by (simp add: silent_def)
qed

lemma silent_modify [atomic_intros]: "silent (modify f)"
  by (simp add: silent_def modify_def)

lemma silent_uuid4 [atomic_intros]: "silent uuid4"
  by (simp add: silent_def uuid4_def)

lemma silent_nextval [atomic_intros]: "silent nextval_cash" "silent nextval_receipt"
  by (simp_all add: silent_def nextval_cash_def nextval_receipt_def)

lemma silent_try_except [atomic_intros]:
  assumes "silent m" "\<And>e. silent (h e)"
  shows "silent (try_except m h)"
proof -
  have "committed (snd (try_except m h s)) = committed s" for s
  proof (cases "m s")
    case (Pair r s1)
    with assms(1) have "committed s1 = committed s" by (rule silentD)
    with Pair assms(2) show ?thesis
      by (cases r) (auto simp: try_except_def silent_def)
  qed
  then show ?thesis by (simp add: silent_def)
qed

lemma atomic_raise [atomic_intros]: "atomic (raise e)"
  by (rule atomicI) simp_all

lemma atomic_bnd [atomic_intros]:
  assumes "silent m" "\<And>x. atomic (f x)"
  shows "atomic (bnd m f)"
proof (rule atomicI)
  fix s e s' assume "bnd m f s = (Inl e, s')"
  then consider "m s = (Inl e, s')"
    | x s1 where "m s = (Inr x, s1)" "f x s1 = (Inl e, s')"
    by (auto simp: bnd_Inl_iff)
  then show "committed s' = committed s"
    using assms by cases (metis silentD, metis silentD atomic_Inl)
next
  fix s x s' assume "bnd m f s = (Inr x, s')"
  then show "committed s' = working s' \<and> schema_ok (committed s')"
    using assms by (auto simp: bnd_Inr_iff dest: atomic_Inr atomic_schema)
qed

text \<open>After the commit only reads follow, and these cannot fail.\<close>

definition total_read :: "'a svc \<Rightarrow> bool" where
  "total_read m \<longleftrightarrow> (\<forall>s. \<exists>x. m s = (Inr x, s))"

lemma total_read_ret [atomic_intros]: "total_read (ret x)"
  by (simp add: total_read_def)

lemma total_read_query [atomic_intros]: "total_read (query f)"
  by (simp add: total_read_def)

lemma total_read_bnd [atomic_intros]:
  assumes "total_read m" "\<And>x. total_read (f x)"
  shows "total_read (bnd m f)"
proof -
  have "\<exists>y. bnd m f s = (Inr y, s)" for s
  proof -
    from assms(1) obtain x where "m s = (Inr x, s)" by (auto simp: total_read_def)
    moreover from assms(2) obtain y where "f x s = (Inr y, s)" by (auto simp: total_read_def)
    ultimately show ?thesis by (auto simp: bnd_Inr_iff)
  qed
  then show ?thesis by (simp add: total_read_def)
qed

lemma atomic_commit [atomic_intros]:
  assumes "total_read (f ())"
  shows "atomic (bnd commit f)"
proof (rule atomicI)
  fix s e s' assume "bnd commit f s = (Inl e, s')"
  with assms show "committed s' = committed s"
    by (auto simp: bnd_commit total_read_def split: if_splits)
      (metis Inl_Inr_False prod.inject)
next
  fix s x s' assume a: "bnd commit f s = (Inr x, s')"
  with assms have "schema_ok (working s)" and "s' = s\<lparr>committed := working s\<rparr>"
    by (auto simp: bnd_commit total_read_def split: if_splits) (metis prod.inject)
  then show "committed s' = working s' \<and> schema_ok (committed s')" by simp
qed

lemma atomic_try_except [atomic_intros]:
  assumes "raises h" "atomic m"
  shows "atomic (try_except m h)"
proof (rule atomicI)
  fix s e s' assume "try_except m h s = (Inl e, s')"
  then obtain e1 s1 where "m s = (Inl e1, s1)" "h e1 s1 = (Inl e, s')"
    by (auto simp: try_except_Inl_iff)
  with assms show "committed s' = committed s"
    by (metis atomic_Inl raisesD)
next
  fix s x s' assume "try_except m h s = (Inr x, s')"
  with assms show "committed s' = working s' \<and> schema_ok (committed s')"
    by (auto dest: atomic_Inr atomic_schema)
qed

lemma silent_raises: "raises h \<Longrightarrow> silent (h e)"
  unfolding raises_def silent_def by (metis snd_conv)

lemma silent_try_integrity [atomic_intros]:
  "raises h \<Longrightarrow> silent m \<Longrightarrow> silent (try_except m (on_integrity h))"
  by (erule silent_try_except, erule silent_raises [OF raises_on_integrity])

lemma silent_of_pure [atomic_intros]: "pure_read m \<Longrightarrow> silent m"
  by (rule pure_read_silent)

lemma get_db_atomic_Inl:
  "atomic m \<Longrightarrow> get_db m s = (Inl e, s') \<Longrightarrow> committed s' = committed s \<and> working s' = committed s"
  by (auto simp: get_db_Inl dest: atomic_Inl)

end
