(* ===== verification/BaseRepository.thy ===== *)
theory BaseRepository
  imports Session "HOL-Library.Multiset"
begin

text \<open>
  The generic repository (app/core/repositories/base.py), instantiated once per table, the
  audit-log helper (app/core/services/audit.py), and the predicates that say which audit
  entries a service method leaves behind. A repository is a table of the database: how to
  read its rows and how to update them. The locale states the laws of such a table and
  proves the contract of the generic operations once.
\<close>

section \<open>Tables\<close>

record 'r tbl =
  rows :: "tables \<Rightarrow> 'r list"
  upd_rows :: "('r list \<Rightarrow> 'r list) \<Rightarrow> tables \<Rightarrow> tables"

text \<open>\<open>ORDER BY created_at, id\<close>, the default order of every query.\<close>

definition row_key :: "'a row_scheme \<Rightarrow> instant \<times> uuid" where
  "row_key r = (created_at r, row_id r)"

definition build_query :: "('a row_scheme) tbl \<Rightarrow> ('a row_scheme \<Rightarrow> bool) \<Rightarrow> tables \<Rightarrow> ('a row_scheme) list" where
  "build_query T p t = sort_key row_key (filter p (rows T t))"

definition first_of :: "'r list \<Rightarrow> 'r option" where
  "first_of xs = (case xs of [] \<Rightarrow> None | x # _ \<Rightarrow> Some x)"

definition repo_first :: "('a row_scheme) tbl \<Rightarrow> ('a row_scheme \<Rightarrow> bool) \<Rightarrow> ('a row_scheme) option svc" where
  "repo_first T p = query (\<lambda>t. first_of (build_query T p t))"

definition repo_all :: "('a row_scheme) tbl \<Rightarrow> ('a row_scheme \<Rightarrow> bool) \<Rightarrow> ('a row_scheme) list svc" where
  "repo_all T p = query (build_query T p)"

definition repo_count :: "('a row_scheme) tbl \<Rightarrow> ('a row_scheme \<Rightarrow> bool) \<Rightarrow> nat svc" where
  "repo_count T p = query (\<lambda>t. length (filter p (rows T t)))"

text \<open>OFFSET and LIMIT passed through unchecked: the server rejects negative values.\<close>

definition offset_limit :: "int \<Rightarrow> int \<Rightarrow> 'r list \<Rightarrow> 'r list svc" where
  "offset_limit skip limit xs =
     (if skip < 0 \<or> limit < 0 then raise DatabaseError
      else ret (take (nat limit) (drop (nat skip) xs)))"

definition repo_get_all :: "('a row_scheme) tbl \<Rightarrow> int \<Rightarrow> int \<Rightarrow> ('a row_scheme) list svc" where
  "repo_get_all T skip limit = query (\<lambda>t. page skip limit (build_query T (\<lambda>_. True) t))"

definition get_row :: "('a row_scheme) tbl \<Rightarrow> uuid \<Rightarrow> tables \<Rightarrow> ('a row_scheme) option" where
  "get_row T i t = first_of (build_query T (\<lambda>r. row_id r = i) t)"

definition repo_get_by_id :: "('a row_scheme) tbl \<Rightarrow> uuid \<Rightarrow> ('a row_scheme) option svc" where
  "repo_get_by_id T i = query (get_row T i)"

definition repo_get_many_by_ids :: "('a row_scheme) tbl \<Rightarrow> uuid list \<Rightarrow> ('a row_scheme) list svc" where
  "repo_get_many_by_ids T is =
     (if is = [] then ret [] else repo_all T (\<lambda>r. row_id r \<in> set is))"

text \<open>
  \<open>create\<close>: the new object gets its default id and timestamps, is added to the session and
  flushed. \<open>repo_insert\<close> is the case in which the payload brings its own id.
\<close>

definition repo_insert :: "('a row_scheme) tbl \<Rightarrow> ('a row_scheme) \<Rightarrow> ('a row_scheme) svc" where
  "repo_insert T r =
     bnd (modify (upd_rows T (\<lambda>rs. rs @ [r]))) (\<lambda>_.
     bnd flush (\<lambda>_. ret r))"

definition repo_create :: "('a row_scheme) tbl \<Rightarrow> (uuid \<Rightarrow> instant \<Rightarrow> 'a row_scheme) \<Rightarrow> ('a row_scheme) svc" where
  "repo_create T mk =
     bnd uuid4 (\<lambda>i.
     bnd now (\<lambda>n.
     repo_insert T (mk i n)))"

text \<open>
  \<open>update\<close>: the fields of the payload are assigned to the object; \<open>updated_at\<close> changes
  when the row does (\<open>onupdate\<close>). \<open>nulls\<close> are the non-nullable columns set to null.
\<close>

definition touch :: "instant \<Rightarrow> ('a stamped_scheme \<Rightarrow> 'a stamped_scheme) \<Rightarrow> 'a stamped_scheme \<Rightarrow> 'a stamped_scheme" where
  "touch n f r = (let r' = f r in if r' = r then r else r'\<lparr>updated_at := n\<rparr>)"

definition map_row :: "uuid \<Rightarrow> ('a row_scheme \<Rightarrow> 'a row_scheme) \<Rightarrow> ('a row_scheme) list \<Rightarrow> ('a row_scheme) list" where
  "map_row i f rs = map (\<lambda>r. if row_id r = i then f r else r) rs"

definition repo_update ::
  "('a stamped_scheme) tbl \<Rightarrow> uuid \<Rightarrow> string list \<Rightarrow> ('a stamped_scheme \<Rightarrow> 'a stamped_scheme)
     \<Rightarrow> ('a stamped_scheme) option svc" where
  "repo_update T i nulls f =
     bnd (repo_get_by_id T i) (\<lambda>obj.
     case obj of
       None \<Rightarrow> ret None
     | Some r \<Rightarrow>
         bnd now (\<lambda>n.
         bnd (modify (upd_rows T (map_row i (touch n f)))) (\<lambda>_.
         bnd (flush_nulls nulls) (\<lambda>_.
         ret (Some (touch n f r))))))"

text \<open>
  \<open>delete\<close>: the row goes at the next flush; \<open>on_del\<close> is what \<open>ON DELETE SET NULL\<close> does to
  the rows that refer to it.
\<close>

definition repo_delete ::
  "('a row_scheme) tbl \<Rightarrow> (uuid \<Rightarrow> tables \<Rightarrow> tables) \<Rightarrow> uuid \<Rightarrow> ('a row_scheme) option svc" where
  "repo_delete T on_del i =
     bnd (repo_get_by_id T i) (\<lambda>obj.
     case obj of
       None \<Rightarrow> ret None
     | Some r \<Rightarrow>
         bnd (modify (\<lambda>t. on_del i (upd_rows T (filter (\<lambda>r. row_id r \<noteq> i)) t))) (\<lambda>_.
         ret (Some r)))"

lemmas repo_code [code] =
  fun_cong [OF repo_first_def] fun_cong [OF repo_all_def] fun_cong [OF repo_count_def]
  fun_cong [OF repo_get_by_id_def] fun_cong [OF repo_insert_def] fun_cong [OF repo_create_def]
  fun_cong [OF repo_update_def] fun_cong [OF repo_delete_def]

section \<open>Lemmas on rows\<close>

lemma first_of_simps [simp]: "first_of [] = None" "first_of (x # xs) = Some x"
  by (simp_all add: first_of_def)

lemma first_of_SomeD: "first_of xs = Some x \<Longrightarrow> x \<in> set xs"
  by (cases xs) simp_all

lemma first_of_None [simp]: "first_of xs = None \<longleftrightarrow> xs = []"
  by (cases xs) simp_all

lemma set_build_query [simp]: "set (build_query T p t) = {r \<in> set (rows T t). p r}"
  by (simp add: build_query_def)

lemma length_build_query [simp]: "length (build_query T p t) = length (filter p (rows T t))"
  by (simp add: build_query_def)

lemma mset_build_query: "mset (build_query T p t) = mset (filter p (rows T t))"
  by (simp add: build_query_def)

lemma sorted_build_query: "sorted (map row_key (build_query T p t))"
  by (simp add: build_query_def)

lemma sort_key_Nil_iff [simp]: "sort_key f xs = [] \<longleftrightarrow> xs = []"
  by (metis length_0_conv length_sort)

lemma get_row_SomeD: "get_row T i t = Some r \<Longrightarrow> r \<in> set (rows T t) \<and> row_id r = i"
  unfolding get_row_def by (drule first_of_SomeD) simp

lemma get_row_id: "get_row T i t = Some r \<Longrightarrow> row_id r = i"
  by (simp add: get_row_SomeD)

lemma get_row_None: "get_row T i t = None \<longleftrightarrow> i \<notin> set (ids (rows T t))"
  by (auto simp: get_row_def ids_def build_query_def filter_empty_conv)

lemma get_row_ex: "(\<exists>r. get_row T i t = Some r) \<longleftrightarrow> i \<in> set (ids (rows T t))"
  using get_row_None [of T i t] by auto

lemma row_in_ids: "get_row T i t = Some r \<Longrightarrow> i \<in> set (ids (rows T t))"
  using get_row_ex by blast

lemma distinct_ids_eq:
  "distinct (ids rs) \<Longrightarrow> r \<in> set rs \<Longrightarrow> r' \<in> set rs \<Longrightarrow> row_id r = row_id r' \<Longrightarrow> r = r'"
  by (auto simp: ids_def distinct_map dest: inj_onD)

lemma get_row_Some_iff:
  assumes "distinct (ids (rows T t))"
  shows "get_row T i t = Some r \<longleftrightarrow> r \<in> set (rows T t) \<and> row_id r = i"
proof
  assume a: "r \<in> set (rows T t) \<and> row_id r = i"
  then have "get_row T i t \<noteq> None" by (auto simp: get_row_None ids_def)
  then obtain r' where "get_row T i t = Some r'" by (cases "get_row T i t") simp_all
  with a assms show "get_row T i t = Some r"
    by (metis distinct_ids_eq get_row_SomeD)
qed (rule get_row_SomeD)

lemma map_row_simps [table_simps]:
  "map_row i f [] = []"
  "map_row i f (r # rs) = (if row_id r = i then f r else r) # map_row i f rs"
  "map_row i f (xs @ ys) = map_row i f xs @ map_row i f ys"
  by (simp_all add: map_row_def)

lemma map_row_absent: "i \<notin> set (ids rs) \<Longrightarrow> map_row i f rs = rs"
  by (induction rs) (auto simp: map_row_def)

lemma touch_row_id [simp]: "row_id (f r) = row_id r \<Longrightarrow> row_id (touch n f r) = row_id r"
  by (simp add: touch_def Let_def)

lemma touch_created_at [simp]:
  "created_at (f r) = created_at r \<Longrightarrow> created_at (touch n f r) = created_at r"
  by (simp add: touch_def Let_def)

lemma touch_field: "(\<And>r m. g (r\<lparr>updated_at := m\<rparr>) = g r) \<Longrightarrow> g (touch n f r) = g (f r)"
  by (simp add: touch_def Let_def)

lemma ids_map_row: "(\<And>r. r \<in> set rs \<Longrightarrow> row_id (f r) = row_id r) \<Longrightarrow> ids (map_row i f rs) = ids rs"
  by (induction rs) (auto simp: map_row_def)

text \<open>A column that \<open>f\<close> keeps is the same list after the update.\<close>

lemma map_map_row:
  "(\<And>r. r \<in> set rs \<Longrightarrow> g (f r) = g r) \<Longrightarrow> map g (map_row i f rs) = map g rs"
  by (induction rs) (auto simp: map_row_def)

lemma set_map_row: "r \<in> set (map_row i f rs) \<longleftrightarrow>
   (\<exists>r0\<in>set rs. r = (if row_id r0 = i then f r0 else r0))"
  unfolding map_row_def set_map by blast

lemma ball_map_row:
  "(\<forall>r\<in>set (map_row i f rs). P r) \<longleftrightarrow> (\<forall>r\<in>set rs. if row_id r = i then P (f r) else P r)"
  by (auto simp: map_row_def)

lemma length_map_row [simp]: "length (map_row i f rs) = length rs"
  by (simp add: map_row_def)

section \<open>The repository contract\<close>

locale table_lens =
  fixes T :: "('a row_scheme) tbl"
  assumes rows_upd: "rows T (upd_rows T f t) = f (rows T t)"
    and upd_compose: "upd_rows T f (upd_rows T g t) = upd_rows T (\<lambda>x. f (g x)) t"
    and upd_same: "upd_rows T (\<lambda>_. rows T t) t = t"
begin

lemma insert_effect:
  "repo_insert T r s = (Inr x, s') \<longleftrightarrow>
     x = r \<and> s' = s\<lparr>working := upd_rows T (\<lambda>rs. rs @ [r]) (working s)\<rparr> \<and> schema_ok (working s')"
  by (auto simp: repo_insert_def bnd_Inr_iff)

lemma insert_found:
  assumes "repo_insert T r s = (Inr x, s')" "row_id r \<notin> set (ids (rows T (working s)))"
  shows "get_row T (row_id r) (working s') = Some r"
proof -
  from assms(1) have "rows T (working s') = rows T (working s) @ [r]"
    by (auto simp: insert_effect rows_upd)
  moreover from assms(2) have "filter (\<lambda>q. row_id q = row_id r) (rows T (working s)) = []"
    by (simp add: ids_def filter_empty_conv) (metis imageI)
  ultimately show ?thesis by (simp add: get_row_def build_query_def)
qed

lemma insert_keeps_others:
  assumes "repo_insert T r s = (Inr x, s')" "i \<noteq> row_id r"
  shows "get_row T i (working s') = get_row T i (working s)"
  using assms by (auto simp: insert_effect rows_upd get_row_def build_query_def)

lemma delete_not_found:
  assumes "\<And>t. rows T (sn i t) = rows T t" "repo_delete T sn i s = (Inr x, s')"
  shows "get_row T i (working s') = None"
  using assms(2)
  by (auto simp: repo_delete_def repo_get_by_id_def bnd_Inr_iff get_row_None assms(1) rows_upd
      ids_def split: option.splits)

lemma count_is_length:
  assumes "repo_all T p s = (Inr xs, s1)" "repo_count T p s = (Inr n, s2)"
  shows "n = length xs"
  using assms by (auto simp: repo_all_def repo_count_def)

lemma pages_cover:
  assumes "0 < n" "n \<le> 100" "length (rows T (working s)) \<le> k * n"
  shows "concat (map (\<lambda>j. projr (fst (repo_get_all T (int (j * n)) (int n) s))) [0..<k])
    = build_query T (\<lambda>_. True) (working s)"
  using page_concat [OF assms(1,2), of "build_query T (\<lambda>_. True) (working s)" k] assms(3)
  by (simp add: repo_get_all_def query_def)

end

definition users_tbl :: "user tbl" where
  "users_tbl = \<lparr>rows = users, upd_rows = users_update\<rparr>"

definition properties_tbl :: "property tbl" where
  "properties_tbl = \<lparr>rows = properties, upd_rows = properties_update\<rparr>"

definition tenants_tbl :: "tenant tbl" where
  "tenants_tbl = \<lparr>rows = tenants, upd_rows = tenants_update\<rparr>"

definition contracts_tbl :: "contract tbl" where
  "contracts_tbl = \<lparr>rows = contracts, upd_rows = contracts_update\<rparr>"

definition leases_tbl :: "lease tbl" where
  "leases_tbl = \<lparr>rows = leases, upd_rows = leases_update\<rparr>"

definition billing_records_tbl :: "billing_record tbl" where
  "billing_records_tbl = \<lparr>rows = billing_records, upd_rows = billing_records_update\<rparr>"

definition payments_tbl :: "payment tbl" where
  "payments_tbl = \<lparr>rows = payments, upd_rows = payments_update\<rparr>"

definition documents_tbl :: "document tbl" where
  "documents_tbl = \<lparr>rows = documents, upd_rows = documents_update\<rparr>"

definition collections_tbl :: "collection tbl" where
  "collections_tbl = \<lparr>rows = collections, upd_rows = collections_update\<rparr>"

definition receipts_tbl :: "receipt tbl" where
  "receipts_tbl = \<lparr>rows = receipts, upd_rows = receipts_update\<rparr>"

definition receipt_templates_tbl :: "receipt_template tbl" where
  "receipt_templates_tbl = \<lparr>rows = receipt_templates, upd_rows = receipt_templates_update\<rparr>"

definition audit_logs_tbl :: "audit_log tbl" where
  "audit_logs_tbl = \<lparr>rows = audit_logs, upd_rows = audit_logs_update\<rparr>"

lemmas tbl_defs = users_tbl_def properties_tbl_def tenants_tbl_def contracts_tbl_def
  leases_tbl_def billing_records_tbl_def payments_tbl_def documents_tbl_def
  collections_tbl_def receipts_tbl_def receipt_templates_tbl_def audit_logs_tbl_def

lemma rows_tbl [simp]:
  "rows users_tbl = users" "rows properties_tbl = properties" "rows tenants_tbl = tenants"
  "rows contracts_tbl = contracts" "rows leases_tbl = leases"
  "rows billing_records_tbl = billing_records" "rows payments_tbl = payments"
  "rows documents_tbl = documents" "rows collections_tbl = collections"
  "rows receipts_tbl = receipts" "rows receipt_templates_tbl = receipt_templates"
  "rows audit_logs_tbl = audit_logs"
  by (simp_all add: tbl_defs)

lemma upd_rows_tbl [simp]:
  "upd_rows users_tbl = users_update" "upd_rows properties_tbl = properties_update"
  "upd_rows tenants_tbl = tenants_update" "upd_rows contracts_tbl = contracts_update"
  "upd_rows leases_tbl = leases_update"
  "upd_rows billing_records_tbl = billing_records_update"
  "upd_rows payments_tbl = payments_update" "upd_rows documents_tbl = documents_update"
  "upd_rows collections_tbl = collections_update" "upd_rows receipts_tbl = receipts_update"
  "upd_rows receipt_templates_tbl = receipt_templates_update"
  "upd_rows audit_logs_tbl = audit_logs_update"
  by (simp_all add: tbl_defs)

interpretation user_rows: table_lens users_tbl
  by unfold_locales (simp_all add: comp_def)

interpretation property_rows: table_lens properties_tbl
  by unfold_locales (simp_all add: comp_def)

interpretation tenant_rows: table_lens tenants_tbl
  by unfold_locales (simp_all add: comp_def)

interpretation contract_rows: table_lens contracts_tbl
  by unfold_locales (simp_all add: comp_def)

interpretation lease_rows: table_lens leases_tbl
  by unfold_locales (simp_all add: comp_def)

interpretation billing_record_rows: table_lens billing_records_tbl
  by unfold_locales (simp_all add: comp_def)

interpretation payment_rows: table_lens payments_tbl
  by unfold_locales (simp_all add: comp_def)

interpretation document_rows: table_lens documents_tbl
  by unfold_locales (simp_all add: comp_def)

interpretation collection_rows: table_lens collections_tbl
  by unfold_locales (simp_all add: comp_def)

interpretation receipt_rows: table_lens receipts_tbl
  by unfold_locales (simp_all add: comp_def)

interpretation template_rows: table_lens receipt_templates_tbl
  by unfold_locales (simp_all add: comp_def)

interpretation audit_rows: table_lens audit_logs_tbl
  by unfold_locales (simp_all add: comp_def)

section \<open>Execution rules\<close>

lemma repo_get_by_id_iff [simp]:
  "repo_get_by_id T i s = (r, s') \<longleftrightarrow> Inr (get_row T i (working s)) = r \<and> s' = s"
  by (auto simp: repo_get_by_id_def)

lemma repo_first_iff [simp]:
  "repo_first T p s = (r, s') \<longleftrightarrow> Inr (first_of (build_query T p (working s))) = r \<and> s' = s"
  by (auto simp: repo_first_def)

lemma repo_all_iff [simp]:
  "repo_all T p s = (r, s') \<longleftrightarrow> Inr (build_query T p (working s)) = r \<and> s' = s"
  by (auto simp: repo_all_def)

lemma repo_count_iff [simp]:
  "repo_count T p s = (r, s') \<longleftrightarrow> Inr (length (filter p (rows T (working s)))) = r \<and> s' = s"
  by (auto simp: repo_count_def)

lemma repo_get_all_iff [simp]:
  "repo_get_all T skip limit s = (r, s') \<longleftrightarrow>
     Inr (page skip limit (build_query T (\<lambda>_. True) (working s))) = r \<and> s' = s"
  by (auto simp: repo_get_all_def)

lemma bnd_get_by_id [svc]: "bnd (repo_get_by_id T i) f s = f (get_row T i (working s)) s"
  by (simp add: repo_get_by_id_def bnd_query)

lemma bnd_found_or_get [svc]:
  "bnd (found_or e (repo_get_by_id T i)) f s =
     (case get_row T i (working s) of None \<Rightarrow> (Inl e, s) | Some x \<Rightarrow> f x s)"
  by (simp add: repo_get_by_id_def bnd_found_or_query)

lemma bnd_repo_first [svc]: "bnd (repo_first T p) f s = f (first_of (build_query T p (working s))) s"
  by (simp add: repo_first_def bnd_query)

lemma bnd_repo_all [svc]: "bnd (repo_all T p) f s = f (build_query T p (working s)) s"
  by (simp add: repo_all_def bnd_query)

lemma repo_insert_Inr:
  "repo_insert T r s = (Inr x, s') \<longleftrightarrow>
     x = r \<and> s' = s\<lparr>working := upd_rows T (\<lambda>rs. rs @ [r]) (working s)\<rparr> \<and> schema_ok (working s')"
  by (auto simp: repo_insert_def bnd_Inr_iff)

lemma repo_insert_Inl:
  "repo_insert T r s = (Inl e, s') \<longleftrightarrow>
     s' = s\<lparr>working := upd_rows T (\<lambda>rs. rs @ [r]) (working s)\<rparr> \<and> \<not> schema_ok (working s') \<and>
     e = IntegrityError (pg_error s (violations (working s')))"
  by (auto simp: repo_insert_def bnd_Inl_iff)

lemma repo_create_Inr:
  "repo_create T mk s = (Inr x, s') \<longleftrightarrow>
     x = mk (uuid_source s (uuid_drawn s)) (clock s) \<and>
     s' = s\<lparr>uuid_drawn := Suc (uuid_drawn s), working := upd_rows T (\<lambda>rs. rs @ [x]) (working s)\<rparr> \<and>
     schema_ok (working s')"
  by (auto simp: repo_create_def bnd_Inr_iff repo_insert_Inr outside_defs)

lemma repo_create_Inl:
  "repo_create T mk s = (Inl e, s') \<longleftrightarrow>
     s' = s\<lparr>uuid_drawn := Suc (uuid_drawn s),
            working := upd_rows T (\<lambda>rs. rs @ [mk (uuid_source s (uuid_drawn s)) (clock s)]) (working s)\<rparr> \<and>
     \<not> schema_ok (working s') \<and> e = IntegrityError (pg_error s (violations (working s')))"
  by (auto simp: repo_create_def bnd_Inl_iff repo_insert_Inl outside_defs)

lemma repo_update_Inr:
  "repo_update T i ns f s = (Inr x, s') \<longleftrightarrow>
     (case get_row T i (working s) of
        None \<Rightarrow> x = None \<and> s' = s
      | Some r \<Rightarrow> ns = [] \<and> x = Some (touch (clock s) f r) \<and>
          s' = s\<lparr>working := upd_rows T (map_row i (touch (clock s) f)) (working s)\<rparr> \<and>
          schema_ok (working s'))"
  by (auto simp: repo_update_def bnd_Inr_iff now_def split: option.splits)

lemma repo_update_Inl:
  "repo_update T i ns f s = (Inl e, s') \<longleftrightarrow>
     get_row T i (working s) \<noteq> None \<and>
     s' = s\<lparr>working := upd_rows T (map_row i (touch (clock s) f)) (working s)\<rparr> \<and>
     (ns \<noteq> [] \<or> \<not> schema_ok (working s')) \<and>
     e = IntegrityError (pg_error s (ns @ violations (working s')))"
  by (auto simp: repo_update_def bnd_Inl_iff now_def split: option.splits)

lemma repo_delete_iff:
  "repo_delete T sn i s = (r, s') \<longleftrightarrow>
     (case get_row T i (working s) of
        None \<Rightarrow> r = Inr None \<and> s' = s
      | Some x \<Rightarrow> r = Inr (Some x) \<and>
          s' = s\<lparr>working := sn i (upd_rows T (filter (\<lambda>q. row_id q \<noteq> i)) (working s))\<rparr>)"
  by (auto simp: repo_delete_def bnd_def repo_get_by_id_def query_def modify_def ret_def
      split: option.splits)

lemmas repo_iffs = repo_insert_Inr repo_insert_Inl repo_create_Inr repo_create_Inl
  repo_update_Inr repo_update_Inl repo_delete_iff

lemma pure_read_repo [atomic_intros]:
  "pure_read (repo_get_by_id T i)" "pure_read (repo_first T p)" "pure_read (repo_all T p)"
  "pure_read (repo_count T p)" "pure_read (repo_get_all T skip limit)"
  by (simp_all add: repo_get_by_id_def repo_first_def repo_all_def repo_count_def
      repo_get_all_def pure_read_query)

lemma total_read_repo [atomic_intros]:
  "total_read (repo_get_by_id T i)" "total_read (repo_first T p)" "total_read (repo_all T p)"
  "total_read (repo_count T p)"
  by (simp_all add: repo_get_by_id_def repo_first_def repo_all_def repo_count_def total_read_query)

lemma pure_read_offset_limit [atomic_intros]: "pure_read (offset_limit skip limit xs)"
  by (simp add: offset_limit_def pure_read_raise pure_read_ret)

lemma silent_repo_insert [atomic_intros]: "silent (repo_insert T r)"
  unfolding repo_insert_def by (intro atomic_intros)

lemma silent_repo_create [atomic_intros]: "silent (repo_create T mk)"
  unfolding repo_create_def by (intro atomic_intros)

lemma silent_option_case [atomic_intros]:
  "silent a \<Longrightarrow> (\<And>x. silent (b x)) \<Longrightarrow> silent (case z of None \<Rightarrow> a | Some x \<Rightarrow> b x)"
  by (cases z) simp_all

lemma atomic_option_case [atomic_intros]:
  "atomic a \<Longrightarrow> (\<And>x. atomic (b x)) \<Longrightarrow> atomic (case z of None \<Rightarrow> a | Some x \<Rightarrow> b x)"
  by (cases z) simp_all

lemma pure_read_option_case [atomic_intros]:
  "pure_read a \<Longrightarrow> (\<And>x. pure_read (b x)) \<Longrightarrow> pure_read (case z of None \<Rightarrow> a | Some x \<Rightarrow> b x)"
  by (cases z) simp_all

lemma total_read_option_case [atomic_intros]:
  "total_read a \<Longrightarrow> (\<And>x. total_read (b x)) \<Longrightarrow> total_read (case z of None \<Rightarrow> a | Some x \<Rightarrow> b x)"
  by (cases z) simp_all

lemma if_intros [atomic_intros]:
  "silent a \<Longrightarrow> silent b \<Longrightarrow> silent (if c then a else b)"
  "atomic a \<Longrightarrow> atomic b \<Longrightarrow> atomic (if c then a else b)"
  "pure_read a \<Longrightarrow> pure_read b \<Longrightarrow> pure_read (if c then a else b)"
  "total_read a \<Longrightarrow> total_read b \<Longrightarrow> total_read (if c then a else b)"
  by simp_all

lemma silent_repo_update [atomic_intros]: "silent (repo_update T i ns f)"
  unfolding repo_update_def by (intro atomic_intros)

lemma silent_repo_delete [atomic_intros]: "silent (repo_delete T sn i)"
  unfolding repo_delete_def by (intro atomic_intros)

section \<open>The audit log\<close>

text \<open>
  \<open>write_audit_log\<close> adds a row to the session, without flushing; the actor is the caller.
\<close>

definition write_audit_log :: "user \<Rightarrow> audit_action \<Rightarrow> string \<Rightarrow> uuid \<Rightarrow> unit svc" where
  "write_audit_log u act ety eid =
     bnd uuid4 (\<lambda>i.
     bnd now (\<lambda>n.
     modify (audit_logs_update (\<lambda>as. as @
       [\<lparr>row_id = i, created_at = n, actor_id = Some (row_id u), action = act,
         entity_type = ety, entity_id = eid, diff = None\<rparr>]))))"

lemmas audit_code [code] = fun_cong [OF write_audit_log_def]

definition audit_row :: "session \<Rightarrow> user \<Rightarrow> audit_action \<Rightarrow> string \<Rightarrow> uuid \<Rightarrow> audit_log" where
  "audit_row s u act ety eid =
     \<lparr>row_id = uuid_source s (uuid_drawn s), created_at = clock s, actor_id = Some (row_id u),
      action = act, entity_type = ety, entity_id = eid, diff = None\<rparr>"

lemma audit_row_simps [simp]:
  "row_id (audit_row s u act ety eid) = uuid_source s (uuid_drawn s)"
  "created_at (audit_row s u act ety eid) = clock s"
  "actor_id (audit_row s u act ety eid) = Some (row_id u)"
  "action (audit_row s u act ety eid) = act"
  "entity_type (audit_row s u act ety eid) = ety"
  "entity_id (audit_row s u act ety eid) = eid"
  "diff (audit_row s u act ety eid) = None"
  by (simp_all add: audit_row_def)

lemma write_audit_log_iff:
  "write_audit_log u act ety eid s = (r, s') \<longleftrightarrow>
     r = Inr () \<and>
     s' = s\<lparr>uuid_drawn := Suc (uuid_drawn s),
            working := audit_logs_update (\<lambda>as. as @ [audit_row s u act ety eid]) (working s)\<rparr>"
  by (auto simp: write_audit_log_def audit_row_def bnd_def uuid4_def now_def modify_def)

lemma bnd_write_audit_log [svc]:
  "bnd (write_audit_log u act ety eid) f s =
     f () (s\<lparr>uuid_drawn := Suc (uuid_drawn s),
            working := audit_logs_update (\<lambda>as. as @ [audit_row s u act ety eid]) (working s)\<rparr>)"
  by (simp add: write_audit_log_def audit_row_def bnd_def uuid4_def now_def modify_def)

lemma silent_write_audit_log [atomic_intros]: "silent (write_audit_log u act ety eid)"
  unfolding write_audit_log_def by (intro atomic_intros)

text \<open>What was done to what: the part of the audit rows that is never rewritten.\<close>

definition kinds :: "tables \<Rightarrow> (audit_action \<times> string) list" where
  "kinds t = map (\<lambda>a. (action a, entity_type a)) (audit_logs t)"

definition logs :: "(audit_action \<times> string) list \<Rightarrow> 'a svc \<Rightarrow> bool" where
  "logs L m \<longleftrightarrow> (\<forall>s x s'. m s = (Inr x, s') \<longrightarrow> kinds (working s') = kinds (working s) @ L)"

lemma logsD: "logs L m \<Longrightarrow> m s = (Inr x, s') \<Longrightarrow> kinds (working s') = kinds (working s) @ L"
  by (auto simp: logs_def)

lemma logs_raise [trail_intros]: "logs L (raise e)"
  by (simp add: logs_def)

lemma logs_pure: "pure_read m \<Longrightarrow> logs [] m"
  by (auto simp: logs_def dest: pure_readD)

lemma logs_bnd_quiet [trail_intros]:
  "logs [] m \<Longrightarrow> (\<And>x. logs L (f x)) \<Longrightarrow> logs L (bnd m f)"
  by (fastforce simp: logs_def bnd_Inr_iff)

lemma logs_bnd_write [trail_intros]:
  "(\<And>x. logs L (f x)) \<Longrightarrow> logs ((act, ety) # L) (bnd (write_audit_log u act ety eid) f)"
  by (fastforce simp: logs_def bnd_Inr_iff write_audit_log_iff kinds_def)

lemma logs_option_case [trail_intros]:
  "logs L a \<Longrightarrow> (\<And>x. logs L (b x)) \<Longrightarrow> logs L (case z of None \<Rightarrow> a | Some x \<Rightarrow> b x)"
  by (cases z) simp_all

lemma logs_if [trail_intros]: "logs L a \<Longrightarrow> logs L b \<Longrightarrow> logs L (if c then a else b)"
  by simp

lemma logs_try_except [trail_intros]: "raises h \<Longrightarrow> logs L m \<Longrightarrow> logs L (try_except m h)"
  by (simp add: logs_def)

lemma logs_simple [trail_intros]:
  "logs [] (ret x)" "logs [] (query q)" "logs [] (raise_if c e)" "logs [] now"
  "logs [] date_today" "logs [] (repo_get_by_id T i)" "logs [] (repo_first T p)"
  "logs [] (repo_all T p)" "logs [] (repo_count T p)" "logs [] flush"
  by (rule logs_pure, rule atomic_intros)+

lemma logs_found_or [trail_intros]: "logs [] m \<Longrightarrow> logs [] (found_or e m)"
  by (auto simp: logs_def)

lemma logs_commit [trail_intros]: "logs [] commit"
  by (simp add: logs_def)

lemma logs_uuid4 [trail_intros]: "logs [] uuid4"
  by (simp add: logs_def uuid4_def)

lemma logs_nextval [trail_intros]: "logs [] nextval_cash" "logs [] nextval_receipt"
  by (simp_all add: logs_def nextval_cash_def nextval_receipt_def)

text \<open>Writing another table leaves the audit log alone.\<close>

definition off_trail :: "'r tbl \<Rightarrow> bool" where
  "off_trail T \<longleftrightarrow> (\<forall>f t. audit_logs (upd_rows T f t) = audit_logs t)"

lemma off_trail_tbl [trail_intros]:
  "off_trail users_tbl" "off_trail properties_tbl" "off_trail tenants_tbl"
  "off_trail contracts_tbl" "off_trail leases_tbl" "off_trail billing_records_tbl"
  "off_trail payments_tbl" "off_trail documents_tbl" "off_trail collections_tbl"
  "off_trail receipts_tbl" "off_trail receipt_templates_tbl"
  by (simp_all add: off_trail_def)

lemma logs_repo_insert [trail_intros]: "off_trail T \<Longrightarrow> logs [] (repo_insert T r)"
  by (auto simp: logs_def repo_iffs kinds_def off_trail_def)

lemma logs_repo_create [trail_intros]: "off_trail T \<Longrightarrow> logs [] (repo_create T mk)"
  by (auto simp: logs_def repo_iffs kinds_def off_trail_def)

lemma logs_repo_update [trail_intros]: "off_trail T \<Longrightarrow> logs [] (repo_update T i ns f)"
  by (auto simp: logs_def repo_iffs kinds_def off_trail_def split: option.splits)

lemma logs_repo_delete [trail_intros]:
  "off_trail T \<Longrightarrow> (\<And>t. kinds (sn i t) = kinds t) \<Longrightarrow> logs [] (repo_delete T sn i)"
  by (auto simp: logs_def repo_iffs off_trail_def split: option.splits) (simp add: kinds_def)

end
