(* ===== verification/Authorization.thy ===== *)
theory Authorization
  imports BaseRepository
begin

text \<open>
  The lookup and ownership checks every service shares (app/core/services/base.py): which
  property an operation concerns, whether the related resources exist, whether the caller
  may manage the property, and the listing that admins see in full and managers see
  restricted to what they own. Two locales state the contract between the listing and the
  repositories, and between the listing and the single-item lookup of a resource.
\<close>

section \<open>Related resources\<close>

definition not_authorized :: string where
  "not_authorized = ''User not authorized to manage this resource.''"

definition no_manager_assigned :: string where
  "no_manager_assigned =
     ''This property has no manager assigned. Contact an admin to assign one.''"

definition resolve_property :: "uuid option \<Rightarrow> uuid option \<Rightarrow> contract option \<Rightarrow> property option svc" where
  "resolve_property property_id contract_id given =
     (case contract_id of
        Some cid \<Rightarrow>
          bnd (case given of None \<Rightarrow> repo_get_by_id contracts_tbl cid | Some c \<Rightarrow> ret (Some c)) (\<lambda>contract.
          case contract of
            None \<Rightarrow> raise (RelatedResourceNotFoundError ''Contract'' cid)
          | Some c \<Rightarrow>
              bnd (found_or (RelatedResourceNotFoundError ''Property'' (contract_property_id c))
                     (repo_get_by_id properties_tbl (contract_property_id c))) (\<lambda>prop.
              ret (Some prop)))
      | None \<Rightarrow>
          (case property_id of
             Some pid \<Rightarrow>
               bnd (found_or (RelatedResourceNotFoundError ''Property'' pid)
                      (repo_get_by_id properties_tbl pid)) (\<lambda>prop.
               ret (Some prop))
           | None \<Rightarrow> ret None))"

definition require_exists :: "('a row_scheme) tbl \<Rightarrow> string \<Rightarrow> uuid option \<Rightarrow> unit svc" where
  "require_exists T kind k =
     (case k of
        None \<Rightarrow> ret ()
      | Some i \<Rightarrow>
          bnd (found_or (RelatedResourceNotFoundError kind i) (repo_get_by_id T i)) (\<lambda>_. ret ()))"

definition validate_related_resources ::
  "uuid option \<Rightarrow> uuid option \<Rightarrow> uuid option \<Rightarrow> uuid option \<Rightarrow> unit svc" where
  "validate_related_resources property_id contract_id tenant_id collection_id =
     bnd (require_exists properties_tbl ''Property'' property_id) (\<lambda>_.
     bnd (require_exists contracts_tbl ''Contract'' contract_id) (\<lambda>_.
     bnd (require_exists tenants_tbl ''Tenant'' tenant_id) (\<lambda>_.
     require_exists collections_tbl ''Collection'' collection_id)))"

text \<open>\<open>_resolve_ids\<close> for one field: the override when given, else the entity's value.\<close>

definition resolve_id :: "('e \<Rightarrow> uuid option) \<Rightarrow> 'e option \<Rightarrow> uuid option \<Rightarrow> uuid option" where
  "resolve_id field entity override =
     (case override of
        Some v \<Rightarrow> Some v
      | None \<Rightarrow> (case entity of None \<Rightarrow> None | Some e \<Rightarrow> field e))"

section \<open>Ownership\<close>

definition authorize_user_to_property ::
  "forbidden_kind \<Rightarrow> user \<Rightarrow> uuid option \<Rightarrow> uuid option \<Rightarrow> contract option \<Rightarrow> unit svc" where
  "authorize_user_to_property forbidden current_user property_id contract_id given =
     (if role current_user = ADMIN then ret ()
      else if role current_user \<noteq> MANAGER then raise (ResourceForbiddenError forbidden not_authorized)
      else
        bnd (resolve_property property_id contract_id given) (\<lambda>prop.
        case prop of
          None \<Rightarrow> raise (ResourceForbiddenError forbidden not_authorized)
        | Some p \<Rightarrow>
            (case manager_id p of
               None \<Rightarrow> raise (ResourceForbiddenError forbidden no_manager_assigned)
             | Some m \<Rightarrow>
                 raise_if (m \<noteq> row_id current_user) (ResourceForbiddenError forbidden not_authorized))))"

lemmas authorization_code [code] = fun_cong [OF resolve_property_def]
  fun_cong [OF validate_related_resources_def] fun_cong [OF authorize_user_to_property_def]

section \<open>Scoped listing\<close>

text \<open>The four repository methods the listing calls, and its result.\<close>

record 'r scoped_repo =
  get_all :: "int \<Rightarrow> int \<Rightarrow> 'r list svc"
  count_all :: "nat svc"
  get_all_for_manager :: "uuid \<Rightarrow> int \<Rightarrow> int \<Rightarrow> 'r list svc"
  count_all_for_manager :: "uuid \<Rightarrow> nat svc"

record 'r paginated =
  items :: "'r list"
  total :: nat

definition list_scoped_by_manager ::
  "forbidden_kind \<Rightarrow> user \<Rightarrow> 'r scoped_repo \<Rightarrow> int \<Rightarrow> int \<Rightarrow> 'r paginated svc" where
  "list_scoped_by_manager forbidden current_user R skip limit =
     (if role current_user = MANAGER then
        bnd (get_all_for_manager R (row_id current_user) skip limit) (\<lambda>its.
        bnd (count_all_for_manager R (row_id current_user)) (\<lambda>n.
        ret \<lparr>items = its, total = n\<rparr>))
      else if role current_user = ADMIN then
        bnd (get_all R skip limit) (\<lambda>its.
        bnd (count_all R) (\<lambda>n.
        ret \<lparr>items = its, total = n\<rparr>))
      else raise (ResourceForbiddenError forbidden not_authorized))"

text \<open>
  The subquery \<open>owned_property_ids\<close>, and the joins of the repositories. Contracts and
  properties are joined through their primary keys, so a join is an existence test.
\<close>

definition owned_property_ids :: "uuid \<Rightarrow> tables \<Rightarrow> uuid list" where
  "owned_property_ids m t = ids (filter (\<lambda>p. manager_id p = Some m) (properties t))"

definition owned_contract_ids :: "uuid \<Rightarrow> tables \<Rightarrow> uuid list" where
  "owned_contract_ids m t =
     ids (filter (\<lambda>c. contract_property_id c \<in> set (owned_property_ids m t)) (contracts t))"

section \<open>Execution\<close>

lemma pure_read_resolve_property [atomic_intros]: "pure_read (resolve_property p c g)"
  unfolding resolve_property_def by (intro atomic_intros)

lemma pure_read_require_exists [atomic_intros]: "pure_read (require_exists T k i)"
  unfolding require_exists_def by (intro atomic_intros)

lemma pure_read_validate [atomic_intros]: "pure_read (validate_related_resources p c t k)"
  unfolding validate_related_resources_def by (intro atomic_intros)

lemma pure_read_authorize [atomic_intros]: "pure_read (authorize_user_to_property f u p c g)"
  unfolding authorize_user_to_property_def by (intro atomic_intros)

lemma logs_authorize [trail_intros]:
  "logs [] (authorize_user_to_property f u p c g)" "logs [] (require_exists T k i)"
  "logs [] (validate_related_resources p c t co)" "logs [] (resolve_property p c g)"
  by (rule logs_pure, rule atomic_intros)+

lemma require_exists_Inr [simp]:
  "require_exists T k i s = (Inr u, s') \<longleftrightarrow> s' = s \<and> opt_in i (ids (rows T (working s)))"
  by (cases i) (auto simp: require_exists_def svc_iffs get_row_None get_row_ex)

lemma require_exists_Inl [simp]:
  "require_exists T k i s = (Inl e, s') \<longleftrightarrow>
     s' = s \<and> (\<exists>j. i = Some j \<and> j \<notin> set (ids (rows T (working s))) \<and>
       e = RelatedResourceNotFoundError k j)"
  by (cases i) (auto simp: require_exists_def svc_iffs get_row_None get_row_ex)

lemma validate_Inr [simp]:
  "validate_related_resources p c t k s = (Inr u, s') \<longleftrightarrow>
     s' = s \<and> opt_in p (ids (properties (working s))) \<and> opt_in c (ids (contracts (working s))) \<and>
     opt_in t (ids (tenants (working s))) \<and> opt_in k (ids (collections (working s)))"
  by (auto simp: validate_related_resources_def bnd_Inr_iff)

lemma resolve_property_Inr:
  "resolve_property p c g s = (Inr r, s') \<longleftrightarrow> s' = s \<and>
     (case c of
        Some cid \<Rightarrow>
          (\<exists>ct pr. (g = Some ct \<or> g = None \<and> get_row contracts_tbl cid (working s) = Some ct) \<and>
             get_row properties_tbl (contract_property_id ct) (working s) = Some pr \<and> r = Some pr)
      | None \<Rightarrow>
          (case p of
             None \<Rightarrow> r = None
           | Some pid \<Rightarrow> \<exists>pr. get_row properties_tbl pid (working s) = Some pr \<and> r = Some pr))"
  by (cases c; cases p; cases g) (auto simp: resolve_property_def svc_iffs)

text \<open>The complete outcome of the ownership check.\<close>

lemma authorize_Inr:
  "authorize_user_to_property f u p c g s = (Inr v, s') \<longleftrightarrow> s' = s \<and>
     (role u = ADMIN \<or> role u = MANAGER \<and>
       (\<exists>pr. resolve_property p c g s = (Inr (Some pr), s) \<and> manager_id pr = Some (row_id u)))"
proof -
  have *: "resolve_property p c g s = (r, s1) \<Longrightarrow> s1 = s" for r s1
    using pure_readD [OF pure_read_resolve_property] .
  show ?thesis
    by (cases "role u")
      (auto simp: authorize_user_to_property_def svc_iffs dest: *)
qed

lemma authorize_Inl:
  assumes "authorize_user_to_property f u p c g s = (Inl e, s')"
  shows "role u \<noteq> ADMIN \<and>
    (e = ResourceForbiddenError f not_authorized \<or> e = ResourceForbiddenError f no_manager_assigned \<or>
     (\<exists>k i. e = RelatedResourceNotFoundError k i))"
  using assms
  by (auto simp: authorize_user_to_property_def resolve_property_def svc_iffs split: if_splits)

lemma owned_property_ids_iff:
  "i \<in> set (owned_property_ids m t) \<longleftrightarrow>
     (\<exists>p\<in>set (properties t). row_id p = i \<and> manager_id p = Some m)"
  by (auto simp: owned_property_ids_def ids_def)

lemma owned_contract_ids_iff:
  "i \<in> set (owned_contract_ids m t) \<longleftrightarrow>
     (\<exists>c\<in>set (contracts t). row_id c = i \<and> contract_property_id c \<in> set (owned_property_ids m t))"
  by (auto simp: owned_contract_ids_def ids_def)

text \<open>What the constraints of the schema say about keys.\<close>

lemma schema_ok_keys:
  assumes "schema_ok t"
  shows "distinct (ids (users t))" "distinct (ids (properties t))" "distinct (ids (tenants t))"
    "distinct (ids (contracts t))" "distinct (ids (leases t))" "distinct (ids (billing_records t))"
    "distinct (ids (payments t))" "distinct (ids (documents t))" "distinct (ids (collections t))"
    "distinct (ids (receipts t))" "distinct (ids (receipt_templates t))"
  using assms by (simp_all add: schema_ok_tables table_constraints_defs)

lemma schema_ok_refs:
  assumes "schema_ok t"
  shows "c \<in> set (contracts t) \<Longrightarrow> contract_property_id c \<in> set (ids (properties t))"
    and "c \<in> set (contracts t) \<Longrightarrow> contract_tenant_id c \<in> set (ids (tenants t))"
    and "l \<in> set (leases t) \<Longrightarrow> lease_contract_id l \<in> set (ids (contracts t))"
    and "b \<in> set (billing_records t) \<Longrightarrow> br_lease_id b \<in> set (ids (leases t))"
    and "p \<in> set (payments t) \<Longrightarrow> pay_contract_id p \<in> set (ids (contracts t))"
    and "k \<in> set (collections t) \<Longrightarrow> coll_property_id k \<in> set (ids (properties t))"
  using assms by (auto simp: schema_ok_tables table_constraints_defs list_all_iff)

lemma authorize_property_iff:
  assumes "schema_ok (working s)" "i \<in> set (ids (properties (working s)))"
  shows "authorize_user_to_property f u (Some i) None g s = (Inr v, s') \<longleftrightarrow> s' = s \<and>
    (role u = ADMIN \<or> role u = MANAGER \<and> i \<in> set (owned_property_ids (row_id u) (working s)))"
  using schema_ok_keys(2) [OF assms(1)]
  by (auto simp: authorize_Inr resolve_property_Inr owned_property_ids_iff get_row_Some_iff)

lemma authorize_contract_iff:
  assumes "schema_ok (working s)" "i \<in> set (ids (contracts (working s)))"
    and "g = None \<or> g = get_row contracts_tbl i (working s)"
  shows "authorize_user_to_property f u p (Some i) g s = (Inr v, s') \<longleftrightarrow> s' = s \<and>
    (role u = ADMIN \<or> role u = MANAGER \<and> i \<in> set (owned_contract_ids (row_id u) (working s)))"
proof -
  note keys = schema_ok_keys(2,4) [OF assms(1)]
  from assms(2) obtain c where c: "c \<in> set (contracts (working s))" "row_id c = i"
    by (auto simp: ids_def)
  with keys have g: "get_row contracts_tbl i (working s) = Some c" by (simp add: get_row_Some_iff)
  from c keys(2) have u: "c' \<in> set (contracts (working s)) \<Longrightarrow> row_id c' = i \<Longrightarrow> c' = c" for c'
    by (auto dest: distinct_ids_eq)
  from schema_ok_refs(1) [OF assms(1) c(1)] obtain q
    where q: "q \<in> set (properties (working s))" "row_id q = contract_property_id c"
    by (auto simp: ids_def)
  have r: "resolve_property p (Some i) g s = (Inr (Some pr), s) \<longleftrightarrow> pr = q" for pr
  proof -
    have "get_row properties_tbl (contract_property_id c) (working s) = Some q"
      using q keys(1) by (simp add: get_row_Some_iff)
    with assms(3) g show ?thesis by (auto simp: resolve_property_Inr)
  qed
  have "i \<in> set (owned_contract_ids m (working s)) \<longleftrightarrow> manager_id q = Some m" for m
  proof -
    have "i \<in> set (owned_contract_ids m (working s)) \<longleftrightarrow>
        contract_property_id c \<in> set (owned_property_ids m (working s))"
      unfolding owned_contract_ids_iff using c u by blast
    also have "\<dots> \<longleftrightarrow> manager_id q = Some m"
      using q keys(1) by (auto simp: owned_property_ids_iff dest: distinct_ids_eq)
    finally show ?thesis .
  qed
  then show ?thesis by (simp add: authorize_Inr r)
qed

section \<open>The contract of a scoped repository\<close>

text \<open>
  What the listing expects of a repository: pages of the rows in creation order, those
  visible to the manager in the scoped variants, with matching counts. The bounds are those
  of a well-formed request; some repositories clamp, one passes the values through.
\<close>

locale manager_scope =
  fixes T :: "('a row_scheme) tbl"
    and R :: "('a row_scheme) scoped_repo"
    and visible :: "uuid \<Rightarrow> tables \<Rightarrow> 'a row_scheme \<Rightarrow> bool"
  assumes get_all_law: "0 \<le> sk \<Longrightarrow> 0 \<le> li \<Longrightarrow> li \<le> 100 \<Longrightarrow>
      get_all R sk li s = (Inr (page sk li (build_query T (\<lambda>_. True) (working s))), s)"
    and count_all_law: "count_all R s = (Inr (length (rows T (working s))), s)"
    and get_all_for_manager_law: "0 \<le> sk \<Longrightarrow> 0 \<le> li \<Longrightarrow> li \<le> 100 \<Longrightarrow>
      get_all_for_manager R m sk li s =
        (Inr (page sk li (build_query T (visible m (working s)) (working s))), s)"
    and count_all_for_manager_law: "count_all_for_manager R m s =
      (Inr (length (filter (visible m (working s)) (rows T (working s)))), s)"
begin

definition seen_by :: "user \<Rightarrow> tables \<Rightarrow> 'a row_scheme \<Rightarrow> bool" where
  "seen_by u t r \<longleftrightarrow> role u = ADMIN \<or> role u = MANAGER \<and> visible (row_id u) t r"

lemma seen_by_eq:
  "role u = ADMIN \<Longrightarrow> seen_by u t = (\<lambda>_. True)"
  "role u = MANAGER \<Longrightarrow> seen_by u t = visible (row_id u) t"
  by (auto simp: seen_by_def)

lemma list_result:
  assumes "MANAGER \<le> role u" "0 \<le> sk" "0 \<le> li" "li \<le> 100"
  shows "list_scoped_by_manager f u R sk li s =
    (Inr \<lparr>items = page sk li (build_query T (seen_by u (working s)) (working s)),
          total = length (filter (seen_by u (working s)) (rows T (working s)))\<rparr>, s)"
  using assms
  by (auto simp: list_scoped_by_manager_def seen_by_eq bnd_def ret_def get_all_law count_all_law
      get_all_for_manager_law count_all_for_manager_law)

lemma list_denied:
  "role u = USER \<Longrightarrow>
     list_scoped_by_manager f u R sk li s = (Inl (ResourceForbiddenError f not_authorized), s)"
  by (simp add: list_scoped_by_manager_def raise_def)

definition page_no :: "forbidden_kind \<Rightarrow> user \<Rightarrow> session \<Rightarrow> nat \<Rightarrow> 'a row_scheme list" where
  "page_no f u s k = items (projr (fst (list_scoped_by_manager f u R (int (k * 100)) 100 s)))"

lemma page_no_eq:
  "MANAGER \<le> role u \<Longrightarrow>
     page_no f u s k = page (int (k * 100)) 100 (build_query T (seen_by u (working s)) (working s))"
  by (simp add: page_no_def list_result del: of_nat_mult)

text \<open>Reading page after page gives each row the caller may see, once, in creation order.\<close>

lemma pages_complete:
  assumes "MANAGER \<le> role u" "length (rows T (working s)) \<le> k * 100"
  shows "concat (map (page_no f u s) [0..<k]) = build_query T (seen_by u (working s)) (working s)"
proof -
  let ?q = "build_query T (seen_by u (working s)) (working s)"
  have "length ?q \<le> k * 100"
    using assms(2) length_filter_le [of "seen_by u (working s)" "rows T (working s)"] by (simp del: length_filter_le)
  with page_concat [of 100 ?q k] show ?thesis
    using assms(1) by (simp add: page_no_eq cong: map_cong)
qed

lemma listed_iff:
  assumes "MANAGER \<le> role u"
  shows "(\<exists>k. r \<in> set (page_no f u s k)) \<longleftrightarrow>
    r \<in> set (rows T (working s)) \<and> seen_by u (working s) r"
proof
  assume "\<exists>k. r \<in> set (page_no f u s k)"
  with assms show "r \<in> set (rows T (working s)) \<and> seen_by u (working s) r"
    by (auto simp: page_no_eq dest: in_page_D)
next
  let ?n = "length (rows T (working s))"
  assume "r \<in> set (rows T (working s)) \<and> seen_by u (working s) r"
  then have "r \<in> set (concat (map (page_no f u s) [0..<?n]))"
    using pages_complete [OF assms, of s ?n f] by (simp del: set_concat)
  then show "\<exists>k. r \<in> set (page_no f u s k)" by auto
qed

end

text \<open>
  A resource whose listing and whose single-item lookup are guarded by the same rule.
\<close>

locale scoped_resource = manager_scope T R visible
  for T :: "('a row_scheme) tbl" and R and visible +
  fixes get :: "uuid \<Rightarrow> user \<Rightarrow> ('a row_scheme) svc"
  assumes get_law: "schema_ok (working s) \<Longrightarrow> r \<in> set (rows T (working s)) \<Longrightarrow>
      get (row_id r) u s = (Inr r, s) \<longleftrightarrow>
        role u = ADMIN \<or> role u = MANAGER \<and> visible (row_id u) (working s) r"
    and keys_law: "schema_ok t \<Longrightarrow> distinct (ids (rows T t))"
begin

lemma listed_iff_gettable:
  assumes "schema_ok (working s)" "MANAGER \<le> role u" "r \<in> set (rows T (working s))"
  shows "(\<exists>k. r \<in> set (page_no f u s k)) \<longleftrightarrow> get (row_id r) u s = (Inr r, s)"
  using assms by (simp add: listed_iff get_law seen_by_def)

lemma listed_once:
  assumes "schema_ok (working s)" "MANAGER \<le> role u" "length (rows T (working s)) \<le> k * 100"
  shows "distinct (concat (map (page_no f u s) [0..<k]))"
proof -
  have "distinct (rows T (working s))"
    using keys_law [OF assms(1)] by (simp add: ids_def distinct_map)
  then show ?thesis
    using pages_complete [OF assms(2,3), of f] by (simp add: build_query_def)
qed

text \<open>The same for every caller: a plain user gets neither.\<close>

lemma listing_agrees_with_lookup:
  assumes "schema_ok (working s)" "r \<in> set (rows T (working s))"
  shows "(\<exists>k its n. list_scoped_by_manager f u R (int (k * 100)) 100 s =
      (Inr \<lparr>items = its, total = n\<rparr>, s) \<and> r \<in> set its) \<longleftrightarrow> get (row_id r) u s = (Inr r, s)"
proof (cases "role u = USER")
  case True
  with assms show ?thesis by (simp add: list_denied get_law)
next
  case False
  then have u: "MANAGER \<le> role u" by (cases "role u") simp_all
  have "list_scoped_by_manager f u R (int (k * 100)) 100 s =
      (Inr \<lparr>items = page_no f u s k,
            total = length (filter (seen_by u (working s)) (rows T (working s)))\<rparr>, s)" for k
    using u by (simp add: list_result page_no_eq del: of_nat_mult)
  then show ?thesis
    using listed_iff_gettable [OF assms(1) u assms(2), of f] by auto
qed

end

end
