(* ===== verification/Samples.thy ===== *)
theory Samples
  imports Authorization
begin

text \<open>
  A small database on which the properties are tried out: an administrator, two managers
  and a plain user; a property with a manager, occupied under an active long-term contract
  with a lease and one billing record, and a vacant property without a manager.
\<close>

definition sample_user :: "uuid \<Rightarrow> string \<Rightarrow> user_role \<Rightarrow> user" where
  "sample_user i name r =
     \<lparr>row_id = i, created_at = 0, updated_at = 0, username = name, user_email = name @ ''@x.org'',
      user_full_name = name, password_hash = ''h:'' @ name, password_changed_at = 0, role = r,
      user_is_active = True\<rparr>"

definition ann :: user where "ann = sample_user 1 ''ann'' ADMIN"
definition mgr :: user where "mgr = sample_user 2 ''mgr'' MANAGER"
definition mia :: user where "mia = sample_user 3 ''mia'' MANAGER"
definition uwe :: user where "uwe = sample_user 4 ''uwe'' USER"

definition sample_property :: "uuid \<Rightarrow> string \<Rightarrow> uuid option \<Rightarrow> property_status \<Rightarrow> property" where
  "sample_property i name m st =
     \<lparr>row_id = i, created_at = int i, updated_at = 0, prop_name = name, prop_address = ''Main St'',
      prop_description = None, manager_id = m, prop_status = st, prop_is_active = True\<rparr>"

definition sample_tenant :: "uuid \<Rightarrow> string \<Rightarrow> tenant" where
  "sample_tenant i name =
     \<lparr>row_id = i, created_at = int i, updated_at = 0, tenant_full_name = name,
      tenant_email = name @ ''@y.org'', phone_number = ''1'', current_address = ''Elm St'',
      date_of_birth = 725000, occupation = None, tenant_notes = None, tenant_is_active = True,
      tenant_user_id = None\<rparr>"

definition sample_contract :: "uuid \<Rightarrow> uuid \<Rightarrow> uuid \<Rightarrow> contract_status \<Rightarrow> contract" where
  "sample_contract i p t st =
     \<lparr>row_id = i, created_at = int i, updated_at = 0, contract_property_id = p,
      contract_tenant_id = t, contract_rental_type = LongTerm, contract_start = 738000,
      contract_end = None, rent_amount = 100000, deposit = None, booking_source = ''direct'',
      contract_status = st\<rparr>"

text \<open>Rent 1000.00, five percent late fee, three days of grace.\<close>

definition sample_lease :: "uuid \<Rightarrow> uuid \<Rightarrow> lease" where
  "sample_lease i c =
     \<lparr>row_id = i, created_at = int i, updated_at = 0, lease_contract_id = c, monthly_rent = 100000,
      due_day = 5, billing_cycle = Monthly, security_deposit = None, advance_payment = None,
      late_fee_amount = None, late_fee_percent = Some 500, grace_period_days = 3,
      renewal_option = RenewNone, lease_status = LeaseActive, lease_start = 738000,
      lease_end = None\<rparr>"

definition sample_billing_record :: "uuid \<Rightarrow> uuid \<Rightarrow> br_status \<Rightarrow> billing_record" where
  "sample_billing_record i l st =
     \<lparr>row_id = i, created_at = int i, updated_at = 0, br_lease_id = l, period_start = 738000,
      period_end = 738030, due_date = 738005, amount_due = 100000, late_fee_applied = False,
      late_fee_amount_charged = None, overpaid_amount = None, br_status = st\<rparr>"

definition sample_payment :: "uuid \<Rightarrow> uuid \<Rightarrow> uuid option \<Rightarrow> money \<Rightarrow> payment_status \<Rightarrow> payment" where
  "sample_payment i c b amt st =
     \<lparr>row_id = i, created_at = int i, updated_at = 0, pay_contract_id = c, billing_record_id = b,
      pay_amount = amt, paid_at = int i, payment_method = None, pay_status = st,
      reference_number = None, corrects_payment_id = None\<rparr>"

definition sample_tables :: tables where
  "sample_tables = empty_tables\<lparr>
     users := [ann, mgr, mia, uwe],
     properties := [sample_property 10 ''Villa'' (Some 2) Occupied, sample_property 11 ''Loft'' None Vacant],
     tenants := [sample_tenant 20 ''tom'', sample_tenant 21 ''tia''],
     contracts := [sample_contract 30 10 20 ContractActive],
     leases := [sample_lease 40 30],
     billing_records := [sample_billing_record 50 40 Pending]\<rparr>"

text \<open>A session just opened on committed tables; the driver reports the constraint names.\<close>

definition session_of :: "tables \<Rightarrow> session" where
  "session_of t =
     \<lparr>committed = t, working = t, cash_seq = 0, receipt_seq = 0, clock = 1000,
      local_today = 738100, uuid_source = (\<lambda>n. 1000 + n), uuid_drawn = 0, pg_error = concat\<rparr>"

lemma session_of_simps [simp]:
  "committed (session_of t) = t" "working (session_of t) = t" "clock (session_of t) = 1000"
  "local_today (session_of t) = 738100" "pg_error (session_of t) = concat"
  by (simp_all add: session_of_def)

lemma schema_ok_sample: "schema_ok sample_tables"
  by code_simp

text \<open>Running a step whose outcome is known.\<close>

lemma run_ok: "\<not> isl (fst (m s)) \<Longrightarrow> \<exists>x. m s = (Inr x, snd (m s))"
  by (metis isl_def prod.collapse sum.exhaust_sel)

lemma run_Inr: "fst (m s) = Inr x \<Longrightarrow> m s = (Inr x, snd (m s))"
  by (metis prod.collapse)

lemma run_Inl: "fst (m s) = Inl e \<Longrightarrow> m s = (Inl e, snd (m s))"
  by (metis prod.collapse)

lemma run_case: "\<not> isl (fst (m s)) \<Longrightarrow> (case m s of (Inr x, s') \<Rightarrow> P s' | _ \<Rightarrow> True) \<Longrightarrow> P (snd (m s))"
  by (auto split: prod.splits sum.splits)

lemma pure_run: "pure_read m \<Longrightarrow> fst (m s) = Inr x \<Longrightarrow> m s = (Inr x, s)"
  by (metis prod.collapse pure_read_def)

end
