(* ===== verification/PropertyService.thy ===== *)
theory PropertyService
  imports Samples
begin

text \<open>
  The properties component: PropertyRepository (app/properties/repositories/property.py),
  the request bodies (app/properties/schemas/property.py) and PropertyService
  (app/properties/services/property_service.py).
\<close>

section \<open>Repository\<close>

definition property_get_by_status :: "property_status \<Rightarrow> property list svc" where
  "property_get_by_status st = repo_all properties_tbl (\<lambda>p. prop_status p = st)"

definition property_visible :: "uuid \<Rightarrow> tables \<Rightarrow> property \<Rightarrow> bool" where
  "property_visible m t p \<longleftrightarrow> manager_id p = Some m"

text \<open>Unlike every other repository this one does not clamp \<open>skip\<close> and \<open>limit\<close>.\<close>

definition property_get_all_for_manager :: "uuid \<Rightarrow> int \<Rightarrow> int \<Rightarrow> property list svc" where
  "property_get_all_for_manager m skip limit =
     bnd (query (\<lambda>t. build_query properties_tbl (property_visible m t) t)) (offset_limit skip limit)"

definition property_count_all :: "nat svc" where
  "property_count_all = repo_count properties_tbl (\<lambda>_. True)"

definition property_count_all_for_manager :: "uuid \<Rightarrow> nat svc" where
  "property_count_all_for_manager m = repo_count properties_tbl (\<lambda>p. manager_id p = Some m)"

definition count_vacant :: "nat svc" where
  "count_vacant = repo_count properties_tbl (\<lambda>p. prop_status p = Vacant)"

definition count_vacant_for_manager :: "uuid \<Rightarrow> nat svc" where
  "count_vacant_for_manager m =
     repo_count properties_tbl (\<lambda>p. prop_status p = Vacant \<and> manager_id p = Some m)"

definition property_repo :: "property scoped_repo" where
  "property_repo = \<lparr>get_all = repo_get_all properties_tbl, count_all = property_count_all,
     get_all_for_manager = property_get_all_for_manager,
     count_all_for_manager = property_count_all_for_manager\<rparr>"

section \<open>Request bodies\<close>

record property_create =
  pc_name :: string
  pc_address :: string
  pc_description :: "string option"
  pc_status :: property_status

record property_update =
  pu_name :: "string patch"
  pu_address :: "string patch"
  pu_description :: "string patch"
  pu_status :: "property_status patch"
  pu_is_active :: "bool patch"

definition new_property :: "property_create \<Rightarrow> uuid \<Rightarrow> instant \<Rightarrow> property" where
  "new_property pl i n =
     \<lparr>row_id = i, created_at = n, updated_at = n, prop_name = pc_name pl,
      prop_address = pc_address pl, prop_description = pc_description pl, manager_id = None,
      prop_status = pc_status pl, prop_is_active = True\<rparr>"

definition assign_property_update :: "property_update \<Rightarrow> property \<Rightarrow> property" where
  "assign_property_update pl p = p\<lparr>
     prop_name := set_req (pu_name pl) (prop_name p),
     prop_address := set_req (pu_address pl) (prop_address p),
     prop_description := set_null (pu_description pl) (prop_description p),
     prop_status := set_req (pu_status pl) (prop_status p),
     prop_is_active := set_req (pu_is_active pl) (prop_is_active p)\<rparr>"

definition property_update_nulls :: "property_update \<Rightarrow> string list" where
  "property_update_nulls pl =
     null_viol ''name'' (pu_name pl) @ null_viol ''address'' (pu_address pl) @
     null_viol ''status'' (pu_status pl) @ null_viol ''is_active'' (pu_is_active pl)"

section \<open>Service\<close>

definition property_forbidden :: "string \<Rightarrow> svc_error" where
  "property_forbidden = ResourceForbiddenError PropertyForbidden"

definition list_properties :: "user \<Rightarrow> int \<Rightarrow> int \<Rightarrow> property paginated svc" where
  "list_properties current_user skip limit =
     list_scoped_by_manager ResourceForbidden current_user property_repo skip limit"

definition get_property :: "uuid \<Rightarrow> user \<Rightarrow> property svc" where
  "get_property prop_id current_user =
     bnd (found_or (RelatedResourceNotFoundError ''Property'' prop_id)
            (repo_get_by_id properties_tbl prop_id)) (\<lambda>prop.
     let is_admin = (role current_user = ADMIN);
         is_owning_manager = (role current_user = MANAGER \<and> Some (row_id current_user) = manager_id prop)
     in bnd (raise_if (\<not> (is_admin \<or> is_owning_manager))
               (property_forbidden ''Property is not accessible for this user'')) (\<lambda>_.
        ret prop))"

definition raise_if_name_address_conflict :: "string \<Rightarrow> 'a svc" where
  "raise_if_name_address_conflict msg =
     (if substr ''uq_property_name_address'' msg then raise PropertyAlreadyExistsError
      else raise (IntegrityError msg))"

definition create_property :: "property_create \<Rightarrow> user \<Rightarrow> property svc" where
  "create_property payload current_user =
     bnd (raise_if (role current_user \<noteq> ADMIN)
            (property_forbidden ''Only admins may create properties.'')) (\<lambda>_.
     try_except
       (bnd (repo_create properties_tbl (new_property payload)) (\<lambda>prop.
        bnd (write_audit_log current_user CREATE ''Property'' (row_id prop)) (\<lambda>_.
        bnd commit (\<lambda>_.
        ret prop))))
       (on_integrity raise_if_name_address_conflict))"

definition update_property :: "uuid \<Rightarrow> property_update \<Rightarrow> user \<Rightarrow> property option svc" where
  "update_property prop_id payload current_user =
     bnd (get_property prop_id current_user) (\<lambda>_.
     try_except
       (bnd (repo_update properties_tbl prop_id (property_update_nulls payload)
              (assign_property_update payload)) (\<lambda>prop.
        bnd (write_audit_log current_user UPDATE ''Property'' prop_id) (\<lambda>_.
        bnd commit (\<lambda>_.
        ret prop))))
       (on_integrity raise_if_name_address_conflict))"

definition delete_property :: "uuid \<Rightarrow> user \<Rightarrow> property option svc" where
  "delete_property prop_id current_user =
     bnd (get_property prop_id current_user) (\<lambda>_.
     try_except
       (bnd (repo_delete properties_tbl (\<lambda>_ t. t) prop_id) (\<lambda>prop.
        bnd (write_audit_log current_user DELETE ''Property'' prop_id) (\<lambda>_.
        bnd commit (\<lambda>_.
        ret prop))))
       (on_integrity (\<lambda>_. raise PropertyInUseError)))"

definition assign_manager :: "uuid \<Rightarrow> uuid \<Rightarrow> user \<Rightarrow> property option svc" where
  "assign_manager prop_id manager current_user =
     bnd (raise_if (role current_user \<noteq> ADMIN)
            (property_forbidden ''Only admins may assign managers to properties.'')) (\<lambda>_.
     bnd (get_property prop_id current_user) (\<lambda>_.
     bnd (found_or UserNotFoundError (repo_get_by_id users_tbl manager)) (\<lambda>u.
     bnd (raise_if (role u \<noteq> MANAGER) PropertyManagerAssignmentError) (\<lambda>_.
     bnd (repo_update properties_tbl prop_id [] (\<lambda>p. p\<lparr>manager_id := Some manager\<rparr>)) (\<lambda>prop.
     bnd (write_audit_log current_user UPDATE ''Property'' prop_id) (\<lambda>_.
     bnd commit (\<lambda>_.
     ret prop)))))))"

section \<open>Lemmas\<close>

lemma get_property_Inr:
  "get_property i u s = (Inr p, s') \<longleftrightarrow> s' = s \<and> get_row properties_tbl i (working s) = Some p \<and>
     (role u = ADMIN \<or> role u = MANAGER \<and> manager_id p = Some (row_id u))"
  by (auto simp: get_property_def svc_iffs Let_def)

lemma pure_read_get_property [atomic_intros]: "pure_read (get_property i u)"
  unfolding get_property_def Let_def by (intro atomic_intros)

lemma logs_get_property [trail_intros]: "logs [] (get_property i u)"
  by (rule logs_pure, rule atomic_intros)

lemma name_address_raises [simp]: "raises raise_if_name_address_conflict"
  by (simp add: raise_if_name_address_conflict_def [abs_def])

lemma atomic_property_service [atomic_intros]:
  "atomic (create_property pl u)" "atomic (update_property i upl u)" "atomic (delete_property i u)"
  "atomic (assign_manager i m u)"
  unfolding create_property_def update_property_def delete_property_def assign_manager_def
  by (intro atomic_intros raises_on_integrity name_address_raises raises_raise)+

lemma logs_property_service:
  "logs [(CREATE, ''Property'')] (create_property pl u)"
  "logs [(UPDATE, ''Property'')] (update_property i upl u)"
  "logs [(DELETE, ''Property'')] (delete_property i u)"
  "logs [(UPDATE, ''Property'')] (assign_manager i m u)"
  unfolding create_property_def update_property_def delete_property_def assign_manager_def
  by (intro trail_intros raises_on_integrity name_address_raises raises_raise refl)+

interpretation property_scope: scoped_resource properties_tbl property_repo property_visible get_property
proof
  fix sk li :: int and s m
  assume b: "0 \<le> sk" "0 \<le> li" "li \<le> 100"
  then show "get_all property_repo sk li s =
      (Inr (page sk li (build_query properties_tbl (\<lambda>_. True) (working s))), s)"
    by (simp add: property_repo_def)
  show "get_all_for_manager property_repo m sk li s =
      (Inr (page sk li (build_query properties_tbl (property_visible m (working s)) (working s))), s)"
    using b by (simp add: property_repo_def property_get_all_for_manager_def svc offset_limit_def
        page_def ret_def)
next
  fix s m
  show "count_all property_repo s = (Inr (length (rows properties_tbl (working s))), s)"
    by (simp add: property_repo_def property_count_all_def)
  show "count_all_for_manager property_repo m s =
      (Inr (length (filter (property_visible m (working s)) (rows properties_tbl (working s)))), s)"
    by (simp add: property_repo_def property_count_all_for_manager_def property_visible_def
        [abs_def])
next
  fix s :: session and p u assume "schema_ok (working s)" "p \<in> set (rows properties_tbl (working s))"
  then show "get_property (row_id p) u s = (Inr p, s) \<longleftrightarrow>
      role u = ADMIN \<or> role u = MANAGER \<and> property_visible (row_id u) (working s) p"
    by (simp add: get_property_Inr get_row_Some_iff schema_ok_keys property_visible_def)
next
  fix t assume "schema_ok t"
  then show "distinct (ids (rows properties_tbl t))" by (simp add: schema_ok_keys)
qed

section \<open>Managers\<close>

text \<open>Who is assigned to a property is a user with the manager role.\<close>

definition managers_ok :: "tables \<Rightarrow> bool" where
  "managers_ok t \<longleftrightarrow>
     list_all (\<lambda>p. case manager_id p of None \<Rightarrow> True
                   | Some m \<Rightarrow> list_ex (\<lambda>x. row_id x = m \<and> role x = MANAGER) (users t)) (properties t)"

lemma managers_ok_iff:
  "managers_ok t \<longleftrightarrow>
     (\<forall>p\<in>set (properties t). \<forall>m. manager_id p = Some m \<longrightarrow>
        (\<exists>x\<in>set (users t). row_id x = m \<and> role x = MANAGER))"
  by (simp add: managers_ok_def list_all_iff list_ex_iff split: option.split)

lemma managers_ok_cong:
  assumes "managers_ok t" "users t' = users t"
    and "\<forall>p\<in>set (properties t'). \<forall>m. manager_id p = Some m \<longrightarrow>
      (\<exists>q\<in>set (properties t). manager_id q = Some m)"
  shows "managers_ok t'"
  using assms unfolding managers_ok_iff by metis

lemma assign_property_update_simps [simp]:
  "manager_id (assign_property_update pl p) = manager_id p"
  "row_id (assign_property_update pl p) = row_id p"
  by (simp_all add: assign_property_update_def)

lemma touch_manager_id [simp]: "manager_id (touch n f p) = manager_id (f p)"
  by (simp add: touch_def Let_def)

text \<open>The working tables after each operation.\<close>

lemma create_property_Inr:
  assumes "create_property pl u s = (Inr p, s')"
  shows "\<exists>i n. p = new_property pl i n \<and> properties (working s') = properties (working s) @ [p] \<and>
    users (working s') = users (working s)"
  using assms
  by (auto simp: create_property_def svc_iffs repo_iffs write_audit_log_iff)

lemma update_property_Inr:
  assumes "update_property i pl u s = (Inr r, s')"
  shows "properties (working s') =
      map_row i (touch (clock s) (assign_property_update pl)) (properties (working s)) \<and>
    users (working s') = users (working s)"
  using assms
  by (auto simp: update_property_def svc_iffs repo_iffs write_audit_log_iff get_property_Inr)

lemma delete_property_Inr:
  assumes "delete_property i u s = (Inr r, s')"
  shows "properties (working s') = filter (\<lambda>p. row_id p \<noteq> i) (properties (working s)) \<and>
    users (working s') = users (working s)"
  using assms
  by (auto simp: delete_property_def svc_iffs repo_iffs write_audit_log_iff get_property_Inr)

lemma assign_manager_Inr:
  assumes "assign_manager i m u s = (Inr r, s')"
  shows "role u = ADMIN \<and> i \<in> set (ids (properties (working s))) \<and>
    (\<exists>x. get_row users_tbl m (working s) = Some x \<and> role x = MANAGER) \<and>
    properties (working s') =
      map_row i (touch (clock s) (\<lambda>p. p\<lparr>manager_id := Some m\<rparr>)) (properties (working s)) \<and>
    users (working s') = users (working s)"
proof -
  have "get_row properties_tbl i (working s) = Some p \<Longrightarrow> i \<in> set (ids (properties (working s)))" for p
    using get_row_ex [of properties_tbl i "working s"] by auto
  with assms show ?thesis
    by (auto simp: assign_manager_def svc_iffs repo_iffs write_audit_log_iff get_property_Inr)
qed

lemma managers_ok_create:
  assumes "managers_ok (working s)" "create_property pl u s = (Inr p, s')"
  shows "managers_ok (working s')"
  using assms(1) create_property_Inr [OF assms(2)]
  by (elim managers_ok_cong) (auto simp: new_property_def)

lemma managers_ok_update:
  assumes "managers_ok (working s)" "update_property i upl u s = (Inr r, s')"
  shows "managers_ok (working s')"
  using assms(1) update_property_Inr [OF assms(2)]
  by (elim managers_ok_cong) (simp, simp add: ball_map_row, blast)

lemma managers_ok_delete:
  assumes "managers_ok (working s)" "delete_property i u s = (Inr r, s')"
  shows "managers_ok (working s')"
  using assms(1) delete_property_Inr [OF assms(2)]
  by (elim managers_ok_cong) auto

lemma managers_ok_assign:
  assumes "managers_ok (working s)" "assign_manager i m u s = (Inr r, s')"
  shows "managers_ok (working s')"
proof -
  from assign_manager_Inr [OF assms(2)] obtain x where
    x: "x \<in> set (users (working s))" "row_id x = m" "role x = MANAGER"
    and t: "properties (working s') =
      map_row i (touch (clock s) (\<lambda>p. p\<lparr>manager_id := Some m\<rparr>)) (properties (working s))"
      "users (working s') = users (working s)"
    by (auto dest: get_row_SomeD)
  show ?thesis
    using assms(1) x unfolding managers_ok_iff
    by (simp add: t ball_map_row) blast
qed

text \<open>The properties with their managers.\<close>

definition managed :: "tables \<Rightarrow> (uuid \<times> uuid option) list" where
  "managed t = map (\<lambda>p. (row_id p, manager_id p)) (properties t)"

section \<open>Properties\<close>

text \<open>
  C7. Who manages what: a new property is added without a manager, an update leaves the manager
  of every property as it is, a deletion takes away one property and leaves the other managers,
  and \<open>assign_manager\<close> sets the manager of exactly one property, for an administrator and after
  checking the role of the new manager; each change is committed, and if every assigned manager
  held the manager role before, it is so afterwards.
\<close>

theorem property_operations_keep_managers:
  assumes "managers_ok (working s)"
  shows "(create_property pl u s = (Inr p, s') \<longrightarrow>
      managed (committed s') = managed (working s) @ [(row_id p, None)] \<and> managers_ok (committed s')) \<and>
    (update_property i upl u s = (Inr r, s') \<longrightarrow>
      managed (committed s') = managed (working s) \<and> managers_ok (committed s')) \<and>
    (delete_property i u s = (Inr r, s') \<longrightarrow>
      managed (committed s') = filter (\<lambda>(k, m). k \<noteq> i) (managed (working s)) \<and> managers_ok (committed s')) \<and>
    (assign_manager i m u s = (Inr r, s') \<longrightarrow>
      managed (committed s') = map (\<lambda>(k, old). (k, if k = i then Some m else old)) (managed (working s)) \<and>
      managers_ok (committed s') \<and> role u = ADMIN \<and> i \<in> set (ids (properties (working s))) \<and>
      (\<exists>x\<in>set (users (working s)). row_id x = m \<and> role x = MANAGER))"
proof (intro conjI impI)
  assume a: "create_property pl u s = (Inr p, s')"
  have c: "committed s' = working s'" using a atomic_property_service(1) by (blast dest: atomic_Inr)
  show "managed (committed s') = managed (working s) @ [(row_id p, None)]"
    using create_property_Inr [OF a] unfolding c by (auto simp: managed_def new_property_def)
  show "managers_ok (committed s')" using managers_ok_create [OF assms a] by (simp add: c)
next
  assume a: "update_property i upl u s = (Inr r, s')"
  have c: "committed s' = working s'" using a atomic_property_service(2) by (blast dest: atomic_Inr)
  show "managed (committed s') = managed (working s)"
    using update_property_Inr [OF a] unfolding c by (auto simp: managed_def map_row_def)
  show "managers_ok (committed s')" using managers_ok_update [OF assms a] by (simp add: c)
next
  assume a: "delete_property i u s = (Inr r, s')"
  have c: "committed s' = working s'" using a atomic_property_service(3) by (blast dest: atomic_Inr)
  show "managed (committed s') = filter (\<lambda>(k, m). k \<noteq> i) (managed (working s))"
    using delete_property_Inr [OF a] unfolding c by (simp add: managed_def filter_map comp_def)
  show "managers_ok (committed s')" using managers_ok_delete [OF assms a] by (simp add: c)
next
  assume a: "assign_manager i m u s = (Inr r, s')"
  have c: "committed s' = working s'" using a atomic_property_service(4) by (blast dest: atomic_Inr)
  note x = assign_manager_Inr [OF a]
  show "managed (committed s') = map (\<lambda>(k, old). (k, if k = i then Some m else old)) (managed (working s))"
    using x unfolding c by (auto simp: managed_def map_row_def)
  show "managers_ok (committed s')" using managers_ok_assign [OF assms a] by (simp add: c)
  show "role u = ADMIN" "i \<in> set (ids (properties (working s)))" using x by simp_all
  show "\<exists>x\<in>set (users (working s)). row_id x = m \<and> role x = MANAGER" using x get_row_SomeD [of users_tbl m "working s"] by auto
qed

theorem property_operations_keep_managers_witness:
  "managed (committed (snd (assign_manager 11 3 ann (session_of sample_tables)))) = [(10, Some 2), (11, Some 3)] \<and>
   managers_ok (committed (snd (assign_manager 11 3 ann (session_of sample_tables))))"
proof -
  have "\<not> isl (fst (assign_manager 11 3 ann (session_of sample_tables)))"
    by code_simp
  then obtain r where r: "assign_manager 11 3 ann (session_of sample_tables) =
      (Inr r, snd (assign_manager 11 3 ann (session_of sample_tables)))"
    by (blast dest: run_ok)
  have ok: "managers_ok (working (session_of sample_tables))" by code_simp
  have "managed (working (session_of sample_tables)) = [(10, Some 2), (11, None)]" by code_simp
  moreover note property_operations_keep_managers [OF ok, of undefined ann undefined
      "snd (assign_manager 11 3 ann (session_of sample_tables))" 11 undefined r 3] r
  ultimately show ?thesis by auto
qed

text \<open>
  A manager who pages through the property list finds exactly the properties that a
  lookup by id grants, an administrator finds all of them, and a plain user is refused both.
\<close>

theorem property_list_agrees_with_lookup:
  assumes "schema_ok (working s)" "p \<in> set (properties (working s))"
  shows "(\<exists>k its n. list_properties u (int (k * 100)) 100 s = (Inr \<lparr>items = its, total = n\<rparr>, s) \<and>
            p \<in> set its) \<longleftrightarrow>
         get_property (row_id p) u s = (Inr p, s)"
  unfolding list_properties_def
  using assms by (intro property_scope.listing_agrees_with_lookup) simp_all

theorem property_list_agrees_with_lookup_witness:
  "\<exists>k its n. list_properties mgr (int (k * 100)) 100 (session_of sample_tables) =
     (Inr \<lparr>items = its, total = n\<rparr>, session_of sample_tables) \<and>
     sample_property 10 ''Villa'' (Some 2) Occupied \<in> set its"
proof -
  have m: "sample_property 10 ''Villa'' (Some 2) Occupied \<in> set (properties sample_tables)"
    by (simp add: sample_tables_def)
  then have "get_property 10 mgr (session_of sample_tables) =
      (Inr (sample_property 10 ''Villa'' (Some 2) Occupied), session_of sample_tables)"
    by (simp add: get_property_Inr get_row_Some_iff schema_ok_keys schema_ok_sample)
      (simp add: mgr_def sample_user_def sample_property_def)
  with m show ?thesis
    using property_list_agrees_with_lookup
      [of "session_of sample_tables" "sample_property 10 ''Villa'' (Some 2) Occupied" mgr]
    by (simp add: schema_ok_sample) (simp add: sample_property_def)
qed

text \<open>
  The scoped query does not clamp its bounds: a manager who asks for a negative
  \<open>skip\<close> or \<open>limit\<close> gets the server's error, whereas an administrator gets the page at 0.
\<close>

theorem negative_skip_fails_for_managers_only:
  assumes "role u = MANAGER" "role a = ADMIN" "skip < 0"
  shows "list_properties u skip limit s = (Inl DatabaseError, s) \<and>
    list_properties a skip limit s = list_properties a 0 limit s"
  using assms
  by (simp add: list_properties_def list_scoped_by_manager_def property_repo_def svc
      property_get_all_for_manager_def offset_limit_def raise_def bnd_def query_def
      repo_get_all_def page_def)

theorem negative_skip_fails_for_managers_only_witness:
  "list_properties mgr (- 1) 10 (session_of sample_tables) = (Inl DatabaseError, session_of sample_tables) \<and>
   list_properties ann (- 1) 10 (session_of sample_tables) = list_properties ann 0 10 (session_of sample_tables)"
  by (rule negative_skip_fails_for_managers_only) (simp_all add: mgr_def ann_def sample_user_def)

end
