(* ===== verification/TenantService.thy ===== *)
theory TenantService
  imports PropertyService
begin

text \<open>
  The tenants component: TenantRepository (app/crm/repositories/tenant.py), the request
  bodies (app/crm/schemas/tenant.py) and TenantService (app/crm/services/tenant_service.py).
\<close>

section \<open>Repository\<close>

definition normalize_email :: "string \<Rightarrow> string" where
  "normalize_email email = py_lower (py_strip email)"

text \<open>SQL \<open>LIKE\<close> with its wildcards and the escape character; \<open>ILIKE\<close> ignores case.\<close>

function like :: "string \<Rightarrow> string \<Rightarrow> bool" where
  "like [] s = (s = [])"
| "like (p # ps) s =
     (if p = CHR 0x5C then
        (case ps of [] \<Rightarrow> False
         | q # qs \<Rightarrow> (case s of [] \<Rightarrow> False | c # cs \<Rightarrow> c = q \<and> like qs cs))
      else if p = CHR ''%'' then
        like ps s \<or> (case s of [] \<Rightarrow> False | c # cs \<Rightarrow> like (p # ps) cs)
      else (case s of [] \<Rightarrow> False | c # cs \<Rightarrow> (p = CHR ''_'' \<or> p = c) \<and> like ps cs))"
  by pat_completeness auto
termination by (relation "measure (\<lambda>(p, s). length p + length s)") auto

definition ilike_contains :: "string \<Rightarrow> string \<Rightarrow> bool" where
  "ilike_contains part s = like (py_lower (''%'' @ part @ ''%'')) (py_lower s)"

definition tenant_get_by_email :: "string \<Rightarrow> tenant option svc" where
  "tenant_get_by_email email = repo_first tenants_tbl (\<lambda>n. tenant_email n = normalize_email email)"

definition tenant_get_by_phone_number :: "string \<Rightarrow> tenant option svc" where
  "tenant_get_by_phone_number phone = repo_first tenants_tbl (\<lambda>n. phone_number n = phone)"

definition tenant_search :: "(tenant \<Rightarrow> bool) \<Rightarrow> int \<Rightarrow> int \<Rightarrow> tenant list svc" where
  "tenant_search p skip limit = query (\<lambda>t. page skip limit (build_query tenants_tbl p t))"

definition tenant_get_by_full_name :: "string \<Rightarrow> int \<Rightarrow> int \<Rightarrow> tenant list svc" where
  "tenant_get_by_full_name name = tenant_search (\<lambda>n. ilike_contains name (tenant_full_name n))"

definition tenant_get_by_occupation :: "string \<Rightarrow> int \<Rightarrow> int \<Rightarrow> tenant list svc" where
  "tenant_get_by_occupation occ = tenant_search
     (\<lambda>n. case occupation n of None \<Rightarrow> False | Some v \<Rightarrow> ilike_contains occ v)"

definition tenant_get_by_date_of_birth :: "date \<Rightarrow> int \<Rightarrow> int \<Rightarrow> tenant list svc" where
  "tenant_get_by_date_of_birth d = tenant_search (\<lambda>n. date_of_birth n = d)"

definition tenant_get_by_user_id :: "uuid \<Rightarrow> tenant option svc" where
  "tenant_get_by_user_id i = repo_first tenants_tbl (\<lambda>n. tenant_user_id n = Some i)"

text \<open>
  \<open>_accessible_by_manager_clause\<close>: no contract at all, or one on a property of the manager.
\<close>

definition tenant_visible :: "uuid \<Rightarrow> tables \<Rightarrow> tenant \<Rightarrow> bool" where
  "tenant_visible m t n \<longleftrightarrow>
     (let has_any_contract = list_ex (\<lambda>c. contract_tenant_id c = row_id n) (contracts t);
          has_owned_contract = list_ex (\<lambda>c. contract_tenant_id c = row_id n \<and>
            list_ex (\<lambda>p. contract_property_id c = row_id p \<and> manager_id p = Some m) (properties t))
            (contracts t)
      in \<not> has_any_contract \<or> has_owned_contract)"

definition tenant_get_all_for_manager :: "uuid \<Rightarrow> int \<Rightarrow> int \<Rightarrow> tenant list svc" where
  "tenant_get_all_for_manager m skip limit =
     query (\<lambda>t. page skip limit (build_query tenants_tbl (tenant_visible m t) t))"

definition is_accessible_by_manager :: "uuid \<Rightarrow> uuid \<Rightarrow> bool svc" where
  "is_accessible_by_manager i m =
     query (\<lambda>t. filter (\<lambda>n. row_id n = i \<and> tenant_visible m t n) (tenants t) \<noteq> [])"

definition tenant_count_all :: "nat svc" where
  "tenant_count_all = repo_count tenants_tbl (\<lambda>_. True)"

definition tenant_count_all_for_manager :: "uuid \<Rightarrow> nat svc" where
  "tenant_count_all_for_manager m = query (\<lambda>t. length (filter (tenant_visible m t) (tenants t)))"

definition tenant_repo :: "tenant scoped_repo" where
  "tenant_repo = \<lparr>get_all = repo_get_all tenants_tbl, count_all = tenant_count_all,
     get_all_for_manager = tenant_get_all_for_manager,
     count_all_for_manager = tenant_count_all_for_manager\<rparr>"

section \<open>Request bodies\<close>

record tenant_create =
  tc_full_name :: string
  tc_email :: string
  tc_phone_number :: string
  tc_date_of_birth :: date
  tc_current_address :: string
  tc_occupation :: "string option"
  tc_notes :: "string option"
  tc_is_active :: bool

record tenant_update =
  tu_full_name :: "string patch"
  tu_email :: "string patch"
  tu_phone_number :: "string patch"
  tu_date_of_birth :: "date patch"
  tu_current_address :: "string patch"
  tu_occupation :: "string patch"
  tu_notes :: "string patch"
  tu_is_active :: "bool patch"

text \<open>The overridden \<open>create\<close> and \<open>update\<close> normalise the email address.\<close>

definition new_tenant :: "tenant_create \<Rightarrow> uuid \<Rightarrow> instant \<Rightarrow> tenant" where
  "new_tenant pl i n =
     \<lparr>row_id = i, created_at = n, updated_at = n, tenant_full_name = tc_full_name pl,
      tenant_email = normalize_email (tc_email pl), phone_number = tc_phone_number pl,
      current_address = tc_current_address pl, date_of_birth = tc_date_of_birth pl,
      occupation = tc_occupation pl, tenant_notes = tc_notes pl, tenant_is_active = tc_is_active pl,
      tenant_user_id = None\<rparr>"

definition assign_tenant_update :: "tenant_update \<Rightarrow> tenant \<Rightarrow> tenant" where
  "assign_tenant_update pl n = n\<lparr>
     tenant_full_name := set_req (tu_full_name pl) (tenant_full_name n),
     tenant_email := set_req (map_option (map_option normalize_email) (tu_email pl)) (tenant_email n),
     phone_number := set_req (tu_phone_number pl) (phone_number n),
     date_of_birth := set_req (tu_date_of_birth pl) (date_of_birth n),
     current_address := set_req (tu_current_address pl) (current_address n),
     occupation := set_null (tu_occupation pl) (occupation n),
     tenant_notes := set_null (tu_notes pl) (tenant_notes n),
     tenant_is_active := set_req (tu_is_active pl) (tenant_is_active n)\<rparr>"

definition tenant_update_nulls :: "tenant_update \<Rightarrow> string list" where
  "tenant_update_nulls pl =
     null_viol ''full_name'' (tu_full_name pl) @ null_viol ''email'' (tu_email pl) @
     null_viol ''phone_number'' (tu_phone_number pl) @ null_viol ''date_of_birth'' (tu_date_of_birth pl) @
     null_viol ''current_address'' (tu_current_address pl) @ null_viol ''is_active'' (tu_is_active pl)"

section \<open>Service\<close>

definition tenant_not_authorized :: svc_error where
  "tenant_not_authorized =
     ResourceForbiddenError TenantForbidden ''User not authorized to manage this tenant.''"

definition list_tenants :: "user \<Rightarrow> int \<Rightarrow> int \<Rightarrow> tenant paginated svc" where
  "list_tenants current_user skip limit =
     list_scoped_by_manager ResourceForbidden current_user tenant_repo skip limit"

definition authorize_user_to_tenant :: "user \<Rightarrow> uuid \<Rightarrow> unit svc" where
  "authorize_user_to_tenant current_user tenant_id =
     (if role current_user = ADMIN then ret ()
      else if role current_user \<noteq> MANAGER then raise tenant_not_authorized
      else
        bnd (is_accessible_by_manager tenant_id (row_id current_user)) (\<lambda>accessible.
        raise_if (\<not> accessible) tenant_not_authorized))"

definition get_tenant :: "uuid \<Rightarrow> user \<Rightarrow> tenant svc" where
  "get_tenant i current_user =
     bnd (found_or (RelatedResourceNotFoundError ''Tenant'' i) (repo_get_by_id tenants_tbl i)) (\<lambda>n.
     bnd (authorize_user_to_tenant current_user i) (\<lambda>_.
     ret n))"

definition raise_tenant_conflict :: "string \<Rightarrow> 'a svc" where
  "raise_tenant_conflict msg =
     (if substr ''email'' msg then raise TenantAlreadyExistsError else raise (IntegrityError msg))"

definition create_tenant :: "tenant_create \<Rightarrow> user \<Rightarrow> tenant svc" where
  "create_tenant payload current_user =
     bnd (raise_if (role current_user \<notin> {ADMIN, MANAGER})
            (ResourceForbiddenError TenantForbidden ''User not authorized to create tenants.'')) (\<lambda>_.
     bnd (if tc_email payload \<noteq> [] then tenant_get_by_email (tc_email payload) else ret None) (\<lambda>existing.
     bnd (raise_if (existing \<noteq> None) TenantAlreadyExistsError) (\<lambda>_.
     try_except
       (bnd (repo_create tenants_tbl (new_tenant payload)) (\<lambda>n.
        bnd (write_audit_log current_user CREATE ''Tenant'' (row_id n)) (\<lambda>_.
        bnd commit (\<lambda>_.
        ret n))))
       (on_integrity raise_tenant_conflict))))"

definition update_tenant :: "uuid \<Rightarrow> tenant_update \<Rightarrow> user \<Rightarrow> tenant option svc" where
  "update_tenant i payload current_user =
     bnd (get_tenant i current_user) (\<lambda>_.
     bnd (case attr (tu_email payload) of
            None \<Rightarrow> ret None
          | Some e \<Rightarrow> if e = [] then ret None else tenant_get_by_email e) (\<lambda>existing.
     bnd (raise_if (case existing of None \<Rightarrow> False | Some x \<Rightarrow> row_id x \<noteq> i) TenantAlreadyExistsError) (\<lambda>_.
     bnd (try_except
            (repo_update tenants_tbl i (tenant_update_nulls payload) (assign_tenant_update payload))
            (on_integrity raise_tenant_conflict)) (\<lambda>n.
     bnd (write_audit_log current_user UPDATE ''Tenant'' i) (\<lambda>_.
     bnd commit (\<lambda>_.
     ret n))))))"

definition delete_tenant :: "uuid \<Rightarrow> user \<Rightarrow> tenant option svc" where
  "delete_tenant i current_user =
     bnd (get_tenant i current_user) (\<lambda>_.
     try_except
       (bnd (repo_delete tenants_tbl (\<lambda>_ t. t) i) (\<lambda>n.
        bnd (write_audit_log current_user DELETE ''Tenant'' i) (\<lambda>_.
        bnd commit (\<lambda>_.
        ret n))))
       (on_integrity (\<lambda>_. raise TenantInUseError)))"

definition raise_link_conflict :: "string \<Rightarrow> 'a svc" where
  "raise_link_conflict msg =
     bnd rollback (\<lambda>_.
     if substr ''ix_tenants_user_id'' msg \<or> substr ''tenants_user_id'' msg
     then raise (TenantAlreadyLinkedError ''User is already linked to a different tenant.'')
     else raise (IntegrityError msg))"

definition link_user :: "uuid \<Rightarrow> uuid \<Rightarrow> user \<Rightarrow> tenant option svc" where
  "link_user tenant_id user_id current_user =
     bnd (get_tenant tenant_id current_user) (\<lambda>n.
     bnd (found_or UserNotFoundError (repo_get_by_id users_tbl user_id)) (\<lambda>_.
     bnd (raise_if (case tenant_user_id n of None \<Rightarrow> False | Some l \<Rightarrow> l \<noteq> user_id)
            (TenantAlreadyLinkedError ''Tenant is already linked to a different user.'')) (\<lambda>_.
     bnd (tenant_get_by_user_id user_id) (\<lambda>existing_link.
     bnd (raise_if (case existing_link of None \<Rightarrow> False | Some x \<Rightarrow> row_id x \<noteq> tenant_id)
            (TenantAlreadyLinkedError ''User is already linked to a different tenant.'')) (\<lambda>_.
     try_except
       (bnd (repo_update tenants_tbl tenant_id [] (\<lambda>n. n\<lparr>tenant_user_id := Some user_id\<rparr>)) (\<lambda>n'.
        bnd (write_audit_log current_user UPDATE ''Tenant'' tenant_id) (\<lambda>_.
        bnd commit (\<lambda>_.
        ret n'))))
       (on_integrity raise_link_conflict))))))"

definition unlink_user :: "uuid \<Rightarrow> user \<Rightarrow> tenant option svc" where
  "unlink_user tenant_id current_user =
     bnd (get_tenant tenant_id current_user) (\<lambda>_.
     bnd (repo_update tenants_tbl tenant_id [] (\<lambda>n. n\<lparr>tenant_user_id := None\<rparr>)) (\<lambda>n'.
     bnd (write_audit_log current_user UPDATE ''Tenant'' tenant_id) (\<lambda>_.
     bnd commit (\<lambda>_.
     ret n'))))"

section \<open>Lemmas\<close>

lemma normalize_email_idem [simp]: "normalize_email (normalize_email e) = normalize_email e"
  by (simp add: normalize_email_def py_strip_lower)

lemma authorize_user_to_tenant_Inr:
  "authorize_user_to_tenant u i s = (Inr v, s') \<longleftrightarrow> s' = s \<and>
     (role u = ADMIN \<or> role u = MANAGER \<and>
       (\<exists>n\<in>set (tenants (working s)). row_id n = i \<and> tenant_visible (row_id u) (working s) n))"
  by (cases "role u")
    (auto simp: authorize_user_to_tenant_def is_accessible_by_manager_def svc_iffs filter_empty_conv)

lemma get_tenant_Inr:
  "get_tenant i u s = (Inr n, s') \<longleftrightarrow> s' = s \<and> get_row tenants_tbl i (working s) = Some n \<and>
     (role u = ADMIN \<or> role u = MANAGER \<and>
       (\<exists>n\<in>set (tenants (working s)). row_id n = i \<and> tenant_visible (row_id u) (working s) n))"
  by (auto simp: get_tenant_def svc_iffs authorize_user_to_tenant_Inr)

lemma pure_read_tenant [atomic_intros]:
  "pure_read (authorize_user_to_tenant u i)" "pure_read (get_tenant i u)"
  "pure_read (tenant_get_by_email e)" "pure_read (tenant_get_by_user_id i)"
  unfolding authorize_user_to_tenant_def get_tenant_def tenant_get_by_email_def
    tenant_get_by_user_id_def is_accessible_by_manager_def
  by (intro atomic_intros)+

lemma logs_tenant_reads [trail_intros]:
  "logs [] (authorize_user_to_tenant u i)" "logs [] (get_tenant i u)"
  "logs [] (tenant_get_by_email e)" "logs [] (tenant_get_by_user_id i)"
  by (rule logs_pure, rule atomic_intros)+

lemma tenant_conflict_raises [simp]: "raises raise_tenant_conflict"
  by (simp add: raise_tenant_conflict_def [abs_def])

lemma link_conflict_raises [simp]: "raises raise_link_conflict"
  by (simp add: raises_def raise_link_conflict_def bnd_def rollback_def raise_def)

lemma atomic_tenant_service [atomic_intros]:
  "atomic (create_tenant pl u)" "atomic (update_tenant i upl u)" "atomic (delete_tenant i u)"
  "atomic (link_user i l u)" "atomic (unlink_user i u)"
  unfolding create_tenant_def update_tenant_def delete_tenant_def link_user_def unlink_user_def
  by (intro atomic_intros raises_on_integrity tenant_conflict_raises link_conflict_raises raises_raise)+

lemma logs_tenant_service:
  "logs [(CREATE, ''Tenant'')] (create_tenant pl u)"
  "logs [(UPDATE, ''Tenant'')] (update_tenant i upl u)"
  "logs [(DELETE, ''Tenant'')] (delete_tenant i u)"
  "logs [(UPDATE, ''Tenant'')] (link_user i l u)"
  "logs [(UPDATE, ''Tenant'')] (unlink_user i u)"
  unfolding create_tenant_def update_tenant_def delete_tenant_def link_user_def unlink_user_def
  by (intro trail_intros raises_on_integrity tenant_conflict_raises link_conflict_raises
      raises_raise refl)+

interpretation tenant_scope: scoped_resource tenants_tbl tenant_repo tenant_visible get_tenant
proof
  fix s :: session and n u
  assume *: "schema_ok (working s)" "n \<in> set (rows tenants_tbl (working s))"
  then show "get_tenant (row_id n) u s = (Inr n, s) \<longleftrightarrow>
      role u = ADMIN \<or> role u = MANAGER \<and> tenant_visible (row_id u) (working s) n"
    using schema_ok_keys(3) [OF *(1)]
    by (auto simp: get_tenant_Inr get_row_Some_iff dest: distinct_ids_eq)
qed (simp_all add: tenant_repo_def tenant_get_all_for_manager_def tenant_count_all_def
    tenant_count_all_for_manager_def query_def schema_ok_keys)

text \<open>The working tables after each operation.\<close>

lemma create_tenant_Inr:
  assumes "create_tenant pl u s = (Inr n, s')"
  shows "\<exists>i t. n = new_tenant pl i t \<and> tenants (working s') = tenants (working s) @ [n] \<and>
    (tc_email pl \<noteq> [] \<longrightarrow> normalize_email (tc_email pl) \<notin> tenant_email ` set (tenants (working s)))"
  using assms
  by (auto simp: create_tenant_def svc_iffs repo_iffs write_audit_log_iff tenant_get_by_email_def
      build_query_def filter_empty_conv split: if_splits)

lemma update_tenant_Inr:
  assumes "update_tenant i pl u s = (Inr r, s')"
  shows "tenants (working s') =
    map_row i (touch (clock s) (assign_tenant_update pl)) (tenants (working s))"
  using assms
  by (auto simp: update_tenant_def svc_iffs repo_iffs write_audit_log_iff tenant_get_by_email_def
      get_tenant_Inr split: if_splits)

lemma delete_tenant_Inr:
  assumes "delete_tenant i u s = (Inr r, s')"
  shows "tenants (working s') = filter (\<lambda>n. row_id n \<noteq> i) (tenants (working s))"
  using assms
  by (auto simp: delete_tenant_def svc_iffs repo_iffs write_audit_log_iff get_tenant_Inr)

lemma case_other_iff:
  "(case z of None \<Rightarrow> False | Some x \<Rightarrow> row_id x \<noteq> l) \<longleftrightarrow> (\<exists>x. z = Some x \<and> row_id x \<noteq> l)"
  "(case y of None \<Rightarrow> False | Some x \<Rightarrow> x \<noteq> l) \<longleftrightarrow> y \<noteq> None \<and> y \<noteq> Some l"
  by (cases z; simp) (cases y; simp)

lemma link_user_Inr:
  assumes "link_user i l u s = (Inr r, s')"
  shows "tenants (working s') =
      map_row i (touch (clock s) (\<lambda>n. n\<lparr>tenant_user_id := Some l\<rparr>)) (tenants (working s)) \<and>
    l \<in> set (ids (users (working s))) \<and>
    (\<exists>n. get_row tenants_tbl i (working s) = Some n \<and> tenant_user_id n \<in> {None, Some l} \<and>
       r = Some (touch (clock s) (\<lambda>n. n\<lparr>tenant_user_id := Some l\<rparr>) n)) \<and>
    schema_ok (working s')"
proof -
  have "get_row users_tbl l (working s) = Some x \<Longrightarrow> l \<in> set (ids (users (working s)))" for x
    using get_row_ex [of users_tbl l "working s"] by auto
  moreover have "schema_ok (committed s')" "committed s' = working s'"
    using assms atomic_tenant_service(4) by (auto dest: atomic_schema atomic_Inr)
  ultimately show ?thesis
    using assms
    by (auto simp: link_user_def svc_iffs repo_iffs write_audit_log_iff tenant_get_by_user_id_def
        get_tenant_Inr case_other_iff simp del: split_paired_Ex)
qed

lemma unlink_user_Inr:
  assumes "unlink_user i u s = (Inr r, s')"
  shows "tenants (working s') =
    map_row i (touch (clock s) (\<lambda>n. n\<lparr>tenant_user_id := None\<rparr>)) (tenants (working s))"
  using assms
  by (auto simp: unlink_user_def svc_iffs repo_iffs write_audit_log_iff get_tenant_Inr)

text \<open>Every stored email address is in its normal form.\<close>

definition emails_normal :: "tables \<Rightarrow> bool" where
  "emails_normal t \<longleftrightarrow>
     list_all (\<lambda>n. normalize_email (tenant_email n) = tenant_email n) (tenants t)"

lemma touch_tenant [simp]:
  "tenant_email (touch n f x) = tenant_email (f x)"
  "tenant_user_id (touch n f x) = tenant_user_id (f x)"
  by (simp_all add: touch_def Let_def)

lemma emails_normal_map_row:
  assumes "emails_normal t" "tenants t' = map_row i (touch n f) (tenants t)"
    and "\<And>x. x \<in> set (tenants t) \<Longrightarrow>
      normalize_email (tenant_email (f x)) = tenant_email (f x) \<or> tenant_email (f x) = tenant_email x"
  shows "emails_normal t'"
  using assms(1,3) by (auto simp: emails_normal_def list_all_iff assms(2) ball_map_row)
    (metis+)?

lemma patch_cases:
  obtains "p = None" | "p = Some None" | v where "p = Some (Some v)"
  by (metis option.exhaust)

lemma emails_normal_create:
  "emails_normal (working s) \<Longrightarrow> create_tenant pl u s = (Inr n, s') \<Longrightarrow> emails_normal (working s')"
  by (auto dest!: create_tenant_Inr simp: emails_normal_def new_tenant_def)

lemma emails_normal_update:
  "emails_normal (working s) \<Longrightarrow> update_tenant i upl u s = (Inr r, s') \<Longrightarrow> emails_normal (working s')"
  by (erule emails_normal_map_row, erule update_tenant_Inr)
    (simp add: assign_tenant_update_def,
      cases "map_option (map_option normalize_email) (tu_email upl)" rule: patch_cases; force)

lemma emails_normal_delete:
  "emails_normal (working s) \<Longrightarrow> delete_tenant i u s = (Inr r, s') \<Longrightarrow> emails_normal (working s')"
  by (auto dest!: delete_tenant_Inr simp: emails_normal_def list_all_iff)

lemma emails_normal_link:
  "emails_normal (working s) \<Longrightarrow> link_user i l u s = (Inr r, s') \<Longrightarrow> emails_normal (working s')"
  by (erule emails_normal_map_row, rule conjunct1, erule link_user_Inr) simp

lemma emails_normal_unlink:
  "emails_normal (working s) \<Longrightarrow> unlink_user i u s = (Inr r, s') \<Longrightarrow> emails_normal (working s')"
  by (erule emails_normal_map_row, erule unlink_user_Inr) simp

lemma set_non_null: "k \<in> set (non_null f rs) \<longleftrightarrow> (\<exists>r\<in>set rs. f r = Some k)"
  by (induction rs) (auto split: option.splits)

lemma distinct_non_null:
  assumes "distinct (non_null f rs)" "r \<in> set rs" "r' \<in> set rs" "f r = Some k" "f r' = Some k"
  shows "r = r'"
  using assms by (induction rs) (auto simp: set_non_null split: option.splits)

section \<open>Properties\<close>

text \<open>
  A tenant is visible to a manager when no contract names the tenant or one of the
  tenant's contracts is on a property the manager owns, and the list and the single lookup
  apply the same rule; a plain user is refused even an unclaimed tenant.
\<close>

theorem tenant_list_agrees_with_lookup:
  assumes "schema_ok (working s)" "n \<in> set (tenants (working s))"
  shows "((\<exists>k its c. list_tenants u (int (k * 100)) 100 s = (Inr \<lparr>items = its, total = c\<rparr>, s) \<and>
            n \<in> set its) \<longleftrightarrow> get_tenant (row_id n) u s = (Inr n, s)) \<and>
    (get_tenant (row_id n) u s = (Inr n, s) \<longleftrightarrow> role u = ADMIN \<or> role u = MANAGER \<and>
       ((\<forall>c\<in>set (contracts (working s)). contract_tenant_id c \<noteq> row_id n) \<or>
        (\<exists>c\<in>set (contracts (working s)). contract_tenant_id c = row_id n \<and>
           contract_property_id c \<in> set (owned_property_ids (row_id u) (working s)))))"
proof -
  have "tenant_visible m t n \<longleftrightarrow> (\<forall>c\<in>set (contracts t). contract_tenant_id c \<noteq> row_id n) \<or>
        (\<exists>c\<in>set (contracts t). contract_tenant_id c = row_id n \<and>
           contract_property_id c \<in> set (owned_property_ids m t))" for m t
    by (force simp: tenant_visible_def Let_def list_ex_iff owned_property_ids_iff)
  then show ?thesis
    using assms tenant_scope.listing_agrees_with_lookup [of s n] tenant_scope.get_law [of s n]
    by (simp add: list_tenants_def)
qed

theorem tenant_list_agrees_with_lookup_witness:
  "get_tenant 20 mia (session_of sample_tables) \<noteq>
     (Inr (sample_tenant 20 ''tom''), session_of sample_tables) \<and>
   get_tenant 21 mia (session_of sample_tables) =
     (Inr (sample_tenant 21 ''tia''), session_of sample_tables)"
  using tenant_list_agrees_with_lookup [of "session_of sample_tables" "sample_tenant 20 ''tom''" mia]
    tenant_list_agrees_with_lookup [of "session_of sample_tables" "sample_tenant 21 ''tia''" mia]
  by (simp add: schema_ok_sample)
    (simp add: sample_tables_def owned_property_ids_iff sample_contract_def sample_tenant_def
      sample_property_def mia_def sample_user_def)

text \<open>
  After a tenant has been created, a lookup by email finds the tenant under every
  spelling that differs in case or surrounding space, and a second tenant with such an
  address is refused without any effect.
\<close>

theorem tenant_email_is_unique_up_to_spelling:
  assumes "create_tenant pl u s = (Inr n, s')" "tc_email pl \<noteq> []" "e \<noteq> []"
    and "normalize_email e = normalize_email (tc_email pl)"
  shows "tenant_get_by_email e s' = (Inr (Some n), s') \<and>
    create_tenant (pl'\<lparr>tc_email := e\<rparr>) mgr s' = (Inl TenantAlreadyExistsError, s')"
proof -
  from create_tenant_Inr [OF assms(1)] assms(2) obtain i t where
    n: "n = new_tenant pl i t" "tenants (working s') = tenants (working s) @ [n]"
    and fresh: "normalize_email (tc_email pl) \<notin> tenant_email ` set (tenants (working s))"
    by blast
  from fresh have "filter (\<lambda>x. tenant_email x = normalize_email e) (tenants (working s)) = []"
    by (simp add: filter_empty_conv assms(4)) (metis imageI)
  then have found: "tenant_get_by_email e s' = (Inr (Some n), s')"
    by (simp add: tenant_get_by_email_def build_query_def n assms(4))
      (simp add: new_tenant_def assms(4))
  then have "bnd (tenant_get_by_email e) f s' = f (Some n) s'" for f :: "tenant option \<Rightarrow> tenant svc"
    by (rule bnd_InrI)
  then show ?thesis
    using found assms(3)
    by (simp add: create_tenant_def svc mgr_def sample_user_def)
qed

theorem tenant_email_is_unique_up_to_spelling_witness:
  "fst (tenant_get_by_email '' Zoe@Y.org'' (snd (create_tenant
      \<lparr>tc_full_name = ''Zoe'', tc_email = ''zoe@y.org'', tc_phone_number = ''1'', tc_date_of_birth = 1,
       tc_current_address = ''Elm'', tc_occupation = None, tc_notes = None, tc_is_active = True\<rparr>
      mgr (session_of sample_tables)))) \<noteq> Inr None"
  (is "fst (tenant_get_by_email ?e (snd (create_tenant ?pl mgr ?s))) \<noteq> _")
proof -
  have "\<not> isl (fst (create_tenant ?pl mgr ?s))" by code_simp
  then obtain n where n: "create_tenant ?pl mgr ?s = (Inr n, snd (create_tenant ?pl mgr ?s))"
    by (blast dest: run_ok)
  have "normalize_email ?e = normalize_email (tc_email ?pl)" by code_simp
  then have "tenant_get_by_email ?e (snd (create_tenant ?pl mgr ?s)) =
      (Inr (Some n), snd (create_tenant ?pl mgr ?s))"
    using tenant_email_is_unique_up_to_spelling [OF n, of ?e] by simp
  then show ?thesis by (metis Inr_inject fst_conv option.distinct(1))
qed

text \<open>The tables after a tenant was linked, without and with the audit entry.\<close>

definition linked :: "uuid \<Rightarrow> uuid \<Rightarrow> instant \<Rightarrow> tables \<Rightarrow> tables" where
  "linked i l n t = tenants_update (map_row i (touch n (\<lambda>x. x\<lparr>tenant_user_id := Some l\<rparr>))) t"

lemma linked_ids: "ids (map_row i (touch n (\<lambda>x. x\<lparr>tenant_user_id := Some l\<rparr>)) xs) = ids xs"
  by (rule ids_map_row) simp

lemma distinct_linked:
  assumes "distinct (non_null tenant_user_id xs)" "distinct (ids xs)"
    and "\<forall>x\<in>set xs. row_id x \<noteq> i \<longrightarrow> tenant_user_id x \<noteq> Some l"
  shows "distinct (non_null tenant_user_id (map_row i (touch n (\<lambda>x. x\<lparr>tenant_user_id := Some l\<rparr>)) xs))"
  using assms
proof (induction xs)
  case (Cons x xs)
  have other: "l \<notin> set (non_null tenant_user_id xs)" if "row_id x = i"
  proof
    assume "l \<in> set (non_null tenant_user_id xs)"
    then obtain y where "y \<in> set xs" "tenant_user_id y = Some l" by (auto simp: set_non_null)
    with Cons.prems(3) have "row_id y = i" "row_id y \<in> set (ids xs)" by (auto simp: ids_def)
    with Cons.prems(2) that show False by simp
  qed
  show ?case
  proof (cases "row_id x = i")
    case True
    with Cons.prems(2) have "map_row i (touch n (\<lambda>x. x\<lparr>tenant_user_id := Some l\<rparr>)) xs = xs"
      by (intro map_row_absent) simp
    with True other Cons.prems(1) show ?thesis by (simp add: map_row_def split: option.splits)
  next
    case False
    have "tenant_user_id x \<noteq> Some l" using False Cons.prems(3) by simp
    moreover have "k \<in> set (non_null tenant_user_id (map_row i (touch n (\<lambda>x. x\<lparr>tenant_user_id := Some l\<rparr>)) xs)) \<Longrightarrow>
        k = l \<or> k \<in> set (non_null tenant_user_id xs)" for k
      by (auto simp: set_non_null map_row_def split: if_splits)
    ultimately show ?thesis using False Cons by (auto simp: map_row_def split: option.splits)
  qed
qed (simp add: map_row_def)

lemma schema_ok_linked:
  assumes "schema_ok t" "l \<in> set (ids (users t))"
    and "\<forall>x\<in>set (tenants t). row_id x \<noteq> i \<longrightarrow> tenant_user_id x \<noteq> Some l"
  shows "schema_ok (linked i l n t)"
proof -
  from assms(1) have e: "distinct (map tenant_email (tenants t))" "distinct (ids (tenants t))"
    "distinct (non_null tenant_user_id (tenants t))" by (simp_all add: schema_ok_tables tenants_constraints_def)
  have "map tenant_email (map_row i (touch n (\<lambda>x. x\<lparr>tenant_user_id := Some l\<rparr>)) (tenants t)) = map tenant_email (tenants t)"
    by (simp add: map_row_def)
  with e distinct_linked [OF e(3,2) assms(3)] assms(1,2) show ?thesis
    by (simp add: schema_ok_tables table_constraints_defs linked_def linked_ids list_all_iff active_contracts_def
        active_templates_def ball_map_row opt_in_def split: option.splits)
qed

lemma schema_ok_entry:
  assumes "schema_ok t" "k \<notin> set (ids (audit_logs t))" "row_id a = k" "actor_id a = Some j" "j \<in> set (ids (users t))"
  shows "schema_ok (audit_logs_update (\<lambda>as. as @ [a]) t)"
  using assms
  by (simp add: schema_ok_tables table_constraints_defs active_contracts_def active_templates_def)

text \<open>
  C8. Linking a tenant to a portal account keeps the relation one-to-one, and says why when it
  cannot: for a caller who may see the tenant, an account that does not exist, a tenant with
  another account and an account of another tenant are refused with three different errors and
  change nothing; in every other case the link succeeds, and the committed tables differ in the
  account and the time stamp of this tenant and in one entry of the audit log. That the caller
  has an account and that the identifier drawn for the entry is new is what every request relies on.
\<close>

theorem link_user_is_one_to_one:
  assumes "get_tenant i u s = (Inr n, s)" "schema_ok (working s)" "row_id u \<in> set (ids (users (working s)))"
    and "uuid_source s (uuid_drawn s) \<notin> set (ids (audit_logs (working s)))"
  shows "link_user i l u s =
    (if l \<notin> set (ids (users (working s))) then (Inl UserNotFoundError, s)
     else if tenant_user_id n \<notin> {None, Some l}
       then (Inl (TenantAlreadyLinkedError ''Tenant is already linked to a different user.''), s)
     else if \<exists>x\<in>set (tenants (working s)). row_id x \<noteq> i \<and> tenant_user_id x = Some l
       then (Inl (TenantAlreadyLinkedError ''User is already linked to a different tenant.''), s)
     else
       let t = audit_logs_update (\<lambda>as. as @ [audit_row s u UPDATE ''Tenant'' i]) (linked i l (clock s) (working s))
       in (Inr (Some (touch (clock s) (\<lambda>x. x\<lparr>tenant_user_id := Some l\<rparr>) n)),
           s\<lparr>working := t, committed := t, uuid_drawn := Suc (uuid_drawn s)\<rparr>))"
proof -
  let ?t = "working s"
  from assms(1) have n: "get_row tenants_tbl i ?t = Some n" by (simp add: get_tenant_Inr)
  have g: "bnd (get_tenant i u) f s = f n s" for f :: "tenant \<Rightarrow> tenant option svc" by (simp add: bnd_def assms(1))
  have l: "(l \<in> set (ids (users ?t))) = (get_row users_tbl l ?t \<noteq> None)"
    using get_row_ex [of users_tbl l ?t] by auto
  have other: "(case first_of (build_query tenants_tbl (\<lambda>n. tenant_user_id n = Some l) ?t) of
      None \<Rightarrow> False | Some x \<Rightarrow> row_id x \<noteq> i) = (\<exists>x\<in>set (tenants ?t). row_id x \<noteq> i \<and> tenant_user_id x = Some l)"
  proof (cases "first_of (build_query tenants_tbl (\<lambda>n. tenant_user_id n = Some l) ?t)")
    case None
    then have "set (build_query tenants_tbl (\<lambda>n. tenant_user_id n = Some l) ?t) = {}" by simp
    then have "\<forall>x\<in>set (tenants ?t). tenant_user_id x \<noteq> Some l" by auto
    with None show ?thesis by simp
  next
    case (Some x)
    from first_of_SomeD [OF this] have x: "x \<in> set (tenants ?t)" "tenant_user_id x = Some l" by simp_all
    have "y = x" if "y \<in> set (tenants ?t)" "tenant_user_id y = Some l" for y
      using distinct_non_null [of tenant_user_id "tenants ?t" y x] that x assms(2)
      by (simp add: schema_ok_tables tenants_constraints_def)
    then show ?thesis unfolding Some option.case using x by blast
  qed
  let ?c = "tenant_user_id n \<notin> {None, Some l}"
    and ?o = "\<exists>x\<in>set (tenants ?t). row_id x \<noteq> i \<and> tenant_user_id x = Some l"
    and ?store = "try_except (bnd (repo_update tenants_tbl i [] (\<lambda>x. x\<lparr>tenant_user_id := Some l\<rparr>)) (\<lambda>n'.
        bnd (write_audit_log u UPDATE ''Tenant'' i) (\<lambda>_. bnd commit (\<lambda>_. ret n')))) (on_integrity raise_link_conflict)"
  have c: "(case tenant_user_id n of None \<Rightarrow> False | Some k \<Rightarrow> k \<noteq> l) = ?c" by (simp split: option.split)
  have eq: "link_user i l u s =
      (if l \<notin> set (ids (users ?t)) then (Inl UserNotFoundError, s)
       else if ?c then (Inl (TenantAlreadyLinkedError ''Tenant is already linked to a different user.''), s)
       else if ?o then (Inl (TenantAlreadyLinkedError ''User is already linked to a different tenant.''), s)
       else ?store s)"
    unfolding link_user_def g tenant_get_by_user_id_def
    by (cases "get_row users_tbl l ?t")
      (simp_all only: bnd_found_or_get option.case bnd_raise_if bnd_repo_first c other l simp_thms option.distinct
        if_True if_False not_True_eq_False not_False_eq_True split: if_splits)
  show ?thesis
  proof (cases "l \<in> set (ids (users ?t)) \<and> tenant_user_id n \<in> {None, Some l} \<and>
      \<not> (\<exists>x\<in>set (tenants ?t). row_id x \<noteq> i \<and> tenant_user_id x = Some l)")
    case False
    then show ?thesis unfolding eq by (simp only: if_True if_False simp_thms de_Morgan_conj not_not split: if_split) blast
  next
    case True
    then have ok: "schema_ok (linked i l (clock s) ?t)" using assms(2) by (intro schema_ok_linked) auto
    let ?v = "audit_logs_update (\<lambda>as. as @ [audit_row s u UPDATE ''Tenant'' i]) (linked i l (clock s) ?t)"
    let ?n = "touch (clock s) (\<lambda>x. x\<lparr>tenant_user_id := Some l\<rparr>) n"
    have "schema_ok ?v"
      using assms(3,4) by (intro schema_ok_entry [OF ok]) (simp_all add: linked_def)
    then have com: "bnd commit f (s\<lparr>uuid_drawn := Suc (uuid_drawn s), working := ?v\<rparr>) =
        f () (s\<lparr>uuid_drawn := Suc (uuid_drawn s), working := ?v, committed := ?v\<rparr>)" for f :: "unit \<Rightarrow> tenant option svc"
      by (simp add: bnd_commit)
    have upd: "repo_update tenants_tbl i [] (\<lambda>x. x\<lparr>tenant_user_id := Some l\<rparr>) s =
        (Inr (Some ?n), s\<lparr>working := linked i l (clock s) ?t\<rparr>)"
      using ok by (simp add: repo_update_def svc n flush_nulls_def bnd_def [of "flush_nulls []"] Let_def
          violations_Nil_iff ret_def linked_def)
    have run: "(bnd (repo_update tenants_tbl i [] (\<lambda>x. x\<lparr>tenant_user_id := Some l\<rparr>)) (\<lambda>n'.
        bnd (write_audit_log u UPDATE ''Tenant'' i) (\<lambda>_. bnd commit (\<lambda>_. ret n')))) s =
        (Inr (Some ?n), s\<lparr>uuid_drawn := Suc (uuid_drawn s), working := ?v, committed := ?v\<rparr>)"
    proof -
      have w: "bnd (write_audit_log u UPDATE ''Tenant'' i) f (s\<lparr>working := linked i l (clock s) ?t\<rparr>) =
          f () (s\<lparr>uuid_drawn := Suc (uuid_drawn s), working := ?v\<rparr>)" for f :: "unit \<Rightarrow> tenant option svc"
        by (simp add: bnd_write_audit_log audit_row_def)
      show ?thesis
        by (simp only: bnd_def [of "repo_update tenants_tbl i [] (\<lambda>x. x\<lparr>tenant_user_id := Some l\<rparr>)"] upd
          prod.case sum.case w com ret_def)
    qed
    have "?store s = (Inr (Some ?n), s\<lparr>uuid_drawn := Suc (uuid_drawn s), working := ?v, committed := ?v\<rparr>)"
      by (simp add: try_except_def run)
    then have "link_user i l u s = (Inr (Some ?n), s\<lparr>uuid_drawn := Suc (uuid_drawn s), working := ?v, committed := ?v\<rparr>)"
      using True unfolding eq by simp
    with True show ?thesis by (simp add: Let_def)
  qed
qed

theorem link_user_is_one_to_one_witness:
  "link_user 20 9 ann (session_of sample_tables) = (Inl UserNotFoundError, session_of sample_tables) \<and>
   (\<exists>n. fst (link_user 20 4 ann (session_of sample_tables)) = Inr (Some n) \<and> tenant_user_id n = Some 4)"
proof -
  have "\<not> isl (fst (get_tenant 20 ann (session_of sample_tables)))" by code_simp
  then obtain n where "get_tenant 20 ann (session_of sample_tables) = (Inr n, snd (get_tenant 20 ann (session_of sample_tables)))"
    by (blast dest: run_ok)
  then have n: "get_tenant 20 ann (session_of sample_tables) = (Inr n, session_of sample_tables)"
    by (auto simp: get_tenant_Inr)
  note link = link_user_is_one_to_one [OF n]
  have facts: "schema_ok (working (session_of sample_tables))" "row_id ann \<in> set (ids (users (working (session_of sample_tables))))"
    "uuid_source (session_of sample_tables) (uuid_drawn (session_of sample_tables)) \<notin>
       set (ids (audit_logs (working (session_of sample_tables))))"
    "9 \<notin> set (ids (users (working (session_of sample_tables))))" "4 \<in> set (ids (users (working (session_of sample_tables))))"
    "\<not> (\<exists>x\<in>set (tenants (working (session_of sample_tables))). row_id x \<noteq> 20 \<and> tenant_user_id x = Some 4)"
    by code_simp+
  have "\<forall>x\<in>set (tenants (working (session_of sample_tables))). tenant_user_id x \<in> {None, Some 4}" by code_simp
  moreover from n have "n \<in> set (tenants (working (session_of sample_tables)))"
    by (auto simp: get_tenant_Inr dest: get_row_SomeD)
  ultimately have "tenant_user_id n \<in> {None, Some 4}" by blast
  with facts link [OF facts(1-3), of 9] link [OF facts(1-3), of 4] show ?thesis
    by (simp add: Let_def)
qed


end
