(* ===== verification/UserService.thy ===== *)
theory UserService
  imports TenantService
begin

text \<open>
  User accounts: the password functions of app/core/security.py, UserRepository
  (app/identity/repositories/user.py), the request bodies (app/identity/schemas/user.py),
  NotificationService (app/core/services/notification_service.py), UserService
  (app/identity/services/user_service.py) and the bootstrap of the scheduler's account
  (app/db/seed.py). The password hash of passlib is a parameter.
\<close>

section \<open>Passwords\<close>

text \<open>
  A passlib context: hashing takes fresh salt, and \<open>verify\<close> may raise one of the exceptions
  that \<open>verify_password\<close> catches, written \<open>None\<close>.
\<close>

record pwd_context =
  pwd_hash :: "uuid \<Rightarrow> string \<Rightarrow> string"
  pwd_verify :: "string \<Rightarrow> string \<Rightarrow> bool option"

text \<open>The documented contract of the context: it verifies what it hashed.\<close>

definition verifies_own_hashes :: "pwd_context \<Rightarrow> bool" where
  "verifies_own_hashes pwd \<longleftrightarrow>
     (\<forall>salt p. pwd_hash pwd salt p \<noteq> [] \<and> pwd_verify pwd p (pwd_hash pwd salt p) = Some True)"

text \<open>Hashing \<open>None\<close> is a \<open>TypeError\<close> of passlib.\<close>

definition hash_password :: "pwd_context \<Rightarrow> string option \<Rightarrow> string svc" where
  "hash_password pwd password =
     (case password of
        None \<Rightarrow> raise TypeError
      | Some p \<Rightarrow> bnd uuid4 (\<lambda>salt. ret (pwd_hash pwd salt p)))"

definition verify_password :: "pwd_context \<Rightarrow> string \<Rightarrow> string option \<Rightarrow> bool" where
  "verify_password pwd plain hashed =
     (case hashed of
        None \<Rightarrow> False
      | Some h \<Rightarrow>
          if h = [] then False
          else (case pwd_verify pwd plain h of None \<Rightarrow> False | Some b \<Rightarrow> b))"

section \<open>Repository\<close>

definition normalize_user_email :: "string \<Rightarrow> string" where
  "normalize_user_email email = py_lower (py_strip email)"

definition normalize_username :: "string \<Rightarrow> string" where
  "normalize_username name = py_lower (py_strip name)"

definition get_by_username :: "string \<Rightarrow> user option svc" where
  "get_by_username name = repo_first users_tbl (\<lambda>u. username u = normalize_username name)"

definition get_by_email :: "string \<Rightarrow> user option svc" where
  "get_by_email email = repo_first users_tbl (\<lambda>u. user_email u = normalize_user_email email)"

definition get_by_role :: "user_role \<Rightarrow> user list svc" where
  "get_by_role r = repo_all users_tbl (\<lambda>u. role u = r)"

definition get_by_identifier :: "string \<Rightarrow> user option svc" where
  "get_by_identifier identifier =
     (if identifier = [] then ret None
      else let identifier = py_strip identifier
           in if CHR ''@'' \<in> set identifier then get_by_email identifier
              else get_by_username identifier)"

section \<open>Request bodies\<close>

record user_create =
  uc_username :: string
  uc_email :: string
  uc_full_name :: string
  uc_role :: user_role
  uc_is_active :: bool
  uc_password :: string

record user_update =
  uu_full_name :: "string patch"
  uu_username :: "string patch"
  uu_email :: "string patch"
  uu_password :: "string patch"
  uu_current_password :: "string patch"
  uu_role :: "user_role patch"
  uu_is_active :: "bool patch"

definition new_user :: "user_create \<Rightarrow> string \<Rightarrow> uuid \<Rightarrow> instant \<Rightarrow> user" where
  "new_user pl hash i n =
     \<lparr>row_id = i, created_at = n, updated_at = n, username = normalize_username (uc_username pl),
      user_email = normalize_user_email (uc_email pl), user_full_name = uc_full_name pl,
      password_hash = hash, password_changed_at = n, role = uc_role pl,
      user_is_active = uc_is_active pl\<rparr>"

text \<open>The overridden \<open>create\<close> hashes the password and normalises both names.\<close>

definition user_repo_create :: "pwd_context \<Rightarrow> user_create \<Rightarrow> user svc" where
  "user_repo_create pwd payload =
     bnd (hash_password pwd (Some (uc_password payload))) (\<lambda>hash.
     repo_create users_tbl (new_user payload hash))"

text \<open>
  The overridden \<open>update\<close>: \<open>pw\<close> is the new hash with the time of the change when the payload
  names a password; \<open>current_password\<close> is never stored.
\<close>

definition assign_user_update :: "user_update \<Rightarrow> (string \<times> instant) option \<Rightarrow> user \<Rightarrow> user" where
  "assign_user_update pl pw u = u\<lparr>
     user_full_name := set_req (uu_full_name pl) (user_full_name u),
     username := set_req (map_option (map_option normalize_username) (uu_username pl)) (username u),
     user_email := set_req (map_option (map_option normalize_user_email) (uu_email pl)) (user_email u),
     password_hash := (case pw of None \<Rightarrow> password_hash u | Some (h, _) \<Rightarrow> h),
     password_changed_at := (case pw of None \<Rightarrow> password_changed_at u | Some (_, n) \<Rightarrow> n),
     role := set_req (uu_role pl) (role u),
     user_is_active := set_req (uu_is_active pl) (user_is_active u)\<rparr>"

definition user_update_nulls :: "user_update \<Rightarrow> string list" where
  "user_update_nulls pl =
     null_viol ''full_name'' (uu_full_name pl) @ null_viol ''username'' (uu_username pl) @
     null_viol ''email'' (uu_email pl) @ null_viol ''role'' (uu_role pl) @
     null_viol ''is_active'' (uu_is_active pl)"

definition user_repo_update :: "pwd_context \<Rightarrow> uuid \<Rightarrow> user_update \<Rightarrow> user option svc" where
  "user_repo_update pwd i payload =
     bnd (repo_get_by_id users_tbl i) (\<lambda>obj.
     case obj of
       None \<Rightarrow> ret None
     | Some _ \<Rightarrow>
         bnd (case uu_password payload of
                None \<Rightarrow> ret None
              | Some p \<Rightarrow>
                  bnd (hash_password pwd p) (\<lambda>h.
                  bnd now (\<lambda>n.
                  ret (Some (h, n))))) (\<lambda>pw.
         repo_update users_tbl i (user_update_nulls payload) (assign_user_update payload pw)))"

text \<open>
  Deleting a user: \<open>ON DELETE SET NULL\<close> on the tenants' accounts and on the actors of the
  audit log.
\<close>

definition user_on_delete :: "uuid \<Rightarrow> tables \<Rightarrow> tables" where
  "user_on_delete i t = t\<lparr>
     tenants := map (\<lambda>n. if tenant_user_id n = Some i then n\<lparr>tenant_user_id := None\<rparr> else n) (tenants t),
     audit_logs := map (\<lambda>a. if actor_id a = Some i then a\<lparr>actor_id := None\<rparr> else a) (audit_logs t)\<rparr>"

section \<open>Notifications\<close>

text \<open>
  A channel delivers a subject and a body to a recipient; the default one only logs.
\<close>

type_synonym channel = "string \<Rightarrow> string \<Rightarrow> string \<Rightarrow> unit svc"

definition logging_channel :: channel where
  "logging_channel recipient subject body = ret ()"

fun notification_send :: "channel list \<Rightarrow> channel" where
  "notification_send [] recipient subject body = ret ()"
| "notification_send (c # cs) recipient subject body =
     bnd (c recipient subject body) (\<lambda>_. notification_send cs recipient subject body)"

definition notify_password_changed :: "channel list \<Rightarrow> user \<Rightarrow> unit svc" where
  "notify_password_changed channels u =
     notification_send channels (user_email u) ''Your password was changed''
       (''Password changed for user_id='' @ uuid_str (row_id u) @ '' username='' @ username u @ ''.'')"

section \<open>Service\<close>

definition require_admin_user :: "user \<Rightarrow> unit svc" where
  "require_admin_user current_user =
     raise_if (role current_user \<noteq> ADMIN) (UserForbiddenError ''Admin access required.'')"

definition authorize_self_or_admin :: "user \<Rightarrow> uuid \<Rightarrow> unit svc" where
  "authorize_self_or_admin current_user target =
     raise_if (role current_user \<noteq> ADMIN \<and> row_id current_user \<noteq> target)
       (UserForbiddenError ''You can only access your own profile.'')"

definition verify_current_password :: "pwd_context \<Rightarrow> user_update \<Rightarrow> user \<Rightarrow> unit svc" where
  "verify_current_password pwd payload current_user =
     (case attr (uu_current_password payload) of
        None \<Rightarrow> raise CurrentPasswordRequiredError
      | Some p \<Rightarrow>
          bnd (raise_if (p = []) CurrentPasswordRequiredError) (\<lambda>_.
          raise_if (\<not> verify_password pwd p (Some (password_hash current_user)))
            InvalidCredentialsError))"

definition raise_user_conflict :: "svc_error option \<Rightarrow> string \<Rightarrow> 'a svc" where
  "raise_user_conflict fallback msg =
     (if substr ''email'' msg then raise EmailAlreadyExistsError
      else if substr ''username'' msg then raise UsernameAlreadyExistsError
      else raise (case fallback of None \<Rightarrow> IntegrityError msg | Some e \<Rightarrow> e))"

definition list_users :: "user \<Rightarrow> int \<Rightarrow> int \<Rightarrow> user list svc" where
  "list_users current_user skip limit =
     bnd (require_admin_user current_user) (\<lambda>_. repo_get_all users_tbl skip limit)"

definition get_user :: "uuid \<Rightarrow> user \<Rightarrow> user svc" where
  "get_user i current_user =
     bnd (authorize_self_or_admin current_user i) (\<lambda>_.
     found_or UserNotFoundError (repo_get_by_id users_tbl i))"

definition create_user :: "pwd_context \<Rightarrow> user_create \<Rightarrow> user \<Rightarrow> user svc" where
  "create_user pwd payload current_user =
     bnd (get_by_email (uc_email payload)) (\<lambda>same_email.
     bnd (raise_if (same_email \<noteq> None) EmailAlreadyExistsError) (\<lambda>_.
     bnd (get_by_username (uc_username payload)) (\<lambda>same_name.
     bnd (raise_if (same_name \<noteq> None) UsernameAlreadyExistsError) (\<lambda>_.
     try_except
       (bnd (user_repo_create pwd payload) (\<lambda>u.
        bnd (write_audit_log current_user CREATE ''User'' (row_id u)) (\<lambda>_.
        bnd commit (\<lambda>_.
        ret u))))
       (on_integrity (raise_user_conflict (Some EmailAlreadyExistsError)))))))"

definition raise_if_other :: "user option \<Rightarrow> uuid \<Rightarrow> svc_error \<Rightarrow> unit svc" where
  "raise_if_other existing i e =
     raise_if (case existing of None \<Rightarrow> False | Some x \<Rightarrow> row_id x \<noteq> i) e"

text \<open>\<open>update_user\<close> up to its commit, and the notification that follows it.\<close>

definition update_account :: "pwd_context \<Rightarrow> uuid \<Rightarrow> user_update \<Rightarrow> user \<Rightarrow> user svc" where
  "update_account pwd i payload current_user =
     bnd (authorize_self_or_admin current_user i) (\<lambda>_.
     bnd (raise_if (attr (uu_role payload) \<noteq> None \<and> role current_user \<noteq> ADMIN)
            (UserForbiddenError ''You cannot change your own role.'')) (\<lambda>_.
     bnd (if attr (uu_password payload) \<noteq> None \<and> row_id current_user = i
          then verify_current_password pwd payload current_user else ret ()) (\<lambda>_.
     bnd (case attr (uu_email payload) of
            None \<Rightarrow> ret ()
          | Some e \<Rightarrow>
              bnd (get_by_email e) (\<lambda>existing. raise_if_other existing i EmailAlreadyExistsError)) (\<lambda>_.
     bnd (case attr (uu_username payload) of
            None \<Rightarrow> ret ()
          | Some n \<Rightarrow>
              bnd (get_by_username n) (\<lambda>existing. raise_if_other existing i UsernameAlreadyExistsError)) (\<lambda>_.
     bnd (found_or UserNotFoundError
            (try_except (user_repo_update pwd i payload) (on_integrity (raise_user_conflict None)))) (\<lambda>u.
     bnd (write_audit_log current_user UPDATE ''User'' i) (\<lambda>_.
     bnd commit (\<lambda>_.
     ret u))))))))"

definition update_user :: "pwd_context \<Rightarrow> channel list \<Rightarrow> uuid \<Rightarrow> user_update \<Rightarrow> user \<Rightarrow> user svc" where
  "update_user pwd channels i payload current_user =
     bnd (update_account pwd i payload current_user) (\<lambda>u.
     bnd (if attr (uu_password payload) \<noteq> None then notify_password_changed channels u else ret ()) (\<lambda>_.
     ret u))"

definition delete_user :: "uuid \<Rightarrow> user \<Rightarrow> user svc" where
  "delete_user i current_user =
     bnd (require_admin_user current_user) (\<lambda>_.
     bnd (raise_if (row_id current_user = i)
            (UserForbiddenError ''You cannot delete your own account.'')) (\<lambda>_.
     bnd (found_or UserNotFoundError (repo_delete users_tbl user_on_delete i)) (\<lambda>u.
     bnd (write_audit_log current_user DELETE ''User'' i) (\<lambda>_.
     bnd (try_except commit (on_integrity (\<lambda>_. raise ManagerAssignedToPropertyError))) (\<lambda>_.
     ret u)))))"

text \<open>
  \<open>seed_system_user\<close>: the scheduler's account under its fixed id, with a random password;
  the flag tells whether it was created.
\<close>

definition seed_system_user ::
  "pwd_context \<Rightarrow> uuid \<Rightarrow> string \<Rightarrow> string \<Rightarrow> (uuid \<Rightarrow> string) \<Rightarrow> (user \<times> bool) svc" where
  "seed_system_user pwd system_id name email token =
     bnd (repo_get_by_id users_tbl system_id) (\<lambda>existing.
     case existing of
       Some u \<Rightarrow> ret (u, False)
     | None \<Rightarrow>
         bnd uuid4 (\<lambda>r.
         bnd (hash_password pwd (Some (token r))) (\<lambda>h.
         bnd now (\<lambda>n.
         let u = \<lparr>row_id = system_id, created_at = n, updated_at = n, username = name,
                  user_email = email, user_full_name = ''PropNest Billing Scheduler'',
                  password_hash = h, password_changed_at = n, role = ADMIN, user_is_active = True\<rparr>
         in bnd (modify (users_update (\<lambda>us. us @ [u]))) (\<lambda>_.
            bnd commit (\<lambda>_.
            ret (u, True)))))))"

lemmas user_code [code] = fun_cong [OF hash_password_def] fun_cong [OF get_by_email_def]
  fun_cong [OF get_by_username_def] fun_cong [OF user_repo_create_def] fun_cong [OF user_repo_update_def]
  fun_cong [OF require_admin_user_def] fun_cong [OF authorize_self_or_admin_def]
  fun_cong [OF verify_current_password_def] fun_cong [OF raise_if_other_def]
  fun_cong [OF notify_password_changed_def] fun_cong [OF update_account_def]
  fun_cong [OF raise_user_conflict_def]

section \<open>Lemmas\<close>

lemma normalize_user_idem [simp]:
  "normalize_user_email (normalize_user_email e) = normalize_user_email e"
  "normalize_username (normalize_username e) = normalize_username e"
  by (simp_all add: normalize_user_email_def normalize_username_def py_strip_lower)

lemma pure_read_user [atomic_intros]:
  "pure_read (require_admin_user u)" "pure_read (authorize_self_or_admin u i)"
  "pure_read (get_by_email e)" "pure_read (get_by_username n)" "pure_read (raise_if_other x i er)"
  "pure_read (list_users u sk li)" "pure_read (get_user i u)"
  unfolding require_admin_user_def authorize_self_or_admin_def get_by_email_def get_by_username_def
    raise_if_other_def list_users_def get_user_def
  by (intro atomic_intros)+

lemma pure_read_verify_current [atomic_intros]: "pure_read (verify_current_password pwd pl u)"
  by (cases "attr (uu_current_password pl)")
    (auto simp: verify_current_password_def intro: atomic_intros)

lemma logs_user_reads [trail_intros]:
  "logs [] (require_admin_user u)" "logs [] (authorize_self_or_admin u i)"
  "logs [] (get_by_email e)" "logs [] (get_by_username n)" "logs [] (raise_if_other x i er)"
  "logs [] (verify_current_password pwd pl u)"
  by (rule logs_pure, rule atomic_intros)+

lemma user_conflict_raises [simp]: "raises (raise_user_conflict d)"
  by (simp add: raise_user_conflict_def [abs_def])

lemma silent_hash [atomic_intros]: "silent (hash_password pwd p)"
  unfolding hash_password_def by (intro atomic_intros)

lemma silent_user_repo_update [atomic_intros]: "silent (user_repo_update pwd i pl)"
  unfolding user_repo_update_def by (intro atomic_intros)

lemma silent_found_or [atomic_intros]: "silent m \<Longrightarrow> silent (found_or e m)"
  unfolding found_or_def by (rule silent_bnd) (auto intro: atomic_intros split: option.splits)

lemma try_commit_eq:
  assumes "raises h"
  shows "bnd (try_except commit (on_integrity h)) f s =
    (if schema_ok (working s) then f () (s\<lparr>committed := working s\<rparr>)
     else (case h (pg_error s (violations (working s))) s of (r, s1) \<Rightarrow> (Inl (projl r), s1)))"
proof -
  have "\<exists>e'. h (pg_error s (violations (working s))) s = (Inl e', snd (h (pg_error s (violations (working s))) s))"
    using assms by (metis raises_def snd_conv)
  moreover have "commit s = (if schema_ok (working s) then (Inr (), s\<lparr>committed := working s\<rparr>)
     else (Inl (IntegrityError (pg_error s (violations (working s)))), s))"
    by (simp add: commit_def bnd_flush)
  ultimately show ?thesis by (auto simp: bnd_def try_except_def split: prod.splits)
qed

lemma atomic_try_commit [atomic_intros]:
  assumes "raises h" "total_read (f ())"
  shows "atomic (bnd (try_except commit (on_integrity h)) f)"
proof (rule atomicI)
  have f: "\<exists>x. f () s = (Inr x, s)" for s using assms(2) by (simp add: total_read_def)
  fix s e s' assume *: "bnd (try_except commit (on_integrity h)) f s = (Inl e, s')"
  show "committed s' = committed s"
  proof (cases "schema_ok (working s)")
    case True
    with * f [of "s\<lparr>committed := working s\<rparr>"] show ?thesis by (auto simp: try_commit_eq [OF assms(1)])
  next
    case False
    with * have "s' = snd (h (pg_error s (violations (working s))) s)"
      by (simp add: try_commit_eq [OF assms(1)] split: prod.splits)
    with assms(1) show ?thesis by (metis raises_def snd_conv)
  qed
next
  fix s x s' assume *: "bnd (try_except commit (on_integrity h)) f s = (Inr x, s')"
  then have "schema_ok (working s)"
    by (simp add: try_commit_eq [OF assms(1)] split: if_splits prod.splits)
  moreover obtain y where "f () (s\<lparr>committed := working s\<rparr>) = (Inr y, s\<lparr>committed := working s\<rparr>)"
    using assms(2) by (auto simp: total_read_def)
  ultimately have "s' = s\<lparr>committed := working s\<rparr>" "schema_ok (working s)"
    using * by (simp_all add: try_commit_eq [OF assms(1)])
  then show "committed s' = working s' \<and> schema_ok (committed s')" by simp
qed

lemma atomic_user_service [atomic_intros]:
  "atomic (create_user pwd pl u)" "atomic (update_account pwd i upl u)" "atomic (delete_user i u)"
  unfolding create_user_def update_account_def delete_user_def user_repo_create_def
  by (intro atomic_intros raises_on_integrity user_conflict_raises raises_raise)+

text \<open>The password fields that an update stores.\<close>

definition new_password :: "pwd_context \<Rightarrow> user_update \<Rightarrow> instant \<Rightarrow> (string \<times> instant) option \<Rightarrow> bool" where
  "new_password pwd pl n pw \<longleftrightarrow>
     (case uu_password pl of
        None \<Rightarrow> pw = None
      | Some p \<Rightarrow> (\<exists>q salt. p = Some q \<and> pw = Some (pwd_hash pwd salt q, n)))"

lemma hash_password_Inr:
  "hash_password pwd p s = (Inr h, s') \<longleftrightarrow>
     (\<exists>q. p = Some q \<and> h = pwd_hash pwd (uuid_source s (uuid_drawn s)) q \<and>
       s' = s\<lparr>uuid_drawn := Suc (uuid_drawn s)\<rparr>)"
  by (auto simp: hash_password_def bnd_uuid4 split: option.splits)

lemma new_password_step:
  "(case uu_password pl of
      None \<Rightarrow> ret None
    | Some p \<Rightarrow> bnd (hash_password pwd p) (\<lambda>h. bnd now (\<lambda>n. ret (Some (h, n))))) s = (Inr pw, s1) \<Longrightarrow>
   new_password pwd pl (clock s) pw \<and> working s1 = working s \<and> clock s1 = clock s"
  by (auto simp: svc_iffs hash_password_Inr new_password_def now_def)

lemma user_repo_update_Inr:
  assumes "user_repo_update pwd i pl s = (Inr (Some r), s')"
  shows "\<exists>pw x. new_password pwd pl (clock s) pw \<and> get_row users_tbl i (working s) = Some x \<and>
    r = touch (clock s) (assign_user_update pl pw) x \<and>
    working s' = users_update (map_row i (touch (clock s) (assign_user_update pl pw))) (working s) \<and>
    schema_ok (working s') \<and> clock s' = clock s"
proof -
  from assms obtain pw s1 x where x: "get_row users_tbl i (working s) = Some x"
    and pw: "(case uu_password pl of
      None \<Rightarrow> ret None
    | Some p \<Rightarrow> bnd (hash_password pwd p) (\<lambda>h. bnd now (\<lambda>n. ret (Some (h, n))))) s = (Inr pw, s1)"
    and up: "repo_update users_tbl i (user_update_nulls pl) (assign_user_update pl pw) s1 = (Inr (Some r), s')"
    by (auto simp: user_repo_update_def bnd_Inr_iff repo_get_by_id_def svc_case_iff)
  from new_password_step [OF pw] up x show ?thesis
    by (intro exI [of _ pw] exI [of _ x]) (auto simp: repo_iffs)
qed

lemma update_account_Inr:
  assumes "update_account pwd i pl u s = (Inr r, s')"
  shows "\<exists>pw x. new_password pwd pl (clock s) pw \<and> get_row users_tbl i (working s) = Some x \<and>
    r = touch (clock s) (assign_user_update pl pw) x \<and>
    users (working s') = map_row i (touch (clock s) (assign_user_update pl pw)) (users (working s)) \<and>
    properties (working s') = properties (working s) \<and> tenants (working s') = tenants (working s) \<and>
    (role u = ADMIN \<or> row_id u = i \<and> attr (uu_role pl) = None) \<and>
    (attr (uu_password pl) \<noteq> None \<and> row_id u = i \<longrightarrow>
       (\<exists>p. attr (uu_current_password pl) = Some p \<and> verify_password pwd p (Some (password_hash u))))"
proof -
  have same: "s2 = s1" if "pure_read m" "m s1 = (Inr x, s2)" for m :: "unit svc" and x s1 s2
    using that by (rule pure_readD)
  from assms obtain x3 s3 x4 s4 x5 s5 s6 where
    a: "role u = ADMIN \<or> row_id u = i" "attr (uu_role pl) = None \<or> role u = ADMIN"
    and v: "(if attr (uu_password pl) \<noteq> None \<and> row_id u = i
          then verify_current_password pwd pl u else ret ()) s = (Inr x3, s3)"
    and e: "(case attr (uu_email pl) of None \<Rightarrow> ret () | Some e \<Rightarrow>
        bnd (get_by_email e) (\<lambda>existing. raise_if_other existing i EmailAlreadyExistsError)) s3 = (Inr x4, s4)"
    and n: "(case attr (uu_username pl) of None \<Rightarrow> ret () | Some n \<Rightarrow>
        bnd (get_by_username n) (\<lambda>existing. raise_if_other existing i UsernameAlreadyExistsError)) s4 = (Inr x5, s5)"
    and r: "user_repo_update pwd i pl s5 = (Inr (Some r), s6)"
    and s': "users (working s') = users (working s6)" "properties (working s') = properties (working s6)"
      "tenants (working s') = tenants (working s6)"
    by (auto simp: update_account_def bnd_Inr_iff write_audit_log_iff authorize_self_or_admin_def)
  have "pure_read (if attr (uu_password pl) \<noteq> None \<and> row_id u = i
          then verify_current_password pwd pl u else ret ())"
    "pure_read (case attr (uu_email pl) of None \<Rightarrow> ret () | Some e \<Rightarrow>
        bnd (get_by_email e) (\<lambda>existing. raise_if_other existing i EmailAlreadyExistsError))"
    "pure_read (case attr (uu_username pl) of None \<Rightarrow> ret () | Some n \<Rightarrow>
        bnd (get_by_username n) (\<lambda>existing. raise_if_other existing i UsernameAlreadyExistsError))"
    by (intro atomic_intros)+
  from same [OF this(1) v] same [OF this(2) e] same [OF this(3) n] have "s5 = s" by simp
  moreover from v have "attr (uu_password pl) \<noteq> None \<and> row_id u = i \<longrightarrow>
     (\<exists>p. attr (uu_current_password pl) = Some p \<and> verify_password pwd p (Some (password_hash u)))"
    by (auto simp: verify_current_password_def svc_iffs split: if_splits option.splits)
  ultimately show ?thesis using user_repo_update_Inr [OF r] a s' by auto
qed

text \<open>A notification channel delivers; it does not touch the database.\<close>

definition deliver_only :: "channel list \<Rightarrow> bool" where
  "deliver_only channels \<longleftrightarrow> (\<forall>c\<in>set channels. \<forall>recipient subject body. silent (c recipient subject body))"

lemma deliver_only_logging [simp]: "deliver_only [logging_channel]" "deliver_only []"
  by (auto simp: deliver_only_def logging_channel_def intro: atomic_intros)

lemma silent_notification: "deliver_only cs \<Longrightarrow> silent (notification_send cs r sub b)"
  by (induction cs) (auto simp: deliver_only_def intro: atomic_intros)

lemma update_user_committed:
  assumes "update_user pwd ch i pl u s = (out, s')" "deliver_only ch"
  obtains "committed s' = committed s" "isl out"
  | r s1 where "update_account pwd i pl u s = (Inr r, s1)" "committed s' = working s1"
proof (cases "update_account pwd i pl u s")
  case (Pair res s1)
  show ?thesis
  proof (cases res)
    case (Inl e)
    with Pair assms(1) have "out = Inl e" "s' = s1" by (simp_all add: update_user_def bnd_def)
    with Pair Inl that(1) atomic_Inl [OF atomic_user_service(2)] show ?thesis by fastforce
  next
    case (Inr r)
    have "silent (bnd (if attr (uu_password pl) \<noteq> None then notify_password_changed ch r else ret ()) (\<lambda>_. ret r))"
      unfolding notify_password_changed_def
      by (intro atomic_intros silent_notification assms(2))
    moreover from Pair Inr assms(1) have
      "bnd (if attr (uu_password pl) \<noteq> None then notify_password_changed ch r else ret ()) (\<lambda>_. ret r) s1 = (out, s')"
      by (simp add: update_user_def bnd_def [of "update_account pwd i pl u"])
    ultimately have "committed s' = committed s1" by (rule silentD)
    with Pair Inr that(2) atomic_Inr [OF atomic_user_service(2)] show ?thesis by metis
  qed
qed

lemma touch_user [simp]:
  "username (touch n f x) = username (f x)" "user_email (touch n f x) = user_email (f x)"
  "role (touch n f x) = role (f x)" "password_hash (touch n f x) = password_hash (f x)"
  "password_changed_at (touch n f x) = password_changed_at (f x)"
  "user_is_active (touch n f x) = user_is_active (f x)"
  by (simp_all add: touch_def Let_def)

lemma assign_user_update_simps [simp]:
  "row_id (assign_user_update pl pw x) = row_id x"
  "password_hash (assign_user_update pl pw x) = (case pw of None \<Rightarrow> password_hash x | Some (h, _) \<Rightarrow> h)"
  "password_changed_at (assign_user_update pl pw x) =
     (case pw of None \<Rightarrow> password_changed_at x | Some (_, n) \<Rightarrow> n)"
  "role (assign_user_update pl pw x) = set_req (uu_role pl) (role x)"
  by (simp_all add: assign_user_update_def)

lemma set_req_no_value [simp]: "attr p = None \<Longrightarrow> set_req p x = x"
  by (cases p rule: patch_cases) simp_all

lemma map_row_list_all2:
  "list_all2 (\<lambda>x y. y = (if row_id x = i then f x else x)) rs (map_row i f rs)"
  by (induction rs) (auto simp: map_row_simps)

text \<open>A context whose hashes carry the password in clear, to try the properties out.\<close>

definition plain_pwd :: pwd_context where
  "plain_pwd = \<lparr>pwd_hash = (\<lambda>salt p. ''h:'' @ p), pwd_verify = (\<lambda>p h. Some (h = ''h:'' @ p))\<rparr>"

lemma verifies_plain_pwd: "verifies_own_hashes plain_pwd"
  by (simp add: verifies_own_hashes_def plain_pwd_def)

lemma schema_ok_manager:
  "schema_ok t \<Longrightarrow> p \<in> set (properties t) \<Longrightarrow> manager_id p = Some m \<Longrightarrow> m \<in> set (ids (users t))"
  by (force simp: schema_ok_tables properties_constraints_def list_all_iff)

lemma delete_user_Inr:
  assumes "delete_user i u s = (Inr x, s')"
  shows "role u = ADMIN \<and> row_id u \<noteq> i \<and> get_row users_tbl i (working s) = Some x \<and>
    working s' = audit_logs_update (\<lambda>as. as @ [audit_row s u DELETE ''User'' i])
      (user_on_delete i (users_update (filter (\<lambda>q. row_id q \<noteq> i)) (working s))) \<and>
    schema_ok (working s') \<and> committed s' = working s'"
  using assms
  by (auto simp: delete_user_def bnd_Inr_iff require_admin_user_def repo_delete_iff write_audit_log_iff
      audit_row_def split: option.splits)

section \<open>Properties\<close>

text \<open>
  C16. Updating an account cannot escalate privileges, whatever the outcome and even when a
  notification channel fails: rows other than the target keep every field, only an
  administrator or the owner changes the target, only an administrator changes a role, and
  the owner's password changes only when the current one was given.
\<close>

theorem update_user_cannot_escalate:
  assumes "update_user pwd ch i pl u s = (out, s')" "deliver_only ch"
  shows "committed s' = committed s \<or>
    list_all2 (\<lambda>x y. row_id y = row_id x \<and>
        (y \<noteq> x \<longrightarrow> row_id x = i \<and> (role u = ADMIN \<or> row_id u = i)) \<and>
        (role y \<noteq> role x \<longrightarrow> role u = ADMIN) \<and>
        (password_hash y \<noteq> password_hash x \<and> row_id u = i \<longrightarrow>
           (\<exists>p. attr (uu_current_password pl) = Some p \<and> verify_password pwd p (Some (password_hash u)))))
      (users (working s)) (users (committed s'))"
  using assms
proof (cases rule: update_user_committed)
  case (2 r s1)
  from update_account_Inr [OF 2(1)] obtain pw where
    pw: "new_password pwd pl (clock s) pw"
    and m: "users (working s1) = map_row i (touch (clock s) (assign_user_update pl pw)) (users (working s))"
    and a: "role u = ADMIN \<or> row_id u = i \<and> attr (uu_role pl) = None"
    and v: "attr (uu_password pl) \<noteq> None \<and> row_id u = i \<longrightarrow>
       (\<exists>p. attr (uu_current_password pl) = Some p \<and> verify_password pwd p (Some (password_hash u)))"
    by blast
  from pw have p: "pw = None \<or> attr (uu_password pl) \<noteq> None"
    by (auto simp: new_password_def split: option.splits)
  show ?thesis
    by (rule disjI2, unfold 2(2) m, rule list_all2_mono [OF map_row_list_all2]) (use a v p in auto)
qed simp

theorem update_user_cannot_escalate_witness:
  "list_all2 (\<lambda>x y. role y = role x) (users sample_tables) (users (committed (snd
     (update_user plain_pwd [logging_channel] 4
       \<lparr>uu_full_name = Some (Some ''U''), uu_username = None, uu_email = None, uu_password = Some (Some ''new''),
        uu_current_password = Some (Some ''uwe''), uu_role = None, uu_is_active = None\<rparr>
       uwe (session_of sample_tables)))))"
  (is "list_all2 _ _ (users (committed (snd ?run)))")
proof -
  have "role uwe \<noteq> ADMIN" by (simp add: uwe_def sample_user_def)
  moreover have "?run = (fst ?run, snd ?run)" by (rule prod.collapse [symmetric])
  from update_user_cannot_escalate [OF this deliver_only_logging(1)]
  have "committed (snd ?run) = sample_tables \<or>
      list_all2 (\<lambda>x y. role y \<noteq> role x \<longrightarrow> role uwe = ADMIN) (users sample_tables) (users (committed (snd ?run)))"
    unfolding session_of_simps by (elim disjE) (rule disjI1, assumption, rule disjI2, erule list_all2_mono, simp)
  ultimately show ?thesis by (elim disjE) (simp_all add: list.rel_refl)
qed

text \<open>
  A new account is found under every spelling of its username and email address that
  differs in case or surrounding space, and its password verifies.
\<close>

theorem new_account_is_found:
  assumes "create_user pwd pl u s = (Inr x, s')" "verifies_own_hashes pwd"
  shows "(\<forall>n. normalize_username n = normalize_username (uc_username pl) \<longrightarrow>
      get_by_username n s' = (Inr (Some x), s')) \<and>
    (\<forall>e. normalize_user_email e = normalize_user_email (uc_email pl) \<longrightarrow>
      get_by_email e s' = (Inr (Some x), s')) \<and>
    verify_password pwd (uc_password pl) (Some (password_hash x)) \<and> role x = uc_role pl \<and>
    committed s' = working s'"
proof -
  from assms(1) obtain h i n salt where
    x: "x = new_user pl h i n" "h = pwd_hash pwd salt (uc_password pl)"
    and us: "users (working s') = users (working s) @ [x]"
    and fe: "filter (\<lambda>y. user_email y = normalize_user_email (uc_email pl)) (users (working s)) = []"
    and fn: "filter (\<lambda>y. username y = normalize_username (uc_username pl)) (users (working s)) = []"
    by (auto simp: create_user_def user_repo_create_def svc_iffs repo_iffs write_audit_log_iff
        hash_password_Inr get_by_email_def get_by_username_def build_query_def)
  have "committed s' = working s'" by (rule atomic_Inr [OF atomic_user_service(1) assms(1)])
  moreover have "username x = normalize_username (uc_username pl)"
    "user_email x = normalize_user_email (uc_email pl)" "role x = uc_role pl" "password_hash x = h"
    by (simp_all add: x new_user_def)
  moreover have "h \<noteq> [] \<and> pwd_verify pwd (uc_password pl) h = Some True"
    using assms(2) by (auto simp: x verifies_own_hashes_def)
  ultimately show ?thesis
    by (simp add: get_by_username_def get_by_email_def build_query_def us fe fn verify_password_def)
qed

theorem new_account_is_found_witness:
  "fst (get_by_username '' ZOE'' (snd (create_user plain_pwd
     \<lparr>uc_username = ''zoe'', uc_email = ''zoe@x.org'', uc_full_name = ''Zoe'', uc_role = MANAGER,
      uc_is_active = True, uc_password = ''pw''\<rparr> ann (session_of sample_tables)))) \<noteq> Inr None"
  (is "fst (get_by_username ?n (snd (create_user plain_pwd ?pl ann ?s))) \<noteq> _")
proof -
  have "\<not> isl (fst (create_user plain_pwd ?pl ann ?s))" by code_simp
  from run_ok [of "create_user plain_pwd ?pl ann" ?s, OF this] obtain x where
    "create_user plain_pwd ?pl ann ?s = (Inr x, snd (create_user plain_pwd ?pl ann ?s))" ..
  moreover have "normalize_username ?n = normalize_username (uc_username ?pl)" by code_simp
  ultimately have "get_by_username ?n (snd (create_user plain_pwd ?pl ann ?s)) =
      (Inr (Some x), snd (create_user plain_pwd ?pl ann ?s))"
    using new_account_is_found [of plain_pwd ?pl ann ?s x] verifies_plain_pwd by blast
  then show ?thesis by (metis Inr_inject fst_conv option.distinct(1))
qed

text \<open>
  Deleting an account: only an administrator may, never the own account, and the history
  survives: no other user changes, tenants and audit entries remain and merely lose the
  reference, and no property is left with a manager that is gone.
\<close>

theorem delete_user_keeps_history:
  assumes "delete_user i u s = (Inr x, s')"
  shows "role u = ADMIN \<and> i \<noteq> row_id u \<and> row_id x = i \<and>
    users (committed s') = filter (\<lambda>y. row_id y \<noteq> i) (users (working s)) \<and>
    (\<forall>p\<in>set (properties (committed s')). manager_id p \<noteq> Some i) \<and>
    map (tenant_user_id_update (\<lambda>_. None)) (tenants (committed s')) =
      map (tenant_user_id_update (\<lambda>_. None)) (tenants (working s)) \<and>
    map (actor_id_update (\<lambda>_. None)) (audit_logs (committed s')) =
      map (actor_id_update (\<lambda>_. None)) (audit_logs (working s) @ [audit_row s u DELETE ''User'' i])"
proof -
  note d = delete_user_Inr [OF assms]
  from d have us: "users (working s') = filter (\<lambda>y. row_id y \<noteq> i) (users (working s))"
    by (simp add: user_on_delete_def)
  have "i \<notin> set (ids (users (working s')))" by (auto simp: us ids_def)
  then have "\<forall>p\<in>set (properties (working s')). manager_id p \<noteq> Some i"
    using d schema_ok_manager by blast
  with d us show ?thesis
    by (auto simp: user_on_delete_def comp_def dest: get_row_id)
qed

theorem delete_user_keeps_history_witness:
  "users (committed (snd (delete_user 4 ann (session_of sample_tables)))) = [ann, mgr, mia]"
proof -
  have "\<not> isl (fst (delete_user 4 ann (session_of sample_tables)))" by code_simp
  from run_ok [of "delete_user 4 ann" "session_of sample_tables", OF this] obtain x where
    "delete_user 4 ann (session_of sample_tables) = (Inr x, snd (delete_user 4 ann (session_of sample_tables)))" ..
  from delete_user_keeps_history [OF this] show ?thesis
    by (simp add: sample_tables_def ann_def mgr_def mia_def uwe_def sample_user_def)
qed

text \<open>
  A manager who still has a property cannot be deleted: the administrator is told so and
  nothing changes.
\<close>

theorem assigned_manager_not_deletable:
  assumes "role u = ADMIN" "row_id u \<noteq> i" "get_row users_tbl i (working s) = Some x"
    and "p \<in> set (properties (working s))" "manager_id p = Some i"
  shows "\<exists>s'. delete_user i u s = (Inl ManagerAssignedToPropertyError, s') \<and> committed s' = committed s"
proof -
  let ?t = "audit_logs_update (\<lambda>as. as @ [audit_row s u DELETE ''User'' i])
      (user_on_delete i (users_update (filter (\<lambda>q. row_id q \<noteq> i)) (working s)))"
  have "i \<notin> set (ids (users ?t))" by (auto simp: ids_def user_on_delete_def)
  moreover have "p \<in> set (properties ?t)" using assms(4) by (simp add: user_on_delete_def)
  ultimately have "\<not> schema_ok ?t"
    using assms(5) schema_ok_manager by blast
  then have "fst (delete_user i u s) = Inl ManagerAssignedToPropertyError"
    using assms(1-3)
    by (simp add: delete_user_def require_admin_user_def svc found_or_def repo_delete_def bnd_assoc
        repo_get_by_id_def try_commit_eq raise_def audit_row_def)
  then show ?thesis
    using atomic_Inl [OF atomic_user_service(3)] by (metis prod.collapse)
qed

theorem assigned_manager_not_deletable_witness:
  "fst (delete_user 2 ann (session_of sample_tables)) = Inl ManagerAssignedToPropertyError"
proof -
  have "\<exists>s'. delete_user 2 ann (session_of sample_tables) = (Inl ManagerAssignedToPropertyError, s') \<and>
      committed s' = committed (session_of sample_tables)"
    by (rule assigned_manager_not_deletable [where x = mgr and p = "sample_property 10 ''Villa'' (Some 2) Occupied"])
      (code_simp | simp add: ann_def sample_user_def sample_tables_def sample_property_def)+
  then show ?thesis by auto
qed

text \<open>
  Changing the role of a manager does not look at the properties: afterwards a property is
  assigned to a user who is no manager, and that user is refused access to it.
\<close>

theorem demoted_manager_keeps_property:
  assumes "update_user pwd [] i pl u s = (Inr r, s')" "uu_role pl = Some (Some USER)"
    and "p \<in> set (properties (working s))" "manager_id p = Some i"
  shows "p \<in> set (properties (committed s')) \<and> row_id r = i \<and> role r = USER \<and>
    \<not> managers_ok (committed s') \<and> isl (fst (get_property (row_id p) r s'))"
  using assms(1) deliver_only_logging(2)
proof (cases rule: update_user_committed)
  case (2 r1 s1)
  from update_account_Inr [OF 2(1)] obtain pw x where
    x: "get_row users_tbl i (working s) = Some x" "r1 = touch (clock s) (assign_user_update pl pw) x"
    and us: "users (working s1) = map_row i (touch (clock s) (assign_user_update pl pw)) (users (working s))"
    and ps: "properties (working s1) = properties (working s)" by blast
  have "r = r1" using assms(1) 2(1)
    by (simp add: update_user_def bnd_Inr_iff)
  then have r: "row_id r = i" "role r = USER" using x assms(2) by (auto dest: get_row_id)
  have "\<forall>y\<in>set (users (working s1)). row_id y = i \<longrightarrow> role y = USER"
    by (simp add: us ball_map_row assms(2))
  with assms(3,4) ps have "\<not> managers_ok (working s1)" unfolding managers_ok_iff by force
  moreover have "isl (fst (get_property (row_id p) r s'))"
  proof (rule ccontr)
    assume "\<not> ?thesis"
    from run_ok [of "get_property (row_id p) r" s', OF this] obtain q where "get_property (row_id p) r s' = (Inr q, snd (get_property (row_id p) r s'))" ..
    with r show False by (simp add: get_property_Inr)
  qed
  ultimately show ?thesis using 2(2) ps assms(3) r by simp
qed simp

theorem demoted_manager_keeps_property_witness:
  "\<not> managers_ok (committed (snd (update_user plain_pwd [] 2
     \<lparr>uu_full_name = None, uu_username = None, uu_email = None, uu_password = None, uu_current_password = None,
      uu_role = Some (Some USER), uu_is_active = None\<rparr> ann (session_of sample_tables))))"
  (is "\<not> managers_ok (committed (snd (update_user plain_pwd [] 2 ?pl ann ?s)))")
proof -
  have "\<not> isl (fst (update_user plain_pwd [] 2 ?pl ann ?s))" by code_simp
  from run_ok [of "update_user plain_pwd [] 2 ?pl ann" ?s, OF this] obtain r where
    "update_user plain_pwd [] 2 ?pl ann ?s = (Inr r, snd (update_user plain_pwd [] 2 ?pl ann ?s))" ..
  from demoted_manager_keeps_property [OF this, of "sample_property 10 ''Villa'' (Some 2) Occupied"]
  show ?thesis by (simp add: sample_tables_def sample_property_def)
qed

end
