(* ===== verification/Startup.thy ===== *)
theory Startup
  imports Prelude
begin

text \<open>
  What happens before the first request: the configuration classes and their validation
  (app/core/config.py), the retry loop in front of PostgreSQL (app/db/session.py) and in
  front of the object store (app/core/storage_provisioning.py), and the start-up sequence of
  app/main.py. The process environment is a parameter.
\<close>

section \<open>Configuration\<close>

text \<open>
  The fields of \<open>BaseConfig\<close>, grouped as in the class body. Socket timeouts are in
  milliseconds.
\<close>

record app_settings =
  APP_NAME :: string
  API_V1_PREFIX :: string
  DEBUG :: bool
  ENV :: string

record db_settings = app_settings +
  DB_HOST :: string
  DB_PORT :: int
  DB_NAME :: string
  DB_USER :: string
  DB_PASSWORD :: string
  DB_MAX_RETRIES :: int
  DB_RETRY_INTERVAL :: int

record minio_settings = db_settings +
  MINIO_ENDPOINT :: string
  MINIO_ROOT_USER :: string
  MINIO_ROOT_PASSWORD :: string
  MINIO_BUCKET_NAME :: string
  MINIO_MAX_RETRIES :: int
  MINIO_RETRY_INTERVAL :: int

record redis_settings = minio_settings +
  REDIS_HOST :: string
  REDIS_PORT :: int
  REDIS_DB :: int
  REDIS_PASSWORD :: "string option"
  REDIS_JOBS_DB :: int
  REDIS_MAX_CONNECTIONS :: int
  REDIS_SOCKET_TIMEOUT :: int
  REDIS_SOCKET_CONNECT_TIMEOUT :: int
  REDIS_HEALTH_CHECK_INTERVAL :: int

record scheduler_settings = redis_settings +
  SYSTEM_SCHEDULER_USER_ID :: string
  SYSTEM_SCHEDULER_USERNAME :: string
  SYSTEM_SCHEDULER_EMAIL :: string
  BILLING_JOB_CRON_HOUR :: int
  BILLING_JOB_CRON_MINUTE :: int

record auth_settings = scheduler_settings +
  SECRET_KEY :: string
  ALGORITHM :: string
  ACCESS_TOKEN_EXPIRE_MINUTES :: int
  JWT_ISSUER :: string
  JWT_AUDIENCE :: string

record settings = auth_settings +
  LOGIN_RATE_LIMIT_MAX_REQUESTS :: int
  LOGIN_RATE_LIMIT_WINDOW_SECONDS :: int
  LOGIN_MAX_FAILED_ATTEMPTS :: int
  LOGIN_FAILURE_WINDOW_SECONDS :: int
  LOGIN_LOCKOUT_BASE_SECONDS :: int
  LOGIN_LOCKOUT_MAX_SECONDS :: int
  CORS_ORIGINS :: "string list"

definition KNOWN_INSECURE :: "string list" where
  "KNOWN_INSECURE = [''dev-secret-key-to-the-universe-pwease-override'', ''propnest_secret'']"

definition BaseConfig :: settings where
  "BaseConfig =
     \<lparr>APP_NAME = ''PropNest API'', API_V1_PREFIX = ''/api/v1'', DEBUG = False, ENV = ''base'',
      DB_HOST = ''db'', DB_PORT = 5432, DB_NAME = ''propnest_db'', DB_USER = ''propnest'',
      DB_PASSWORD = ''propnest_secret'', DB_MAX_RETRIES = 10, DB_RETRY_INTERVAL = 3,
      MINIO_ENDPOINT = ''http://minio:9000'', MINIO_ROOT_USER = ''propnest_minio'',
      MINIO_ROOT_PASSWORD = ''propnest_secret'', MINIO_BUCKET_NAME = ''propnest-documents'',
      MINIO_MAX_RETRIES = 10, MINIO_RETRY_INTERVAL = 3,
      REDIS_HOST = ''redis'', REDIS_PORT = 6379, REDIS_DB = 0, REDIS_PASSWORD = None,
      REDIS_JOBS_DB = 10, REDIS_MAX_CONNECTIONS = 20, REDIS_SOCKET_TIMEOUT = 2000,
      REDIS_SOCKET_CONNECT_TIMEOUT = 2000, REDIS_HEALTH_CHECK_INTERVAL = 30,
      SYSTEM_SCHEDULER_USER_ID = ''00000000-0000-0000-0000-000000000001'',
      SYSTEM_SCHEDULER_USERNAME = ''system.scheduler'',
      SYSTEM_SCHEDULER_EMAIL = ''system-scheduler@propnest.internal'',
      BILLING_JOB_CRON_HOUR = 1, BILLING_JOB_CRON_MINUTE = 0,
      SECRET_KEY = ''dev-secret-key-to-the-universe-pwease-override'', ALGORITHM = ''HS256'',
      ACCESS_TOKEN_EXPIRE_MINUTES = 60, JWT_ISSUER = ''propnest-api'',
      JWT_AUDIENCE = ''propnest-users'', LOGIN_RATE_LIMIT_MAX_REQUESTS = 10,
      LOGIN_RATE_LIMIT_WINDOW_SECONDS = 60, LOGIN_MAX_FAILED_ATTEMPTS = 5,
      LOGIN_FAILURE_WINDOW_SECONDS = 900, LOGIN_LOCKOUT_BASE_SECONDS = 30,
      LOGIN_LOCKOUT_MAX_SECONDS = 900, CORS_ORIGINS = [''http://localhost:3000'']\<rparr>"

definition DevelopmentConfig :: settings where
  "DevelopmentConfig = BaseConfig\<lparr>DEBUG := True, ACCESS_TOKEN_EXPIRE_MINUTES := 120,
     ENV := ''dev'', DB_MAX_RETRIES := 15, DB_RETRY_INTERVAL := 2\<rparr>"

definition UnittestConfig :: settings where
  "UnittestConfig = BaseConfig\<lparr>DB_NAME := ''propnest_unittest_db'', DEBUG := True,
     ENV := ''unittest'', DB_MAX_RETRIES := 5, DB_RETRY_INTERVAL := 1, REDIS_DB := 1,
     REDIS_JOBS_DB := 11, LOGIN_RATE_LIMIT_MAX_REQUESTS := 5,
     LOGIN_RATE_LIMIT_WINDOW_SECONDS := 60, LOGIN_MAX_FAILED_ATTEMPTS := 3,
     LOGIN_FAILURE_WINDOW_SECONDS := 30, LOGIN_LOCKOUT_BASE_SECONDS := 2,
     LOGIN_LOCKOUT_MAX_SECONDS := 6\<rparr>"

definition TestConfig :: settings where
  "TestConfig = BaseConfig\<lparr>DEBUG := True, ENV := ''test'', DB_MAX_RETRIES := 5,
     DB_RETRY_INTERVAL := 1, REDIS_DB := 2, REDIS_JOBS_DB := 12\<rparr>"

definition StagingConfig :: settings where
  "StagingConfig = BaseConfig\<lparr>DB_MAX_RETRIES := 10, DB_RETRY_INTERVAL := 3, ENV := ''staging''\<rparr>"

text \<open>What can go wrong while the settings are built and validated.\<close>

datatype unsafe =
    SecretKeyInsecure | SecretKeyShort | DbPasswordInsecure | MinioPasswordInsecure
  | RedisPasswordMissing | TokenLifetimeTooLong int

datatype startup_error =
    KeyError string
  | ValueError string
  | ConfigValidation "unsafe list"
  | RedisDbClash int
  | Unreachable string

type_synonym environ = "string \<Rightarrow> string option"

text \<open>\<open>os.environ[k]\<close>, \<open>os.environ.get(k, d)\<close> and \<open>int(os.environ.get(k, d))\<close>.\<close>

definition env_req :: "environ \<Rightarrow> string \<Rightarrow> startup_error + string" where
  "env_req env k = (case env k of None \<Rightarrow> Inl (KeyError k) | Some v \<Rightarrow> Inr v)"

definition env_get :: "environ \<Rightarrow> string \<Rightarrow> string \<Rightarrow> string" where
  "env_get env k d = (case env k of None \<Rightarrow> d | Some v \<Rightarrow> v)"

definition env_int :: "environ \<Rightarrow> string \<Rightarrow> string \<Rightarrow> startup_error + int" where
  "env_int env k d =
     (case py_int (env_get env k d) of None \<Rightarrow> Inl (ValueError k) | Some n \<Rightarrow> Inr n)"

fun and_then :: "'e + 'a \<Rightarrow> ('a \<Rightarrow> 'e + 'b) \<Rightarrow> 'e + 'b" where
  "and_then (Inl e) f = Inl e"
| "and_then (Inr x) f = f x"

definition cors_origins :: "environ \<Rightarrow> string list" where
  "cors_origins env =
     map py_strip (filter (\<lambda>origin. py_strip origin \<noteq> [])
       (split_on CHR '','' (env_get env ''CORS_ORIGINS'' [])))"

text \<open>The default factories run in the order of the fields of the class.\<close>

definition ProductionConfig :: "environ \<Rightarrow> startup_error + settings" where
  "ProductionConfig env =
     and_then (env_int env ''DB_PORT'' ''5432'') (\<lambda>db_port.
     and_then (env_req env ''DB_PASSWORD'') (\<lambda>db_password.
     and_then (env_req env ''MINIO_ROOT_PASSWORD'') (\<lambda>minio_password.
     and_then (env_int env ''REDIS_PORT'' ''6379'') (\<lambda>redis_port.
     and_then (env_req env ''REDIS_PASSWORD'') (\<lambda>redis_password.
     and_then (env_int env ''REDIS_JOBS_DB'' ''10'') (\<lambda>jobs_db.
     and_then (env_int env ''BILLING_JOB_CRON_HOUR'' ''1'') (\<lambda>cron_hour.
     and_then (env_int env ''BILLING_JOB_CRON_MINUTE'' ''0'') (\<lambda>cron_minute.
     and_then (env_req env ''SECRET_KEY'') (\<lambda>secret_key.
     Inr (BaseConfig\<lparr>
       DEBUG := False, ACCESS_TOKEN_EXPIRE_MINUTES := 30, ENV := ''prod'',
       DB_MAX_RETRIES := 20, DB_RETRY_INTERVAL := 5,
       DB_HOST := env_get env ''DB_HOST'' ''db'', DB_PORT := db_port,
       DB_NAME := env_get env ''DB_NAME'' ''propnest_db'',
       DB_USER := env_get env ''DB_USER'' ''propnest'', DB_PASSWORD := db_password,
       SECRET_KEY := secret_key, MINIO_ROOT_PASSWORD := minio_password,
       REDIS_HOST := env_get env ''REDIS_HOST'' ''redis'', REDIS_PORT := redis_port,
       REDIS_PASSWORD := Some redis_password,
       JWT_ISSUER := env_get env ''JWT_ISSUER'' ''propnest-api'',
       JWT_AUDIENCE := env_get env ''JWT_AUDIENCE'' ''propnest-users'',
       CORS_ORIGINS := cors_origins env, REDIS_JOBS_DB := jobs_db,
       SYSTEM_SCHEDULER_USER_ID :=
         env_get env ''SYSTEM_SCHEDULER_USER_ID'' ''00000000-0000-0000-0000-000000000001'',
       SYSTEM_SCHEDULER_USERNAME := env_get env ''SYSTEM_SCHEDULER_USERNAME'' ''system.scheduler'',
       BILLING_JOB_CRON_HOUR := cron_hour, BILLING_JOB_CRON_MINUTE := cron_minute\<rparr>))))))))))"

definition is_dev :: "settings \<Rightarrow> bool" where
  "is_dev c \<longleftrightarrow> ENV c \<in> {''dev'', ''unittest'', ''test''}"

definition is_prod :: "settings \<Rightarrow> bool" where
  "is_prod c \<longleftrightarrow> ENV c = ''prod''"

definition int_str :: "int \<Rightarrow> string" where
  "int_str n = (if n < 0 then CHR ''-'' # decimal (nat (- n)) else decimal (nat n))"

definition redis_url :: "settings \<Rightarrow> int \<Rightarrow> string" where
  "redis_url c db =
     (let auth = (case REDIS_PASSWORD c of
                    None \<Rightarrow> []
                  | Some p \<Rightarrow> if p = [] then [] else '':'' @ p @ ''@'')
      in ''redis://'' @ auth @ REDIS_HOST c @ '':'' @ int_str (REDIS_PORT c) @ ''/'' @ int_str db)"

definition REDIS_URL :: "settings \<Rightarrow> string" where
  "REDIS_URL c = redis_url c (REDIS_DB c)"

definition REDIS_JOBS_URL :: "settings \<Rightarrow> string" where
  "REDIS_JOBS_URL c = redis_url c (REDIS_JOBS_DB c)"

text \<open>\<open>validate\<close> of \<open>ProductionConfig\<close>; every other class inherits the empty one.\<close>

definition unsafe_settings :: "settings \<Rightarrow> unsafe list" where
  "unsafe_settings c =
     (if SECRET_KEY c = [] \<or> SECRET_KEY c \<in> set KNOWN_INSECURE then [SecretKeyInsecure] else []) @
     (if length (SECRET_KEY c) < 32 then [SecretKeyShort] else []) @
     (if DB_PASSWORD c = [] \<or> DB_PASSWORD c \<in> set KNOWN_INSECURE then [DbPasswordInsecure] else []) @
     (if MINIO_ROOT_PASSWORD c = [] \<or> MINIO_ROOT_PASSWORD c \<in> set KNOWN_INSECURE
      then [MinioPasswordInsecure] else []) @
     (if REDIS_PASSWORD c \<in> {None, Some []} then [RedisPasswordMissing] else []) @
     (if ACCESS_TOKEN_EXPIRE_MINUTES c > 30
      then [TokenLifetimeTooLong (ACCESS_TOKEN_EXPIRE_MINUTES c)] else [])"

definition validate :: "settings \<Rightarrow> startup_error + unit" where
  "validate c =
     (if \<not> is_prod c then Inr ()
      else let errors = unsafe_settings c
           in if errors \<noteq> [] then Inl (ConfigValidation errors) else Inr ())"

definition CONFIG_MAP :: "string \<Rightarrow> (environ \<Rightarrow> startup_error + settings) option" where
  "CONFIG_MAP name =
     (if name = ''dev'' then Some (\<lambda>_. Inr DevelopmentConfig)
      else if name = ''unittest'' then Some (\<lambda>_. Inr UnittestConfig)
      else if name = ''test'' then Some (\<lambda>_. Inr TestConfig)
      else if name = ''staging'' then Some (\<lambda>_. Inr StagingConfig)
      else if name = ''prod'' then Some ProductionConfig
      else None)"

definition get_config :: "environ \<Rightarrow> startup_error + settings" where
  "get_config env =
     (let name = env_get env ''ENV'' ''dev''
      in case CONFIG_MAP name of
           None \<Rightarrow> Inl (ValueError name)
         | Some config_class \<Rightarrow>
             and_then (config_class env) (\<lambda>config.
             if REDIS_DB config = REDIS_JOBS_DB config then Inl (RedisDbClash (REDIS_DB config))
             else Inr config))"

section \<open>Waiting for the services\<close>

text \<open>
  The retry loop \<open>for attempt in range(1, max_retries + 1)\<close>. \<open>try_connect n\<close> tells whether
  the attempt number \<open>n\<close> gets through. The result carries the number of attempts made.
\<close>

function wait_for_connection ::
  "(int \<Rightarrow> bool) \<Rightarrow> string \<Rightarrow> int \<Rightarrow> int \<Rightarrow> (startup_error + unit) \<times> int" where
  "wait_for_connection try_connect label max_retries attempt =
     (if attempt > max_retries then (Inr (), attempt - 1)
      else if try_connect attempt then (Inr (), attempt)
      else if attempt = max_retries then (Inl (Unreachable label), attempt)
      else wait_for_connection try_connect label max_retries (attempt + 1))"
  by pat_completeness auto
termination
  by (relation "measure (\<lambda>(_, _, m, n). nat (m + 1 - n))") auto

declare wait_for_connection.simps [simp del]

definition wait_for_db :: "(int \<Rightarrow> bool) \<Rightarrow> settings \<Rightarrow> (startup_error + unit) \<times> int" where
  "wait_for_db try_connect c = wait_for_connection try_connect ''Database'' (DB_MAX_RETRIES c) 1"

text \<open>
  The body of \<open>ensure_bucket_exists\<close>: an attempt succeeds when the bucket is there, or can be
  made, or somebody else has just made it.
\<close>

datatype s3_reply = Done bool | S3Code string | OtherFailure

definition bucket_attempt :: "(int \<Rightarrow> s3_reply) \<Rightarrow> (int \<Rightarrow> s3_reply) \<Rightarrow> int \<Rightarrow> bool" where
  "bucket_attempt bucket_exists make_bucket n =
     (case bucket_exists n of
        Done True \<Rightarrow> True
      | Done False \<Rightarrow>
          (case make_bucket n of
             Done _ \<Rightarrow> True
           | S3Code code \<Rightarrow> code = ''BucketAlreadyOwnedByYou''
           | OtherFailure \<Rightarrow> False)
      | _ \<Rightarrow> False)"

definition ensure_bucket_exists ::
  "(int \<Rightarrow> s3_reply) \<Rightarrow> (int \<Rightarrow> s3_reply) \<Rightarrow> settings \<Rightarrow> (startup_error + unit) \<times> int" where
  "ensure_bucket_exists bucket_exists make_bucket c =
     wait_for_connection (bucket_attempt bucket_exists make_bucket) (MINIO_BUCKET_NAME c)
       (MINIO_MAX_RETRIES c) 1"

text \<open>The part of \<open>lifespan\<close> before the application serves requests.\<close>

definition lifespan ::
  "(int \<Rightarrow> bool) \<Rightarrow> (int \<Rightarrow> s3_reply) \<Rightarrow> (int \<Rightarrow> s3_reply) \<Rightarrow> environ \<Rightarrow> startup_error + settings" where
  "lifespan try_db bucket_exists make_bucket env =
     and_then (get_config env) (\<lambda>c.
     and_then (validate c) (\<lambda>_.
     and_then (fst (wait_for_db try_db c)) (\<lambda>_.
     and_then (fst (ensure_bucket_exists bucket_exists make_bucket c)) (\<lambda>_.
     Inr c))))"

section \<open>Lemmas\<close>

lemma and_then_Inr: "and_then m f = Inr y \<longleftrightarrow> (\<exists>x. m = Inr x \<and> f x = Inr y)"
  by (cases m) simp_all

lemmas config_classes = BaseConfig_def DevelopmentConfig_def UnittestConfig_def TestConfig_def
  StagingConfig_def

lemma settings_validate_Inr: "validate c = Inr u \<longleftrightarrow> (is_prod c \<longrightarrow> unsafe_settings c = [])"
  by (simp add: validate_def Let_def)

lemma unsafe_settings_Nil:
  "unsafe_settings c = [] \<longleftrightarrow>
     32 \<le> length (SECRET_KEY c) \<and> SECRET_KEY c \<notin> set KNOWN_INSECURE \<and>
     DB_PASSWORD c \<noteq> [] \<and> DB_PASSWORD c \<notin> set KNOWN_INSECURE \<and>
     MINIO_ROOT_PASSWORD c \<noteq> [] \<and> MINIO_ROOT_PASSWORD c \<notin> set KNOWN_INSECURE \<and>
     REDIS_PASSWORD c \<notin> {None, Some []} \<and> ACCESS_TOKEN_EXPIRE_MINUTES c \<le> 30"
  by (auto simp: unsafe_settings_def)

lemma get_config_Inr:
  "get_config env = Inr c \<longleftrightarrow>
     (\<exists>cls. CONFIG_MAP (env_get env ''ENV'' ''dev'') = Some cls \<and> cls env = Inr c) \<and>
     REDIS_DB c \<noteq> REDIS_JOBS_DB c"
  by (auto simp: get_config_def Let_def and_then_Inr split: option.splits if_splits)

text \<open>Which environments are production, and where their secrets come from.\<close>

lemma CONFIG_MAP_cases:
  assumes "CONFIG_MAP name = Some cls" "cls env = Inr c"
  shows "ENV c = name \<and>
    (if name = ''prod'' then
       env ''SECRET_KEY'' = Some (SECRET_KEY c) \<and> env ''DB_PASSWORD'' = Some (DB_PASSWORD c) \<and>
       env ''MINIO_ROOT_PASSWORD'' = Some (MINIO_ROOT_PASSWORD c) \<and>
       env ''REDIS_PASSWORD'' = REDIS_PASSWORD c \<and> \<not> DEBUG c
     else SECRET_KEY c \<in> set KNOWN_INSECURE)"
proof (cases "name = ''prod''")
  case True
  with assms have "ProductionConfig env = Inr c" by (simp add: CONFIG_MAP_def)
  with True show ?thesis
    by (auto simp: ProductionConfig_def and_then_Inr env_req_def split: option.splits)
next
  case False
  with assms show ?thesis
    by (auto simp: CONFIG_MAP_def config_classes KNOWN_INSECURE_def split: if_splits)
qed

lemma wait_for_connection_found:
  assumes "f n" "a \<le> n" "n \<le> m" "\<And>k. a \<le> k \<Longrightarrow> k < n \<Longrightarrow> \<not> f k"
  shows "wait_for_connection f l m a = (Inr (), n)"
  using assms
proof (induction "nat (n - a)" arbitrary: a)
  case 0
  then show ?case by (subst wait_for_connection.simps) auto
next
  case (Suc d)
  then have "\<not> f a" "a < n" by auto
  moreover from Suc have "wait_for_connection f l m (a + 1) = (Inr (), n)" by simp
  ultimately show ?case using Suc.prems by (subst wait_for_connection.simps) auto
qed

lemma wait_for_connection_never:
  assumes "a \<le> m" "\<And>k. a \<le> k \<Longrightarrow> k \<le> m \<Longrightarrow> \<not> f k"
  shows "wait_for_connection f l m a = (Inl (Unreachable l), m)"
  using assms
proof (induction "nat (m - a)" arbitrary: a)
  case 0
  then show ?case by (subst wait_for_connection.simps) auto
next
  case (Suc d)
  then have "wait_for_connection f l m (a + 1) = (Inl (Unreachable l), m)" by simp
  with Suc show ?case by (subst wait_for_connection.simps) auto
qed

section \<open>Properties\<close>

text \<open>
  The password of Redis only has to be there: an environment in which production starts with
  one of the known defaults, which is refused for each of the other passwords.
\<close>

definition redis_default_env :: environ where
  "redis_default_env k =
     (if k = ''ENV'' then Some ''prod''
      else if k = ''SECRET_KEY'' then Some (replicate 32 CHR ''k'')
      else if k = ''REDIS_PASSWORD'' then Some ''propnest_secret''
      else if k \<in> {''DB_PASSWORD'', ''MINIO_ROOT_PASSWORD''} then Some ''long and random''
      else None)"

lemma known_redis_password_starts:
  "\<exists>c. lifespan (\<lambda>_. True) (\<lambda>_. Done True) (\<lambda>_. OtherFailure) redis_default_env = Inr c \<and>
     ENV c = ''prod'' \<and> REDIS_PASSWORD c = Some ''propnest_secret'' \<and> ''propnest_secret'' \<in> set KNOWN_INSECURE"
proof -
  let ?r = "lifespan (\<lambda>_. True) (\<lambda>_. Done True) (\<lambda>_. OtherFailure) redis_default_env"
  have "(case ?r of Inl _ \<Rightarrow> False | Inr c \<Rightarrow> ENV c = ''prod'' \<and> REDIS_PASSWORD c = Some ''propnest_secret'') \<and>
      ''propnest_secret'' \<in> set KNOWN_INSECURE" by code_simp
  then show ?thesis by (auto split: sum.splits)
qed

text \<open>
  C14. An application that has started has separate Redis databases for throttling and jobs.
  In production the signing key and every password were taken from the environment; the
  signing key and the passwords of the database and of the object store are no known defaults,
  the password of Redis is not empty (a known default is accepted there); the key has at least
  32 characters and tokens live at most half an hour. In every other environment, staging
  included, the tokens are signed with the key that is printed in the repository.
\<close>

theorem started_configuration:
  assumes "lifespan try_db bucket_exists make_bucket env = Inr c"
  shows "REDIS_DB c \<noteq> REDIS_JOBS_DB c \<and> ENV c = env_get env ''ENV'' ''dev'' \<and>
    (if ENV c = ''prod'' then
       env ''SECRET_KEY'' = Some (SECRET_KEY c) \<and> env ''DB_PASSWORD'' = Some (DB_PASSWORD c) \<and>
       env ''MINIO_ROOT_PASSWORD'' = Some (MINIO_ROOT_PASSWORD c) \<and>
       env ''REDIS_PASSWORD'' = REDIS_PASSWORD c \<and> REDIS_PASSWORD c \<notin> {None, Some []} \<and>
       {SECRET_KEY c, DB_PASSWORD c, MINIO_ROOT_PASSWORD c} \<inter> ({[]} \<union> set KNOWN_INSECURE) = {} \<and>
       32 \<le> length (SECRET_KEY c) \<and> ACCESS_TOKEN_EXPIRE_MINUTES c \<le> 30 \<and> \<not> DEBUG c
     else SECRET_KEY c \<in> set KNOWN_INSECURE)"
proof -
  from assms have g: "get_config env = Inr c" and v: "is_prod c \<longrightarrow> unsafe_settings c = []"
    by (auto simp: lifespan_def and_then_Inr settings_validate_Inr)
  from g obtain cls where "CONFIG_MAP (env_get env ''ENV'' ''dev'') = Some cls" "cls env = Inr c"
    and r: "REDIS_DB c \<noteq> REDIS_JOBS_DB c" by (auto simp: get_config_Inr)
  from CONFIG_MAP_cases [OF this(1,2)] v r show ?thesis
    by (auto simp: is_prod_def unsafe_settings_Nil split: if_splits)
qed

theorem started_configuration_witness:
  "(\<exists>c. lifespan (\<lambda>n. n = 2) (\<lambda>_. Done True) (\<lambda>_. OtherFailure)
      (\<lambda>k. if k = ''ENV'' then Some ''staging'' else None) = Inr c \<and> SECRET_KEY c \<in> set KNOWN_INSECURE) \<and>
   (\<exists>c. lifespan (\<lambda>_. True) (\<lambda>_. Done True) (\<lambda>_. OtherFailure) redis_default_env = Inr c \<and>
      DB_PASSWORD c \<notin> set KNOWN_INSECURE) \<and>
   \<not> (\<exists>c. lifespan (\<lambda>n. True) (\<lambda>_. Done True) (\<lambda>_. OtherFailure)
      (\<lambda>k. if k = ''ENV'' then Some ''prod'' else Some ''propnest_secret'') = Inr c)"
proof (intro conjI)
  have "lifespan (\<lambda>n. n = 2) (\<lambda>_. Done True) (\<lambda>_. OtherFailure)
      (\<lambda>k. if k = ''ENV'' then Some ''staging'' else None) = Inr StagingConfig" by code_simp
  from started_configuration [OF this] this
  show "\<exists>c. lifespan (\<lambda>n. n = 2) (\<lambda>_. Done True) (\<lambda>_. OtherFailure)
      (\<lambda>k. if k = ''ENV'' then Some ''staging'' else None) = Inr c \<and> SECRET_KEY c \<in> set KNOWN_INSECURE"
    by (auto simp: StagingConfig_def)
  from known_redis_password_starts obtain c where
    c: "lifespan (\<lambda>_. True) (\<lambda>_. Done True) (\<lambda>_. OtherFailure) redis_default_env = Inr c" "ENV c = ''prod''" by blast
  from started_configuration [OF c(1)] c show "\<exists>c. lifespan (\<lambda>_. True) (\<lambda>_. Done True) (\<lambda>_. OtherFailure)
      redis_default_env = Inr c \<and> DB_PASSWORD c \<notin> set KNOWN_INSECURE" by auto
  show "\<not> (\<exists>c. lifespan (\<lambda>n. True) (\<lambda>_. Done True) (\<lambda>_. OtherFailure)
      (\<lambda>k. if k = ''ENV'' then Some ''prod'' else Some ''propnest_secret'') = Inr c)"
    by (rule notI, elim exE, drule started_configuration) (auto simp: env_get_def KNOWN_INSECURE_def)
qed

text \<open>
  C15. The retry loop always ends: with at least one attempt allowed it succeeds at the first
  attempt that gets through, after exactly that many attempts, and fails after exactly
  \<open>max_retries\<close> attempts when none does; with none allowed it reports success untried.
\<close>

theorem retry_loop_terminates:
  "wait_for_connection f l m 1 =
     (if m < 1 then (Inr (), 0)
      else if \<exists>n. 1 \<le> n \<and> n \<le> m \<and> f n
      then (Inr (), int (LEAST k. 1 \<le> int k \<and> f (int k)))
      else (Inl (Unreachable l), m))"
proof (cases "\<exists>n. 1 \<le> n \<and> n \<le> m \<and> f n")
  case True
  then obtain n where n: "1 \<le> n" "n \<le> m" "f n" by blast
  let ?P = "\<lambda>k. 1 \<le> int k \<and> f (int k)"
  have p: "?P (nat n)" using n by simp
  from LeastI [of ?P, OF p] Least_le [of ?P, OF p] n
  have k: "1 \<le> int (LEAST k. ?P k)" "f (int (LEAST k. ?P k))" "int (LEAST k. ?P k) \<le> m" by auto
  have "\<not> f j" if "1 \<le> j" "j < int (LEAST k. ?P k)" for j
    using not_less_Least [of "nat j" ?P] that by auto
  with k have "wait_for_connection f l m 1 = (Inr (), int (LEAST k. ?P k))"
    by (intro wait_for_connection_found) auto
  with True show ?thesis by auto
next
  case False
  show ?thesis
  proof (cases "m < 1")
    case True
    then show ?thesis by (subst wait_for_connection.simps) auto
  next
    case m: False
    with False have "wait_for_connection f l m 1 = (Inl (Unreachable l), m)"
      by (intro wait_for_connection_never) auto
    with m False show ?thesis by simp
  qed
qed

end
