(* ===== verification/Calendar.thy ===== *)
theory Calendar
  imports Prelude
begin

text \<open>
  Python's calendar as far as the program uses it: the proleptic Gregorian calendar, the
  fields of a date and of a UTC \<open>datetime\<close>, and \<open>datetime.isoformat()\<close>. An instant counts
  microseconds from 0001-01-01T00:00, so day number 0 has ordinal 1.
\<close>

section \<open>Dates\<close>

definition is_leap :: "nat \<Rightarrow> bool" where
  "is_leap y \<longleftrightarrow> y mod 4 = 0 \<and> (y mod 100 \<noteq> 0 \<or> y mod 400 = 0)"

definition month_lengths :: "nat \<Rightarrow> nat list" where
  "month_lengths y = [31, if is_leap y then 29 else 28, 31, 30, 31, 30, 31, 31, 30, 31, 30, 31]"

definition year_length :: "nat \<Rightarrow> nat" where
  "year_length y = (if is_leap y then 366 else 365)"

text \<open>The year a day falls in, and the day's number within it.\<close>

function split_year :: "nat \<Rightarrow> nat \<Rightarrow> nat \<times> nat" where
  "split_year y d =
     (if d < year_length y then (y, d) else split_year (Suc y) (d - year_length y))"
  by pat_completeness auto
termination
  by (relation "measure snd") (auto simp: year_length_def)

declare split_year.simps [simp del]

fun split_month :: "nat list \<Rightarrow> nat \<Rightarrow> nat \<Rightarrow> nat \<times> nat" where
  "split_month [] m d = (m, d + 1)"
| "split_month (n # ns) m d = (if d < n then (m, d + 1) else split_month ns (m + 1) (d - n))"

definition ymd :: "nat \<Rightarrow> nat \<times> nat \<times> nat" where
  "ymd day = (let (y, d) = split_year 1 day in (y, split_month (month_lengths y) 1 d))"

fun days_before :: "nat \<Rightarrow> nat" where
  "days_before 0 = 0"
| "days_before (Suc y) = days_before y + year_length y"

lemma split_year_inverse: "split_year y d = (y', r) \<Longrightarrow> days_before y + d = days_before y' + r"
proof (induction y d rule: split_year.induct)
  case (1 y d)
  show ?case
  proof (cases "d < year_length y")
    case True
    with 1(2) show ?thesis by (simp add: split_year.simps [of y d])
  next
    case False
    with 1(2) have "split_year (Suc y) (d - year_length y) = (y', r)"
      by (simp add: split_year.simps [of y d])
    from 1(1) [OF False this] False show ?thesis by simp
  qed
qed

lemma split_year_less: "split_year y d = (y', r) \<Longrightarrow> r < year_length y' \<and> y \<le> y'"
proof (induction y d rule: split_year.induct)
  case (1 y d)
  show ?case
  proof (cases "d < year_length y")
    case True
    with 1(2) show ?thesis by (auto simp: split_year.simps [of y d])
  next
    case False
    with 1(2) have "split_year (Suc y) (d - year_length y) = (y', r)"
      by (simp add: split_year.simps [of y d])
    from 1(1) [OF False this] show ?thesis by simp
  qed
qed

lemma sum_month_lengths: "sum_list (month_lengths y) = year_length y"
  by (simp add: month_lengths_def year_length_def)

lemma split_month_bounds: "split_month ns m d = (m', d') \<Longrightarrow> m \<le> m' \<and> 1 \<le> d'"
  by (induction ns m d rule: split_month.induct) (auto split: if_splits)

lemma split_month_valid:
  "split_month ns m d = (m', d') \<Longrightarrow> d < sum_list ns \<Longrightarrow> m' - m < length ns \<and> d' \<le> ns ! (m' - m)"
proof (induction ns m d rule: split_month.induct)
  case (2 n ns m d)
  show ?case
  proof (cases "d < n")
    case True
    with 2(2) show ?thesis by auto
  next
    case False
    with 2(2) have *: "split_month ns (m + 1) (d - n) = (m', d')" by simp
    from split_month_bounds [OF *] have "m' - m = Suc (m' - (m + 1))" by arith
    with 2(1) [OF False *] 2(3) False show ?thesis by simp
  qed
qed simp

lemma split_month_inj: "split_month ns m d = split_month ns m e \<Longrightarrow> d = e"
proof (induction ns arbitrary: m d e)
  case (Cons n ns)
  have "\<not> (split_month ns (m + 1) x = (m, y))" for x y
    using split_month_bounds [of ns "m + 1" x m y] by auto
  with Cons.prems show ?case
    by (auto split: if_splits dest!: Cons.IH) (metis)+
qed simp

lemma ymd_inj: "ymd d = ymd e \<Longrightarrow> d = e"
proof -
  assume a: "ymd d = ymd e"
  obtain y r where y: "split_year 1 d = (y, r)" by fastforce
  obtain z q where z: "split_year 1 e = (z, q)" by fastforce
  from a y z have "y = z" "split_month (month_lengths y) 1 r = split_month (month_lengths y) 1 q"
    by (auto simp: ymd_def)
  then have "r = q" by (auto dest: split_month_inj)
  with split_year_inverse [OF y] split_year_inverse [OF z] \<open>y = z\<close> show ?thesis by simp
qed

text \<open>Every day has a month from 1 to 12 and a day that this month has.\<close>

lemma ymd_valid:
  assumes "ymd day = (y, m, d)"
  shows "1 \<le> y \<and> 1 \<le> m \<and> m \<le> 12 \<and> 1 \<le> d \<and> d \<le> month_lengths y ! (m - 1)"
proof -
  obtain y' r where y: "split_year 1 day = (y', r)" by fastforce
  from assms y have "y' = y" and s: "split_month (month_lengths y) 1 r = (m, d)"
    by (auto simp: ymd_def)
  from split_year_less [OF y] \<open>y' = y\<close> have "r < sum_list (month_lengths y)" "1 \<le> y"
    by (auto simp: sum_month_lengths)
  with split_month_bounds [OF s] split_month_valid [OF s] show ?thesis
    by (auto simp: month_lengths_def)
qed

section \<open>The day number of a date\<close>

lemma days_before_mono: "y < z \<Longrightarrow> days_before y + year_length y \<le> days_before z"
proof (induction z)
  case (Suc z)
  show ?case
  proof (cases "y = z")
    case False
    with Suc have "days_before y + year_length y \<le> days_before z" by simp
    then show ?thesis by simp
  qed simp
qed simp

lemma year_unique:
  assumes "days_before y + r = days_before z + q" "r < year_length y" "q < year_length z"
  shows "y = z \<and> r = q"
proof -
  have "y = z"
    using days_before_mono [of y z] days_before_mono [of z y] assms by (cases y z rule: linorder_cases) auto
  with assms(1) show ?thesis by simp
qed

lemma sum_take_mono:
  fixes ns :: "nat list"
  assumes "j < k" "k \<le> length ns"
  shows "sum_list (take j ns) + ns ! j \<le> sum_list (take k ns)"
  using assms
proof (induction ns arbitrary: j k)
  case (Cons n ns)
  then show ?case by (cases j; cases k) auto
qed simp

lemma split_month_eq:
  "split_month ns m d = (m', d') \<Longrightarrow> d < sum_list ns \<Longrightarrow>
     d = sum_list (take (m' - m) ns) + (d' - 1) \<and> m \<le> m' \<and> m' - m < length ns"
proof (induction ns m d rule: split_month.induct)
  case (2 n ns m d)
  show ?case
  proof (cases "d < n")
    case True
    with 2(2) show ?thesis by auto
  next
    case False
    with 2(2) have *: "split_month ns (m + 1) (d - n) = (m', d')" by simp
    from split_month_bounds [OF *] have "m' - m = Suc (m' - (m + 1))" "m \<le> m'" by arith+
    moreover have "d - n < sum_list ns" using 2(3) False by simp
    ultimately show ?thesis using 2(1) [OF False *] False by (simp; linarith)
  qed
qed simp

lemma length_month_lengths [simp]: "length (month_lengths y) = 12"
  by (simp add: month_lengths_def)

definition day_count :: "nat \<Rightarrow> nat \<Rightarrow> nat \<Rightarrow> nat" where
  "day_count y m d = days_before y + sum_list (take (m - 1) (month_lengths y)) + (d - 1)"

definition valid_date :: "nat \<Rightarrow> nat \<Rightarrow> nat \<Rightarrow> bool" where
  "valid_date y m d \<longleftrightarrow> 1 \<le> y \<and> 1 \<le> m \<and> m \<le> 12 \<and> 1 \<le> d \<and> d \<le> month_lengths y ! (m - 1)"

lemma within_year:
  assumes "valid_date y m d"
  shows "sum_list (take (m - 1) (month_lengths y)) + (d - 1) < year_length y"
proof -
  have "sum_list (take (m - 1) (month_lengths y)) + month_lengths y ! (m - 1) \<le> sum_list (take 12 (month_lengths y))"
    using assms by (intro sum_take_mono) (auto simp: valid_date_def)
  then show ?thesis using assms by (simp add: valid_date_def sum_month_lengths; linarith)
qed

lemma day_count_unique:
  assumes "day_count y m d = day_count y' m' d'" "valid_date y m d" "valid_date y' m' d'"
  shows "y = y' \<and> m = m' \<and> d = d'"
proof -
  let ?s = "\<lambda>y m. sum_list (take (m - 1) (month_lengths y))"
  have "y = y' \<and> ?s y m + (d - 1) = ?s y' m' + (d' - 1)"
    by (rule year_unique [OF _ within_year [OF assms(2)] within_year [OF assms(3)]])
      (use assms(1) in \<open>simp only: day_count_def add.assoc\<close>)
  then have y: "y' = y" and e: "?s y m + (d - 1) = ?s y m' + (d' - 1)" by auto
  have v: "1 \<le> m" "m \<le> 12" "1 \<le> d" "d \<le> month_lengths y ! (m - 1)"
    "1 \<le> m'" "m' \<le> 12" "1 \<le> d'" "d' \<le> month_lengths y ! (m' - 1)"
    using assms(2,3) y by (simp_all add: valid_date_def)
  have "m - 1 = m' - 1"
  proof (cases "m - 1" "m' - 1" rule: linorder_cases)
    case less
    then have "?s y m + month_lengths y ! (m - 1) \<le> ?s y m'" using v by (intro sum_take_mono) simp_all
    with e v show ?thesis by linarith
  next
    case greater
    then have "?s y m' + month_lengths y ! (m' - 1) \<le> ?s y m" using v by (intro sum_take_mono) simp_all
    with e v show ?thesis by linarith
  qed
  with v have m: "m' = m" by linarith
  with e v have "d' = d" by simp
  with m y show ?thesis by simp
qed

lemma ymd_iff: "ymd day = (y, m, d) \<longleftrightarrow> valid_date y m d \<and> 366 + day = day_count y m d"
proof -
  have a: "valid_date y m d \<and> 366 + day = day_count y m d" if "ymd day = (y, m, d)" for y m d
  proof -
    obtain y' r where yr: "split_year 1 day = (y', r)" by fastforce
    from that yr have s: "y' = y" "split_month (month_lengths y) 1 r = (m, d)" by (auto simp: ymd_def)
    have "days_before 1 = 366" by (simp add: year_length_def is_leap_def)
    moreover have "r < sum_list (month_lengths y)"
      using split_year_less [OF yr] s by (simp add: sum_month_lengths)
    moreover from ymd_valid [OF that] have "valid_date y m d" by (simp add: valid_date_def)
    ultimately show ?thesis
      using split_year_inverse [OF yr] s split_month_eq [OF s(2)]
      by (simp add: day_count_def)
  qed
  obtain y' m' d' where *: "ymd day = (y', m', d')" by (metis prod_cases3)
  show ?thesis
  proof
    assume "ymd day = (y, m, d)"
    then show "valid_date y m d \<and> 366 + day = day_count y m d" by (rule a)
  next
    assume "valid_date y m d \<and> 366 + day = day_count y m d"
    with a [OF *] have "y = y' \<and> m = m' \<and> d = d'" by (intro day_count_unique) simp_all
    with * show "ymd day = (y, m, d)" by simp
  qed
qed

text \<open>The days of one month are an interval.\<close>

lemma same_month_iff:
  assumes "ymd day = (y, m, d)"
  shows "(\<exists>d'. ymd e = (y, m, d')) \<longleftrightarrow>
    day - (d - 1) \<le> e \<and> e \<le> day + (month_lengths y ! (m - 1) - d)"
proof -
  let ?b = "days_before y + sum_list (take (m - 1) (month_lengths y))"
  from assms have v: "valid_date y m d" and c: "366 + day = ?b + (d - 1)"
    by (simp_all add: ymd_iff day_count_def)
  have "366 \<le> days_before y"
  proof -
    have "days_before 1 = 366" by (simp add: year_length_def is_leap_def)
    with days_before_mono [of 1 y] v show ?thesis by (cases "y = 1") (auto simp: valid_date_def)
  qed
  then have d: "d - 1 \<le> day" using c by linarith
  show ?thesis
  proof
    assume "\<exists>d'. ymd e = (y, m, d')"
    then obtain d' where "valid_date y m d'" "366 + e = ?b + (d' - 1)"
      by (auto simp: ymd_iff day_count_def)
    with v c d show "day - (d - 1) \<le> e \<and> e \<le> day + (month_lengths y ! (m - 1) - d)"
      by (auto simp: valid_date_def)
  next
    assume "day - (d - 1) \<le> e \<and> e \<le> day + (month_lengths y ! (m - 1) - d)"
    with v c d have "valid_date y m (e + d - day)" "366 + e = ?b + (e + d - day - 1)"
      by (auto simp: valid_date_def)
    then show "\<exists>d'. ymd e = (y, m, d')" by (auto simp: ymd_iff day_count_def)
  qed
qed

section \<open>Instants\<close>

definition day_of :: "instant \<Rightarrow> nat" where
  "day_of n = nat (n div 86400000000)"

definition second_of :: "instant \<Rightarrow> nat" where
  "second_of n = nat (n mod 86400000000 div 1000000)"

definition microsecond_of :: "instant \<Rightarrow> nat" where
  "microsecond_of n = nat (n mod 1000000)"

text \<open>\<open>isoformat()\<close> leaves the fraction out when it is zero.\<close>

definition date_iso :: "nat \<Rightarrow> string" where
  "date_iso day =
     (let (y, m, d) = ymd day
      in zero_pad 4 (decimal y) @ ''-'' @ zero_pad 2 (decimal m) @ ''-'' @ zero_pad 2 (decimal d))"

definition time_iso :: "nat \<Rightarrow> string" where
  "time_iso s =
     zero_pad 2 (decimal (s div 3600)) @ '':'' @ zero_pad 2 (decimal (s div 60 mod 60)) @ '':'' @
     zero_pad 2 (decimal (s mod 60))"

definition isoformat :: "instant \<Rightarrow> string" where
  "isoformat n =
     date_iso (day_of n) @ ''T'' @ time_iso (second_of n) @
     (if microsecond_of n = 0 then [] else ''.'' @ zero_pad 6 (decimal (microsecond_of n))) @ ''+00:00''"

lemma digit_char_is_digit: "d < 10 \<Longrightarrow> is_digit (digit_char d)"
  by (simp add: is_digit_def digit_char_def Let_def of_char_char_of_small)

lemma decimal_digits: "list_all is_digit (decimal n)"
proof (induction n rule: decimal.induct)
  case (1 n)
  then show ?case by (subst decimal.simps) (auto simp: digit_char_is_digit)
qed

lemma zero_pad_digits: "list_all is_digit (zero_pad w (decimal n))"
  using decimal_digits by (auto simp: zero_pad_def list_all_iff is_digit_def)

lemma zero_pad_inj: "zero_pad w (decimal m) = zero_pad w (decimal n) \<Longrightarrow> m = n"
  by (metis decimal_val_decimal decimal_val_zeros zero_pad_def)

text \<open>Digits up to a first character that is none.\<close>

lemma digits_then_inj:
  assumes "xs @ c # rest = ys @ c' # rest'" "list_all is_digit xs" "list_all is_digit ys"
    and "\<not> is_digit c" "\<not> is_digit c'"
  shows "xs = ys \<and> c = c' \<and> rest = rest'"
proof -
  have "takeWhile is_digit (zs @ d # r) = zs" if "list_all is_digit zs" "\<not> is_digit d" for zs d r
    using that by (simp add: list_all_iff takeWhile_append2)
  with assms have "xs = ys" by metis
  with assms(1) show ?thesis by simp
qed

lemma not_digits [simp]: "\<not> is_digit CHR ''-''" "\<not> is_digit CHR ''T''" "\<not> is_digit CHR '':''"
  "\<not> is_digit CHR ''.''" "\<not> is_digit CHR ''+''"
  by code_simp+

text \<open>Two instants with the same text are the same.\<close>

lemma pad_then_inj:
  "zero_pad w (decimal m) @ c # rest = zero_pad w (decimal n) @ c' # rest' \<Longrightarrow>
   \<not> is_digit c \<Longrightarrow> \<not> is_digit c' \<Longrightarrow> m = n \<and> c = c' \<and> rest = rest'"
  using digits_then_inj [OF _ zero_pad_digits zero_pad_digits] zero_pad_inj by metis

lemma pad_no_dot: "zero_pad w (decimal m) @ c # rest = zero_pad w' (decimal n) \<Longrightarrow> is_digit c"
  using zero_pad_digits [of w' n] by (metis list_all_append list.pred_inject(2))

lemma hms_inj:
  fixes s t :: nat
  assumes "s div 3600 = t div 3600" "s div 60 mod 60 = t div 60 mod 60" "s mod 60 = t mod 60"
  shows "s = t"
proof -
  have "x = 60 * (60 * (x div 3600) + x div 60 mod 60) + x mod 60" for x :: nat
  proof -
    have "x div 3600 = x div 60 div 60" by (simp add: div_mult2_eq [symmetric])
    then have "60 * (x div 3600) + x div 60 mod 60 = x div 60" by simp
    then show ?thesis by simp
  qed
  from this [of s] this [of t] assms show ?thesis by simp
qed

lemma isoformat_inj:
  assumes "isoformat n = isoformat m" "0 \<le> n" "0 \<le> m"
  shows "n = m"
proof -
  obtain y1 m1 d1 where y1: "ymd (day_of n) = (y1, m1, d1)" by (metis prod_cases3)
  obtain y2 m2 d2 where y2: "ymd (day_of m) = (y2, m2, d2)" by (metis prod_cases3)
  have split: "x = 86400000000 * (x div 86400000000) + (1000000 * (x mod 86400000000 div 1000000) + x mod 1000000)"
    for x :: int
  proof -
    have "x mod 86400000000 mod 1000000 = x mod 1000000" by (rule mod_mod_cancel) simp
    then have "1000000 * (x mod 86400000000 div 1000000) + x mod 1000000 = x mod 86400000000"
      by (metis mult_div_mod_eq)
    then show ?thesis by simp
  qed
  let ?s = "second_of n" and ?t = "second_of m" and ?u = "microsecond_of n" and ?v = "microsecond_of m"
  from assms(1) have *: "y1 = y2 \<and> m1 = m2 \<and> d1 = d2 \<and> ?s div 3600 = ?t div 3600 \<and>
      ?s div 60 mod 60 = ?t div 60 mod 60 \<and> ?s mod 60 = ?t mod 60 \<and> ?u = ?v"
    unfolding isoformat_def date_iso_def time_iso_def Let_def y1 y2 prod.case append.simps append_assoc
    by (auto dest!: pad_then_inj zero_pad_inj split: if_splits)
      (auto dest: pad_no_dot pad_no_dot [OF sym])
  then have "day_of n = day_of m" using y1 y2 by (auto intro: ymd_inj)
  moreover from * have "?s = ?t" by (auto intro: hms_inj)
  ultimately have e: "nat (n div 86400000000) = nat (m div 86400000000)"
    "nat (n mod 86400000000 div 1000000) = nat (m mod 86400000000 div 1000000)"
    "nat (n mod 1000000) = nat (m mod 1000000)"
    using * by (simp_all only: day_of_def second_of_def microsecond_of_def)
  have p: "0 \<le> n div 86400000000" "0 \<le> m div 86400000000"
    using assms(2,3) by (simp_all add: pos_imp_zdiv_nonneg_iff)
  have q: "0 \<le> x mod 86400000000 div 1000000" "0 \<le> x mod 1000000" for x :: int
    by (simp_all add: pos_imp_zdiv_nonneg_iff)
  have "n div 86400000000 = m div 86400000000" by (rule eq_nat_nat_iff [THEN iffD1, OF p e(1)])
  moreover have "n mod 86400000000 div 1000000 = m mod 86400000000 div 1000000"
    by (rule eq_nat_nat_iff [THEN iffD1, OF q(1) q(1) e(2)])
  moreover have "n mod 1000000 = m mod 1000000"
    by (rule eq_nat_nat_iff [THEN iffD1, OF q(2) q(2) e(3)])
  ultimately have "86400000000 * (n div 86400000000) + (1000000 * (n mod 86400000000 div 1000000) + n mod 1000000) =
      86400000000 * (m div 86400000000) + (1000000 * (m mod 86400000000 div 1000000) + m mod 1000000)"
    by (simp only:)
  then show ?thesis by (simp only: split [symmetric])
qed

end
