(* ===== verification/AuthService.thy ===== *)
theory AuthService
  imports UserService Startup Calendar "HOL-Library.Countable"
begin

text \<open>
  Authentication: LoginAttemptRepository and IpRateLimitRepository
  (app/identity/repositories), AuthService.login (app/identity/services/auth_service.py), the
  tokens of app/core/security.py, and the dependencies of app/core/dependencies.py that turn
  a token into the current user and check roles. The Redis client, the JWT library and the
  password hash are parameters; their documented behaviour is stated as predicates.
\<close>

section \<open>The Redis client\<close>

text \<open>
  The five commands the program sends. A reply \<open>None\<close> is a \<open>RedisError\<close>: the command may
  or may not have reached the server.
\<close>

record 'r redis =
  redis_incr :: "string \<Rightarrow> 'r \<Rightarrow> int option \<times> 'r"
  redis_expire :: "string \<Rightarrow> int \<Rightarrow> 'r \<Rightarrow> unit option \<times> 'r"
  redis_ttl :: "string \<Rightarrow> 'r \<Rightarrow> int option \<times> 'r"
  redis_set_ex :: "string \<Rightarrow> int \<Rightarrow> 'r \<Rightarrow> unit option \<times> 'r"
  redis_delete :: "string list \<Rightarrow> 'r \<Rightarrow> unit option \<times> 'r"

text \<open>What the server holds: live keys with their number and the seconds left to live.\<close>

type_synonym keyspace = "string \<Rightarrow> (int \<times> int option) option"

definition counter :: "keyspace \<Rightarrow> string \<Rightarrow> int" where
  "counter v k = (case v k of None \<Rightarrow> 0 | Some (n, _) \<Rightarrow> n)"

definition expiry :: "keyspace \<Rightarrow> string \<Rightarrow> int option" where
  "expiry v k = (case v k of None \<Rightarrow> None | Some (_, e) \<Rightarrow> e)"

text \<open>
  The documented effect of each command that is answered. One whose answer is lost either had
  its effect or never reached the server.
\<close>

definition incremented :: "string \<Rightarrow> keyspace \<Rightarrow> keyspace" where
  "incremented k v = v(k \<mapsto> (counter v k + 1, expiry v k))"

definition expiring_in :: "string \<Rightarrow> int \<Rightarrow> keyspace \<Rightarrow> keyspace" where
  "expiring_in k d v = (if v k = None then v else v(k \<mapsto> (counter v k, Some d)))"

definition ttl_reply :: "keyspace \<Rightarrow> string \<Rightarrow> int" where
  "ttl_reply v k = (case v k of None \<Rightarrow> - 2 | Some (_, None) \<Rightarrow> - 1 | Some (_, Some e) \<Rightarrow> e)"

definition without_keys :: "string list \<Rightarrow> keyspace \<Rightarrow> keyspace" where
  "without_keys ks v = (\<lambda>k. if k \<in> set ks then None else v k)"

definition redis_spec :: "'r redis \<Rightarrow> ('r \<Rightarrow> keyspace) \<Rightarrow> bool" where
  "redis_spec cl view \<longleftrightarrow>
     (\<forall>k r. case redis_incr cl k r of
        (Some n, r') \<Rightarrow> n = counter (view r) k + 1 \<and> view r' = incremented k (view r)
      | (None, r') \<Rightarrow> view r' \<in> {view r, incremented k (view r)}) \<and>
     (\<forall>k d r. 0 < d \<longrightarrow> (case redis_expire cl k d r of
        (Some _, r') \<Rightarrow> view r' = expiring_in k d (view r)
      | (None, r') \<Rightarrow> view r' \<in> {view r, expiring_in k d (view r)})) \<and>
     (\<forall>k r. case redis_ttl cl k r of
        (Some t, r') \<Rightarrow> t = ttl_reply (view r) k \<and> view r' = view r
      | (None, r') \<Rightarrow> view r' = view r) \<and>
     (\<forall>k d r. 0 < d \<longrightarrow> (case redis_set_ex cl k d r of
        (Some _, r') \<Rightarrow> view r' = (view r)(k \<mapsto> (1, Some d))
      | (None, r') \<Rightarrow> view r' \<in> {view r, (view r)(k \<mapsto> (1, Some d))})) \<and>
     (\<forall>ks r. case redis_delete cl ks r of
        (Some _, r') \<Rightarrow> view r' = without_keys ks (view r)
      | (None, r') \<Rightarrow> view r' \<in> {view r, without_keys ks (view r)})"

text \<open>What is left after \<open>d\<close> seconds.\<close>

definition elapse :: "int \<Rightarrow> keyspace \<Rightarrow> keyspace" where
  "elapse d v = (\<lambda>k. case v k of
     Some (n, Some e) \<Rightarrow> if e \<le> d then None else Some (n, Some (e - d))
   | other \<Rightarrow> other)"

text \<open>Every command is answered.\<close>

definition redis_up :: "'r redis \<Rightarrow> bool" where
  "redis_up cl \<longleftrightarrow>
     (\<forall>k r. fst (redis_incr cl k r) \<noteq> None) \<and> (\<forall>k d r. fst (redis_expire cl k d r) \<noteq> None) \<and>
     (\<forall>k r. fst (redis_ttl cl k r) \<noteq> None) \<and> (\<forall>k d r. fst (redis_set_ex cl k d r) \<noteq> None) \<and>
     (\<forall>ks r. fst (redis_delete cl ks r) \<noteq> None)"

text \<open>Programs over Redis: exceptions, with the server's state kept.\<close>

definition cmd :: "('r \<Rightarrow> 'a option \<times> 'r) \<Rightarrow> ('r, 'a) prog" where
  "cmd c r = (case c r of (None, r') \<Rightarrow> (Inl RedisError, r') | (Some x, r') \<Rightarrow> (Inr x, r'))"

text \<open>\<open>except RedisError: raise LoginThrottleUnavailableError\<close>.\<close>

definition fail_closed :: "('r, 'a) prog \<Rightarrow> ('r, 'a) prog" where
  "fail_closed m r =
     (case m r of (Inl e, r') \<Rightarrow> (Inl (if e = RedisError then LoginThrottleUnavailableError else e), r')
      | out \<Rightarrow> out)"

section \<open>Login attempts\<close>

record lockout_status =
  locked :: bool
  lock_retry_after :: int

definition normalize_identifier :: "string \<Rightarrow> string" where
  "normalize_identifier identifier = py_lower (py_strip identifier)"

definition fail_key :: "string \<Rightarrow> string" where "fail_key n = ''login:fail:'' @ n"
definition lock_key :: "string \<Rightarrow> string" where "lock_key n = ''login:lock:'' @ n"
definition lockcount_key :: "string \<Rightarrow> string" where "lockcount_key n = ''login:lockcount:'' @ n"

definition get_lock_status :: "'r redis \<Rightarrow> string \<Rightarrow> ('r, lockout_status) prog" where
  "get_lock_status cl identifier =
     bnd (cmd (redis_ttl cl (lock_key (normalize_identifier identifier)))) (\<lambda>ttl.
     ret (if ttl > 0 then \<lparr>locked = True, lock_retry_after = ttl\<rparr>
           else \<lparr>locked = False, lock_retry_after = 0\<rparr>))"

definition record_success :: "'r redis \<Rightarrow> string \<Rightarrow> ('r, unit) prog" where
  "record_success cl identifier =
     (let norm = normalize_identifier identifier
      in cmd (redis_delete cl [fail_key norm, lock_key norm]))"

definition lock_duration :: "settings \<Rightarrow> int \<Rightarrow> int" where
  "lock_duration cfg cycle =
     min (LOGIN_LOCKOUT_BASE_SECONDS cfg * 2 ^ nat (cycle - 1)) (LOGIN_LOCKOUT_MAX_SECONDS cfg)"

definition lock_identifier :: "settings \<Rightarrow> 'r redis \<Rightarrow> string \<Rightarrow> ('r, lockout_status) prog" where
  "lock_identifier cfg cl norm =
     bnd (cmd (redis_incr cl (lockcount_key norm))) (\<lambda>cycle.
     bnd (cmd (redis_expire cl (lockcount_key norm) (LOGIN_LOCKOUT_MAX_SECONDS cfg))) (\<lambda>_.
     let duration = lock_duration cfg cycle
     in bnd (cmd (redis_set_ex cl (lock_key norm) duration)) (\<lambda>_.
        bnd (cmd (redis_delete cl [fail_key norm])) (\<lambda>_.
        ret \<lparr>locked = True, lock_retry_after = duration\<rparr>))))"

definition record_failure :: "settings \<Rightarrow> 'r redis \<Rightarrow> string \<Rightarrow> ('r, lockout_status) prog" where
  "record_failure cfg cl identifier =
     (let norm = normalize_identifier identifier
      in bnd (cmd (redis_incr cl (fail_key norm))) (\<lambda>count.
         bnd (if count = 1 then cmd (redis_expire cl (fail_key norm) (LOGIN_FAILURE_WINDOW_SECONDS cfg))
               else ret ()) (\<lambda>_.
         if count < LOGIN_MAX_FAILED_ATTEMPTS cfg
         then ret \<lparr>locked = False, lock_retry_after = 0\<rparr>
         else lock_identifier cfg cl norm)))"

section \<open>Requests per address\<close>

record rate_limit_status =
  allowed :: bool
  retry_after_seconds :: int

definition ip_key :: "string \<Rightarrow> string" where
  "ip_key ip = ''ratelimit:login:'' @ ip"

definition rate_limit_check :: "'r redis \<Rightarrow> int \<Rightarrow> int \<Rightarrow> string \<Rightarrow> ('r, rate_limit_status) prog" where
  "rate_limit_check cl limit window ip =
     bnd (cmd (redis_incr cl (ip_key ip))) (\<lambda>count.
     bnd (if count = 1 then cmd (redis_expire cl (ip_key ip) window) else ret ()) (\<lambda>_.
     if count \<le> limit then ret \<lparr>allowed = True, retry_after_seconds = 0\<rparr>
     else
       bnd (cmd (redis_ttl cl (ip_key ip))) (\<lambda>ttl.
       ret \<lparr>allowed = False, retry_after_seconds = max ttl 1\<rparr>)))"

section \<open>Tokens\<close>

text \<open>
  A claim set is a dictionary; \<open>jwt_decode\<close> gets the current time, the token, the key, the
  accepted algorithms and the expected issuer and audience, and answers \<open>None\<close> for a
  \<open>JWTError\<close>.
\<close>

datatype claim = CStr string | CInt int

type_synonym claims = "(string \<times> claim) list"

record jwt_lib =
  jwt_encode :: "claims \<Rightarrow> string \<Rightarrow> string \<Rightarrow> string"
  jwt_decode :: "instant \<Rightarrow> string \<Rightarrow> string \<Rightarrow> string list \<Rightarrow> string option \<Rightarrow> string option \<Rightarrow> claims option"

text \<open>\<open>int(t.timestamp())\<close> for an instant after 1970-01-01.\<close>

definition timestamp :: "instant \<Rightarrow> int" where
  "timestamp n = (n - 719162 * 86400000000) div 1000000"

definition non_empty :: "string \<Rightarrow> string option" where
  "non_empty s = (if s = [] then None else Some s)"

definition access_payload :: "settings \<Rightarrow> instant \<Rightarrow> claims \<Rightarrow> claims" where
  "access_payload cfg n data =
     (let expire = n + ACCESS_TOKEN_EXPIRE_MINUTES cfg * 60000000
      in data @ [(''exp'', CInt (timestamp expire)), (''iat'', CInt (timestamp n))] @
         (if JWT_ISSUER cfg \<noteq> [] then [(''iss'', CStr (JWT_ISSUER cfg))] else []) @
         (if JWT_AUDIENCE cfg \<noteq> [] then [(''aud'', CStr (JWT_AUDIENCE cfg))] else []))"

definition create_access_token :: "settings \<Rightarrow> jwt_lib \<Rightarrow> instant \<Rightarrow> claims \<Rightarrow> string" where
  "create_access_token cfg lib n data =
     jwt_encode lib (access_payload cfg n data) (SECRET_KEY cfg) (ALGORITHM cfg)"

definition decode_access_token :: "settings \<Rightarrow> jwt_lib \<Rightarrow> instant \<Rightarrow> string \<Rightarrow> claims option" where
  "decode_access_token cfg lib n token =
     jwt_decode lib n token (SECRET_KEY cfg) [ALGORITHM cfg]
       (non_empty (JWT_ISSUER cfg)) (non_empty (JWT_AUDIENCE cfg))"

fun role_value :: "user_role \<Rightarrow> string" where
  "role_value ADMIN = ''admin''"
| "role_value MANAGER = ''manager''"
| "role_value USER = ''user''"

definition issue_token :: "settings \<Rightarrow> jwt_lib \<Rightarrow> instant \<Rightarrow> user \<Rightarrow> string" where
  "issue_token cfg lib n u =
     create_access_token cfg lib n
       [(''sub'', CStr (uuid_str (row_id u))), (''role'', CStr (role_value (role u))),
        (''username'', CStr (username u)), (''pwd_v'', CStr (isoformat (password_changed_at u)))]"

text \<open>
  The contract of the library, for the one kind of claim set that is ever signed - subject,
  role, name and password version as strings, then what \<open>create_access_token\<close> adds - under the
  configured key and algorithm: it is given back unchanged until the second it expires, when
  issuer and audience are the configured ones.
\<close>

definition jwt_roundtrip :: "settings \<Rightarrow> jwt_lib \<Rightarrow> bool" where
  "jwt_roundtrip cfg lib \<longleftrightarrow>
     (\<forall>n m i r name v.
        let p = access_payload cfg n
              [(''sub'', CStr (uuid_str i)), (''role'', CStr r), (''username'', CStr name), (''pwd_v'', CStr v)]
        in timestamp m \<le> timestamp (n + ACCESS_TOKEN_EXPIRE_MINUTES cfg * 60000000) \<longrightarrow>
           jwt_decode lib m (jwt_encode lib p (SECRET_KEY cfg) (ALGORITHM cfg)) (SECRET_KEY cfg) [ALGORITHM cfg]
             (non_empty (JWT_ISSUER cfg)) (non_empty (JWT_AUDIENCE cfg)) = Some p)"

section \<open>Login\<close>

definition is_scheduler :: "settings \<Rightarrow> string \<Rightarrow> bool" where
  "is_scheduler cfg identifier \<longleftrightarrow>
     identifier = SYSTEM_SCHEDULER_USERNAME cfg \<or>
     py_lower identifier = py_lower (SYSTEM_SCHEDULER_EMAIL cfg)"

definition check_ip_rate_limit :: "settings \<Rightarrow> 'r redis \<Rightarrow> string \<Rightarrow> ('r, unit) prog" where
  "check_ip_rate_limit cfg cl client_ip =
     bnd (fail_closed (rate_limit_check cl (LOGIN_RATE_LIMIT_MAX_REQUESTS cfg)
             (LOGIN_RATE_LIMIT_WINDOW_SECONDS cfg) client_ip)) (\<lambda>st.
     if \<not> allowed st then raise (IpRateLimitExceededError (retry_after_seconds st)) else ret ())"

definition refuse :: "settings \<Rightarrow> 'r redis \<Rightarrow> string \<Rightarrow> ('r, 'a) prog" where
  "refuse cfg cl identifier =
     bnd (fail_closed (record_failure cfg cl identifier)) (\<lambda>_. raise InvalidCredentialsError)"

text \<open>
  The session is only read: the account is looked up and the clock is taken for the token.
\<close>

definition login ::
  "settings \<Rightarrow> pwd_context \<Rightarrow> jwt_lib \<Rightarrow> 'r redis \<Rightarrow> session \<Rightarrow> string \<Rightarrow> string \<Rightarrow> string option \<Rightarrow>
     ('r, string) prog" where
  "login cfg pwd lib cl s identifier password client_ip =
     (if is_scheduler cfg identifier then raise InvalidCredentialsError
      else
        bnd (case client_ip of
                None \<Rightarrow> ret ()
              | Some ip \<Rightarrow> if ip = [] then ret () else check_ip_rate_limit cfg cl ip) (\<lambda>_.
        bnd (fail_closed (get_lock_status cl identifier)) (\<lambda>st.
        if locked st then raise (AccountLockedError (lock_retry_after st))
        else
          (case fst (get_by_identifier identifier s) of
             Inl e \<Rightarrow> raise e
           | Inr None \<Rightarrow> refuse cfg cl identifier
           | Inr (Some u) \<Rightarrow>
               if \<not> verify_password pwd password (Some (password_hash u)) then refuse cfg cl identifier
               else if \<not> user_is_active u then refuse cfg cl identifier
               else
                 bnd (fail_closed (record_success cl identifier)) (\<lambda>_.
                 ret (issue_token cfg lib (clock s) u))))))"

section \<open>The current user\<close>

text \<open>\<open>UUID(s)\<close>: prefixes, braces and dashes are dropped, then 32 digits are read in base 16.\<close>

function remove_all :: "string \<Rightarrow> string \<Rightarrow> string" where
  "remove_all sub s =
     (case s of
        [] \<Rightarrow> []
      | c # cs \<Rightarrow> if sub \<noteq> [] \<and> prefix sub s then remove_all sub (drop (length sub) s)
                  else c # remove_all sub cs)"
  by pat_completeness auto
termination
  by (relation "measure (\<lambda>(sub, s). length s)") auto

declare remove_all.simps [simp del]

definition strip_chars :: "char list \<Rightarrow> string \<Rightarrow> string" where
  "strip_chars cs s = rev (dropWhile (\<lambda>c. c \<in> set cs) (rev (dropWhile (\<lambda>c. c \<in> set cs) s)))"

fun hex_underscored :: "string \<Rightarrow> bool" where
  "hex_underscored [] = False"
| "hex_underscored [c] = (hex_val c \<noteq> None)"
| "hex_underscored (c # d # cs) =
     (hex_val c \<noteq> None \<and> (if d = CHR ''_'' then hex_underscored cs else hex_underscored (d # cs)))"

definition int16 :: "string \<Rightarrow> nat option" where
  "int16 s =
     (let t = py_strip s;
          u = (if prefix ''+'' t then tl t else t);
          v = (if prefix ''0x'' u \<or> prefix ''0X'' u
               then (if prefix ''_'' (drop 2 u) then drop 3 u else drop 2 u) else u)
      in if hex_underscored v then hex_value 0 (filter (\<lambda>c. c \<noteq> CHR ''_'') v) else None)"

definition uuid_of_str :: "string \<Rightarrow> uuid option" where
  "uuid_of_str s =
     (let h = filter (\<lambda>c. c \<noteq> CHR ''-'') (strip_chars ''{}'' (remove_all ''uuid:'' (remove_all ''urn:'' s)))
      in if length h \<noteq> 32 then None else int16 h)"

definition unauthorized :: "string \<Rightarrow> svc_error" where
  "unauthorized detail = HTTPException 401 detail"

definition get_current_user :: "settings \<Rightarrow> jwt_lib \<Rightarrow> string \<Rightarrow> user svc" where
  "get_current_user cfg lib token =
     bnd now (\<lambda>n.
     case decode_access_token cfg lib n token of
       None \<Rightarrow> raise (unauthorized ''Invalid or expired token'')
     | Some payload \<Rightarrow>
         bnd (raise_if (payload = []) (unauthorized ''Invalid or expired token'')) (\<lambda>_.
         case map_of payload ''sub'' of
           Some (CStr user_id) \<Rightarrow>
             (case (if user_id = [] then None else uuid_of_str user_id) of
                None \<Rightarrow> raise (unauthorized ''Invalid token payload'')
              | Some user_uuid \<Rightarrow>
                  bnd (found_or (unauthorized ''User no longer exists'') (repo_get_by_id users_tbl user_uuid)) (\<lambda>u.
                  bnd (raise_if (\<not> user_is_active u) (HTTPException 403 ''Account is inactive'')) (\<lambda>_.
                  bnd (raise_if (map_of payload ''pwd_v'' \<noteq> Some (CStr (isoformat (password_changed_at u))))
                         (unauthorized ''Session invalidated, please log in again'')) (\<lambda>_.
                  ret u))))
         | _ \<Rightarrow> raise (unauthorized ''Invalid token payload'')))"

definition require_admin :: "settings \<Rightarrow> jwt_lib \<Rightarrow> string \<Rightarrow> user svc" where
  "require_admin cfg lib token =
     bnd (get_current_user cfg lib token) (\<lambda>u.
     bnd (raise_if (role u \<noteq> ADMIN) (HTTPException 403 ''Admin access required'')) (\<lambda>_.
     ret u))"

definition require_manager_or_above :: "settings \<Rightarrow> jwt_lib \<Rightarrow> string \<Rightarrow> user svc" where
  "require_manager_or_above cfg lib token =
     bnd (get_current_user cfg lib token) (\<lambda>u.
     bnd (raise_if (role u \<notin> {ADMIN, MANAGER}) (HTTPException 403 ''Manager access required'')) (\<lambda>_.
     ret u))"

text \<open>The answers of the login route.\<close>

definition login_route_error :: "svc_error \<Rightarrow> svc_error" where
  "login_route_error e =
     (case e of
        IpRateLimitExceededError _ \<Rightarrow> HTTPException 429 ''Too many login requests from this address. Please try again later.''
      | AccountLockedError _ \<Rightarrow> HTTPException 429 ''Too many failed login attempts. Please try again later.''
      | LoginThrottleUnavailableError \<Rightarrow> HTTPException 503 ''Login is temporarily unavailable. Please try again shortly.''
      | InvalidCredentialsError \<Rightarrow> HTTPException 401 ''Invalid credentials''
      | other \<Rightarrow> other)"

section \<open>Lemmas on Redis programs\<close>

lemma cmd_Inr: "cmd c r = (Inr x, r') \<longleftrightarrow> c r = (Some x, r')"
  by (auto simp: cmd_def split: prod.splits option.splits)

lemma cmd_Inl: "cmd c r = (Inl e, r') \<longleftrightarrow> e = RedisError \<and> c r = (None, r')"
  by (auto simp: cmd_def split: prod.splits option.splits)

lemma fail_closed_Inr [simp]: "fail_closed m r = (Inr x, r') \<longleftrightarrow> m r = (Inr x, r')"
  by (auto simp: fail_closed_def split: prod.splits sum.splits)

lemma fail_closed_Inl:
  "fail_closed m r = (Inl e, r') \<longleftrightarrow>
     (\<exists>e'. m r = (Inl e', r') \<and> e = (if e' = RedisError then LoginThrottleUnavailableError else e'))"
  by (auto simp: fail_closed_def split: prod.splits sum.splits)

lemmas rop_iffs = bnd_Inr_iff bnd_Inl_iff cmd_Inr cmd_Inl fail_closed_Inl svc_if_iff

text \<open>The answered commands, one by one.\<close>

lemma redis_specD:
  assumes "redis_spec cl view"
  shows "redis_incr cl k r = (Some n, r') \<Longrightarrow> n = counter (view r) k + 1 \<and> view r' = incremented k (view r)"
    and "redis_incr cl k r = (None, r') \<Longrightarrow> view r' = view r \<or> view r' = incremented k (view r)"
    and "0 < d \<Longrightarrow> redis_expire cl k d r = (Some u, r') \<Longrightarrow> view r' = expiring_in k d (view r)"
    and "redis_ttl cl k r = (ot, r') \<Longrightarrow> view r' = view r \<and> ot \<in> {None, Some (ttl_reply (view r) k)}"
    and "0 < d \<Longrightarrow> redis_set_ex cl k d r = (Some u, r') \<Longrightarrow> view r' = (view r)(k \<mapsto> (1, Some d))"
    and "redis_delete cl ks r = (Some u, r') \<Longrightarrow> view r' = without_keys ks (view r)"
proof -
  note c = assms [unfolded redis_spec_def]
  note incr = spec [where x = r, OF spec [where x = k, OF c [THEN conjunct1]]]
    and expire = spec [where x = r, OF spec [where x = d, OF spec [where x = k, OF c [THEN conjunct2, THEN conjunct1]]]]
    and ttl = spec [where x = r, OF spec [where x = k, OF c [THEN conjunct2, THEN conjunct2, THEN conjunct1]]]
    and set_ex = spec [where x = r, OF spec [where x = d, OF spec [where x = k,
      OF c [THEN conjunct2, THEN conjunct2, THEN conjunct2, THEN conjunct1]]]]
    and delete = spec [where x = r, OF spec [where x = ks,
      OF c [THEN conjunct2, THEN conjunct2, THEN conjunct2, THEN conjunct2]]]
  show "redis_incr cl k r = (Some n, r') \<Longrightarrow> n = counter (view r) k + 1 \<and> view r' = incremented k (view r)"
    "redis_incr cl k r = (None, r') \<Longrightarrow> view r' = view r \<or> view r' = incremented k (view r)"
    using incr by simp_all
  show "0 < d \<Longrightarrow> redis_expire cl k d r = (Some u, r') \<Longrightarrow> view r' = expiring_in k d (view r)"
    using expire by simp
  show "redis_ttl cl k r = (ot, r') \<Longrightarrow> view r' = view r \<and> ot \<in> {None, Some (ttl_reply (view r) k)}"
    using ttl by (cases ot) simp_all
  show "0 < d \<Longrightarrow> redis_set_ex cl k d r = (Some u, r') \<Longrightarrow> view r' = (view r)(k \<mapsto> (1, Some d))"
    using set_ex by simp
  show "redis_delete cl ks r = (Some u, r') \<Longrightarrow> view r' = without_keys ks (view r)"
    using delete by simp
qed

lemma login_keys_distinct [simp]:
  "fail_key n \<noteq> lock_key m" "lock_key m \<noteq> fail_key n" "fail_key n \<noteq> lockcount_key m"
  "lockcount_key m \<noteq> fail_key n" "lock_key n \<noteq> lockcount_key m" "lockcount_key m \<noteq> lock_key n"
  "ip_key i \<noteq> fail_key n" "ip_key i \<noteq> lock_key n" "fail_key n \<noteq> ip_key i" "lock_key n \<noteq> ip_key i"
  "ip_key i \<noteq> lockcount_key n" "lockcount_key n \<noteq> ip_key i"
  by (simp_all add: fail_key_def lock_key_def lockcount_key_def ip_key_def)

lemma keyspace_simps [simp]:
  "incremented k v k = Some (counter v k + 1, expiry v k)" "j \<noteq> k \<Longrightarrow> incremented k v j = v j"
  "j \<noteq> k \<Longrightarrow> expiring_in k d v j = v j" "v k \<noteq> None \<Longrightarrow> expiring_in k d v k = Some (counter v k, Some d)"
  "without_keys ks v j = (if j \<in> set ks then None else v j)"
  by (auto simp: incremented_def expiring_in_def without_keys_def)

lemma counter_cong: "v k = w k \<Longrightarrow> counter v k = counter w k"
  by (simp add: counter_def)

lemma counter_Some [simp]: "v k = Some (n, e) \<Longrightarrow> counter v k = n"
  by (simp add: counter_def)

text \<open>An in-memory server, to try the properties out.\<close>

definition mem_redis :: "keyspace redis" where
  "mem_redis =
     \<lparr>redis_incr = (\<lambda>k v. (Some (counter v k + 1), incremented k v)),
      redis_expire = (\<lambda>k d v. (Some (), expiring_in k d v)),
      redis_ttl = (\<lambda>k v. (Some (ttl_reply v k), v)),
      redis_set_ex = (\<lambda>k d v. (Some (), v(k \<mapsto> (1, Some d)))),
      redis_delete = (\<lambda>ks v. (Some (), without_keys ks v))\<rparr>"

lemma mem_redis_spec: "redis_spec mem_redis id" "redis_up mem_redis"
  by (simp_all add: redis_spec_def redis_up_def mem_redis_def)

section \<open>Lemmas on the throttles\<close>

text \<open>Settings with which the throttles work: every duration and limit is positive.\<close>

definition throttle_settings_ok :: "settings \<Rightarrow> bool" where
  "throttle_settings_ok cfg \<longleftrightarrow>
     0 < LOGIN_RATE_LIMIT_WINDOW_SECONDS cfg \<and> 0 < LOGIN_MAX_FAILED_ATTEMPTS cfg \<and>
     0 < LOGIN_FAILURE_WINDOW_SECONDS cfg \<and> 0 < LOGIN_LOCKOUT_BASE_SECONDS cfg \<and>
     0 < LOGIN_LOCKOUT_MAX_SECONDS cfg"

lemma throttle_settings_ok_configs:
  "throttle_settings_ok BaseConfig" "throttle_settings_ok UnittestConfig"
  by (simp_all add: throttle_settings_ok_def UnittestConfig_def BaseConfig_def)

lemma lock_duration_pos: "throttle_settings_ok cfg \<Longrightarrow> 0 < lock_duration cfg cycle"
  by (simp add: lock_duration_def throttle_settings_ok_def)

lemma lock_duration_Suc:
  assumes "throttle_settings_ok cfg" "1 \<le> cycle"
  shows "lock_duration cfg (cycle + 1) = min (2 * lock_duration cfg cycle) (LOGIN_LOCKOUT_MAX_SECONDS cfg)"
proof -
  have "nat cycle = Suc (nat (cycle - 1))" using assms(2) by simp
  then have "LOGIN_LOCKOUT_BASE_SECONDS cfg * 2 ^ nat (cycle + 1 - 1) =
      2 * (LOGIN_LOCKOUT_BASE_SECONDS cfg * 2 ^ nat (cycle - 1))" by simp
  with assms(1) show ?thesis by (auto simp: lock_duration_def throttle_settings_ok_def min_def)
qed

lemma lock_identifier_effect:
  assumes "redis_spec cl view" "throttle_settings_ok cfg" "lock_identifier cfg cl n r = (Inr st, r')"
  shows "let cycle = counter (view r) (lockcount_key n) + 1; d = lock_duration cfg cycle
    in st = \<lparr>locked = True, lock_retry_after = d\<rparr> \<and>
       view r' = (view r)(lockcount_key n \<mapsto> (cycle, Some (LOGIN_LOCKOUT_MAX_SECONDS cfg)),
         lock_key n \<mapsto> (1, Some d), fail_key n := None)"
proof -
  note spec = redis_specD [OF assms(1)]
  from assms(3) obtain cy r1 r2 r3 where
    i: "redis_incr cl (lockcount_key n) r = (Some cy, r1)"
    and e: "redis_expire cl (lockcount_key n) (LOGIN_LOCKOUT_MAX_SECONDS cfg) r1 = (Some (), r2)"
    and t: "redis_set_ex cl (lock_key n) (lock_duration cfg cy) r2 = (Some (), r3)"
    and d: "redis_delete cl [fail_key n] r3 = (Some (), r')"
    and st: "st = \<lparr>locked = True, lock_retry_after = lock_duration cfg cy\<rparr>"
    by (auto simp: lock_identifier_def rop_iffs Let_def)
  have "0 < LOGIN_LOCKOUT_MAX_SECONDS cfg" using assms(2) by (simp add: throttle_settings_ok_def)
  from spec(1) [OF i] spec(3) [OF this e] spec(5) [OF lock_duration_pos [OF assms(2)] t] spec(6) [OF d] st
  show ?thesis by (auto simp: Let_def fun_eq_iff without_keys_def expiring_in_def incremented_def)
qed

lemma record_failure_effect:
  assumes "redis_spec cl view" "throttle_settings_ok cfg" "record_failure cfg cl identifier r = (Inr st, r')"
  shows "let n = normalize_identifier identifier; count = counter (view r) (fail_key n) + 1;
      v = (if count = 1 then (view r)(fail_key n \<mapsto> (1, Some (LOGIN_FAILURE_WINDOW_SECONDS cfg)))
           else incremented (fail_key n) (view r))
    in if count < LOGIN_MAX_FAILED_ATTEMPTS cfg
       then st = \<lparr>locked = False, lock_retry_after = 0\<rparr> \<and> view r' = v
       else let cycle = counter v (lockcount_key n) + 1; d = lock_duration cfg cycle
         in st = \<lparr>locked = True, lock_retry_after = d\<rparr> \<and>
            view r' = v(lockcount_key n \<mapsto> (cycle, Some (LOGIN_LOCKOUT_MAX_SECONDS cfg)),
              lock_key n \<mapsto> (1, Some d), fail_key n := None)"
proof -
  note spec = redis_specD [OF assms(1)]
  let ?n = "normalize_identifier identifier"
  from assms(3) obtain c r1 r2 where
    i: "redis_incr cl (fail_key ?n) r = (Some c, r1)"
    and e: "if c = 1 then redis_expire cl (fail_key ?n) (LOGIN_FAILURE_WINDOW_SECONDS cfg) r1 = (Some (), r2)
      else r2 = r1"
    and k: "if c < LOGIN_MAX_FAILED_ATTEMPTS cfg
      then st = \<lparr>locked = False, lock_retry_after = 0\<rparr> \<and> r' = r2
      else lock_identifier cfg cl ?n r2 = (Inr st, r')"
    by (auto simp: record_failure_def rop_iffs Let_def split: if_splits)
  have "0 < LOGIN_FAILURE_WINDOW_SECONDS cfg" using assms(2) by (simp add: throttle_settings_ok_def)
  with e spec(1) [OF i] spec(3) [of "LOGIN_FAILURE_WINDOW_SECONDS cfg" "fail_key ?n" r1 "()" r2]
  have v: "view r2 = (if c = 1 then (view r)(fail_key ?n \<mapsto> (1, Some (LOGIN_FAILURE_WINDOW_SECONDS cfg)))
      else incremented (fail_key ?n) (view r))" "c = counter (view r) (fail_key ?n) + 1"
    by (auto simp: fun_eq_iff expiring_in_def incremented_def split: if_splits)
  show ?thesis
  proof (cases "c < LOGIN_MAX_FAILED_ATTEMPTS cfg")
    case True
    with k v show ?thesis by (simp add: Let_def)
  next
    case False
    with k have "lock_identifier cfg cl ?n r2 = (Inr st, r')" by simp
    from lock_identifier_effect [OF assms(1,2) this] False v show ?thesis by (simp add: Let_def)
  qed
qed

lemma cmd_up: "fst (c r) \<noteq> None \<Longrightarrow> \<exists>x r'. cmd c r = (Inr x, r')"
  by (cases "c r"; cases "fst (c r)") (auto simp: cmd_def)

lemma record_failure_up:
  assumes "redis_up cl"
  shows "\<exists>st r'. record_failure cfg cl identifier r = (Inr st, r')"
proof -
  note up = assms [unfolded redis_up_def]
  have c: "\<exists>x r'. cmd (redis_incr cl k) q = (Inr x, r')" "\<exists>x r'. cmd (redis_expire cl k d) q = (Inr x, r')"
    "\<exists>x r'. cmd (redis_set_ex cl k d) q = (Inr x, r')" "\<exists>x r'. cmd (redis_delete cl ks) q = (Inr x, r')"
    for k d ks q
    by (rule cmd_up, use up in blast)+
  have seq: "\<exists>x r'. bnd m f q = (Inr x, r')"
    if "\<exists>x r'. m q = (Inr x, r')" "\<And>x q. \<exists>y r'. f x q = (Inr y, r')"
    for m :: "('b, 'c) prog" and f :: "'c \<Rightarrow> ('b, 'd) prog" and q
    using that by (fastforce simp: bnd_Inr_iff)
  have rr: "\<exists>y r'. ret x q = (Inr y, r')" for x :: 'c and q :: 'd by simp
  have lk: "\<exists>st r'. lock_identifier cfg cl n q = (Inr st, r')" for n q
    unfolding lock_identifier_def Let_def by (intro seq c rr)
  show ?thesis
    unfolding record_failure_def Let_def by (intro seq c rr) (simp_all add: c c [simplified] lk)
qed

text \<open>Failed attempts in a row.\<close>

fun fail_times :: "settings \<Rightarrow> 'r redis \<Rightarrow> string \<Rightarrow> nat \<Rightarrow> ('r, lockout_status list) prog" where
  "fail_times cfg cl identifier 0 = ret []"
| "fail_times cfg cl identifier (Suc n) =
     bnd (fail_times cfg cl identifier n) (\<lambda>sts.
     bnd (record_failure cfg cl identifier) (\<lambda>st.
     ret (sts @ [st])))"

lemma fail_times_below:
  assumes "redis_spec cl view" "redis_up cl" "throttle_settings_ok cfg"
    and "view r (fail_key (normalize_identifier identifier)) = None"
    and "int n < LOGIN_MAX_FAILED_ATTEMPTS cfg"
  shows "\<exists>r'. fail_times cfg cl identifier n r =
      (Inr (replicate n \<lparr>locked = False, lock_retry_after = 0\<rparr>), r') \<and>
    counter (view r') (fail_key (normalize_identifier identifier)) = int n \<and>
    view r' (lockcount_key (normalize_identifier identifier)) =
      view r (lockcount_key (normalize_identifier identifier))"
  using assms(5)
proof (induction n)
  case 0
  with assms(4) show ?case by (simp add: counter_def)
next
  case (Suc n)
  let ?i = "normalize_identifier identifier"
  from Suc obtain r1 where r1: "fail_times cfg cl identifier n r =
      (Inr (replicate n \<lparr>locked = False, lock_retry_after = 0\<rparr>), r1)"
    "counter (view r1) (fail_key ?i) = int n"
    "view r1 (lockcount_key ?i) = view r (lockcount_key ?i)" by auto
  from record_failure_up [OF assms(2)] obtain st r2 where
    rf: "record_failure cfg cl identifier r1 = (Inr st, r2)" by blast
  from record_failure_effect [OF assms(1,3) rf] r1 Suc.prems
  have "st = \<lparr>locked = False, lock_retry_after = 0\<rparr>" "counter (view r2) (fail_key ?i) = int (Suc n)"
    "view r2 (lockcount_key ?i) = view r (lockcount_key ?i)"
    by (auto simp: Let_def counter_def incremented_def split: if_splits)
  with r1 rf show ?case by (auto simp: bnd_Inr_iff replicate_append_same)
qed

lemma get_by_identifier_pure: "get_by_identifier i s = (Inr (projr (fst (get_by_identifier i s))), s)"
  by (simp add: get_by_identifier_def get_by_email_def get_by_username_def repo_first_def query_def
      ret_def Let_def)

text \<open>The account an identifier names, and whether the password opens it.\<close>

definition account :: "session \<Rightarrow> string \<Rightarrow> user option" where
  "account s identifier = projr (fst (get_by_identifier identifier s))"

definition opens :: "pwd_context \<Rightarrow> session \<Rightarrow> string \<Rightarrow> string \<Rightarrow> user \<Rightarrow> bool" where
  "opens pwd s identifier password u \<longleftrightarrow>
     account s identifier = Some u \<and> verify_password pwd password (Some (password_hash u)) \<and> user_is_active u"

lemma login_eq:
  "login cfg pwd lib cl s identifier password client_ip =
     (if is_scheduler cfg identifier then raise InvalidCredentialsError
      else
        bnd (case client_ip of None \<Rightarrow> ret ()
              | Some ip \<Rightarrow> if ip = [] then ret () else check_ip_rate_limit cfg cl ip) (\<lambda>_.
        bnd (fail_closed (get_lock_status cl identifier)) (\<lambda>st.
        if locked st then raise (AccountLockedError (lock_retry_after st))
        else if \<exists>u. opens pwd s identifier password u
        then bnd (fail_closed (record_success cl identifier)) (\<lambda>_.
             ret (issue_token cfg lib (clock s) (the (account s identifier))))
        else refuse cfg cl identifier)))"
proof -
  have "fst (get_by_identifier identifier s) = Inr (account s identifier)"
    unfolding account_def by (subst get_by_identifier_pure) simp
  then have inner: "(case fst (get_by_identifier identifier s) of
       Inl e \<Rightarrow> raise e
     | Inr None \<Rightarrow> refuse cfg cl identifier
     | Inr (Some u) \<Rightarrow>
         if \<not> verify_password pwd password (Some (password_hash u)) then refuse cfg cl identifier
         else if \<not> user_is_active u then refuse cfg cl identifier
         else bnd (fail_closed (record_success cl identifier)) (\<lambda>_. ret (issue_token cfg lib (clock s) u))) =
     (if \<exists>u. opens pwd s identifier password u
      then bnd (fail_closed (record_success cl identifier)) (\<lambda>_.
           ret (issue_token cfg lib (clock s) (the (account s identifier))))
      else refuse cfg cl identifier)"
    by (cases "account s identifier") (simp_all add: opens_def)
  show ?thesis by (simp only: login_def inner)
qed

lemma rate_limit_effect:
  assumes "redis_spec cl view" "0 < window" "rate_limit_check cl limit window ip r = (Inr st, r')"
  shows "let n = counter (view r) (ip_key ip) + 1;
      v = (if n = 1 then (view r)(ip_key ip \<mapsto> (1, Some window)) else incremented (ip_key ip) (view r))
    in view r' = v \<and> st = (if n \<le> limit then \<lparr>allowed = True, retry_after_seconds = 0\<rparr>
         else \<lparr>allowed = False, retry_after_seconds = max (ttl_reply v (ip_key ip)) 1\<rparr>)"
proof -
  note spec = redis_specD [OF assms(1)]
  from assms(3) obtain c r1 r2 where
    i: "redis_incr cl (ip_key ip) r = (Some c, r1)"
    and e: "if c = 1 then redis_expire cl (ip_key ip) window r1 = (Some (), r2) else r2 = r1"
    and k: "if c \<le> limit then st = \<lparr>allowed = True, retry_after_seconds = 0\<rparr> \<and> r' = r2
      else \<exists>t. redis_ttl cl (ip_key ip) r2 = (Some t, r') \<and> st = \<lparr>allowed = False, retry_after_seconds = max t 1\<rparr>"
    by (auto simp: rate_limit_check_def rop_iffs Let_def split: if_splits)
  from e spec(1) [OF i] spec(3) [OF assms(2), of "ip_key ip" r1 "()" r2]
  have v: "view r2 = (if c = 1 then (view r)(ip_key ip \<mapsto> (1, Some window)) else incremented (ip_key ip) (view r))"
    "c = counter (view r) (ip_key ip) + 1"
    by (auto simp: fun_eq_iff expiring_in_def incremented_def split: if_splits)
  show ?thesis
  proof (cases "c \<le> limit")
    case True
    with k v show ?thesis by (simp add: Let_def)
  next
    case False
    with k obtain t where t: "redis_ttl cl (ip_key ip) r2 = (Some t, r')"
      "st = \<lparr>allowed = False, retry_after_seconds = max t 1\<rparr>" by auto
    from spec(4) [OF t(1)] t(2) v False show ?thesis by (simp add: Let_def)
  qed
qed

section \<open>Properties of the throttles\<close>

text \<open>One round: as many failures as it takes to be locked out, from a cleared counter.\<close>

lemma lockout_round:
  assumes "redis_spec cl view" "redis_up cl" "throttle_settings_ok cfg"
    and "view r (fail_key (normalize_identifier identifier)) = None"
    and "cycle = counter (view r) (lockcount_key (normalize_identifier identifier)) + 1"
  shows "\<exists>r'. fail_times cfg cl identifier (nat (LOGIN_MAX_FAILED_ATTEMPTS cfg)) r =
      (Inr (replicate (nat (LOGIN_MAX_FAILED_ATTEMPTS cfg) - 1) \<lparr>locked = False, lock_retry_after = 0\<rparr> @
            [\<lparr>locked = True, lock_retry_after = lock_duration cfg cycle\<rparr>]), r') \<and>
    view r' (fail_key (normalize_identifier identifier)) = None \<and>
    view r' (lockcount_key (normalize_identifier identifier)) = Some (cycle, Some (LOGIN_LOCKOUT_MAX_SECONDS cfg)) \<and>
    (\<forall>i. normalize_identifier i = normalize_identifier identifier \<longrightarrow>
       fst (get_lock_status cl i r') = Inr \<lparr>locked = True, lock_retry_after = lock_duration cfg cycle\<rparr>)"
proof -
  let ?n = "normalize_identifier identifier" and ?m = "LOGIN_MAX_FAILED_ATTEMPTS cfg"
  have m: "0 < ?m" using assms(3) by (simp add: throttle_settings_ok_def)
  then obtain k where k: "nat ?m = Suc k" "int k = ?m - 1" by (cases "nat ?m") auto
  from fail_times_below [OF assms(1-4), of k] k(2) obtain r1 where
    r1: "fail_times cfg cl identifier k r =
      (Inr (replicate k \<lparr>locked = False, lock_retry_after = 0\<rparr>), r1)"
    "counter (view r1) (fail_key ?n) = ?m - 1" "view r1 (lockcount_key ?n) = view r (lockcount_key ?n)"
    by auto
  from record_failure_up [OF assms(2)] obtain st r2 where
    rf: "record_failure cfg cl identifier r1 = (Inr st, r2)" by blast
  from r1(3) assms(5) have c: "counter (view r1) (lockcount_key ?n) + 1 = cycle" by (simp add: counter_def)
  from record_failure_effect [OF assms(1,3) rf] r1 c
  have st: "st = \<lparr>locked = True, lock_retry_after = lock_duration cfg cycle\<rparr>"
    and v: "view r2 (fail_key ?n) = None" "view r2 (lock_key ?n) = Some (1, Some (lock_duration cfg cycle))"
    "view r2 (lockcount_key ?n) = Some (cycle, Some (LOGIN_LOCKOUT_MAX_SECONDS cfg))"
    by (auto simp: Let_def counter_def incremented_def split: if_splits)
  have "fst (get_lock_status cl i r2) = Inr \<lparr>locked = True, lock_retry_after = lock_duration cfg cycle\<rparr>"
    if "normalize_identifier i = ?n" for i
  proof -
    obtain ot r3 where t: "redis_ttl cl (lock_key ?n) r2 = (ot, r3)" by fastforce
    moreover from assms(2) have "ot \<noteq> None" using t unfolding redis_up_def by (metis fst_conv)
    ultimately have "redis_ttl cl (lock_key ?n) r2 = (Some (lock_duration cfg cycle), r3)"
      using redis_specD(4) [OF assms(1) t] v(2) by (auto simp: ttl_reply_def)
    then show ?thesis
      using lock_duration_pos [OF assms(3)]
      by (simp add: get_lock_status_def that bnd_def cmd_def ret_def)
  qed
  moreover have "fail_times cfg cl identifier (nat ?m) r =
      (Inr (replicate (nat ?m - 1) \<lparr>locked = False, lock_retry_after = 0\<rparr> @ [st]), r2)"
    using r1(1) rf by (auto simp: k(1) bnd_Inr_iff)
  ultimately show ?thesis using st v(1,3) by auto
qed



text \<open>
  C18. A token is only issued to someone who gave the password of an active account that is
  neither locked out nor the scheduler's under its exact name, from an address within its
  request limit; success clears the failure counter and the lock of the identifier.
\<close>

theorem token_issued_only_if:
  assumes "login cfg pwd lib cl s identifier password client_ip r = (Inr token, r')"
    and "redis_spec cl view" "throttle_settings_ok cfg"
  shows "(\<exists>u. opens pwd s identifier password u \<and> token = issue_token cfg lib (clock s) u) \<and>
    \<not> is_scheduler cfg identifier \<and>
    ttl_reply (view r) (lock_key (normalize_identifier identifier)) \<le> 0 \<and>
    view r' (fail_key (normalize_identifier identifier)) = None \<and>
    view r' (lock_key (normalize_identifier identifier)) = None \<and>
    (\<forall>ip. client_ip = Some ip \<longrightarrow> ip = [] \<or>
       counter (view r) (ip_key ip) < LOGIN_RATE_LIMIT_MAX_REQUESTS cfg \<and>
       counter (view r') (ip_key ip) = counter (view r) (ip_key ip) + 1)"
proof -
  let ?n = "normalize_identifier identifier"
  from assms(1) obtain x r1 st r2 where ns: "\<not> is_scheduler cfg identifier"
    and ip: "(case client_ip of None \<Rightarrow> ret ()
      | Some ip \<Rightarrow> if ip = [] then ret () else check_ip_rate_limit cfg cl ip) r = (Inr x, r1)"
    and lk: "get_lock_status cl identifier r1 = (Inr st, r2)" "\<not> locked st"
    and op: "\<exists>u. opens pwd s identifier password u"
    and ok: "record_success cl identifier r2 = (Inr (), r')"
    and tok: "token = issue_token cfg lib (clock s) (the (account s identifier))"
    by (auto simp: login_eq rop_iffs refuse_def split: if_splits)
  have w: "0 < LOGIN_RATE_LIMIT_WINDOW_SECONDS cfg" using assms(3) by (simp add: throttle_settings_ok_def)
  have v1: "(\<forall>k. k \<notin> range ip_key \<longrightarrow> view r1 k = view r k) \<and>
    (\<forall>ip. client_ip = Some ip \<longrightarrow> ip = [] \<or>
       counter (view r) (ip_key ip) < LOGIN_RATE_LIMIT_MAX_REQUESTS cfg \<and>
       counter (view r1) (ip_key ip) = counter (view r) (ip_key ip) + 1)"
  proof (cases "client_ip = None \<or> client_ip = Some []")
    case True
    with ip show ?thesis by auto
  next
    case False
    then obtain i where i: "client_ip = Some i" "i \<noteq> []" by auto
    with ip obtain rs where "rate_limit_check cl (LOGIN_RATE_LIMIT_MAX_REQUESTS cfg)
        (LOGIN_RATE_LIMIT_WINDOW_SECONDS cfg) i r = (Inr rs, r1)" "allowed rs"
      by (auto simp: check_ip_rate_limit_def rop_iffs split: if_splits)
    with rate_limit_effect [OF assms(2) w this(1)] i show ?thesis
      by (auto simp: Let_def incremented_def split: if_splits)
  qed
  from lk obtain t where t: "redis_ttl cl (lock_key ?n) r1 = (Some t, r2)" "\<not> 0 < t"
    by (auto simp: get_lock_status_def rop_iffs split: if_splits)
  from redis_specD(4) [OF assms(2) t(1)] t(2)
  have t': "view r2 = view r1" "ttl_reply (view r1) (lock_key ?n) \<le> 0" by auto
  from ok have "redis_delete cl [fail_key ?n, lock_key ?n] r2 = (Some (), r')"
    by (simp add: record_success_def cmd_Inr Let_def)
  from redis_specD(6) [OF assms(2) this]
  have v': "view r' = without_keys [fail_key ?n, lock_key ?n] (view r2)" .
  have "lock_key ?n \<notin> range ip_key" by auto
  with v1 have "ttl_reply (view r) (lock_key ?n) = ttl_reply (view r1) (lock_key ?n)"
    by (simp add: ttl_reply_def)
  moreover have "counter (view r') (ip_key i) = counter (view r1) (ip_key i)" for i
    by (simp add: counter_def v' t'(1))
  moreover from op have "\<exists>u. opens pwd s identifier password u \<and> token = issue_token cfg lib (clock s) u"
    using tok by (auto simp: opens_def)
  ultimately show ?thesis using ns t' v' v1 by simp
qed

theorem token_issued_only_if_witness:
  "opens plain_pwd (session_of sample_tables) ''Mgr'' ''mgr'' mgr"
proof -
  have "\<not> isl (fst (login BaseConfig plain_pwd \<lparr>jwt_encode = (\<lambda>c k a. k), jwt_decode = (\<lambda>n t k a i u. None)\<rparr>
      mem_redis (session_of sample_tables) ''Mgr'' ''mgr'' (Some ''10.0.0.1'') Map.empty))" by code_simp
  then obtain tok r' where "login BaseConfig plain_pwd \<lparr>jwt_encode = (\<lambda>c k a. k), jwt_decode = (\<lambda>n t k a i u. None)\<rparr>
      mem_redis (session_of sample_tables) ''Mgr'' ''mgr'' (Some ''10.0.0.1'') Map.empty = (Inr tok, r')"
    by (metis isl_def prod.collapse sum.exhaust_sel)
  from token_issued_only_if [OF this mem_redis_spec(1) throttle_settings_ok_configs(1)]
  obtain u where u: "opens plain_pwd (session_of sample_tables) ''Mgr'' ''mgr'' u" by blast
  moreover have "account (session_of sample_tables) ''Mgr'' = Some mgr" by code_simp
  ultimately show ?thesis by (auto simp: opens_def)
qed

text \<open>
  C19. The login does not tell whether an account exists: for an identifier and a password
  that open no account, the answer and the whole state of the throttles are the same whatever
  the users table holds.
\<close>

theorem login_hides_accounts:
  assumes "\<nexists>u. opens pwd s1 identifier password u" "\<nexists>u. opens pwd s2 identifier password u"
  shows "login cfg pwd lib cl s1 identifier password client_ip r =
    login cfg pwd lib cl s2 identifier password client_ip r"
  using assms by (simp only: login_eq if_False)

theorem login_hides_accounts_witness:
  "\<forall>lib. login BaseConfig plain_pwd lib mem_redis (session_of sample_tables) ''uwe'' ''guess'' None Map.empty =
   login BaseConfig plain_pwd lib mem_redis (session_of empty_tables) ''uwe'' ''guess'' None Map.empty"
proof (rule allI, rule login_hides_accounts)
  have "account (session_of sample_tables) ''uwe'' = Some uwe" by code_simp
  then show "\<nexists>u. opens plain_pwd (session_of sample_tables) ''uwe'' ''guess'' u"
    by (auto simp: opens_def verify_password_def plain_pwd_def uwe_def sample_user_def)
  have "account (session_of empty_tables) ''uwe'' = None" by code_simp
  then show "\<nexists>u. opens plain_pwd (session_of empty_tables) ''uwe'' ''guess'' u"
    by (simp add: opens_def)
qed

text \<open>
  Throttling fails closed: a Redis error never reaches the caller as such, and when Redis
  answers nothing every login is refused as unavailable, with correct credentials too.
\<close>

theorem login_fails_closed:
  "fst (login cfg pwd lib cl s identifier password client_ip r) \<noteq> Inl RedisError \<and>
   (if (\<forall>k r. fst (redis_incr cl k r) = None) \<and> (\<forall>k r. fst (redis_ttl cl k r) = None) \<and>
       \<not> is_scheduler cfg identifier
    then fst (login cfg pwd lib cl s identifier password client_ip r) = Inl LoginThrottleUnavailableError
    else True)"
proof -
  have "login cfg pwd lib cl s identifier password client_ip r \<noteq> (Inl RedisError, r')" for r'
    by (auto simp: login_eq bnd_Inl_iff svc_if_iff refuse_def check_ip_rate_limit_def fail_closed_Inl
        split: option.splits if_splits)
  then have "fst (login cfg pwd lib cl s identifier password client_ip r) \<noteq> Inl RedisError"
    by (metis prod.collapse)
  moreover have "fst (login cfg pwd lib cl s identifier password client_ip r) = Inl LoginThrottleUnavailableError"
    if d: "\<forall>k r. fst (redis_incr cl k r) = None" "\<forall>k r. fst (redis_ttl cl k r) = None"
      "\<not> is_scheduler cfg identifier"
  proof -
    have c: "cmd (redis_incr cl k) q = (Inl RedisError, snd (redis_incr cl k q))"
      "cmd (redis_ttl cl k) q = (Inl RedisError, snd (redis_ttl cl k q))" for k q
      using d(1,2) by (metis (no_types, lifting) cmd_def case_prod_conv option.simps(4) prod.collapse)+
    show ?thesis
      using d(3) by (simp add: login_eq bnd_def get_lock_status_def check_ip_rate_limit_def
          rate_limit_check_def fail_closed_def c ret_def split: option.splits)
  qed
  ultimately show ?thesis by simp
qed

section \<open>The fixed window\<close>

lemma ip_key_inj [simp]: "ip_key i = ip_key j \<longleftrightarrow> i = j"
  by (simp add: ip_key_def)

lemma redis_expire_view:
  assumes "redis_spec cl view" "0 < d" "redis_expire cl k d r = (ou, r')"
  shows "view r' = view r \<or> view r' = expiring_in k d (view r)"
proof -
  note c = assms(1) [unfolded redis_spec_def, THEN conjunct2, THEN conjunct1]
  note spec [where x = r, OF spec [where x = d, OF spec [where x = k, OF c]]]
  with assms(2,3) show ?thesis by (cases ou) auto
qed

text \<open>Any number of requests from any addresses, and time passing in between.\<close>

inductive limiter_run :: "'r redis \<Rightarrow> ('r \<Rightarrow> keyspace) \<Rightarrow> int \<Rightarrow> int \<Rightarrow> 'r \<Rightarrow> 'r \<Rightarrow> bool"
  for cl view limit window where
  limiter_start: "limiter_run cl view limit window r r"
| limiter_check: "limiter_run cl view limit window r r1 \<Longrightarrow>
     rate_limit_check cl limit window ip r1 = (out, r2) \<Longrightarrow> limiter_run cl view limit window r r2"
| limiter_time: "limiter_run cl view limit window r r1 \<Longrightarrow> view r2 = elapse d (view r1) \<Longrightarrow>
     limiter_run cl view limit window r r2"

text \<open>A counter without an expiry is only ever counted up.\<close>

definition stuck_at :: "int \<Rightarrow> keyspace \<Rightarrow> string \<Rightarrow> bool" where
  "stuck_at c v k \<longleftrightarrow> (\<exists>n\<ge>c. v k = Some (n, None))"

lemma stuck_incremented: "stuck_at c v k \<Longrightarrow> stuck_at c (incremented j v) k"
  by (cases "j = k") (auto simp: stuck_at_def incremented_def expiry_def)

lemma stuck_check:
  assumes "redis_spec cl view" "0 < window" "1 \<le> c" "stuck_at c (view r) (ip_key ip)"
    and "rate_limit_check cl limit window i r = (out, r')"
  shows "stuck_at c (view r') (ip_key ip)"
proof -
  note sp = redis_specD [OF assms(1)]
  obtain on r1 where i: "redis_incr cl (ip_key i) r = (on, r1)" by fastforce
  have s1: "stuck_at c (view r1) (ip_key ip)"
    using i sp(1,2) [of "ip_key i" r] assms(4) stuck_incremented by (cases on) metis+
  have e1: "stuck_at c (view r2) (ip_key ip)"
    if "on = Some 1" "redis_expire cl (ip_key i) window r1 = (ou, r2)" for ou r2
  proof (cases "i = ip")
    case True
    with i sp(1) [of "ip_key i" r 1 r1] that(1) assms(3,4) show ?thesis
      by (auto simp: stuck_at_def counter_def)
  next
    case False
    with redis_expire_view [OF assms(1,2) that(2)] s1 show ?thesis
      by (auto simp: stuck_at_def)
  qed
  show ?thesis
  proof (cases on)
    case None
    with assms(5) i s1 show ?thesis by (auto simp: rate_limit_check_def bnd_def cmd_def)
  next
    case (Some n)
    obtain r2 where r2: "stuck_at c (view r2) (ip_key ip)"
      "r' = r2 \<or> (\<exists>ot. redis_ttl cl (ip_key i) r2 = (ot, r'))"
    proof (cases "n = 1")
      case True
      obtain ou r2 where e: "redis_expire cl (ip_key i) window r1 = (ou, r2)" by fastforce
      have "r' = r2 \<or> (\<exists>ot. redis_ttl cl (ip_key i) r2 = (ot, r'))"
        using assms(5) True Some i e
        by (cases ou; cases "redis_ttl cl (ip_key i) r2"; cases "fst (redis_ttl cl (ip_key i) r2)")
          (auto simp: rate_limit_check_def bnd_def cmd_def ret_def split: if_splits)
      with that e1 [OF _ e] Some True show ?thesis by blast
    next
      case False
      have "r' = r1 \<or> (\<exists>ot. redis_ttl cl (ip_key i) r1 = (ot, r'))"
        using assms(5) False Some i
        by (cases "redis_ttl cl (ip_key i) r1"; cases "fst (redis_ttl cl (ip_key i) r1)")
          (auto simp: rate_limit_check_def bnd_def cmd_def ret_def split: if_splits)
      with that s1 show ?thesis by blast
    qed
    from r2(2) sp(4) have "view r' = view r2" by metis
    with r2(1) show ?thesis by simp
  qed
qed

lemma stuck_run:
  assumes "redis_spec cl view" "0 < window" "1 \<le> c"
  shows "limiter_run cl view limit window r r1 \<Longrightarrow> stuck_at c (view r) (ip_key ip) \<Longrightarrow>
    stuck_at c (view r1) (ip_key ip)"
proof (induction rule: limiter_run.induct)
  case (limiter_check r r1 i out r2)
  from stuck_check [OF assms limiter_check(3) [OF limiter_check(4)] limiter_check(2)] show ?case .
next
  case (limiter_time r r1 r2 d)
  then show ?case by (auto simp: stuck_at_def elapse_def)
qed simp

text \<open>
  A counter whose expiry was never set blocks its address for good: the window is started
  with two commands, and when the second one is lost the counter is not reset by any later
  request nor by time; once it has reached the limit every request from the address is
  refused, with the advice to retry after one second.
\<close>

theorem lost_expire_blocks_address:
  assumes "redis_spec cl view" "0 < window" "view r (ip_key ip) = Some (c, None)" "1 \<le> c" "limit \<le> c"
    and "limiter_run cl view limit window r r1"
    and "rate_limit_check cl limit window ip r1 = (Inr st, r2)"
  shows "st = \<lparr>allowed = False, retry_after_seconds = 1\<rparr>"
proof -
  have "stuck_at c (view r) (ip_key ip)" using assms(3) by (auto simp: stuck_at_def)
  from stuck_run [OF assms(1,2,4,6) this] obtain n where
    n: "c \<le> n" "view r1 (ip_key ip) = Some (n, None)" by (auto simp: stuck_at_def)
  from rate_limit_effect [OF assms(1,2,7)] n assms(4,5) show ?thesis
    by (auto simp: Let_def incremented_def ttl_reply_def expiry_def)
qed

theorem lost_expire_blocks_address_witness:
  "fst (rate_limit_check mem_redis 10 60 ''10.0.0.1'' (elapse 1000000 [ip_key ''10.0.0.1'' \<mapsto> (10, None)])) =
     Inr \<lparr>allowed = False, retry_after_seconds = 1\<rparr>"
proof -
  let ?v = "[ip_key ''10.0.0.1'' \<mapsto> (10, None)] :: keyspace"
  have run: "limiter_run mem_redis id 10 60 ?v (elapse 1000000 ?v)"
    by (rule limiter_time [OF limiter_start]) simp
  obtain st r2 where c: "rate_limit_check mem_redis 10 60 ''10.0.0.1'' (elapse 1000000 ?v) = (Inr st, r2)"
    by (auto simp: rate_limit_check_def mem_redis_def bnd_def cmd_def ret_def elapse_def counter_def)
  have "st = \<lparr>allowed = False, retry_after_seconds = 1\<rparr>"
    by (rule lost_expire_blocks_address [where c = 10, OF mem_redis_spec(1) _ _ _ _ run c]) simp_all
  with c show ?thesis by simp
qed

text \<open>Requests of one address in a row.\<close>

fun check_times :: "'r redis \<Rightarrow> int \<Rightarrow> int \<Rightarrow> string \<Rightarrow> nat \<Rightarrow> ('r, rate_limit_status list) prog" where
  "check_times cl limit window ip 0 = ret []"
| "check_times cl limit window ip (Suc n) =
     bnd (check_times cl limit window ip n) (\<lambda>sts.
     bnd (rate_limit_check cl limit window ip) (\<lambda>st.
     ret (sts @ [st])))"

text \<open>
  Within a window the first \<open>limit\<close> requests of an address are let through and all later
  ones refused; the window ends when it has lasted, whatever came in meanwhile.
\<close>

theorem fixed_window:
  assumes "redis_spec cl view" "0 < window" "view r (ip_key ip) = None"
    and "check_times cl limit window ip n r = (Inr sts, r')"
  shows "map allowed sts = map (\<lambda>k. int k < limit) [0..<n] \<and>
    elapse window (view r') (ip_key ip) = None"
proof -
  have "map allowed sts = map (\<lambda>k. int k < limit) [0..<n] \<and>
      view r' (ip_key ip) = (if n = 0 then None else Some (int n, Some window))"
    using assms(4)
  proof (induction n arbitrary: sts r')
    case 0
    with assms(3) show ?case by simp
  next
    case (Suc n)
    then obtain sts1 st r1 where c: "check_times cl limit window ip n r = (Inr sts1, r1)"
      "rate_limit_check cl limit window ip r1 = (Inr st, r')" "sts = sts1 @ [st]"
      by (auto simp: bnd_Inr_iff)
    from Suc.IH [OF c(1)] rate_limit_effect [OF assms(1,2) c(2)] c(3) show ?case
      by (auto simp: Let_def counter_def incremented_def expiry_def split: if_splits)
  qed
  then show ?thesis by (auto simp: elapse_def)
qed

theorem fixed_window_witness:
  "map allowed (projr (fst (check_times mem_redis 2 60 ''10.0.0.1'' 3 Map.empty))) = [True, True, False]"
proof -
  have "\<not> isl (fst (check_times mem_redis 2 60 ''10.0.0.1'' 3 Map.empty))" by code_simp
  then obtain sts r' where c: "check_times mem_redis 2 60 ''10.0.0.1'' 3 Map.empty = (Inr sts, r')"
    by (metis isl_def prod.collapse sum.exhaust_sel)
  from fixed_window [OF mem_redis_spec(1) _ _ c] c show ?thesis
    by (simp add: upt_rec)
qed

section \<open>Tokens and users\<close>

lemma strip_chars_none: "set s \<inter> set cs = {} \<Longrightarrow> strip_chars cs s = s"
proof -
  have "dropWhile (\<lambda>c. c \<in> set cs) t = t" if "set t \<inter> set cs = {}" for t
    using that by (cases t) auto
  then show "set s \<inter> set cs = {} \<Longrightarrow> strip_chars cs s = s" by (simp add: strip_chars_def)
qed

lemma remove_all_none: "c \<notin> set s \<Longrightarrow> remove_all (c # cs) s = s"
  by (induction s) (auto simp: remove_all.simps)

definition hex_alphabet :: string where
  "hex_alphabet = ''0123456789abcdef''"

lemma hex_char_chars:
  assumes "d < 16"
  shows "hex_char d \<in> set hex_alphabet"
proof -
  have "list_all (\<lambda>d. hex_char d \<in> set hex_alphabet) [0..<16]" by code_simp
  with assms show ?thesis by (simp add: list_all_iff)
qed

lemma hex_alphabet_chars:
  assumes "c \<in> set hex_alphabet"
  shows "hex_val c \<noteq> None" "c \<noteq> CHR ''_''" "c \<noteq> CHR ''+''" "c \<noteq> CHR ''x''" "c \<noteq> CHR ''X''"
    "c \<noteq> CHR ''u''" "c \<notin> set ''{}''" "\<not> is_space c"
proof -
  have "list_all (\<lambda>c. hex_val c \<noteq> None \<and> c \<noteq> CHR ''_'' \<and> c \<noteq> CHR ''+'' \<and> c \<noteq> CHR ''x'' \<and>
    c \<noteq> CHR ''X'' \<and> c \<noteq> CHR ''u'' \<and> c \<notin> set ''{}'' \<and> \<not> is_space c) hex_alphabet" by code_simp
  with assms show "hex_val c \<noteq> None" "c \<noteq> CHR ''_''" "c \<noteq> CHR ''+''" "c \<noteq> CHR ''x''" "c \<noteq> CHR ''X''"
    "c \<noteq> CHR ''u''" "c \<notin> set ''{}''" "\<not> is_space c" unfolding list_all_iff by blast+
qed

lemma set_hex_digits: "set (hex_digits w n) \<subseteq> set hex_alphabet"
  by (induction w arbitrary: n) (simp_all add: hex_char_chars)

lemma hex_underscored_digits: "s \<noteq> [] \<Longrightarrow> set s \<subseteq> set hex_alphabet \<Longrightarrow> hex_underscored s"
  by (induction s rule: hex_underscored.induct) (simp_all add: hex_alphabet_chars)

lemma uuid_str_filter: "filter (\<lambda>c. c \<noteq> CHR ''-'') (uuid_str i) = hex_digits 32 i"
proof -
  let ?h = "hex_digits 32 i"
  have f: "filter (\<lambda>c. c \<noteq> CHR ''-'') t = t" if "set t \<subseteq> set ?h" for t
    using that hex_digits_no_dash [of 32 i] by (auto intro!: filter_True)
  have "filter (\<lambda>c. c \<noteq> CHR ''-'') (uuid_str i) =
      take 8 ?h @ take 4 (drop 8 ?h) @ take 4 (drop 12 ?h) @ take 4 (drop 16 ?h) @ drop 20 ?h"
    by (simp add: uuid_str_def Let_def f set_take_subset set_drop_subset
        order_trans [OF set_take_subset set_drop_subset])
  also have "\<dots> = ?h"
  proof -
    have "take 4 (drop k ?h) @ drop (k + 4) ?h = drop k ?h" for k
      by (metis append_take_drop_id drop_drop add.commute)
    from this [of 16] this [of 12] this [of 8] show ?thesis by simp
  qed
  finally show ?thesis .
qed

lemma set_uuid_str: "set (uuid_str i) \<subseteq> insert CHR ''-'' (set hex_alphabet)"
proof
  fix c assume "c \<in> set (uuid_str i)"
  then have "c = CHR ''-'' \<or> c \<in> set (filter (\<lambda>c. c \<noteq> CHR ''-'') (uuid_str i))" by simp
  then show "c \<in> insert CHR ''-'' (set hex_alphabet)"
    unfolding uuid_str_filter using set_hex_digits [of 32 i] by blast
qed

lemma py_strip_id: "\<forall>c\<in>set s. \<not> is_space c \<Longrightarrow> py_strip s = s"
proof -
  have d: "dropWhile is_space t = t" if "\<forall>c\<in>set t. \<not> is_space c" for t using that by (cases t) auto
  show "\<forall>c\<in>set s. \<not> is_space c \<Longrightarrow> py_strip s = s" by (simp add: py_strip_def d)
qed

lemma int16_digits:
  assumes "i < 16 ^ Suc (Suc w)"
  shows "int16 (hex_digits (Suc (Suc w)) i) = Some i"
proof -
  let ?h = "hex_digits (Suc (Suc w)) i"
  have h: "set ?h \<subseteq> set hex_alphabet" by (rule set_hex_digits)
  have c: "\<forall>c\<in>set ?h. hex_val c \<noteq> None \<and> c \<noteq> CHR ''_'' \<and> c \<noteq> CHR ''+'' \<and> c \<noteq> CHR ''x'' \<and>
      c \<noteq> CHR ''X'' \<and> \<not> is_space c"
    by (rule ballI, drule subsetD [OF h]) (simp add: hex_alphabet_chars)
  obtain a b r where abr: "?h = a # b # r"
    by (metis length_hex_digits length_Suc_conv)
  have "py_strip ?h = ?h" using c by (intro py_strip_id) blast
  moreover have "a \<in> set ?h" "b \<in> set ?h" unfolding abr by simp_all
  with c have "a \<noteq> CHR ''+''" "b \<noteq> CHR ''x''" "b \<noteq> CHR ''X''" by blast+
  then have "\<not> prefix ''+'' ?h" "\<not> prefix ''0x'' ?h" "\<not> prefix ''0X'' ?h"
    unfolding abr by simp_all
  moreover have "filter (\<lambda>c. c \<noteq> CHR ''_'') ?h = ?h" using c by (intro filter_True) blast
  moreover have "?h \<noteq> []" unfolding abr by simp
  from this h have "hex_underscored ?h" by (rule hex_underscored_digits)
  ultimately show ?thesis using hex_value_digits [OF assms] by (simp only: int16_def Let_def if_False if_True simp_thms)
qed

text \<open>\<open>UUID(str(id))\<close> is \<open>id\<close>.\<close>

lemma uuid_roundtrip:
  assumes "i < 2 ^ 128"
  shows "uuid_of_str (uuid_str i) = Some i"
proof -
  have u: "CHR ''u'' \<notin> set (uuid_str i)" "set (uuid_str i) \<inter> set ''{}'' = {}"
  proof -
    have "c \<noteq> CHR ''u'' \<and> c \<notin> set ''{}''" if "c \<in> set (uuid_str i)" for c
    proof (cases "c = CHR ''-''")
      case False
      with subsetD [OF set_uuid_str that] have "c \<in> set hex_alphabet" by simp
      then show ?thesis using hex_alphabet_chars(6,7) by blast
    qed simp
    then show "CHR ''u'' \<notin> set (uuid_str i)" "set (uuid_str i) \<inter> set ''{}'' = {}" by blast+
  qed
  have "strip_chars ''{}'' (remove_all ''uuid:'' (remove_all ''urn:'' (uuid_str i))) = uuid_str i"
    unfolding remove_all_none [OF u(1)] by (rule strip_chars_none [OF u(2)])
  moreover have "int16 (hex_digits 32 i) = Some i"
  proof -
    have "i < 16 ^ Suc (Suc 30)" using assms by simp
    moreover have "Suc (Suc 30) = 32" by simp
    ultimately show ?thesis using int16_digits [of i 30] by (simp only: simp_thms)
  qed
  ultimately show ?thesis by (simp add: uuid_of_str_def uuid_str_filter Let_def)
qed

lemma decode_issued:
  assumes "jwt_roundtrip cfg lib" "timestamp m \<le> timestamp (n + ACCESS_TOKEN_EXPIRE_MINUTES cfg * 60000000)"
  shows "\<exists>p. decode_access_token cfg lib m (issue_token cfg lib n u) = Some p \<and> p \<noteq> [] \<and>
    map_of p ''sub'' = Some (CStr (uuid_str (row_id u))) \<and>
    map_of p ''pwd_v'' = Some (CStr (isoformat (password_changed_at u)))"
proof -
  let ?p = "access_payload cfg n [(''sub'', CStr (uuid_str (row_id u))), (''role'', CStr (role_value (role u))),
        (''username'', CStr (username u)), (''pwd_v'', CStr (isoformat (password_changed_at u)))]"
  have "map_of ?p ''sub'' = Some (CStr (uuid_str (row_id u)))"
    "map_of ?p ''pwd_v'' = Some (CStr (isoformat (password_changed_at u)))" "?p \<noteq> []"
    by (simp_all add: access_payload_def Let_def)
  moreover from assms have
    "jwt_decode lib m (jwt_encode lib ?p (SECRET_KEY cfg) (ALGORITHM cfg)) (SECRET_KEY cfg) [ALGORITHM cfg]
       (non_empty (JWT_ISSUER cfg)) (non_empty (JWT_AUDIENCE cfg)) = Some ?p"
    unfolding jwt_roundtrip_def Let_def by blast
  ultimately show ?thesis
    by (intro exI [of _ ?p]) (simp only: decode_access_token_def issue_token_def create_access_token_def simp_thms)
qed

lemma uuid_str_not_Nil: "uuid_str i \<noteq> []"
proof
  assume "uuid_str i = []"
  then have "hex_digits 32 i = []" using uuid_str_filter [of i] by simp
  then have "length (hex_digits 32 i) = 0" by (simp only: list.size)
  then show False by simp
qed

text \<open>What the dependency answers to a token of \<open>u\<close> that is not expired.\<close>

lemma current_user_of_token:
  assumes "jwt_roundtrip cfg lib" "row_id u < 2 ^ 128"
    and "timestamp (clock s) \<le> timestamp (n + ACCESS_TOKEN_EXPIRE_MINUTES cfg * 60000000)"
  shows "get_current_user cfg lib (issue_token cfg lib n u) s =
    (case get_row users_tbl (row_id u) (working s) of
       None \<Rightarrow> (Inl (unauthorized ''User no longer exists''), s)
     | Some v \<Rightarrow>
         if \<not> user_is_active v then (Inl (HTTPException 403 ''Account is inactive''), s)
         else if isoformat (password_changed_at u) \<noteq> isoformat (password_changed_at v)
         then (Inl (unauthorized ''Session invalidated, please log in again''), s)
         else (Inr v, s))"
proof -
  from decode_issued [OF assms(1,3)] obtain p where
    p: "decode_access_token cfg lib (clock s) (issue_token cfg lib n u) = Some p" "p \<noteq> []"
      "map_of p ''sub'' = Some (CStr (uuid_str (row_id u)))"
      "map_of p ''pwd_v'' = Some (CStr (isoformat (password_changed_at u)))" by blast
  show ?thesis
    by (simp add: get_current_user_def bnd_now p bnd_raise_if uuid_str_not_Nil uuid_roundtrip [OF assms(2)]
        repo_get_by_id_def bnd_found_or_query ret_def split: option.split)
qed

text \<open>
  A library that numbers the claim sets and ignores the key, to try the properties out.
\<close>

instance claim :: countable
  by countable_datatype

definition unary_jwt :: jwt_lib where
  "unary_jwt = \<lparr>jwt_encode = (\<lambda>c key alg. replicate (to_nat c) CHR ''.''),
     jwt_decode = (\<lambda>n token key algs iss aud. Some (from_nat (length token)))\<rparr>"

lemma unary_jwt_roundtrip: "jwt_roundtrip cfg unary_jwt"
  by (simp add: jwt_roundtrip_def unary_jwt_def)

section \<open>Properties of the tokens\<close>

text \<open>
  C20. The token of a login identifies its user until it expires: the dependency returns the
  user's current row, unless the account is gone, inactive or has a new password.
\<close>

theorem issued_token_authenticates:
  assumes "jwt_roundtrip cfg lib" "row_id u < 2 ^ 128"
    and "timestamp (clock s) \<le> timestamp (n + ACCESS_TOKEN_EXPIRE_MINUTES cfg * 60000000)"
    and "get_row users_tbl (row_id u) (working s) = Some v" "user_is_active v"
    and "password_changed_at v = password_changed_at u"
  shows "get_current_user cfg lib (issue_token cfg lib n u) s = (Inr v, s) \<and>
    (role v = ADMIN \<longleftrightarrow> require_admin cfg lib (issue_token cfg lib n u) s = (Inr v, s)) \<and>
    (role v \<in> {ADMIN, MANAGER} \<longleftrightarrow> require_manager_or_above cfg lib (issue_token cfg lib n u) s = (Inr v, s))"
proof -
  have c: "get_current_user cfg lib (issue_token cfg lib n u) s = (Inr v, s)"
    using assms(4-6) by (simp add: current_user_of_token [OF assms(1-3)])
  then show ?thesis
    by (auto simp: require_admin_def require_manager_or_above_def bnd_def [of "get_current_user cfg lib (issue_token cfg lib n u)"] c bnd_raise_if ret_def)
qed

theorem issued_token_authenticates_witness:
  "fst (get_current_user BaseConfig unary_jwt (issue_token BaseConfig unary_jwt 1000 mgr)
     (session_of sample_tables)) = Inr mgr"
proof -
  have "get_row users_tbl (row_id mgr) (working (session_of sample_tables)) = Some mgr" by code_simp
  then have "get_current_user BaseConfig unary_jwt (issue_token BaseConfig unary_jwt 1000 mgr)
      (session_of sample_tables) = (Inr mgr, session_of sample_tables) \<and>
    (role mgr = ADMIN \<longleftrightarrow> require_admin BaseConfig unary_jwt (issue_token BaseConfig unary_jwt 1000 mgr)
      (session_of sample_tables) = (Inr mgr, session_of sample_tables)) \<and>
    (role mgr \<in> {ADMIN, MANAGER} \<longleftrightarrow> require_manager_or_above BaseConfig unary_jwt
      (issue_token BaseConfig unary_jwt 1000 mgr) (session_of sample_tables) = (Inr mgr, session_of sample_tables))"
    by (intro issued_token_authenticates unary_jwt_roundtrip)
      (simp_all add: mgr_def sample_user_def timestamp_def BaseConfig_def)
  then show ?thesis by simp
qed

text \<open>
  C21. Changing a password revokes every token issued before, whoever changes it: a token
  issued from any state of the account in which the password dates from before the change,
  however long it would still live, is answered with 401 and the request to log in again from
  the moment the change is committed - or with 403 when the account is not active.
\<close>

theorem password_change_revokes_tokens:
  assumes "update_user pwd ch i pl x s = (Inr r, s')" "deliver_only ch" "attr (uu_password pl) \<noteq> None"
    and "get_row users_tbl i (working s) = Some u" "i < 2 ^ 128" "schema_ok (working s)"
    and "0 \<le> password_changed_at v" "password_changed_at v < clock s"
    and "jwt_roundtrip cfg lib" "working s2 = committed s'"
    and "timestamp (clock s2) \<le> timestamp (n + ACCESS_TOKEN_EXPIRE_MINUTES cfg * 60000000)" "row_id v = i"
  shows "get_current_user cfg lib (issue_token cfg lib n v) s2 =
    (Inl (if user_is_active r then unauthorized ''Session invalidated, please log in again''
          else HTTPException 403 ''Account is inactive''), s2)"
  using assms(1,2)
proof (cases rule: update_user_committed)
  case (2 r1 s1)
  from update_account_Inr [OF 2(1)] obtain pw where
    pw: "new_password pwd pl (clock s) pw" "r1 = touch (clock s) (assign_user_update pl pw) u"
    and us: "users (working s1) = map_row i (touch (clock s) (assign_user_update pl pw)) (users (working s))"
    using assms(4) by auto
  from assms(1) 2(1) have "r = r1" by (simp add: update_user_def bnd_Inr_iff)
  from pw(1) assms(3) obtain h where "pw = Some (h, clock s)"
    by (auto simp: new_password_def split: option.splits)
  with pw(2) \<open>r = r1\<close> have pc: "password_changed_at r = clock s" by simp
  have i: "row_id u = i" by (rule get_row_id [OF assms(4)])
  have d: "distinct (ids (users (working s2)))"
    using us schema_ok_keys(1) [OF assms(6)] 2(2) assms(10) by (simp add: ids_map_row)
  have "u \<in> set (users (working s))" using get_row_SomeD [OF assms(4)] by simp
  with us i pw(2) \<open>r = r1\<close> 2(2) assms(10) have "r \<in> set (users (working s2))" "row_id r = i"
    by (auto simp: set_map_row)
  with d have g: "get_row users_tbl (row_id v) (working s2) = Some r" by (simp add: get_row_Some_iff assms(12))
  have "isoformat (password_changed_at v) \<noteq> isoformat (password_changed_at r)"
    using assms(7,8) pc isoformat_inj by fastforce
  with g show ?thesis
    using assms(5,12) by (simp add: current_user_of_token [OF assms(9) _ assms(11)])
qed simp

theorem password_change_revokes_tokens_witness:
  "isl (fst (get_current_user BaseConfig unary_jwt (issue_token BaseConfig unary_jwt 500 uwe)
     (session_of (committed (snd (update_user plain_pwd [logging_channel] 4
       \<lparr>uu_full_name = None, uu_username = None, uu_email = None, uu_password = Some (Some ''new''),
        uu_current_password = Some (Some ''uwe''), uu_role = None, uu_is_active = None\<rparr>
       uwe (session_of sample_tables)))))))"
  (is "isl (fst (get_current_user _ _ _ (session_of (committed (snd (update_user _ ?ch 4 ?pl uwe ?s))))))")
proof -
  have "\<not> isl (fst (update_user plain_pwd ?ch 4 ?pl uwe ?s))" by code_simp
  from run_ok [of "update_user plain_pwd ?ch 4 ?pl uwe" ?s, OF this] obtain r where
    r: "update_user plain_pwd ?ch 4 ?pl uwe ?s = (Inr r, snd (update_user plain_pwd ?ch 4 ?pl uwe ?s))" ..
  have g: "get_row users_tbl 4 (working ?s) = Some uwe" by code_simp
  have "get_current_user BaseConfig unary_jwt (issue_token BaseConfig unary_jwt 500 uwe)
      (session_of (committed (snd (update_user plain_pwd ?ch 4 ?pl uwe ?s)))) =
    (Inl (if user_is_active r then unauthorized ''Session invalidated, please log in again''
          else HTTPException 403 ''Account is inactive''),
     session_of (committed (snd (update_user plain_pwd ?ch 4 ?pl uwe ?s))))"
  proof (rule password_change_revokes_tokens [OF r deliver_only_logging(1) _ g _ _ _ _ unary_jwt_roundtrip])
    show "0 \<le> password_changed_at uwe" "password_changed_at uwe < clock ?s"
      by (simp_all add: uwe_def sample_user_def)
    show "timestamp (clock (session_of (committed (snd (update_user plain_pwd ?ch 4 ?pl uwe ?s))))) \<le>
        timestamp (500 + ACCESS_TOKEN_EXPIRE_MINUTES BaseConfig * 60000000)"
      by (simp only: session_of_simps) (simp add: timestamp_def BaseConfig_def)
    show "schema_ok (working ?s)" by (simp only: session_of_simps schema_ok_sample)
    show "working (session_of (committed (snd (update_user plain_pwd ?ch 4 ?pl uwe ?s)))) =
        committed (snd (update_user plain_pwd ?ch 4 ?pl uwe ?s))" by (simp only: session_of_simps)
    show "row_id uwe = 4" by (simp add: uwe_def sample_user_def)
  qed simp_all
  then show ?thesis by simp
qed

text \<open>
  The login refuses the scheduler's account only under the exact spelling of its
  username: under another spelling of the same name the credentials are checked, and the
  right password gets a token of the administrator account.
\<close>

theorem scheduler_refused_by_exact_name_only:
  assumes "SYSTEM_SCHEDULER_USERNAME cfg = ''system.scheduler''"
    and "py_lower (SYSTEM_SCHEDULER_EMAIL cfg) \<noteq> ''system.scheduler''"
    and "opens pwd s ''system.scheduler'' password u" "redis_up cl" "redis_spec cl view"
    and "view r (lock_key ''system.scheduler'') = None"
  shows "fst (login cfg pwd lib cl s ''system.scheduler'' password None r) = Inl InvalidCredentialsError \<and>
    fst (login cfg pwd lib cl s ''System.Scheduler'' password None r) = Inr (issue_token cfg lib (clock s) u)"
proof -
  have n: "normalize_identifier ''System.Scheduler'' = ''system.scheduler''"
    "py_lower ''System.Scheduler'' = ''system.scheduler''" by code_simp+
  have a: "account s ''System.Scheduler'' = account s ''system.scheduler''"
  proof -
    have "normalize_username (py_strip ''System.Scheduler'') = normalize_username (py_strip ''system.scheduler'')"
      "CHR ''@'' \<notin> set (py_strip ''System.Scheduler'')" "CHR ''@'' \<notin> set (py_strip ''system.scheduler'')"
      by code_simp+
    then show ?thesis by (simp add: account_def get_by_identifier_def get_by_username_def Let_def)
  qed
  have s: "is_scheduler cfg ''system.scheduler''" "\<not> is_scheduler cfg ''System.Scheduler''"
    using assms(1,2) by (auto simp: is_scheduler_def n(2))
  have o: "opens pwd s ''System.Scheduler'' password u" using assms(3) by (simp add: opens_def a)
  obtain ot r1 where t: "redis_ttl cl (lock_key ''system.scheduler'') r = (ot, r1)" by fastforce
  moreover from assms(4) have "ot \<noteq> None" using t unfolding redis_up_def by (metis fst_conv)
  ultimately have "redis_ttl cl (lock_key ''system.scheduler'') r = (Some (- 2), r1)"
    using redis_specD(4) [OF assms(5) t] assms(6) by (auto simp: ttl_reply_def)
  then have l: "get_lock_status cl ''System.Scheduler'' r = (Inr \<lparr>locked = False, lock_retry_after = 0\<rparr>, r1)"
    by (simp add: get_lock_status_def n bnd_def cmd_def ret_def)
  have "\<exists>x r'. cmd (redis_delete cl [fail_key ''system.scheduler'', lock_key ''system.scheduler'']) r1 = (Inr x, r')"
    by (rule cmd_up) (use assms(4) in \<open>simp add: redis_up_def\<close>)
  then obtain r2 where "cmd (redis_delete cl [fail_key ''system.scheduler'', lock_key ''system.scheduler'']) r1 = (Inr (), r2)"
    by auto
  then have "record_success cl ''System.Scheduler'' r1 = (Inr (), r2)"
    by (simp add: record_success_def n Let_def)
  with l o s show ?thesis
    by (simp add: login_eq bnd_def fail_closed_def ret_def raise_def opens_def)
qed

text \<open>The seeded account, with a password that became known.\<close>

definition scheduler_tables :: tables where
  "scheduler_tables = empty_tables\<lparr>users := [sample_user 1 ''system.scheduler'' ADMIN]\<rparr>"

theorem scheduler_refused_by_exact_name_only_witness:
  "fst (login BaseConfig plain_pwd unary_jwt mem_redis (session_of scheduler_tables)
     ''System.Scheduler'' ''system.scheduler'' None Map.empty) =
   Inr (issue_token BaseConfig unary_jwt 1000 (sample_user 1 ''system.scheduler'' ADMIN))"
proof -
  have "account (session_of scheduler_tables) ''system.scheduler'' = Some (sample_user 1 ''system.scheduler'' ADMIN)"
    by code_simp
  then have o: "opens plain_pwd (session_of scheduler_tables) ''system.scheduler'' ''system.scheduler''
      (sample_user 1 ''system.scheduler'' ADMIN)"
    by (simp add: opens_def sample_user_def verify_password_def plain_pwd_def)
  have e: "SYSTEM_SCHEDULER_USERNAME BaseConfig = ''system.scheduler''"
    "py_lower (SYSTEM_SCHEDULER_EMAIL BaseConfig) \<noteq> ''system.scheduler''" by code_simp+
  have "clock (session_of scheduler_tables) = 1000" by simp
  with scheduler_refused_by_exact_name_only [OF e o mem_redis_spec(2,1), of Map.empty unary_jwt]
  show ?thesis by simp
qed

end
