(* ===== verification/Leasing.thy ===== *)
theory Leasing
  imports TenantService
begin

text \<open>
  The leasing component: ContractRepository and LeaseRepository (app/leasing/repositories),
  the request bodies with their validators (app/leasing/schemas), ContractService and
  LeaseService (app/leasing/services). A contract is the tenancy, a lease holds the billing
  terms of a long-term contract.
\<close>

section \<open>Repositories\<close>

definition contract_get_by_property :: "uuid \<Rightarrow> contract list svc" where
  "contract_get_by_property i = repo_all contracts_tbl (\<lambda>c. contract_property_id c = i)"

definition contract_get_by_tenant :: "uuid \<Rightarrow> contract list svc" where
  "contract_get_by_tenant i = repo_all contracts_tbl (\<lambda>c. contract_tenant_id c = i)"

definition contract_get_by_status :: "contract_status \<Rightarrow> contract list svc" where
  "contract_get_by_status st = repo_all contracts_tbl (\<lambda>c. contract_status c = st)"

definition contract_get_by_rental_type :: "rental_type \<Rightarrow> contract list svc" where
  "contract_get_by_rental_type rt = repo_all contracts_tbl (\<lambda>c. contract_rental_type c = rt)"

definition contract_get_by_booking_source :: "string \<Rightarrow> contract list svc" where
  "contract_get_by_booking_source b = repo_all contracts_tbl (\<lambda>c. booking_source c = b)"

definition get_active_contract_by_property :: "uuid \<Rightarrow> contract option svc" where
  "get_active_contract_by_property i = repo_first contracts_tbl
     (\<lambda>c. contract_property_id c = i \<and> contract_status c = ContractActive)"

definition contract_visible :: "uuid \<Rightarrow> tables \<Rightarrow> contract \<Rightarrow> bool" where
  "contract_visible m t c \<longleftrightarrow> contract_property_id c \<in> set (owned_property_ids m t)"

definition contract_get_all_for_manager :: "uuid \<Rightarrow> int \<Rightarrow> int \<Rightarrow> contract list svc" where
  "contract_get_all_for_manager m skip limit =
     query (\<lambda>t. page skip limit (build_query contracts_tbl (contract_visible m t) t))"

definition contract_count_all_for_manager :: "uuid \<Rightarrow> nat svc" where
  "contract_count_all_for_manager m = query (\<lambda>t. length (filter (contract_visible m t) (contracts t)))"

definition contract_repo :: "contract scoped_repo" where
  "contract_repo = \<lparr>get_all = repo_get_all contracts_tbl,
     count_all = repo_count contracts_tbl (\<lambda>_. True),
     get_all_for_manager = contract_get_all_for_manager,
     count_all_for_manager = contract_count_all_for_manager\<rparr>"

definition lease_get_by_contract :: "uuid \<Rightarrow> lease option svc" where
  "lease_get_by_contract i = repo_first leases_tbl (\<lambda>l. lease_contract_id l = i)"

definition lease_visible :: "uuid \<Rightarrow> tables \<Rightarrow> lease \<Rightarrow> bool" where
  "lease_visible m t l \<longleftrightarrow> lease_contract_id l \<in> set (owned_contract_ids m t)"

definition lease_get_all_for_manager :: "uuid \<Rightarrow> int \<Rightarrow> int \<Rightarrow> lease list svc" where
  "lease_get_all_for_manager m skip limit =
     query (\<lambda>t. page skip limit (build_query leases_tbl (lease_visible m t) t))"

definition lease_count_all_for_manager :: "uuid \<Rightarrow> nat svc" where
  "lease_count_all_for_manager m = query (\<lambda>t. length (filter (lease_visible m t) (leases t)))"

definition lease_repo :: "lease scoped_repo" where
  "lease_repo = \<lparr>get_all = repo_get_all leases_tbl, count_all = repo_count leases_tbl (\<lambda>_. True),
     get_all_for_manager = lease_get_all_for_manager,
     count_all_for_manager = lease_count_all_for_manager\<rparr>"

text \<open>\<open>get_expiring\<close> and its scoped variant have no ORDER BY: the rows come in table order.\<close>

definition expiring :: "date \<Rightarrow> date \<Rightarrow> lease \<Rightarrow> bool" where
  "expiring d1 d2 l \<longleftrightarrow> lease_status l = LeaseActive \<and>
     (case lease_end l of None \<Rightarrow> False | Some e \<Rightarrow> d1 \<le> e \<and> e \<le> d2)"

definition get_expiring :: "date \<Rightarrow> date \<Rightarrow> lease list svc" where
  "get_expiring d1 d2 = query (\<lambda>t. filter (expiring d1 d2) (leases t))"

definition get_expiring_for_manager :: "uuid \<Rightarrow> date \<Rightarrow> date \<Rightarrow> lease list svc" where
  "get_expiring_for_manager m d1 d2 =
     query (\<lambda>t. filter (\<lambda>l. lease_visible m t l \<and> expiring d1 d2 l) (leases t))"

definition get_active_leases :: "lease list svc" where
  "get_active_leases = repo_all leases_tbl (\<lambda>l. lease_status l = LeaseActive)"

section \<open>Request bodies\<close>

record contract_create =
  cc_property_id :: uuid
  cc_tenant_id :: uuid
  cc_rental_type :: rental_type
  cc_start_date :: date
  cc_end_date :: "date option"
  cc_rent_amount :: money
  cc_deposit :: "money option"
  cc_booking_source :: string
  cc_status :: contract_status

definition valid_contract_create :: "contract_create \<Rightarrow> bool" where
  "valid_contract_create pl \<longleftrightarrow>
     0 < cc_rent_amount pl \<and> opt_pos (cc_deposit pl) \<and>
     \<not> (case cc_end_date pl of None \<Rightarrow> False | Some e \<Rightarrow> e \<le> cc_start_date pl) \<and>
     cc_booking_source pl \<in> set BOOKING_SOURCE"

record contract_update =
  cu_rental_type :: "rental_type patch"
  cu_start_date :: "date patch"
  cu_end_date :: "date patch"
  cu_rent_amount :: "money patch"
  cu_deposit :: "money patch"
  cu_booking_source :: "string patch"
  cu_status :: "contract_status patch"

definition valid_contract_update :: "contract_update \<Rightarrow> bool" where
  "valid_contract_update pl \<longleftrightarrow>
     opt_pos (attr (cu_rent_amount pl)) \<and> opt_pos (attr (cu_deposit pl)) \<and>
     \<not> (case (attr (cu_start_date pl), attr (cu_end_date pl)) of
          (Some st, Some e) \<Rightarrow> e \<le> st | _ \<Rightarrow> False) \<and>
     \<not> (case attr (cu_booking_source pl) of
          None \<Rightarrow> False | Some b \<Rightarrow> b \<noteq> [] \<and> b \<notin> set BOOKING_SOURCE)"

definition new_contract :: "contract_create \<Rightarrow> uuid \<Rightarrow> instant \<Rightarrow> contract" where
  "new_contract pl i n =
     \<lparr>row_id = i, created_at = n, updated_at = n, contract_property_id = cc_property_id pl,
      contract_tenant_id = cc_tenant_id pl, contract_rental_type = cc_rental_type pl,
      contract_start = cc_start_date pl, contract_end = cc_end_date pl,
      rent_amount = cc_rent_amount pl, deposit = cc_deposit pl,
      booking_source = cc_booking_source pl, contract_status = cc_status pl\<rparr>"

definition assign_contract_update :: "contract_update \<Rightarrow> contract \<Rightarrow> contract" where
  "assign_contract_update pl c = c\<lparr>
     contract_rental_type := set_req (cu_rental_type pl) (contract_rental_type c),
     contract_start := set_req (cu_start_date pl) (contract_start c),
     contract_end := set_null (cu_end_date pl) (contract_end c),
     rent_amount := set_req (cu_rent_amount pl) (rent_amount c),
     deposit := set_null (cu_deposit pl) (deposit c),
     booking_source := set_req (cu_booking_source pl) (booking_source c),
     contract_status := set_req (cu_status pl) (contract_status c)\<rparr>"

definition contract_update_nulls :: "contract_update \<Rightarrow> string list" where
  "contract_update_nulls pl =
     null_viol ''rental_type'' (cu_rental_type pl) @ null_viol ''start_date'' (cu_start_date pl) @
     null_viol ''rent_amount'' (cu_rent_amount pl) @ null_viol ''booking_source'' (cu_booking_source pl) @
     null_viol ''status'' (cu_status pl)"

record lease_create =
  lc_contract_id :: uuid
  lc_monthly_rent :: money
  lc_due_day :: int
  lc_billing_cycle :: billing_cycle
  lc_security_deposit :: "money option"
  lc_advance_payment :: "money option"
  lc_late_fee_amount :: "money option"
  lc_late_fee_percent :: "int option"
  lc_grace_period_days :: int
  lc_renewal_option :: renewal_option
  lc_status :: lease_status
  lc_start_date :: date
  lc_end_date :: "date option"

definition valid_percent :: "int option \<Rightarrow> bool" where
  "valid_percent v = (case v of None \<Rightarrow> True | Some p \<Rightarrow> 0 < p \<and> p \<le> 10000)"

definition valid_dates_and_late_fee ::
  "date option \<Rightarrow> date \<Rightarrow> money option \<Rightarrow> int option \<Rightarrow> bool" where
  "valid_dates_and_late_fee end_date start_date amount percent \<longleftrightarrow>
     \<not> (case end_date of None \<Rightarrow> False | Some e \<Rightarrow> e \<le> start_date) \<and>
     \<not> ((amount = None) = (percent = None))"

definition valid_lease_create :: "lease_create \<Rightarrow> bool" where
  "valid_lease_create pl \<longleftrightarrow>
     0 < lc_monthly_rent pl \<and> 1 \<le> lc_due_day pl \<and> lc_due_day pl \<le> 31 \<and>
     opt_pos (lc_security_deposit pl) \<and> opt_pos (lc_advance_payment pl) \<and>
     opt_pos (lc_late_fee_amount pl) \<and> valid_percent (lc_late_fee_percent pl) \<and>
     0 \<le> lc_grace_period_days pl \<and>
     valid_dates_and_late_fee (lc_end_date pl) (lc_start_date pl) (lc_late_fee_amount pl)
       (lc_late_fee_percent pl)"

record lease_update =
  lu_monthly_rent :: "money patch"
  lu_due_day :: "int patch"
  lu_billing_cycle :: "billing_cycle patch"
  lu_security_deposit :: "money patch"
  lu_advance_payment :: "money patch"
  lu_late_fee_amount :: "money patch"
  lu_late_fee_percent :: "int patch"
  lu_grace_period_days :: "int patch"
  lu_renewal_option :: "renewal_option patch"
  lu_status :: "lease_status patch"
  lu_start_date :: "date patch"
  lu_end_date :: "date patch"

definition valid_lease_update :: "lease_update \<Rightarrow> bool" where
  "valid_lease_update pl \<longleftrightarrow>
     opt_pos (attr (lu_monthly_rent pl)) \<and>
     (case attr (lu_due_day pl) of None \<Rightarrow> True | Some d \<Rightarrow> 1 \<le> d \<and> d \<le> 31) \<and>
     opt_pos (attr (lu_security_deposit pl)) \<and> opt_pos (attr (lu_advance_payment pl)) \<and>
     opt_pos (attr (lu_late_fee_amount pl)) \<and> valid_percent (attr (lu_late_fee_percent pl)) \<and>
     (case attr (lu_grace_period_days pl) of None \<Rightarrow> True | Some d \<Rightarrow> 0 \<le> d) \<and>
     \<not> (case (attr (lu_start_date pl), attr (lu_end_date pl)) of
          (Some st, Some e) \<Rightarrow> e \<le> st | _ \<Rightarrow> False) \<and>
     \<not> (attr (lu_late_fee_amount pl) \<noteq> None \<and> attr (lu_late_fee_percent pl) \<noteq> None)"

definition new_lease :: "lease_create \<Rightarrow> uuid \<Rightarrow> instant \<Rightarrow> lease" where
  "new_lease pl i n =
     \<lparr>row_id = i, created_at = n, updated_at = n, lease_contract_id = lc_contract_id pl,
      monthly_rent = lc_monthly_rent pl, due_day = lc_due_day pl,
      billing_cycle = lc_billing_cycle pl, security_deposit = lc_security_deposit pl,
      advance_payment = lc_advance_payment pl, late_fee_amount = lc_late_fee_amount pl,
      late_fee_percent = lc_late_fee_percent pl, grace_period_days = lc_grace_period_days pl,
      renewal_option = lc_renewal_option pl, lease_status = lc_status pl,
      lease_start = lc_start_date pl, lease_end = lc_end_date pl\<rparr>"

definition assign_lease_update :: "lease_update \<Rightarrow> lease \<Rightarrow> lease" where
  "assign_lease_update pl l = l\<lparr>
     monthly_rent := set_req (lu_monthly_rent pl) (monthly_rent l),
     due_day := set_req (lu_due_day pl) (due_day l),
     billing_cycle := set_req (lu_billing_cycle pl) (billing_cycle l),
     security_deposit := set_null (lu_security_deposit pl) (security_deposit l),
     advance_payment := set_null (lu_advance_payment pl) (advance_payment l),
     late_fee_amount := set_null (lu_late_fee_amount pl) (late_fee_amount l),
     late_fee_percent := set_null (lu_late_fee_percent pl) (late_fee_percent l),
     grace_period_days := set_req (lu_grace_period_days pl) (grace_period_days l),
     renewal_option := set_req (lu_renewal_option pl) (renewal_option l),
     lease_status := set_req (lu_status pl) (lease_status l),
     lease_start := set_req (lu_start_date pl) (lease_start l),
     lease_end := set_null (lu_end_date pl) (lease_end l)\<rparr>"

definition lease_update_nulls :: "lease_update \<Rightarrow> string list" where
  "lease_update_nulls pl =
     null_viol ''monthly_rent'' (lu_monthly_rent pl) @ null_viol ''due_day'' (lu_due_day pl) @
     null_viol ''billing_cycle'' (lu_billing_cycle pl) @
     null_viol ''grace_period_days'' (lu_grace_period_days pl) @
     null_viol ''renewal_option'' (lu_renewal_option pl) @ null_viol ''status'' (lu_status pl) @
     null_viol ''start_date'' (lu_start_date pl)"

section \<open>ContractService\<close>

definition list_contracts :: "user \<Rightarrow> int \<Rightarrow> int \<Rightarrow> contract paginated svc" where
  "list_contracts current_user skip limit =
     list_scoped_by_manager ContractForbidden current_user contract_repo skip limit"

definition get_contract :: "uuid \<Rightarrow> user \<Rightarrow> contract svc" where
  "get_contract i current_user =
     bnd (found_or (RelatedResourceNotFoundError ''Contract'' i) (repo_get_by_id contracts_tbl i)) (\<lambda>c.
     bnd (authorize_user_to_property ContractForbidden current_user (Some (contract_property_id c)) None None) (\<lambda>_.
     ret c))"

definition resolve_property_status_transition ::
  "contract_status option \<Rightarrow> contract_status option \<Rightarrow> property_status option" where
  "resolve_property_status_transition old_status new_status =
     (if new_status = old_status then None
      else if old_status = Some ContractActive then Some Vacant
      else if new_status = Some ContractActive then Some Occupied
      else None)"

definition sync_property_status :: "uuid \<Rightarrow> property_status option \<Rightarrow> unit svc" where
  "sync_property_status property_id st =
     (case st of
        None \<Rightarrow> ret ()
      | Some v \<Rightarrow>
          bnd (repo_update properties_tbl property_id [] (\<lambda>p. p\<lparr>prop_status := v\<rparr>)) (\<lambda>_. ret ()))"

definition raise_if_active_contract_conflict :: "string \<Rightarrow> 'a svc" where
  "raise_if_active_contract_conflict msg =
     (if substr ''uq_active_contract_property'' msg \<or>
         substr ''duplicate key value'' msg \<and> substr ''property_id'' msg
      then raise ContractActiveError else raise (IntegrityError msg))"

text \<open>\<open>_prepare_contract_context\<close> as \<open>create_contract\<close> calls it: without a contract.\<close>

definition prepare_contract_context :: "user \<Rightarrow> uuid option \<Rightarrow> uuid option \<Rightarrow> (uuid option \<times> uuid option) svc" where
  "prepare_contract_context current_user property_id tenant_id =
     bnd (validate_related_resources property_id None tenant_id None) (\<lambda>_.
     bnd (authorize_user_to_property ContractForbidden current_user property_id None None) (\<lambda>_.
     ret (property_id, tenant_id)))"

definition create_contract :: "contract_create \<Rightarrow> user \<Rightarrow> contract svc" where
  "create_contract payload current_user =
     bnd (prepare_contract_context current_user (Some (cc_property_id payload)) (Some (cc_tenant_id payload))) (\<lambda>_.
     try_except
       (bnd (repo_create contracts_tbl (new_contract payload)) (\<lambda>c.
        bnd (sync_property_status (contract_property_id c)
               (resolve_property_status_transition None (Some (contract_status c)))) (\<lambda>_.
        bnd (write_audit_log current_user CREATE ''Contract'' (row_id c)) (\<lambda>_.
        bnd commit (\<lambda>_.
        ret c)))))
       (on_integrity raise_if_active_contract_conflict))"

definition update_contract :: "uuid \<Rightarrow> contract_update \<Rightarrow> user \<Rightarrow> contract option svc" where
  "update_contract i payload current_user =
     bnd (get_contract i current_user) (\<lambda>c0.
     try_except
       (bnd (repo_update contracts_tbl i (contract_update_nulls payload)
               (assign_contract_update payload)) (\<lambda>c.
        bnd (case c of
               None \<Rightarrow> ret ()
             | Some c1 \<Rightarrow> sync_property_status (contract_property_id c0)
                 (resolve_property_status_transition (Some (contract_status c0))
                    (Some (contract_status c1)))) (\<lambda>_.
        bnd (write_audit_log current_user UPDATE ''Contract'' i) (\<lambda>_.
        bnd commit (\<lambda>_.
        ret c)))))
       (on_integrity raise_if_active_contract_conflict))"

definition delete_contract :: "uuid \<Rightarrow> user \<Rightarrow> contract option svc" where
  "delete_contract i current_user =
     bnd (get_contract i current_user) (\<lambda>c0.
     try_except
       (bnd (repo_delete contracts_tbl (\<lambda>_ t. t) i) (\<lambda>c.
        bnd (case c of
               None \<Rightarrow> ret ()
             | Some _ \<Rightarrow> sync_property_status (contract_property_id c0)
                 (resolve_property_status_transition (Some (contract_status c0)) None)) (\<lambda>_.
        bnd (write_audit_log current_user DELETE ''Contract'' i) (\<lambda>_.
        bnd commit (\<lambda>_.
        ret c)))))
       (on_integrity (\<lambda>_. raise ContractInUseError)))"

section \<open>LeaseService\<close>

definition list_leases :: "user \<Rightarrow> int \<Rightarrow> int \<Rightarrow> lease paginated svc" where
  "list_leases current_user skip limit =
     list_scoped_by_manager LeaseForbidden current_user lease_repo skip limit"

definition get_lease :: "uuid \<Rightarrow> user \<Rightarrow> lease svc" where
  "get_lease i current_user =
     bnd (found_or (RelatedResourceNotFoundError ''Lease'' i) (repo_get_by_id leases_tbl i)) (\<lambda>l.
     bnd (authorize_user_to_property LeaseForbidden current_user None (Some (lease_contract_id l)) None) (\<lambda>_.
     ret l))"

definition get_lease_by_contract :: "uuid \<Rightarrow> user \<Rightarrow> lease option svc" where
  "get_lease_by_contract contract_id current_user =
     bnd (lease_get_by_contract contract_id) (\<lambda>r.
     case r of
       None \<Rightarrow> ret None
     | Some l \<Rightarrow>
         bnd (authorize_user_to_property LeaseForbidden current_user None (Some (lease_contract_id l)) None) (\<lambda>_.
         ret (Some l)))"

definition prepare_lease_context :: "user \<Rightarrow> uuid \<Rightarrow> contract option svc" where
  "prepare_lease_context current_user contract_id =
     bnd (validate_related_resources None (Some contract_id) None None) (\<lambda>_.
     bnd (repo_get_by_id contracts_tbl contract_id) (\<lambda>c.
     bnd (authorize_user_to_property LeaseForbidden current_user None (Some contract_id) c) (\<lambda>_.
     ret c)))"

definition raise_if_duplicate_lease_conflict :: "string \<Rightarrow> 'a svc" where
  "raise_if_duplicate_lease_conflict msg =
     (if substr ''uq_lease_contract_id'' msg \<or>
         substr ''duplicate key value'' msg \<and> substr ''contract_id'' msg
      then raise LeaseAlreadyExistsError else raise (IntegrityError msg))"

definition create_lease :: "lease_create \<Rightarrow> user \<Rightarrow> lease svc" where
  "create_lease payload current_user =
     bnd (prepare_lease_context current_user (lc_contract_id payload)) (\<lambda>c.
     bnd (raise_if (map_option contract_rental_type c \<noteq> Some LongTerm) LeaseRentalTypeError) (\<lambda>_.
     try_except
       (bnd (repo_create leases_tbl (new_lease payload)) (\<lambda>l.
        bnd (write_audit_log current_user CREATE ''Lease'' (row_id l)) (\<lambda>_.
        bnd commit (\<lambda>_.
        ret l))))
       (on_integrity raise_if_duplicate_lease_conflict)))"

definition update_lease :: "uuid \<Rightarrow> lease_update \<Rightarrow> user \<Rightarrow> lease option svc" where
  "update_lease i payload current_user =
     bnd (get_lease i current_user) (\<lambda>_.
     bnd (repo_update leases_tbl i (lease_update_nulls payload) (assign_lease_update payload)) (\<lambda>l.
     bnd (write_audit_log current_user UPDATE ''Lease'' i) (\<lambda>_.
     bnd commit (\<lambda>_.
     ret l))))"

definition delete_lease :: "uuid \<Rightarrow> user \<Rightarrow> lease option svc" where
  "delete_lease i current_user =
     bnd (get_lease i current_user) (\<lambda>_.
     bnd (repo_delete leases_tbl (\<lambda>_ t. t) i) (\<lambda>l.
     bnd (write_audit_log current_user DELETE ''Lease'' i) (\<lambda>_.
     bnd commit (\<lambda>_.
     ret l))))"

section \<open>Lemmas\<close>

lemma get_contract_Inr:
  "get_contract i u s = (Inr c, s') \<longleftrightarrow> s' = s \<and> get_row contracts_tbl i (working s) = Some c \<and>
     authorize_user_to_property ContractForbidden u (Some (contract_property_id c)) None None s = (Inr (), s)"
  using pure_readD [OF pure_read_authorize] by (fastforce simp: get_contract_def svc_iffs)

lemma get_lease_Inr:
  "get_lease i u s = (Inr l, s') \<longleftrightarrow> s' = s \<and> get_row leases_tbl i (working s) = Some l \<and>
     authorize_user_to_property LeaseForbidden u None (Some (lease_contract_id l)) None s = (Inr (), s)"
  using pure_readD [OF pure_read_authorize] by (fastforce simp: get_lease_def svc_iffs)

lemma pure_read_leasing [atomic_intros]:
  "pure_read (get_contract i u)" "pure_read (get_lease i u)"
  "pure_read (prepare_contract_context u p t)" "pure_read (prepare_lease_context u i)"
  "pure_read (lease_get_by_contract i)" "pure_read (get_lease_by_contract i u)"
  unfolding get_contract_def get_lease_def prepare_contract_context_def prepare_lease_context_def
    lease_get_by_contract_def get_lease_by_contract_def
  by (intro atomic_intros)+

lemma prepare_lease_context_Inr:
  "prepare_lease_context u i s = (Inr c, s') \<longleftrightarrow> s' = s \<and> c = get_row contracts_tbl i (working s) \<and>
     i \<in> set (ids (contracts (working s))) \<and>
     authorize_user_to_property LeaseForbidden u None (Some i) c s = (Inr (), s)"
  using pure_readD [OF pure_read_authorize] by (fastforce simp: prepare_lease_context_def svc_iffs)

lemma new_lease_simps [simp]:
  "row_id (new_lease pl i n) = i" "lease_contract_id (new_lease pl i n) = lc_contract_id pl"
  by (simp_all add: new_lease_def)

lemma logs_leasing_reads [trail_intros]:
  "logs [] (get_contract i u)" "logs [] (get_lease i u)"
  "logs [] (prepare_contract_context u p t)" "logs [] (prepare_lease_context u i)"
  by (rule logs_pure, rule atomic_intros)+

lemma leasing_conflicts_raise [simp]:
  "raises raise_if_active_contract_conflict" "raises raise_if_duplicate_lease_conflict"
  by (simp_all add: raise_if_active_contract_conflict_def [abs_def]
      raise_if_duplicate_lease_conflict_def [abs_def])

lemma silent_sync [atomic_intros]: "silent (sync_property_status p st)"
  unfolding sync_property_status_def by (intro atomic_intros)

lemma logs_sync [trail_intros]: "logs [] (sync_property_status p st)"
  unfolding sync_property_status_def by (intro trail_intros)

lemma atomic_leasing [atomic_intros]:
  "atomic (create_contract pl u)" "atomic (update_contract i upl u)" "atomic (delete_contract i u)"
  "atomic (create_lease lpl u)" "atomic (update_lease i lupl u)" "atomic (delete_lease i u)"
  unfolding create_contract_def update_contract_def delete_contract_def create_lease_def
    update_lease_def delete_lease_def
  by (intro atomic_intros raises_on_integrity leasing_conflicts_raise raises_raise)+

lemma logs_leasing:
  "logs [(CREATE, ''Contract'')] (create_contract pl u)"
  "logs [(UPDATE, ''Contract'')] (update_contract i upl u)"
  "logs [(DELETE, ''Contract'')] (delete_contract i u)"
  "logs [(CREATE, ''Lease'')] (create_lease lpl u)"
  "logs [(UPDATE, ''Lease'')] (update_lease i lupl u)"
  "logs [(DELETE, ''Lease'')] (delete_lease i u)"
  unfolding create_contract_def update_contract_def delete_contract_def create_lease_def
    update_lease_def delete_lease_def
  by (intro trail_intros raises_on_integrity leasing_conflicts_raise raises_raise refl)+

interpretation contract_scope: scoped_resource contracts_tbl contract_repo contract_visible get_contract
proof
  fix s :: session and c u
  assume *: "schema_ok (working s)" "c \<in> set (rows contracts_tbl (working s))"
  then have "contract_property_id c \<in> set (ids (properties (working s)))"
    by (simp add: schema_ok_refs)
  with * show "get_contract (row_id c) u s = (Inr c, s) \<longleftrightarrow>
      role u = ADMIN \<or> role u = MANAGER \<and> contract_visible (row_id u) (working s) c"
    by (simp add: get_contract_Inr get_row_Some_iff schema_ok_keys authorize_property_iff
        contract_visible_def)
qed (simp_all add: contract_repo_def contract_get_all_for_manager_def
    contract_count_all_for_manager_def query_def schema_ok_keys)

interpretation lease_scope: scoped_resource leases_tbl lease_repo lease_visible get_lease
proof
  fix s :: session and l u
  assume *: "schema_ok (working s)" "l \<in> set (rows leases_tbl (working s))"
  then have "lease_contract_id l \<in> set (ids (contracts (working s)))"
    by (simp add: schema_ok_refs)
  with * show "get_lease (row_id l) u s = (Inr l, s) \<longleftrightarrow>
      role u = ADMIN \<or> role u = MANAGER \<and> lease_visible (row_id u) (working s) l"
    by (simp add: get_lease_Inr get_row_Some_iff schema_ok_keys authorize_contract_iff
        lease_visible_def)
qed (simp_all add: lease_repo_def lease_get_all_for_manager_def lease_count_all_for_manager_def
    query_def schema_ok_keys)

section \<open>Occupancy\<close>

text \<open>A property is marked occupied exactly when one of its contracts is active.\<close>

definition occupancy_ok :: "tables \<Rightarrow> bool" where
  "occupancy_ok t \<longleftrightarrow>
     list_all (\<lambda>p. (prop_status p = Occupied) =
       list_ex (\<lambda>c. contract_property_id c = row_id p \<and> contract_status c = ContractActive) (contracts t))
       (properties t)"

definition occupied_by :: "tables \<Rightarrow> uuid \<Rightarrow> bool" where
  "occupied_by t i \<longleftrightarrow>
     (\<exists>c\<in>set (contracts t). contract_property_id c = i \<and> contract_status c = ContractActive)"

lemma occupancy_ok_iff:
  "occupancy_ok t \<longleftrightarrow> (\<forall>p\<in>set (properties t). (prop_status p = Occupied) = occupied_by t (row_id p))"
  by (simp add: occupancy_ok_def occupied_by_def list_all_iff list_ex_iff)

lemma touch_prop [simp]:
  "prop_status (touch n f p) = prop_status (f p)"
  by (simp add: touch_def Let_def)

lemma touch_contract [simp]:
  "contract_status (touch n f c) = contract_status (f c)"
  "contract_property_id (touch n f c) = contract_property_id (f c)"
  by (simp_all add: touch_def Let_def)

lemma assign_contract_update_simps [simp]:
  "row_id (assign_contract_update pl c) = row_id c"
  "contract_property_id (assign_contract_update pl c) = contract_property_id c"
  by (simp_all add: assign_contract_update_def)

lemma unique_active:
  assumes "schema_ok t" "c \<in> set (contracts t)" "c' \<in> set (contracts t)"
    and "contract_status c = ContractActive" "contract_status c' = ContractActive"
    and "contract_property_id c = contract_property_id c'"
  shows "c = c'"
proof -
  have "distinct (map contract_property_id (active_contracts t))"
    using assms(1) by (simp add: schema_ok_tables contracts_constraints_def)
  moreover have "c \<in> set (active_contracts t)" "c' \<in> set (active_contracts t)"
    using assms by (simp_all add: active_contracts_def)
  ultimately show ?thesis using assms(6) by (simp add: distinct_map inj_on_def)
qed

definition mark :: "uuid \<Rightarrow> property_status option \<Rightarrow> instant \<Rightarrow> property list \<Rightarrow> property list" where
  "mark i st n ps =
     (case st of None \<Rightarrow> ps | Some v \<Rightarrow> map_row i (touch n (\<lambda>p. p\<lparr>prop_status := v\<rparr>)) ps)"

lemma sync_Inr:
  "sync_property_status i st s = (Inr v, s') \<Longrightarrow>
     contracts (working s') = contracts (working s) \<and> users (working s') = users (working s) \<and>
     clock s' = clock s \<and> properties (working s') = mark i st (clock s) (properties (working s))"
  by (cases "get_row properties_tbl i (working s)")
    (auto simp: sync_property_status_def mark_def svc_iffs repo_iffs get_row_None map_row_absent)

lemma create_contract_Inr:
  assumes "create_contract pl u s = (Inr c, s')"
  shows "\<exists>i n. c = new_contract pl i n \<and> contracts (working s') = contracts (working s) @ [c] \<and>
    properties (working s') = mark (cc_property_id pl)
      (resolve_property_status_transition None (Some (cc_status pl))) (clock s) (properties (working s))"
proof -
  from assms obtain c1 s1 s2 where
    c1: "repo_create contracts_tbl (new_contract pl) s = (Inr c1, s1)"
    and s2: "sync_property_status (contract_property_id c1)
      (resolve_property_status_transition None (Some (contract_status c1))) s1 = (Inr (), s2)"
    and s': "c = c1" "contracts (working s') = contracts (working s2)"
      "properties (working s') = properties (working s2)"
    by (auto simp: create_contract_def svc_iffs write_audit_log_iff
        dest!: pure_readD [OF pure_read_leasing(3)])
  from c1 sync_Inr [OF s2] s' show ?thesis
    by (auto simp: repo_iffs new_contract_def)
qed

lemma update_contract_Inr:
  assumes "update_contract i pl u s = (Inr r, s')"
  shows "\<exists>c0. get_row contracts_tbl i (working s) = Some c0 \<and>
    contracts (working s') = map_row i (touch (clock s) (assign_contract_update pl)) (contracts (working s)) \<and>
    properties (working s') = mark (contract_property_id c0)
      (resolve_property_status_transition (Some (contract_status c0))
         (Some (contract_status (assign_contract_update pl c0)))) (clock s) (properties (working s))"
proof -
  from assms obtain c0 where c0: "get_row contracts_tbl i (working s) = Some c0"
    by (auto simp: update_contract_def svc_iffs get_contract_Inr)
  with assms obtain s1 s2 where
    s1: "s1 = s\<lparr>working := contracts_update (map_row i (touch (clock s) (assign_contract_update pl))) (working s)\<rparr>"
    and s2: "sync_property_status (contract_property_id c0)
      (resolve_property_status_transition (Some (contract_status c0))
         (Some (contract_status (assign_contract_update pl c0)))) s1 = (Inr (), s2)"
    and s': "contracts (working s') = contracts (working s2)"
      "properties (working s') = properties (working s2)"
    by (auto simp: update_contract_def svc_iffs get_contract_Inr repo_iffs write_audit_log_iff)
  from sync_Inr [OF s2] s' c0 show ?thesis by (simp add: s1)
qed

lemma delete_contract_Inr:
  assumes "delete_contract i u s = (Inr r, s')"
  shows "\<exists>c0. get_row contracts_tbl i (working s) = Some c0 \<and>
    contracts (working s') = filter (\<lambda>c. row_id c \<noteq> i) (contracts (working s)) \<and>
    properties (working s') = mark (contract_property_id c0)
      (resolve_property_status_transition (Some (contract_status c0)) None) (clock s) (properties (working s))"
proof -
  from assms obtain c0 where c0: "get_row contracts_tbl i (working s) = Some c0"
    by (auto simp: delete_contract_def svc_iffs get_contract_Inr)
  with assms obtain s1 s2 where
    s1: "s1 = s\<lparr>working := contracts_update (filter (\<lambda>c. row_id c \<noteq> i)) (working s)\<rparr>"
    and s2: "sync_property_status (contract_property_id c0)
      (resolve_property_status_transition (Some (contract_status c0)) None) s1 = (Inr (), s2)"
    and s': "contracts (working s') = contracts (working s2)"
      "properties (working s') = properties (working s2)"
    by (auto simp: delete_contract_def svc_iffs get_contract_Inr repo_iffs write_audit_log_iff)
  from sync_Inr [OF s2] s' c0 show ?thesis by (simp add: s1)
qed

text \<open>
  A step that changes the occupancy of one property at most, and marks that property.
\<close>

lemma occupancy_step:
  assumes "occupancy_ok t"
    and "properties t' = mark i st n (properties t)"
    and "\<And>j. j \<noteq> i \<Longrightarrow> occupied_by t' j = occupied_by t j"
    and "case st of None \<Rightarrow> occupied_by t' i = occupied_by t i | Some v \<Rightarrow> occupied_by t' i = (v = Occupied)"
  shows "occupancy_ok t'"
proof (cases st)
  case None
  with assms show ?thesis by (auto simp: occupancy_ok_iff mark_def) (metis assms(3))+
next
  case (Some v)
  with assms show ?thesis by (simp add: occupancy_ok_iff mark_def ball_map_row)
qed

lemma occupancy_create:
  assumes "occupancy_ok (working s)" "create_contract pl u s = (Inr c, s')"
  shows "occupancy_ok (working s')"
proof -
  from create_contract_Inr [OF assms(2)] obtain i n where
    c: "c = new_contract pl i n" "contracts (working s') = contracts (working s) @ [c]"
    and p: "properties (working s') = mark (cc_property_id pl)
      (resolve_property_status_transition None (Some (cc_status pl))) (clock s) (properties (working s))"
    by blast
  show ?thesis
    by (rule occupancy_step [OF assms(1) p])
      (auto simp: occupied_by_def c new_contract_def resolve_property_status_transition_def)
qed

lemma bex_map_row:
  "(\<exists>r\<in>set (map_row i f rs). P r) \<longleftrightarrow> (\<exists>r\<in>set rs. if row_id r = i then P (f r) else P r)"
  by (induction rs) (simp_all add: map_row_simps)

lemma occupied_after_update:
  assumes "schema_ok t" "get_row contracts_tbl i t = Some c0"
    and "contracts t' = map_row i (touch n (assign_contract_update pl)) (contracts t)"
  shows "occupied_by t' j \<longleftrightarrow>
    contract_property_id c0 = j \<and> contract_status (assign_contract_update pl c0) = ContractActive \<or>
    (\<exists>c\<in>set (contracts t). c \<noteq> c0 \<and> contract_property_id c = j \<and> contract_status c = ContractActive)"
proof -
  from get_row_SomeD [OF assms(2)] have c0: "c0 \<in> set (contracts t)" "row_id c0 = i" by simp_all
  then have u: "c \<in> set (contracts t) \<Longrightarrow> row_id c = i \<longleftrightarrow> c = c0" for c
    using schema_ok_keys(4) [OF assms(1)] by (auto dest: distinct_ids_eq)
  have "occupied_by t' j \<longleftrightarrow> (\<exists>c\<in>set (contracts t). contract_property_id c = j \<and>
      (if c = c0 then contract_status (assign_contract_update pl c0) else contract_status c) = ContractActive)"
    unfolding occupied_by_def assms(3) bex_map_row by (intro bex_cong) (simp_all add: u)
  with c0 show ?thesis by auto
qed

lemma occupied_iff:
  assumes "schema_ok t" "c0 \<in> set (contracts t)"
  shows "occupied_by t j \<longleftrightarrow>
    contract_property_id c0 = j \<and> contract_status c0 = ContractActive \<or>
    (\<exists>c\<in>set (contracts t). c \<noteq> c0 \<and> contract_property_id c = j \<and> contract_status c = ContractActive)"
  using assms by (auto simp: occupied_by_def)

lemma occupancy_update:
  assumes "occupancy_ok (working s)" "schema_ok (working s)" "update_contract i pl u s = (Inr r, s')"
  shows "occupancy_ok (working s')"
proof -
  from update_contract_Inr [OF assms(3)] obtain c0 where
    c0: "get_row contracts_tbl i (working s) = Some c0"
    and c: "contracts (working s') = map_row i (touch (clock s) (assign_contract_update pl)) (contracts (working s))"
    and p: "properties (working s') = mark (contract_property_id c0)
      (resolve_property_status_transition (Some (contract_status c0))
         (Some (contract_status (assign_contract_update pl c0)))) (clock s) (properties (working s))"
    by blast
  from get_row_SomeD [OF c0] have m: "c0 \<in> set (contracts (working s))" by simp
  have other: "\<not> (c \<in> set (contracts (working s)) \<and> c \<noteq> c0 \<and>
      contract_property_id c = contract_property_id c0 \<and> contract_status c = ContractActive)"
    if "contract_status c0 = ContractActive" for c
    using unique_active [OF assms(2) _ m _ that, of c] by auto
  note after = occupied_after_update [OF assms(2) c0 c]
  note before = occupied_iff [OF assms(2) m]
  show ?thesis
  proof (rule occupancy_step [OF assms(1) p])
    fix j assume "j \<noteq> contract_property_id c0"
    then show "occupied_by (working s') j = occupied_by (working s) j" by (simp add: after before)
  next
    show "case resolve_property_status_transition (Some (contract_status c0))
         (Some (contract_status (assign_contract_update pl c0))) of
        None \<Rightarrow> occupied_by (working s') (contract_property_id c0) = occupied_by (working s) (contract_property_id c0)
      | Some v \<Rightarrow> occupied_by (working s') (contract_property_id c0) = (v = Occupied)"
      using other by (auto simp: after before resolve_property_status_transition_def)
  qed
qed

lemma occupancy_delete:
  assumes "occupancy_ok (working s)" "schema_ok (working s)" "delete_contract i u s = (Inr r, s')"
  shows "occupancy_ok (working s')"
proof -
  from delete_contract_Inr [OF assms(3)] obtain c0 where
    c0: "get_row contracts_tbl i (working s) = Some c0"
    and c: "contracts (working s') = filter (\<lambda>c. row_id c \<noteq> i) (contracts (working s))"
    and p: "properties (working s') = mark (contract_property_id c0)
      (resolve_property_status_transition (Some (contract_status c0)) None) (clock s) (properties (working s))"
    by blast
  from get_row_SomeD [OF c0] have m: "c0 \<in> set (contracts (working s))" "row_id c0 = i" by simp_all
  then have u: "x \<in> set (contracts (working s)) \<Longrightarrow> row_id x = i \<longleftrightarrow> x = c0" for x
    using schema_ok_keys(4) [OF assms(2)] by (auto dest: distinct_ids_eq)
  have after: "occupied_by (working s') j \<longleftrightarrow>
    (\<exists>c\<in>set (contracts (working s)). c \<noteq> c0 \<and> contract_property_id c = j \<and> contract_status c = ContractActive)" for j
    unfolding occupied_by_def c using u by auto
  have other: "\<not> (c \<in> set (contracts (working s)) \<and> c \<noteq> c0 \<and>
      contract_property_id c = contract_property_id c0 \<and> contract_status c = ContractActive)"
    if "contract_status c0 = ContractActive" for c
    using unique_active [OF assms(2) _ m(1) _ that, of c] by auto
  note before = occupied_iff [OF assms(2) m(1)]
  show ?thesis
  proof (rule occupancy_step [OF assms(1) p])
    fix j assume "j \<noteq> contract_property_id c0"
    then show "occupied_by (working s') j = occupied_by (working s) j" by (simp add: after before)
  next
    show "case resolve_property_status_transition (Some (contract_status c0)) None of
        None \<Rightarrow> occupied_by (working s') (contract_property_id c0) = occupied_by (working s) (contract_property_id c0)
      | Some v \<Rightarrow> occupied_by (working s') (contract_property_id c0) = (v = Occupied)"
      using other by (auto simp: after before resolve_property_status_transition_def)
  qed
qed

section \<open>Properties\<close>

text \<open>
  C9. Creating, updating and deleting contracts keeps every property marked occupied exactly
  when it has an active contract, through each status change of the contract; the operation
  and the marking are committed together.
\<close>

theorem contract_operations_keep_occupancy:
  assumes "occupancy_ok (working s)" "schema_ok (working s)"
    and "(\<exists>c. create_contract pl u s = (Inr c, s')) \<or> (\<exists>r. update_contract i upl u s = (Inr r, s')) \<or>
      (\<exists>r. delete_contract i u s = (Inr r, s'))"
  shows "occupancy_ok (committed s') \<and> schema_ok (committed s')"
proof -
  have "committed s' = working s'" "schema_ok (committed s')"
    using assms(3) atomic_leasing(1,2,3) by (blast dest: atomic_Inr, blast dest: atomic_schema)
  with assms show ?thesis
    by (auto dest: occupancy_create occupancy_update occupancy_delete)
qed

theorem contract_operations_keep_occupancy_witness:
  "occupancy_ok (committed (snd (delete_contract 31 ann (session_of
     (sample_tables\<lparr>contracts := [sample_contract 31 10 21 ContractActive], leases := [],
        billing_records := []\<rparr>)))))"
  (is "occupancy_ok (committed (snd (delete_contract 31 ann (session_of ?t))))")
proof -
  have "\<not> isl (fst (delete_contract 31 ann (session_of ?t)))" by code_simp
  then obtain r where r: "delete_contract 31 ann (session_of ?t) =
      (Inr r, snd (delete_contract 31 ann (session_of ?t)))" by (blast dest: run_ok)
  have "occupancy_ok ?t" "schema_ok ?t" by code_simp+
  then show ?thesis
    by (intro conjunct1 [OF contract_operations_keep_occupancy [where s = "session_of ?t"]] disjI2 exI)
      (simp_all, rule r)
qed

text \<open>What the driver's message says when a single constraint is violated.\<close>

definition driver_names :: "session \<Rightarrow> bool" where
  "driver_names s \<longleftrightarrow> (\<forall>n. substr n (pg_error s [n]))"

lemma driver_names_session_of [simp]: "driver_names (session_of t)"
  by (simp add: driver_names_def)

lemma opt_in_mono: "opt_in k xs \<Longrightarrow> set xs \<subseteq> set ys \<Longrightarrow> opt_in k ys"
  by (cases k) auto

text \<open>A new contract can only break the constraints of its own table.\<close>

lemma violations_new_contract:
  assumes "schema_ok t"
  shows "violations (contracts_update (\<lambda>cs. cs @ [c]) t) =
    broken (contracts_constraints (contracts_update (\<lambda>cs. cs @ [c]) t))"
proof -
  let ?t = "contracts_update (\<lambda>cs. cs @ [c]) t"
  have l: "holds_all (leases_constraints ?t)" "holds_all (payments_constraints ?t)"
    "holds_all (documents_constraints ?t)" "holds_all (collections_constraints ?t)"
    using assms
    by (auto simp: schema_ok_tables table_constraints_defs list_all_iff elim!: opt_in_mono)
  have o: "users_constraints ?t = users_constraints t" "properties_constraints ?t = properties_constraints t"
    "tenants_constraints ?t = tenants_constraints t"
    "billing_records_constraints ?t = billing_records_constraints t"
    "receipts_constraints ?t = receipts_constraints t"
    "receipt_templates_constraints ?t = receipt_templates_constraints t"
    "audit_logs_constraints ?t = audit_logs_constraints t"
    by (simp_all add: table_constraints_defs active_templates_def)
  show ?thesis
    using assms l
    by (simp add: violations_def constraints_def schema_ok_tables o flip: broken_Nil_iff)
qed

lemma broken_active_conflict:
  assumes "schema_ok t" "holds_all (ck_contract c)" "row_id c \<notin> set (ids (contracts t))"
    and "contract_property_id c \<in> set (ids (properties t))"
    and "contract_tenant_id c \<in> set (ids (tenants t))"
    and "contract_status c = ContractActive" "occupied_by t (contract_property_id c)"
  shows "broken (contracts_constraints (contracts_update (\<lambda>cs. cs @ [c]) t)) =
    [''uq_active_contract_property'']"
proof -
  have "broken (concat (map ck_contract (contracts t))) = []" "broken (ck_contract c) = []"
    using assms(1,2) by (simp_all add: broken_Nil_iff schema_ok_tables contracts_constraints_def)
  moreover have "\<not> distinct (map contract_property_id (active_contracts t @ [c]))"
    using assms(7) by (auto simp: occupied_by_def active_contracts_def image_iff)
  ultimately show ?thesis
    using assms by (simp add: contracts_constraints_def active_contracts_def schema_ok_tables)
qed

text \<open>
  A property never gets a second active contract: the request passes every check of
  the service and is stopped by the partial unique index, the service reports
  \<open>ContractActiveError\<close>, and nothing is committed.
\<close>

theorem second_active_contract_refused:
  assumes "schema_ok (working s)" "driver_names s" "valid_contract_create pl"
    and "cc_status pl = ContractActive" "occupied_by (working s) (cc_property_id pl)"
    and "cc_property_id pl \<in> set (ids (properties (working s)))"
    and "cc_tenant_id pl \<in> set (ids (tenants (working s)))"
    and "authorize_user_to_property ContractForbidden u (Some (cc_property_id pl)) None None s = (Inr (), s)"
    and "uuid_source s (uuid_drawn s) \<notin> set (ids (contracts (working s)))"
  shows "\<exists>s'. create_contract pl u s = (Inl ContractActiveError, s') \<and> committed s' = committed s"
proof -
  let ?c = "new_contract pl (uuid_source s (uuid_drawn s)) (clock s)"
  have "holds_all (ck_contract ?c)"
    using assms(3) by (auto simp: ck_contract_def new_contract_def valid_contract_create_def
        split: option.splits)
  then have v: "violations (contracts_update (\<lambda>cs. cs @ [?c]) (working s)) = [''uq_active_contract_property'']"
    using assms by (simp add: violations_new_contract broken_active_conflict new_contract_def)
  have p: "prepare_contract_context u (Some (cc_property_id pl)) (Some (cc_tenant_id pl)) s =
      (Inr (Some (cc_property_id pl), Some (cc_tenant_id pl)), s)"
    using assms(6-8) by (auto simp: prepare_contract_context_def svc_iffs)
  have "\<not> schema_ok (contracts_update (\<lambda>cs. cs @ [?c]) (working s))"
    using v by (simp flip: violations_Nil_iff)
  then obtain s1 where s1: "repo_create contracts_tbl (new_contract pl) s =
      (Inl (IntegrityError (pg_error s [''uq_active_contract_property''])), s1)"
    using v by (auto simp: repo_iffs)
  have "create_contract pl u s = (Inl ContractActiveError, s1)"
    using assms(2) by (simp add: create_contract_def bnd_def p s1 try_except_def
        raise_if_active_contract_conflict_def driver_names_def raise_def)
  then show ?thesis using atomic_Inl [OF atomic_leasing(1)] by blast
qed

theorem second_active_contract_refused_witness:
  "\<exists>s'. create_contract
      \<lparr>cc_property_id = 10, cc_tenant_id = 21, cc_rental_type = ShortTerm, cc_start_date = 738100,
       cc_end_date = Some 738200, cc_rent_amount = 5000, cc_deposit = None, cc_booking_source = ''airbnb'',
       cc_status = ContractActive\<rparr> mgr (session_of sample_tables) = (Inl ContractActiveError, s') \<and>
    committed s' = committed (session_of sample_tables)"
proof (rule second_active_contract_refused)
  show "authorize_user_to_property ContractForbidden mgr (Some (cc_property_id
      \<lparr>cc_property_id = 10, cc_tenant_id = 21, cc_rental_type = ShortTerm, cc_start_date = 738100,
       cc_end_date = Some 738200, cc_rent_amount = 5000, cc_deposit = None, cc_booking_source = ''airbnb'',
       cc_status = ContractActive\<rparr>)) None None (session_of sample_tables) = (Inr (), session_of sample_tables)"
    by (rule pure_run [OF pure_read_authorize]) code_simp
qed ((simp add: schema_ok_sample; fail) | code_simp)+

text \<open>
  The request validators and the CHECK constraints agree: a contract or lease body is
  accepted exactly when the row built from it satisfies the table's CHECK constraints.
\<close>

theorem validators_match_constraints:
  "valid_contract_create pl = holds_all (ck_contract (new_contract pl i n)) \<and>
   valid_lease_create lpl = holds_all (ck_lease (new_lease lpl i n))"
  by (auto simp: valid_contract_create_def ck_contract_def new_contract_def valid_lease_create_def
      ck_lease_def new_lease_def valid_dates_and_late_fee_def valid_percent_def split: option.splits)

text \<open>
  A lease is only ever created for a long-term contract, and afterwards it is the only
  lease of that contract.
\<close>

theorem lease_only_for_long_term:
  assumes "create_lease pl u s = (Inr l, s')"
  shows "\<exists>c\<in>set (contracts (committed s')). row_id c = lease_contract_id l \<and>
    contract_rental_type c = LongTerm \<and>
    (\<forall>l'\<in>set (leases (committed s')). lease_contract_id l' = row_id c \<longrightarrow> l' = l) \<and>
    l \<in> set (leases (committed s'))"
proof -
  have c: "committed s' = working s'" and ok: "schema_ok (working s')"
    using assms atomic_leasing(4) atomic_Inr atomic_schema by metis+
  from assms obtain x where
    lt: "contract_rental_type x = LongTerm" and g: "get_row contracts_tbl (lc_contract_id pl) (working s) = Some x"
    and t: "leases (working s') = leases (working s) @ [l]" "contracts (working s') = contracts (working s)"
      "lease_contract_id l = lc_contract_id pl"
    by (auto simp: create_lease_def svc_iffs repo_iffs write_audit_log_iff prepare_lease_context_Inr)
  from get_row_SomeD [OF g] have x: "x \<in> set (contracts (working s))" "row_id x = lc_contract_id pl"
    by simp_all
  have "distinct (map lease_contract_id (leases (working s')))"
    using ok by (simp add: schema_ok_tables leases_constraints_def)
  then have "l' = l" if "l' \<in> set (leases (working s'))" "lease_contract_id l' = lease_contract_id l" for l'
    using that t(1) by (auto simp: image_iff)
  with c x lt t show ?thesis by auto
qed

theorem lease_only_for_long_term_witness:
  "\<exists>l s'. create_lease
      \<lparr>lc_contract_id = 30, lc_monthly_rent = 1, lc_due_day = 1, lc_billing_cycle = Monthly,
       lc_security_deposit = None, lc_advance_payment = None, lc_late_fee_amount = Some 1,
       lc_late_fee_percent = None, lc_grace_period_days = 0, lc_renewal_option = RenewNone,
       lc_status = LeaseActive, lc_start_date = 1, lc_end_date = None\<rparr> mgr
      (session_of (sample_tables\<lparr>leases := [], billing_records := []\<rparr>)) = (Inr l, s') \<and>
     (\<forall>l'\<in>set (leases (committed s')). lease_contract_id l' = lease_contract_id l \<longrightarrow> l' = l)"
  (is "\<exists>l s'. create_lease ?pl mgr ?s = (Inr l, s') \<and> _ l s'")
proof -
  have "\<not> isl (fst (create_lease ?pl mgr ?s))" by code_simp
  then obtain l where "create_lease ?pl mgr ?s = (Inr l, snd (create_lease ?pl mgr ?s))"
    by (blast dest: run_ok)
  moreover from lease_only_for_long_term [OF this] have
    "\<forall>l'\<in>set (leases (committed (snd (create_lease ?pl mgr ?s)))).
       lease_contract_id l' = lease_contract_id l \<longrightarrow> l' = l" by metis
  ultimately show ?thesis by blast
qed

end
