(* ===== verification/Billing.thy ===== *)
theory Billing
  imports Leasing
begin

text \<open>
  Billing records: BillingRecordRepository (app/billing/repositories/billing_record.py), the
  balance helpers (app/core/services/utils.py), the request bodies
  (app/billing/schemas/billing_record.py) and LeaseBillingService
  (app/billing/services/lease_billing_service.py) with its status machine. A service method
  that returns a billing record returns it with its transient \<open>remaining_balance\<close>.
\<close>

section \<open>Balances\<close>

definition total_owed :: "billing_record \<Rightarrow> money" where
  "total_owed r = amount_due r + (case late_fee_amount_charged r of None \<Rightarrow> 0 | Some f \<Rightarrow> f)"

text \<open>\<open>sum_by_billing_record_ids\<close>: a key is present when some payment counts for it.\<close>

definition counts_for :: "uuid \<Rightarrow> payment \<Rightarrow> bool" where
  "counts_for i p \<longleftrightarrow> billing_record_id p = Some i \<and> pay_status p \<noteq> VOIDED"

definition sum_by_billing_record_ids :: "uuid list \<Rightarrow> tables \<Rightarrow> uuid \<Rightarrow> money option" where
  "sum_by_billing_record_ids is t i =
     (let ps = filter (\<lambda>p. i \<in> set is \<and> counts_for i p) (payments t)
      in if ps = [] then None else Some (\<Sum>p\<leftarrow>ps. pay_amount p))"

type_synonym billed = "billing_record \<times> money"

definition attach_remaining_balance :: "billing_record list \<Rightarrow> billed list svc" where
  "attach_remaining_balance records =
     (if records = [] then ret []
      else query (\<lambda>t.
        let paid_map = sum_by_billing_record_ids (ids records) t
        in map (\<lambda>r.
             let remaining = total_owed r - (case paid_map (row_id r) of None \<Rightarrow> 0 | Some p \<Rightarrow> p)
             in (r, if remaining > 0 then remaining else 0)) records))"

definition attach_one :: "billing_record \<Rightarrow> billed svc" where
  "attach_one r = bnd (attach_remaining_balance [r]) (\<lambda>rs. ret (hd rs))"

section \<open>Repository\<close>

definition get_by_lease_and_period :: "uuid \<Rightarrow> date \<Rightarrow> billing_record option svc" where
  "get_by_lease_and_period l d = repo_first billing_records_tbl (\<lambda>r. br_lease_id r = l \<and> period_start r = d)"

definition get_all_for_lease :: "uuid \<Rightarrow> int \<Rightarrow> int \<Rightarrow> billing_record list svc" where
  "get_all_for_lease l skip limit =
     bnd (repo_all billing_records_tbl (\<lambda>r. br_lease_id r = l)) (offset_limit skip limit)"

definition latest_for_lease :: "uuid \<Rightarrow> tables \<Rightarrow> billing_record option" where
  "latest_for_lease l t =
     first_of (sort_key (\<lambda>r. - period_end r) (filter (\<lambda>r. br_lease_id r = l) (billing_records t)))"

definition get_latest_for_lease :: "uuid \<Rightarrow> billing_record option svc" where
  "get_latest_for_lease l = query (latest_for_lease l)"

definition count_for_lease :: "uuid \<Rightarrow> nat svc" where
  "count_for_lease l = repo_count billing_records_tbl (\<lambda>r. br_lease_id r = l)"

section \<open>The status machine\<close>

fun VALID_TRANSITIONS :: "br_status \<Rightarrow> br_status list" where
  "VALID_TRANSITIONS Pending = [Overdue, PartiallyPaid, Paid]"
| "VALID_TRANSITIONS PartiallyPaid = [Paid, Overdue, WrittenOff]"
| "VALID_TRANSITIONS Overdue = [PartiallyPaid, Paid, WrittenOff]"
| "VALID_TRANSITIONS Paid = []"
| "VALID_TRANSITIONS WrittenOff = []"

definition transition :: "billing_record \<Rightarrow> br_status \<Rightarrow> svc_error + billing_record" where
  "transition record new_status =
     (if new_status \<notin> set (VALID_TRANSITIONS (br_status record))
      then Inl InvalidBillingRecordTransitionError
      else Inr (record\<lparr>br_status := new_status\<rparr>))"

definition apply_payment :: "billing_record \<Rightarrow> money \<Rightarrow> svc_error + billing_record" where
  "apply_payment record cumulative_paid =
     (let total_due = total_owed record;
          excess = cumulative_paid - total_due;
          moved =
            (if br_status record \<in> {Paid, WrittenOff} then Inr record
             else
               let target_status = (if cumulative_paid \<ge> total_due then Paid else PartiallyPaid)
               in if target_status \<noteq> br_status record then transition record target_status
                  else Inr record)
      in case moved of
           Inl e \<Rightarrow> Inl e
         | Inr r \<Rightarrow>
             Inr (if br_status r = Paid
                  then r\<lparr>overpaid_amount := (if excess > 0 then Some excess else None)\<rparr>
                  else r))"

section \<open>Late fees\<close>

text \<open>\<open>Decimal.quantize\<close> with the default rounding mode, on the fraction \<open>n / d\<close>.\<close>

definition round_half_even :: "int \<Rightarrow> int \<Rightarrow> int" where
  "round_half_even n d =
     (let q = n div d; r = n mod d
      in if 2 * r < d then q else if 2 * r > d then q + 1 else if even q then q else q + 1)"

text \<open>
  \<open>amount_due\<close> counts cents and \<open>late_fee_percent\<close> hundredths of a percent, so the fee in
  cents is their product divided by 10000.
\<close>

definition late_fee :: "lease \<Rightarrow> billing_record \<Rightarrow> svc_error + money" where
  "late_fee l record =
     (case late_fee_amount l of
        Some f \<Rightarrow> Inr f
      | None \<Rightarrow>
          (case late_fee_percent l of
             None \<Rightarrow> Inl TypeError
           | Some p \<Rightarrow> Inr (round_half_even (amount_due record * p) 10000)))"

section \<open>Request bodies\<close>

record late_fee_correction =
  fee_applied :: bool
  fee_charged :: "money option"

definition valid_late_fee_correction :: "late_fee_correction \<Rightarrow> bool" where
  "valid_late_fee_correction pl \<longleftrightarrow>
     opt_pos (fee_charged pl) \<and> \<not> (fee_applied pl \<and> fee_charged pl = None) \<and>
     \<not> (\<not> fee_applied pl \<and> fee_charged pl \<noteq> None)"

section \<open>LeaseBillingService\<close>

text \<open>A value or an exception computed by pure code.\<close>

definition of_result :: "svc_error + 'a \<Rightarrow> 'a svc" where
  "of_result r s = (r, s)"

text \<open>\<open>await db.flush(); await db.refresh(record)\<close> for a record whose attributes were assigned.\<close>

definition flush_record :: "billing_record \<Rightarrow> billing_record svc" where
  "flush_record r =
     bnd now (\<lambda>n.
     bnd (modify (billing_records_update (map_row (row_id r) (touch n (\<lambda>_. r))))) (\<lambda>_.
     bnd flush (\<lambda>_.
     bnd (repo_get_by_id billing_records_tbl (row_id r)) (\<lambda>r'.
     ret (case r' of None \<Rightarrow> r | Some x \<Rightarrow> x)))))"

fun CYCLE_LENGTH_DAYS :: "billing_cycle \<Rightarrow> int" where
  "CYCLE_LENGTH_DAYS Monthly = 30"

definition authorize_billing :: "user \<Rightarrow> lease \<Rightarrow> unit svc" where
  "authorize_billing current_user l =
     authorize_user_to_property BillingRecordForbidden current_user None (Some (lease_contract_id l)) None"

definition find_lease :: "uuid \<Rightarrow> lease svc" where
  "find_lease i = found_or (RelatedResourceNotFoundError ''Lease'' i) (repo_get_by_id leases_tbl i)"

definition find_billing_record :: "uuid \<Rightarrow> billing_record svc" where
  "find_billing_record i =
     found_or (RelatedResourceNotFoundError ''BillingRecord'' i) (repo_get_by_id billing_records_tbl i)"

text \<open>The lookups and the ownership check with which every operation on one record begins.\<close>

definition billing_context :: "uuid \<Rightarrow> user \<Rightarrow> (billing_record \<times> lease) svc" where
  "billing_context i current_user =
     bnd (find_billing_record i) (\<lambda>record.
     bnd (find_lease (br_lease_id record)) (\<lambda>l.
     bnd (authorize_billing current_user l) (\<lambda>_.
     ret (record, l))))"

definition raise_if_already_generated_conflict :: "string \<Rightarrow> 'a svc" where
  "raise_if_already_generated_conflict msg =
     (if substr ''uq_billing_record_lease_id_period_start'' msg \<or>
         substr ''duplicate key value'' msg \<and> substr ''period_start'' msg
      then raise BillingRecordAlreadyGeneratedError else raise (IntegrityError msg))"

definition new_billing_record ::
  "uuid \<Rightarrow> date \<Rightarrow> date \<Rightarrow> date \<Rightarrow> money \<Rightarrow> uuid \<Rightarrow> instant \<Rightarrow> billing_record" where
  "new_billing_record lid ps pe due amt i n =
     \<lparr>row_id = i, created_at = n, updated_at = n, br_lease_id = lid, period_start = ps,
      period_end = pe, due_date = due, amount_due = amt, late_fee_applied = False,
      late_fee_amount_charged = None, overpaid_amount = None, br_status = Pending\<rparr>"

definition generate_billing_record :: "uuid \<Rightarrow> user \<Rightarrow> billed svc" where
  "generate_billing_record lid current_user =
     bnd (find_lease lid) (\<lambda>l.
     bnd (authorize_billing current_user l) (\<lambda>_.
     bnd (get_latest_for_lease lid) (\<lambda>latest.
     let ps = (case latest of None \<Rightarrow> lease_start l | Some r \<Rightarrow> period_end r + 1);
         pe = ps + CYCLE_LENGTH_DAYS (billing_cycle l);
         due = ps + due_day l
     in bnd (raise_if (monthly_rent l \<le> 0) (ValidationError ''Must be greater than zero.'')) (\<lambda>_.
        bnd (try_except
               (repo_create billing_records_tbl (new_billing_record lid ps pe due (monthly_rent l)))
               (on_integrity raise_if_already_generated_conflict)) (\<lambda>record.
        bnd (write_audit_log current_user CREATE ''BillingRecord'' (row_id record)) (\<lambda>_.
        bnd commit (\<lambda>_.
        attach_one record)))))))"

definition evaluate_overdue :: "uuid \<Rightarrow> user \<Rightarrow> date option \<Rightarrow> billed svc" where
  "evaluate_overdue i current_user as_of =
     bnd (billing_context i current_user) (\<lambda>(record, l).
     if br_status record \<notin> {Pending, PartiallyPaid} then attach_one record
     else
       bnd (case as_of of Some d \<Rightarrow> ret d | None \<Rightarrow> date_today) (\<lambda>today.
       if today \<le> due_date record + grace_period_days l then attach_one record
       else
         bnd (of_result (transition record Overdue)) (\<lambda>r1.
         bnd (if late_fee_applied r1 then ret r1
              else
                bnd (of_result (late_fee l r1)) (\<lambda>fee.
                ret (r1\<lparr>late_fee_amount_charged := Some fee, late_fee_applied := True\<rparr>))) (\<lambda>r2.
         bnd (flush_record r2) (\<lambda>r3.
         bnd (write_audit_log current_user UPDATE ''BillingRecord'' (row_id r3)) (\<lambda>_.
         bnd commit (\<lambda>_.
         attach_one r3)))))))"

definition list_for_lease :: "uuid \<Rightarrow> user \<Rightarrow> int \<Rightarrow> int \<Rightarrow> billed paginated svc" where
  "list_for_lease lid current_user skip limit =
     bnd (find_lease lid) (\<lambda>l.
     bnd (authorize_billing current_user l) (\<lambda>_.
     bnd (get_all_for_lease lid skip limit) (\<lambda>its.
     bnd (count_for_lease lid) (\<lambda>n.
     bnd (attach_remaining_balance its) (\<lambda>billed.
     ret \<lparr>items = billed, total = n\<rparr>)))))"

definition get_billing_record :: "uuid \<Rightarrow> user \<Rightarrow> billed svc" where
  "get_billing_record i current_user =
     bnd (billing_context i current_user) (\<lambda>(record, l). attach_one record)"

definition write_off_billing_record :: "uuid \<Rightarrow> user \<Rightarrow> billed svc" where
  "write_off_billing_record i current_user =
     bnd (billing_context i current_user) (\<lambda>(record, l).
     bnd (of_result (transition record WrittenOff)) (\<lambda>r1.
     bnd (flush_record r1) (\<lambda>r2.
     bnd (write_audit_log current_user UPDATE ''BillingRecord'' (row_id r2)) (\<lambda>_.
     bnd commit (\<lambda>_.
     attach_one r2)))))"

definition correct_late_fee :: "uuid \<Rightarrow> late_fee_correction \<Rightarrow> user \<Rightarrow> billed svc" where
  "correct_late_fee i payload current_user =
     bnd (billing_context i current_user) (\<lambda>(record, l).
     bnd (raise_if (br_status record \<in> {Paid, WrittenOff}) BillingRecordCorrectionNotAllowedError) (\<lambda>_.
     bnd (flush_record (record\<lparr>late_fee_applied := fee_applied payload,
            late_fee_amount_charged := fee_charged payload\<rparr>)) (\<lambda>r1.
     bnd (write_audit_log current_user UPDATE ''BillingRecord'' (row_id r1)) (\<lambda>_.
     bnd commit (\<lambda>_.
     attach_one r1)))))"

section \<open>Lemmas\<close>

lemma of_result_iff [simp]: "of_result r s = (x, s') \<longleftrightarrow> x = r \<and> s' = s"
  by (auto simp: of_result_def)

lemma attach_remaining_balance_eq:
  "attach_remaining_balance rs s =
     (Inr (map (\<lambda>r. (r, max 0 (total_owed r -
        (\<Sum>p\<leftarrow>filter (counts_for (row_id r)) (payments (working s)). pay_amount p)))) rs), s)"
proof (cases "rs = []")
  case True
  then show ?thesis by (simp add: attach_remaining_balance_def ret_def)
next
  case False
  have *: "filter (\<lambda>p. row_id r \<in> set (ids rs) \<and> counts_for (row_id r) p) (payments (working s)) =
      filter (counts_for (row_id r)) (payments (working s))" if "r \<in> set rs" for r
    using that by (simp add: ids_def)
  show ?thesis
    using False
    by (auto simp: attach_remaining_balance_def query_def Let_def sum_by_billing_record_ids_def
        max_def * cong: map_cong)
qed

definition remaining :: "billing_record \<Rightarrow> tables \<Rightarrow> money" where
  "remaining r t =
     max 0 (total_owed r - (\<Sum>p\<leftarrow>filter (counts_for (row_id r)) (payments t). pay_amount p))"

lemma attach_one_iff [simp]:
  "attach_one r s = (x, s') \<longleftrightarrow> x = Inr (r, remaining r (working s)) \<and> s' = s"
  by (auto simp: attach_one_def bnd_def attach_remaining_balance_eq remaining_def ret_def)

lemma billing_context_Inr:
  "billing_context i u s = (Inr rl, s') \<longleftrightarrow> s' = s \<and>
     get_row billing_records_tbl i (working s) = Some (fst rl) \<and>
     get_row leases_tbl (br_lease_id (fst rl)) (working s) = Some (snd rl) \<and>
     authorize_billing u (snd rl) s = (Inr (), s)"
  unfolding authorize_billing_def
  using pure_readD [OF pure_read_authorize]
  by (cases rl)
    (fastforce simp: billing_context_def find_billing_record_def find_lease_def svc_iffs authorize_billing_def)

lemma pure_read_billing [atomic_intros]:
  "pure_read (of_result x)" "pure_read (attach_remaining_balance rs)" "pure_read (attach_one r)"
  "pure_read (authorize_billing u l)" "pure_read (find_lease i)" "pure_read (find_billing_record i)"
  "pure_read (billing_context i u)" "pure_read (get_latest_for_lease i)"
proof -
  show a: "pure_read (attach_remaining_balance rs)" for rs
    by (simp add: pure_read_def attach_remaining_balance_eq)
  show "pure_read (of_result x)" by (simp add: pure_read_def of_result_def)
  show "pure_read (attach_one r)" unfolding attach_one_def by (intro atomic_intros a)
  show "pure_read (billing_context i u)"
    unfolding billing_context_def authorize_billing_def find_lease_def find_billing_record_def
    by (intro atomic_intros)
qed (unfold authorize_billing_def find_lease_def find_billing_record_def get_latest_for_lease_def,
    (intro atomic_intros)+)

lemma total_read_attach_one [atomic_intros]: "total_read (attach_one r)"
  by (simp add: total_read_def)

lemma generated_conflict_raises [simp]: "raises raise_if_already_generated_conflict"
  by (simp add: raise_if_already_generated_conflict_def [abs_def])

lemma silent_flush_record [atomic_intros]: "silent (flush_record r)"
  unfolding flush_record_def by (intro atomic_intros)

lemma logs_billing [trail_intros]:
  "logs [] (of_result x)" "logs [] (attach_one r)" "logs [] (authorize_billing u l)"
  "logs [] (find_lease i)" "logs [] (find_billing_record i)" "logs [] (billing_context i u)"
  "logs [] (get_latest_for_lease i)"
  by (rule logs_pure, rule atomic_intros)+

lemma logs_modify [trail_intros]:
  "(\<And>t. kinds (f t) = kinds t) \<Longrightarrow> logs [] (modify f)"
  by (simp add: logs_def)

lemma logs_flush_record [trail_intros]: "logs [] (flush_record r)"
  unfolding flush_record_def by (intro trail_intros) (simp add: kinds_def)

lemma silent_prod [atomic_intros]: "(\<And>a b. silent (f a b)) \<Longrightarrow> silent (case x of (a, b) \<Rightarrow> f a b)"
  and atomic_prod [atomic_intros]: "(\<And>a b. atomic (f a b)) \<Longrightarrow> atomic (case x of (a, b) \<Rightarrow> f a b)"
  and pure_read_prod [atomic_intros]: "(\<And>a b. pure_read (f a b)) \<Longrightarrow> pure_read (case x of (a, b) \<Rightarrow> f a b)"
  and logs_prod [trail_intros]: "(\<And>a b. logs L (f a b)) \<Longrightarrow> logs L (case x of (a, b) \<Rightarrow> f a b)"
  by (simp_all add: split_beta)

lemma atomic_billing [atomic_intros]:
  "atomic (generate_billing_record l u)" "atomic (write_off_billing_record i u)"
  "atomic (correct_late_fee i pl u)"
  unfolding generate_billing_record_def write_off_billing_record_def correct_late_fee_def Let_def
  by (intro atomic_intros generated_conflict_raises)+

lemma logs_billing_service:
  "logs [(CREATE, ''BillingRecord'')] (generate_billing_record l u)"
  "logs [(UPDATE, ''BillingRecord'')] (write_off_billing_record i u)"
  "logs [(UPDATE, ''BillingRecord'')] (correct_late_fee i pl u)"
  unfolding generate_billing_record_def write_off_billing_record_def correct_late_fee_def Let_def
  by (intro trail_intros raises_on_integrity generated_conflict_raises refl)+

section \<open>Writing one record back\<close>

lemma touch_const_row_id [simp]: "row_id r = row_id r0 \<Longrightarrow> row_id (touch n (\<lambda>_. r) r0) = row_id r0"
  by (simp add: touch_def Let_def)

lemma touch_billing [simp]:
  "br_status (touch n f r) = br_status (f r)"
  "br_lease_id (touch n f r) = br_lease_id (f r)"
  "amount_due (touch n f r) = amount_due (f r)"
  "late_fee_applied (touch n f r) = late_fee_applied (f r)"
  "late_fee_amount_charged (touch n f r) = late_fee_amount_charged (f r)"
  "period_start (touch n f r) = period_start (f r)"
  "period_end (touch n f r) = period_end (f r)"
  "due_date (touch n f r) = due_date (f r)"
  "overpaid_amount (touch n f r) = overpaid_amount (f r)"
  by (simp_all add: touch_def Let_def)

lemma flush_record_Inr:
  assumes "get_row billing_records_tbl (row_id r) (working s) = Some r0"
  shows "flush_record r s = (Inr x, s') \<longleftrightarrow> x = touch (clock s) (\<lambda>_. r) r0 \<and>
    s' = s\<lparr>working := billing_records_update (map_row (row_id r) (touch (clock s) (\<lambda>_. r))) (working s)\<rparr> \<and>
    schema_ok (working s')"
proof -
  let ?f = "touch (clock s) (\<lambda>_. r)"
  let ?t = "billing_records_update (map_row (row_id r) ?f) (working s)"
  have "get_row billing_records_tbl (row_id r) ?t = Some (?f r0)" if "schema_ok ?t"
    using get_row_SomeD [OF assms] schema_ok_keys(6) [OF that]
    by (simp add: get_row_Some_iff set_map_row) metis
  then show ?thesis
    by (auto simp: flush_record_def svc_iffs now_def)
qed

lemma flush_record_Inl:
  "flush_record r s = (Inl e, s') \<Longrightarrow> (\<exists>m. e = IntegrityError m) \<and> committed s' = committed s"
  by (auto simp: flush_record_def svc_iffs now_def)

text \<open>The common tail of the operations that rewrite a record: log, commit, balance.\<close>

definition finish_record :: "user \<Rightarrow> billing_record \<Rightarrow> billed svc" where
  "finish_record u r =
     bnd (write_audit_log u UPDATE ''BillingRecord'' (row_id r)) (\<lambda>_. bnd commit (\<lambda>_. attach_one r))"

lemma finish_record_Inr:
  "finish_record u r s = (Inr out, s') \<Longrightarrow>
     fst out = r \<and> committed s' = working s' \<and> schema_ok (working s') \<and>
     billing_records (working s') = billing_records (working s) \<and>
     payments (working s') = payments (working s) \<and> leases (working s') = leases (working s) \<and>
     snd out = remaining r (working s')"
  by (auto simp: finish_record_def svc_iffs write_audit_log_iff)

lemma remaining_cong: "payments t' = payments t \<Longrightarrow> remaining r t' = remaining r t"
  by (simp add: remaining_def)

section \<open>Rounding\<close>

lemma round_half_even_error:
  assumes "0 < d"
  shows "\<bar>d * round_half_even n d - n\<bar> * 2 \<le> d"
proof -
  define q r where qr: "q = n div d" "r = n mod d"
  have n: "n = d * q + r" by (simp add: qr)
  have r: "0 \<le> r" "r < d" using assms by (simp_all add: qr)
  have "round_half_even n d = q \<and> 2 * r \<le> d \<or> round_half_even n d = q + 1 \<and> d \<le> 2 * r"
    by (simp add: round_half_even_def Let_def flip: qr)
  then show ?thesis using n r by (auto simp: distrib_left abs_if)
qed

lemma round_half_even_pos_iff:
  assumes "0 < d" "even d"
  shows "0 < round_half_even n d \<longleftrightarrow> d < 2 * n"
proof -
  let ?q = "n div d" and ?r = "n mod d"
  have n: "n = d * ?q + ?r" by simp
  have r: "0 \<le> ?r" "?r < d" using assms by simp_all
  consider "?q < 0" | "?q = 0" | "0 < ?q" by linarith
  then show ?thesis
  proof cases
    case 1
    then have "n < 0" using assms(1) by (meson pos_imp_zdiv_neg_iff)
    moreover have "round_half_even n d \<le> 0" using 1 by (simp add: round_half_even_def Let_def)
    ultimately show ?thesis using assms(1) by linarith
  next
    case 2
    then show ?thesis using n r by (simp add: round_half_even_def Let_def)
  next
    case 3
    then have "d * 1 \<le> d * ?q" using assms(1) by (intro mult_left_mono) simp_all
    then have "d \<le> n" using n r by linarith
    moreover have "0 < round_half_even n d" using 3 by (simp add: round_half_even_def Let_def)
    ultimately show ?thesis using assms(1) by linarith
  qed
qed

section \<open>Generation\<close>

definition records_of :: "uuid \<Rightarrow> tables \<Rightarrow> billing_record list" where
  "records_of l t = filter (\<lambda>r. br_lease_id r = l) (billing_records t)"

text \<open>The periods of a lease in the order of generation: 31 days each, end to end.\<close>

definition contiguous :: "date \<Rightarrow> billing_record list \<Rightarrow> bool" where
  "contiguous a rs \<longleftrightarrow>
     list_all (\<lambda>(k, r). period_start r = a + 31 * int k \<and> period_end r = a + 31 * int k + 30)
       (enumerate 0 rs)"

lemma contiguous_iff:
  "contiguous a rs \<longleftrightarrow>
     (\<forall>k<length rs. period_start (rs ! k) = a + 31 * int k \<and> period_end (rs ! k) = a + 31 * int k + 30)"
  by (auto simp: contiguous_def list_all_length nth_enumerate_eq)

lemma first_sort_key:
  fixes g :: "'r \<Rightarrow> int"
  assumes "xs \<noteq> []"
  shows "\<exists>x\<in>set xs. first_of (sort_key g xs) = Some x \<and> (\<forall>y\<in>set xs. g x \<le> g y)"
proof -
  obtain x ys where x: "sort_key g xs = x # ys"
    using assms by (metis list.exhaust sort_key_Nil_iff)
  have "sorted (map g (sort_key g xs))" by simp
  then have "\<forall>y\<in>set (sort_key g xs). g x \<le> g y" unfolding x by auto
  moreover have "set xs = set (x # ys)" unfolding x [symmetric] by simp
  ultimately show ?thesis using x by (intro bexI [of _ x]) simp_all
qed

lemma latest_contiguous:
  assumes "contiguous a (records_of l t)" "records_of l t \<noteq> []"
  shows "\<exists>r. latest_for_lease l t = Some r \<and> period_end r = a + 31 * int (length (records_of l t)) - 1"
proof -
  let ?rs = "records_of l t"
  let ?n = "length ?rs"
  from first_sort_key [OF assms(2), of "\<lambda>r. - period_end r"] obtain x where
    x: "x \<in> set ?rs" "latest_for_lease l t = Some x" "\<forall>y\<in>set ?rs. period_end y \<le> period_end x"
    by (auto simp: latest_for_lease_def records_of_def)
  from x(1) obtain j where j: "j < ?n" "x = ?rs ! j" by (auto simp: in_set_conv_nth)
  have n: "0 < ?n" using assms(2) by simp
  then have "period_end (?rs ! (?n - 1)) \<le> period_end x" using x(3) by simp
  with assms(1) j n have "int (?n - 1) \<le> int j" by (auto simp: contiguous_iff)
  with j have "j = ?n - 1" by linarith
  moreover have "int (?n - 1) = int ?n - 1" using n by linarith
  ultimately show ?thesis using assms(1) j x(2) by (simp add: contiguous_iff)
qed

lemma latest_none: "records_of l t = [] \<Longrightarrow> latest_for_lease l t = None"
  by (simp add: latest_for_lease_def records_of_def)

lemma generate_Inr:
  assumes "generate_billing_record lid u s = (Inr out, s')"
  shows "\<exists>l ps. get_row leases_tbl lid (working s) = Some l \<and>
    ps = (case latest_for_lease lid (working s) of None \<Rightarrow> lease_start l | Some r \<Rightarrow> period_end r + 1) \<and>
    fst out = new_billing_record lid ps (ps + 30) (ps + due_day l) (monthly_rent l)
      (uuid_source s (uuid_drawn s)) (clock s) \<and>
    billing_records (working s') = billing_records (working s) @ [fst out] \<and>
    committed s' = working s'"
proof -
  have c: "CYCLE_LENGTH_DAYS b = 30" for b by (cases b) simp
  have "committed s' = working s'" using assms atomic_billing(1) by (blast dest: atomic_Inr)
  with assms show ?thesis
    by (auto simp: generate_billing_record_def Let_def find_lease_def svc_iffs repo_iffs
        get_latest_for_lease_def write_audit_log_iff c
        dest!: pure_readD [OF pure_read_billing(4)])
qed

lemma generate_appends:
  assumes "generate_billing_record lid u s = (Inr out, s')" "get_row leases_tbl lid (working s) = Some l"
    and "contiguous a (records_of lid (working s))"
    and "records_of lid (working s) = [] \<Longrightarrow> a = lease_start l"
  shows "records_of lid (committed s') = records_of lid (working s) @ [fst out] \<and>
    contiguous a (records_of lid (committed s')) \<and>
    due_date (fst out) = period_start (fst out) + due_day l \<and> amount_due (fst out) = monthly_rent l \<and>
    br_status (fst out) = Pending \<and>
    billing_records (committed s') = billing_records (working s) @ [fst out]"
proof -
  let ?n = "length (records_of lid (working s))"
  from generate_Inr [OF assms(1)] assms(2) obtain ps where
    ps: "ps = (case latest_for_lease lid (working s) of None \<Rightarrow> lease_start l | Some r \<Rightarrow> period_end r + 1)"
    and out: "fst out = new_billing_record lid ps (ps + 30) (ps + due_day l) (monthly_rent l)
      (uuid_source s (uuid_drawn s)) (clock s)"
    and t: "billing_records (working s') = billing_records (working s) @ [fst out]" "committed s' = working s'"
    by auto
  have "ps = a + 31 * int ?n"
  proof (cases "records_of lid (working s) = []")
    case True
    then show ?thesis using assms(4) by (simp add: ps latest_none)
  next
    case False
    from latest_contiguous [OF assms(3) False] show ?thesis by (auto simp: ps)
  qed
  moreover have r: "records_of lid (working s') = records_of lid (working s) @ [fst out]"
    by (simp add: records_of_def t out new_billing_record_def)
  ultimately have "contiguous a (records_of lid (working s'))"
    using assms(3) by (auto simp: contiguous_iff nth_append out new_billing_record_def less_Suc_eq)
  with r show ?thesis by (simp add: t out new_billing_record_def)
qed

lemma schema_ok_new_billing_record:
  assumes "schema_ok t" "holds_all (ck_billing_record r)" "row_id r \<notin> set (ids (billing_records t))"
    and "(br_lease_id r, period_start r) \<notin> (\<lambda>r. (br_lease_id r, period_start r)) ` set (billing_records t)"
    and "br_lease_id r \<in> set (ids (leases t))"
  shows "schema_ok (billing_records_update (\<lambda>rs. rs @ [r]) t)"
proof -
  let ?t = "billing_records_update (\<lambda>rs. rs @ [r]) t"
  have o: "users_constraints ?t = users_constraints t" "properties_constraints ?t = properties_constraints t"
    "tenants_constraints ?t = tenants_constraints t" "contracts_constraints ?t = contracts_constraints t"
    "leases_constraints ?t = leases_constraints t" "documents_constraints ?t = documents_constraints t"
    "collections_constraints ?t = collections_constraints t"
    "receipts_constraints ?t = receipts_constraints t"
    "receipt_templates_constraints ?t = receipt_templates_constraints t"
    "audit_logs_constraints ?t = audit_logs_constraints t"
    by (simp_all add: table_constraints_defs active_templates_def active_contracts_def)
  have "holds_all (payments_constraints ?t)"
    using assms(1) by (auto simp: schema_ok_tables payments_constraints_def list_all_iff elim!: opt_in_mono)
  moreover have "holds_all (billing_records_constraints ?t)"
    using assms by (simp add: schema_ok_tables billing_records_constraints_def)
  ultimately show ?thesis using assms(1) by (simp add: schema_ok_tables o)
qed

lemma schema_ok_write_audit:
  assumes "write_audit_log u act ety eid s = (Inr v, s')" "schema_ok (working s)"
    and "row_id u \<in> set (ids (users (working s)))"
    and "uuid_source s (uuid_drawn s) \<notin> set (ids (audit_logs (working s)))"
  shows "schema_ok (working s')"
  using assms
  by (auto simp: write_audit_log_iff schema_ok_tables table_constraints_defs active_contracts_def
      active_templates_def)

lemma generate_succeeds:
  assumes "schema_ok (working s)" "get_row leases_tbl lid (working s) = Some l"
    and "authorize_billing u l s = (Inr (), s)" "contiguous a (records_of lid (working s))"
    and "records_of lid (working s) = [] \<Longrightarrow> a = lease_start l"
    and "row_id u \<in> set (ids (users (working s)))"
    and "uuid_source s (uuid_drawn s) \<notin> set (ids (billing_records (working s)))"
    and "uuid_source s (Suc (uuid_drawn s)) \<notin> set (ids (audit_logs (working s)))"
  shows "\<exists>out s'. generate_billing_record lid u s = (Inr out, s') \<and>
    period_start (fst out) = a + 31 * int (length (records_of lid (working s)))"
proof -
  let ?n = "length (records_of lid (working s))"
  let ?ps = "case latest_for_lease lid (working s) of None \<Rightarrow> lease_start l | Some r \<Rightarrow> period_end r + 1"
  have ps: "?ps = a + 31 * int ?n"
    using assms(5) latest_contiguous [OF assms(4)] by (cases "records_of lid (working s) = []") (auto simp: latest_none)
  let ?r = "new_billing_record lid ?ps (?ps + 30) (?ps + due_day l) (monthly_rent l)
    (uuid_source s (uuid_drawn s)) (clock s)"
  from get_row_SomeD [OF assms(2)] have l: "l \<in> set (leases (working s))" "row_id l = lid" by simp_all
  then have lk: "holds_all (ck_lease l)" using assms(1) by (simp add: schema_ok_tables leases_constraints_def)
  then have rent: "0 < monthly_rent l" "1 \<le> due_day l" by (simp_all add: ck_lease_def)
  have new: "(lid, a + 31 * int ?n) \<notin> (\<lambda>r. (br_lease_id r, period_start r)) ` set (billing_records (working s))"
  proof
    assume "(lid, a + 31 * int ?n) \<in> (\<lambda>r. (br_lease_id r, period_start r)) ` set (billing_records (working s))"
    then obtain r where "r \<in> set (records_of lid (working s))" "period_start r = a + 31 * int ?n"
      by (auto simp: records_of_def)
    then show False using assms(4) by (auto simp: contiguous_iff in_set_conv_nth)
  qed
  have ok: "schema_ok (billing_records_update (\<lambda>rs. rs @ [?r]) (working s))"
    using assms(1,7) l new rent
    by (intro schema_ok_new_billing_record)
      (auto simp: new_billing_record_def ck_billing_record_def ps ids_def)
  let ?s1 = "s\<lparr>uuid_drawn := Suc (uuid_drawn s),
    working := billing_records_update (\<lambda>rs. rs @ [?r]) (working s)\<rparr>"
  have c: "repo_create billing_records_tbl (new_billing_record lid ?ps (?ps + 30) (?ps + due_day l)
      (monthly_rent l)) s = (Inr ?r, ?s1)"
    using ok by (simp add: repo_iffs)
  obtain s2 where w: "write_audit_log u CREATE ''BillingRecord'' (row_id ?r) ?s1 = (Inr (), s2)"
    by (simp add: write_audit_log_iff)
  have "schema_ok (working s2)"
    using ok assms(6,8) by (intro schema_ok_write_audit [OF w]) simp_all
  moreover have "CYCLE_LENGTH_DAYS (billing_cycle l) = 30" by (cases "billing_cycle l") simp
  moreover have "find_lease lid s = (Inr l, s)" using assms(2) by (simp add: find_lease_def)
  ultimately have "\<exists>s'. generate_billing_record lid u s = (Inr (?r, remaining ?r (working s2)), s')"
    using assms(3) rent c w
    by (simp add: generate_billing_record_def bnd_Inr_iff Let_def get_latest_for_lease_def)
  moreover have "period_start ?r = a + 31 * int ?n" by (simp add: new_billing_record_def ps)
  ultimately show ?thesis by (metis fst_conv)
qed

section \<open>Overdue evaluation\<close>

definition is_late :: "date \<Rightarrow> lease \<Rightarrow> billing_record \<Rightarrow> bool" where
  "is_late today l r \<longleftrightarrow>
     br_status r \<in> {Pending, PartiallyPaid} \<and> due_date r + grace_period_days l < today"

definition fee_or_zero :: "lease \<Rightarrow> billing_record \<Rightarrow> money" where
  "fee_or_zero l r = (case late_fee l r of Inl _ \<Rightarrow> 0 | Inr f \<Rightarrow> f)"

definition marked_overdue :: "lease \<Rightarrow> billing_record \<Rightarrow> billing_record" where
  "marked_overdue l r =
     (if late_fee_applied r then r\<lparr>br_status := Overdue\<rparr>
      else r\<lparr>br_status := Overdue, late_fee_amount_charged := Some (fee_or_zero l r),
             late_fee_applied := True\<rparr>)"

definition eval_date :: "date option \<Rightarrow> session \<Rightarrow> date" where
  "eval_date as_of s = (case as_of of Some d \<Rightarrow> d | None \<Rightarrow> local_today s)"

lemma row_id_marked [simp]: "row_id (marked_overdue l r) = row_id r"
  by (simp add: marked_overdue_def)

lemma late_fee_status [simp]: "late_fee l (r\<lparr>br_status := x\<rparr>) = late_fee l r"
  by (simp add: late_fee_def split: option.split)

lemma evaluate_not_late:
  assumes "billing_context i u s = (Inr (r, l), s)" "\<not> is_late (eval_date as_of s) l r"
  shows "evaluate_overdue i u as_of s = (Inr (r, remaining r (working s)), s)"
  using assms
  by (cases as_of)
    (auto simp: evaluate_overdue_def bnd_def [where m = "billing_context i u"] is_late_def eval_date_def
      svc bnd_date_today)

lemma evaluate_late:
  assumes "billing_context i u s = (Inr (r, l), s)" "is_late (eval_date as_of s) l r"
    and "late_fee_applied r \<or> \<not> isl (late_fee l r)"
  shows "evaluate_overdue i u as_of s = bnd (flush_record (marked_overdue l r)) (finish_record u) s"
proof -
  have t: "transition r Overdue = Inr (r\<lparr>br_status := Overdue\<rparr>)"
    using assms(2) by (cases "br_status r") (simp_all add: transition_def is_late_def)
  have b: "bnd (of_result (Inr x)) f s1 = f x s1" for x :: 'b and f :: "'b \<Rightarrow> 'c svc" and s1
    by (simp add: bnd_def of_result_def)
  have d: "bnd (case as_of of None \<Rightarrow> date_today | Some d \<Rightarrow> ret d) f s = f (eval_date as_of s) s"
    for f :: "date \<Rightarrow> billed svc"
    by (cases as_of) (simp_all add: eval_date_def svc)
  show ?thesis
  proof (cases "late_fee_applied r")
    case True
    then show ?thesis
      using assms(1,2)
      by (auto simp: evaluate_overdue_def bnd_def [where m = "billing_context i u"] d t b is_late_def
          marked_overdue_def finish_record_def [abs_def] bnd_ret)
  next
    case False
    with assms(3) obtain f where "late_fee l r = Inr f" by (cases "late_fee l r") simp_all
    with False show ?thesis
      using assms(1,2)
      by (auto simp: evaluate_overdue_def bnd_def [where m = "billing_context i u"] d t b is_late_def
          marked_overdue_def finish_record_def [abs_def] bnd_ret bnd_assoc fee_or_zero_def)
  qed
qed

lemma evaluate_no_fee:
  assumes "billing_context i u s = (Inr (r, l), s)" "is_late (eval_date as_of s) l r"
    and "\<not> late_fee_applied r" "late_fee l r = Inl e"
  shows "evaluate_overdue i u as_of s = (Inl e, s)"
proof -
  have t: "transition r Overdue = Inr (r\<lparr>br_status := Overdue\<rparr>)"
    using assms(2) by (cases "br_status r") (simp_all add: transition_def is_late_def)
  have b: "bnd (of_result (Inr x)) f s1 = f x s1" for x :: 'b and f :: "'b \<Rightarrow> 'c svc" and s1
    by (simp add: bnd_def of_result_def)
  have d: "bnd (case as_of of None \<Rightarrow> date_today | Some d \<Rightarrow> ret d) f s = f (eval_date as_of s) s"
    for f :: "date \<Rightarrow> billed svc"
    by (cases as_of) (simp_all add: eval_date_def svc)
  show ?thesis
    using assms
    by (simp add: evaluate_overdue_def bnd_def [where m = "billing_context i u"] d t b is_late_def bnd_assoc)
      (simp add: bnd_def of_result_def)
qed

text \<open>Everything a successful evaluation does.\<close>

lemma evaluate_Inr:
  assumes "evaluate_overdue i u as_of s = (Inr out, s')"
  shows "\<exists>r l. billing_context i u s = (Inr (r, l), s) \<and>
    (if is_late (eval_date as_of s) l r
     then fst out = touch (clock s) (\<lambda>_. marked_overdue l r) r \<and>
       (late_fee_applied r \<or> late_fee l r = Inr (fee_or_zero l r)) \<and>
       billing_records (working s') =
         map_row i (touch (clock s) (\<lambda>_. marked_overdue l r)) (billing_records (working s)) \<and>
       payments (working s') = payments (working s) \<and> leases (working s') = leases (working s) \<and>
       committed s' = working s' \<and> schema_ok (working s')
     else fst out = r \<and> s' = s) \<and>
    snd out = remaining (fst out) (working s')"
proof -
  from assms obtain r l where c: "billing_context i u s = (Inr (r, l), s)"
    by (auto simp: evaluate_overdue_def bnd_Inr_iff dest: pure_readD [OF pure_read_billing(7)])
  then have g: "get_row billing_records_tbl i (working s) = Some r" and i: "row_id r = i"
    by (auto simp: billing_context_Inr dest: get_row_id)
  show ?thesis
  proof (cases "is_late (eval_date as_of s) l r")
    case False
    with assms c evaluate_not_late [OF c False] show ?thesis by auto
  next
    case True
    have ok: "late_fee_applied r \<or> \<not> isl (late_fee l r)"
      using assms evaluate_no_fee [OF c True] by (cases "late_fee l r") auto
    from evaluate_late [OF c True ok] have
      "bnd (flush_record (marked_overdue l r)) (finish_record u) s = (Inr out, s')"
      unfolding assms by (rule sym)
    then obtain x s1 where
      f: "flush_record (marked_overdue l r) s = (Inr x, s1)" and "finish_record u x s1 = (Inr out, s')"
      by (auto simp: bnd_Inr_iff)
    from finish_record_Inr [OF this(2)] f g i ok c True show ?thesis
      by (auto simp: flush_record_Inr fee_or_zero_def split: sum.splits)
  qed
qed

section \<open>Properties\<close>

text \<open>
  C10. Generated periods are contiguous: each new record of a lease starts the day after the
  latest one ends, so that the k-th period of a lease starts 31 k days after the first; the
  new record is appended and no other record changes.
\<close>

theorem generated_periods_are_contiguous:
  assumes "generate_billing_record lid u s = (Inr out, s')" "get_row leases_tbl lid (working s) = Some l"
    and "contiguous a (records_of lid (working s))"
    and "records_of lid (working s) = [] \<Longrightarrow> a = lease_start l"
  shows "records_of lid (committed s') = records_of lid (working s) @ [fst out] \<and>
    contiguous a (records_of lid (committed s')) \<and>
    due_date (fst out) = period_start (fst out) + due_day l \<and> amount_due (fst out) = monthly_rent l \<and>
    br_status (fst out) = Pending \<and>
    billing_records (committed s') = billing_records (working s) @ [fst out]"
  using assms by (rule generate_appends)

theorem generated_periods_are_contiguous_witness:
  "contiguous 738000 (records_of 40 (committed (snd (generate_billing_record 40 mgr (session_of sample_tables)))))"
proof -
  have "\<not> isl (fst (generate_billing_record 40 mgr (session_of sample_tables)))" by code_simp
  then obtain out where g: "generate_billing_record 40 mgr (session_of sample_tables) =
      (Inr out, snd (generate_billing_record 40 mgr (session_of sample_tables)))"
    by (blast dest: run_ok)
  have l: "get_row leases_tbl 40 (working (session_of sample_tables)) = Some (sample_lease 40 30)"
    by code_simp
  have c: "contiguous 738000 (records_of 40 (working (session_of sample_tables)))" by code_simp
  have "738000 = lease_start (sample_lease 40 30)" by (simp add: sample_lease_def)
  with generated_periods_are_contiguous [OF g l c] show ?thesis by blast
qed

text \<open>
  In contiguous records every day from the first start to the last end lies in exactly
  one billing period, so no day is billed twice and none goes unbilled. A period spans 31 days.
\<close>

theorem every_day_billed_once:
  assumes "contiguous a (records_of lid t)" "a \<le> d" "d < a + 31 * int (length (records_of lid t))"
  shows "\<exists>!k. k < length (records_of lid t) \<and> period_start (records_of lid t ! k) \<le> d \<and>
    d \<le> period_end (records_of lid t ! k)"
proof -
  let ?rs = "records_of lid t"
  define k where "k = nat ((d - a) div 31)"
  have k: "int k = (d - a) div 31" using assms(2) by (simp add: k_def pos_imp_zdiv_nonneg_iff)
  have "d - a < 31 * int (length ?rs)" using assms(3) by simp
  then have "(d - a) div 31 < int (length ?rs)" by presburger
  then have "k < length ?rs" using k by linarith
  show ?thesis
  proof (rule ex1I [of _ k])
    show "k < length ?rs \<and> period_start (?rs ! k) \<le> d \<and> d \<le> period_end (?rs ! k)"
      using assms(1) \<open>k < length ?rs\<close> k by (auto simp: contiguous_iff)
  next
    fix j assume "j < length ?rs \<and> period_start (?rs ! j) \<le> d \<and> d \<le> period_end (?rs ! j)"
    with assms(1) have "a + 31 * int j \<le> d" "d \<le> a + 31 * int j + 30" by (auto simp: contiguous_iff)
    then have "(d - a) div 31 = int j"
      by (intro int_div_pos_eq [where r = "d - a - 31 * int j"]) simp_all
    then have "int j = int k" by (simp add: k)
    then show "j = k" by simp
  qed
qed

theorem every_day_billed_once_witness:
  "\<exists>!k. k < length (records_of 40 sample_tables) \<and> period_start (records_of 40 sample_tables ! k) \<le> 738030 \<and>
    738030 \<le> period_end (records_of 40 sample_tables ! k)"
proof (rule every_day_billed_once [of 738000])
  show "contiguous 738000 (records_of 40 sample_tables)" by code_simp
  have "length (records_of 40 sample_tables) = 1" by code_simp
  then show "738030 < 738000 + 31 * int (length (records_of 40 sample_tables))" by simp
qed simp

text \<open>
  Generation never depends on the date: for a caller who may bill the lease, with fresh
  identifiers, each call produces the next record, however many periods have already been
  generated ahead of time. It never reports \<open>BillingRecordAlreadyGeneratedError\<close>.
\<close>

theorem generation_always_advances:
  assumes "schema_ok (working s)" "get_row leases_tbl lid (working s) = Some l"
    and "authorize_billing u l s = (Inr (), s)" "contiguous a (records_of lid (working s))"
    and "records_of lid (working s) = [] \<Longrightarrow> a = lease_start l"
    and "row_id u \<in> set (ids (users (working s)))"
    and "uuid_source s (uuid_drawn s) \<notin> set (ids (billing_records (working s)))"
    and "uuid_source s (Suc (uuid_drawn s)) \<notin> set (ids (audit_logs (working s)))"
  shows "\<exists>out s'. generate_billing_record lid u s = (Inr out, s') \<and>
    period_start (fst out) = a + 31 * int (length (records_of lid (working s)))"
  using assms by (rule generate_succeeds)

theorem generation_always_advances_witness:
  "\<exists>out s'. generate_billing_record 40 mgr (session_of sample_tables) = (Inr out, s') \<and>
    period_start (fst out) = 738031"
proof -
  have l: "get_row leases_tbl 40 (working (session_of sample_tables)) = Some (sample_lease 40 30)"
    by code_simp
  have u: "authorize_billing mgr (sample_lease 40 30) (session_of sample_tables) =
      (Inr (), session_of sample_tables)"
    by (rule pure_run [OF pure_read_billing(4)]) code_simp
  have c: "contiguous 738000 (records_of 40 (working (session_of sample_tables)))" by code_simp
  have n: "length (records_of 40 (working (session_of sample_tables))) = 1" by code_simp
  have "row_id mgr \<in> set (ids (users (working (session_of sample_tables))))"
    "uuid_source (session_of sample_tables) (uuid_drawn (session_of sample_tables))
       \<notin> set (ids (billing_records (working (session_of sample_tables))))"
    "uuid_source (session_of sample_tables) (Suc (uuid_drawn (session_of sample_tables)))
       \<notin> set (ids (audit_logs (working (session_of sample_tables))))"
    by code_simp+
  with generation_always_advances [OF _ l u c] n show ?thesis
    by (simp add: schema_ok_sample sample_lease_def)
qed

text \<open>
  C11. Overdue evaluation marks a record exactly when it is pending or partially paid and the
  evaluation date is past the due date plus the lease's grace period; the late fee is charged
  the first time only, and the reported balance includes it. Otherwise nothing changes.
\<close>

theorem overdue_evaluation:
  assumes "evaluate_overdue i u as_of s = (Inr (r', b), s')" "billing_context i u s = (Inr (r, l), s)"
  shows "b = remaining r' (working s') \<and>
    (if is_late (eval_date as_of s) l r
     then br_status r' = Overdue \<and> late_fee_applied r' \<and> amount_due r' = amount_due r \<and>
       late_fee_amount_charged r' =
         (if late_fee_applied r then late_fee_amount_charged r else Some (projr (late_fee l r))) \<and>
       r' \<in> set (billing_records (committed s'))
     else r' = r \<and> s' = s)"
proof -
  from evaluate_Inr [OF assms(1)] assms(2) show ?thesis
    using get_row_SomeD [of billing_records_tbl i "working s" r]
    by (auto simp: billing_context_Inr marked_overdue_def set_map_row split: if_splits)
qed

theorem overdue_evaluation_witness:
  "br_status (fst (projr (fst (evaluate_overdue 50 mgr (Some 738009) (session_of sample_tables))))) = Overdue \<and>
   late_fee_amount_charged (fst (projr (fst (evaluate_overdue 50 mgr (Some 738009) (session_of sample_tables))))) =
     Some 5000"
  (is "br_status (fst (projr (fst ?run))) = _ \<and> _")
proof -
  have "\<not> isl (fst ?run)" by code_simp
  then obtain r' b where e: "?run = (Inr (r', b), snd ?run)" by (auto dest: run_ok)
  have c: "billing_context 50 mgr (session_of sample_tables) =
      (Inr (sample_billing_record 50 40 Pending, sample_lease 40 30), session_of sample_tables)"
    by (rule pure_run [OF pure_read_billing(7)]) code_simp
  have "is_late 738009 (sample_lease 40 30) (sample_billing_record 50 40 Pending)" by code_simp
  moreover have "late_fee (sample_lease 40 30) (sample_billing_record 50 40 Pending) = Inr 5000" by code_simp
  moreover have "\<not> late_fee_applied (sample_billing_record 50 40 Pending)" by code_simp
  ultimately have "br_status r' = Overdue \<and> late_fee_amount_charged r' = Some 5000"
    using overdue_evaluation [OF e c] by (simp add: eval_date_def)
  with e show ?thesis by (metis fst_conv sum.sel(2))
qed

lemma percent_fee_pos:
  assumes "late_fee_amount l = None" "late_fee_percent l = Some p" "late_fee l r = Inr fee"
  shows "0 < fee \<longleftrightarrow> 5000 < amount_due r * p"
  using assms round_half_even_pos_iff [of 10000 "amount_due r * p"]
  by (simp add: late_fee_def mult.commute)

text \<open>
  A percentage late fee is the exact product rounded to whole cents with an error of at
  most half a cent, and it is positive exactly when the product exceeds half a cent.
\<close>

theorem percent_fee_rounding:
  assumes "late_fee_amount l = None" "late_fee_percent l = Some p" "late_fee l r = Inr fee"
  shows "\<bar>10000 * fee - amount_due r * p\<bar> \<le> 5000 \<and> (0 < fee \<longleftrightarrow> 5000 < amount_due r * p)"
proof -
  have "fee = round_half_even (amount_due r * p) 10000" using assms by (simp add: late_fee_def)
  then show ?thesis
    using round_half_even_error [of 10000 "amount_due r * p"] percent_fee_pos [OF assms] by simp
qed

theorem percent_fee_rounding_witness:
  "\<bar>10000 * 5000 - amount_due (sample_billing_record 50 40 Pending) * 500\<bar> \<le> 5000 \<and>
   (0 < (5000 :: int) \<longleftrightarrow> 5000 < amount_due (sample_billing_record 50 40 Pending) * 500)"
proof -
  have "late_fee (sample_lease 40 30) (sample_billing_record 50 40 Pending) = Inr 5000" by code_simp
  then show ?thesis
    by (intro percent_fee_rounding [where l = "sample_lease 40 30"]) (simp_all add: sample_lease_def)
qed

text \<open>
  A percentage fee that rounds to zero can never be charged: the record would violate the
  positive-fee constraint, so the evaluation ends in an untranslated constraint violation,
  nothing is committed and the record never becomes overdue.
\<close>

theorem vanishing_fee_blocks_overdue:
  assumes "billing_context i u s = (Inr (r, l), s)" "is_late (eval_date as_of s) l r"
    and "\<not> late_fee_applied r" "late_fee_amount l = None" "late_fee_percent l = Some p"
    and "amount_due r * p \<le> 5000"
  shows "\<exists>m s'. evaluate_overdue i u as_of s = (Inl (IntegrityError m), s') \<and> committed s' = committed s"
proof -
  obtain fee where f: "late_fee l r = Inr fee" using assms(4,5) by (simp add: late_fee_def)
  with percent_fee_pos [OF assms(4,5) f] assms(6) have fee: "fee \<le> 0" by linarith
  from assms(1) have g: "get_row billing_records_tbl (row_id r) (working s) = Some r"
    by (auto simp: billing_context_Inr dest: get_row_id)
  let ?f = "touch (clock s) (\<lambda>_. marked_overdue l r)"
  let ?t = "billing_records_update (map_row (row_id r) ?f) (working s)"
  have "?f r \<in> set (billing_records ?t)"
    using get_row_SomeD [OF g] by (auto simp: set_map_row)
  moreover have "\<not> holds_all (ck_billing_record (?f r))"
    using assms(3) f fee by (simp add: ck_billing_record_def marked_overdue_def fee_or_zero_def)
  ultimately have "\<not> schema_ok ?t"
    by (auto simp: schema_ok_tables billing_records_constraints_def)
  then have "flush_record (marked_overdue l r) s \<noteq> (Inr x, s1)" for x s1
    using flush_record_Inr [of "marked_overdue l r" s r x s1] g by auto
  then obtain e s1 where e: "flush_record (marked_overdue l r) s = (Inl e, s1)"
    by (metis prod.exhaust sum.exhaust)
  from flush_record_Inl [OF this] e show ?thesis
    using evaluate_late [OF assms(1,2)] f by (auto simp: bnd_InlI)
qed

theorem vanishing_fee_blocks_overdue_witness:
  "\<exists>m s'. evaluate_overdue 50 mgr (Some 738009) (session_of (sample_tables\<lparr>
      billing_records := [sample_billing_record 50 40 Pending\<lparr>amount_due := 10\<rparr>]\<rparr>)) =
    (Inl (IntegrityError m), s') \<and> committed s' = sample_tables\<lparr>
      billing_records := [sample_billing_record 50 40 Pending\<lparr>amount_due := 10\<rparr>]\<rparr>"
  (is "\<exists>m s'. evaluate_overdue 50 mgr (Some 738009) (session_of ?t) = _ \<and> _")
proof -
  have "billing_context 50 mgr (session_of ?t) =
      (Inr (sample_billing_record 50 40 Pending\<lparr>amount_due := 10\<rparr>, sample_lease 40 30), session_of ?t)"
    by (rule pure_run [OF pure_read_billing(7)]) code_simp
  from vanishing_fee_blocks_overdue [OF this, of "Some 738009" 500] show ?thesis
    by (simp add: is_late_def eval_date_def sample_lease_def sample_billing_record_def)
qed

text \<open>
  The reported remaining balance is what is owed minus the payments that count (linked to
  the record and not voided), never below zero, and zero exactly when these cover the amount.
\<close>

theorem remaining_balance_reported:
  assumes "get_billing_record i u s = (Inr (r, b), s')"
  shows "let paid = (\<Sum>p\<leftarrow>filter (counts_for i) (payments (working s)). pay_amount p)
    in b = max 0 (total_owed r - paid) \<and> (b = 0 \<longleftrightarrow> total_owed r \<le> paid) \<and> s' = s"
proof -
  from assms have "billing_context i u s = (Inr (r, snd (projr (fst (billing_context i u s)))), s)"
    "b = remaining r (working s)" "s' = s"
    by (auto simp: get_billing_record_def bnd_Inr_iff dest: pure_readD [OF pure_read_billing(7)])
  then show ?thesis by (auto simp: remaining_def Let_def billing_context_Inr dest!: get_row_id)
qed

theorem remaining_balance_reported_witness:
  "\<exists>r b. get_billing_record 50 mgr (session_of (sample_tables\<lparr>
       payments := [sample_payment 60 30 (Some 50) 30000 PAID, sample_payment 61 30 (Some 50) 500 VOIDED]\<rparr>)) =
     (Inr (r, b), session_of (sample_tables\<lparr>
       payments := [sample_payment 60 30 (Some 50) 30000 PAID, sample_payment 61 30 (Some 50) 500 VOIDED]\<rparr>)) \<and>
     b = max 0 (total_owed r - 30000)"
  (is "\<exists>r b. get_billing_record 50 mgr (session_of ?t) = _ \<and> _")
proof -
  have "\<not> isl (fst (get_billing_record 50 mgr (session_of ?t)))" by code_simp
  then obtain r b where g: "get_billing_record 50 mgr (session_of ?t) =
      (Inr (r, b), snd (get_billing_record 50 mgr (session_of ?t)))" by (auto dest: run_ok)
  have "(\<Sum>p\<leftarrow>filter (counts_for 50) (payments ?t). pay_amount p) = 30000" by code_simp
  with remaining_balance_reported [OF g] g show ?thesis by (auto simp: Let_def)
qed

end
