(* ===== verification/Payments.thy ===== *)
theory Payments
  imports Billing
begin

text \<open>
  Payments: the request bodies with their validators (app/billing/schemas/payment.py),
  PaymentRepository (app/billing/repositories/payment.py) and PaymentService
  (app/billing/services/payment_service.py), which reconciles billing records through
  LeaseBillingService. Payload amounts are whole cents, as the column stores them.
\<close>

section \<open>Reference numbers\<close>

definition lf :: char where "lf = CHR 0x0A"

text \<open>
  \<open>^[class]{lo,hi}$\<close> with \<open>re.match\<close>: \<open>$\<close> also matches before a final newline.
\<close>

definition matches_class :: "(char \<Rightarrow> bool) \<Rightarrow> nat \<Rightarrow> nat \<Rightarrow> string \<Rightarrow> bool" where
  "matches_class cls lo hi s =
     (let b = (if s \<noteq> [] \<and> last s = lf then butlast s else s)
      in lo \<le> length b \<and> length b \<le> hi \<and> list_all cls b)"

definition alnum_dash :: "char \<Rightarrow> bool" where
  "alnum_dash c \<longleftrightarrow> is_alpha c \<or> is_digit c \<or> c = CHR ''-''"

text \<open>The table from payment method to format and prefix.\<close>

definition REFERENCE_NUMBER_FORMATS :: "string \<Rightarrow> ((string \<Rightarrow> bool) \<times> string) option" where
  "REFERENCE_NUMBER_FORMATS m =
     (if m = ''check'' then Some (matches_class is_digit 4 10, ''CHECK'')
      else if m = ''gcash'' then Some (matches_class is_digit 13 13, ''GCASH'')
      else if m = ''bank transfer'' then Some (matches_class alnum_dash 6 34, ''TRANSFER'')
      else if m = ''maya'' then Some (matches_class alnum_dash 6 34, ''MAYA'')
      else None)"

definition formats_of :: "string option \<Rightarrow> ((string \<Rightarrow> bool) \<times> string) option" where
  "formats_of method = Option.bind method REFERENCE_NUMBER_FORMATS"

definition get_reference_number_prefix :: "string option \<Rightarrow> string option" where
  "get_reference_number_prefix method = map_option snd (formats_of method)"

definition normalize_payment_method :: "string option \<Rightarrow> svc_error + string option" where
  "normalize_payment_method v =
     (case v of
        None \<Rightarrow> Inr None
      | Some m \<Rightarrow>
          if py_lower m \<notin> set PAYMENT_METHODS then Inl (ValidationError ''Invalid payment_method'')
          else Inr (Some (py_lower m)))"

definition validate_reference_number_format :: "string option \<Rightarrow> string option \<Rightarrow> svc_error + unit" where
  "validate_reference_number_format method ref =
     (case formats_of method of
        None \<Rightarrow> Inr ()
      | Some (pattern, _) \<Rightarrow>
          (case ref of
             None \<Rightarrow> Inl (ValidationError ''reference_number'')
           | Some r \<Rightarrow> if r = [] \<or> \<not> pattern r then Inl (ValidationError ''reference_number'') else Inr ()))"

text \<open>\<open>_reject_date_only_paid_at\<close> on the text of the field.\<close>

definition date_only :: "string \<Rightarrow> bool" where
  "date_only v =
     (let s = py_strip v
      in length s = 10 \<and> list_all (\<lambda>(i, c). if i \<in> {4, 7} then c = CHR ''-'' else is_digit c) (enumerate 0 s))"

definition reject_date_only_paid_at :: "string \<Rightarrow> svc_error + string" where
  "reject_date_only_paid_at v =
     (if date_only v then Inl (ValidationError ''paid_at must include a time component'') else Inr v)"

section \<open>Request bodies\<close>

record payment_create =
  pay_c_contract_id :: uuid
  pay_c_billing_record_id :: "uuid option"
  pay_c_amount :: money
  pay_c_paid_at :: instant
  pay_c_method :: "string option"
  pay_c_status :: payment_status
  pay_c_reference :: "string option"

definition validate_payment_create :: "payment_create \<Rightarrow> svc_error + payment_create" where
  "validate_payment_create pl =
     (if pay_c_amount pl \<le> 0 then Inl (ValidationError ''Must be greater than zero.'')
      else case normalize_payment_method (pay_c_method pl) of
        Inl e \<Rightarrow> Inl e
      | Inr m \<Rightarrow>
          (case validate_reference_number_format m (pay_c_reference pl) of
             Inl e \<Rightarrow> Inl e
           | Inr _ \<Rightarrow> Inr (pl\<lparr>pay_c_method := m\<rparr>)))"

record payment_update =
  pay_u_amount :: "money patch"
  pay_u_paid_at :: "instant patch"
  pay_u_method :: "string patch"
  pay_u_status :: "payment_status patch"
  pay_u_reference :: "string patch"

text \<open>
  The validator assigns \<open>self.payment_method\<close>, and an assignment adds the field to the set
  of fields that count as sent: afterwards \<open>payment_method\<close> is present in every update.
\<close>

definition validate_payment_update :: "payment_update \<Rightarrow> svc_error + payment_update" where
  "validate_payment_update pl =
     (if \<not> opt_pos (attr (pay_u_amount pl)) then Inl (ValidationError ''Must be greater than zero.'')
      else case normalize_payment_method (attr (pay_u_method pl)) of
        Inl e \<Rightarrow> Inl e
      | Inr m \<Rightarrow>
          (case (if m \<noteq> None \<and> attr (pay_u_reference pl) \<noteq> None
                 then validate_reference_number_format m (attr (pay_u_reference pl)) else Inr ()) of
             Inl e \<Rightarrow> Inl e
           | Inr _ \<Rightarrow>
               if attr (pay_u_status pl) = Some VOIDED
               then Inl (ValidationError ''status cannot be set to VOIDED directly'')
               else Inr (pl\<lparr>pay_u_method := Some m\<rparr>)))"

record payment_correction =
  pay_k_amount :: money
  pay_k_paid_at :: instant
  pay_k_method :: "string option"
  pay_k_status :: payment_status
  pay_k_reference :: "string option"

definition validate_payment_correction :: "payment_correction \<Rightarrow> svc_error + payment_correction" where
  "validate_payment_correction pl =
     (if pay_k_amount pl \<le> 0 then Inl (ValidationError ''Must be greater than zero.'')
      else case normalize_payment_method (pay_k_method pl) of
        Inl e \<Rightarrow> Inl e
      | Inr m \<Rightarrow>
          (case validate_reference_number_format m (pay_k_reference pl) of
             Inl e \<Rightarrow> Inl e
           | Inr _ \<Rightarrow>
               if pay_k_status pl = VOIDED
               then Inl (ValidationError ''A correction cannot be created as VOIDED'')
               else Inr (pl\<lparr>pay_k_method := m\<rparr>)))"

definition new_payment ::
  "uuid \<Rightarrow> uuid option \<Rightarrow> money \<Rightarrow> instant \<Rightarrow> string option \<Rightarrow> payment_status \<Rightarrow> string option \<Rightarrow>
     uuid option \<Rightarrow> uuid \<Rightarrow> instant \<Rightarrow> payment" where
  "new_payment cid bid amt at method st ref corrects i n =
     \<lparr>row_id = i, created_at = n, updated_at = n, pay_contract_id = cid, billing_record_id = bid,
      pay_amount = amt, paid_at = at, payment_method = method, pay_status = st,
      reference_number = ref, corrects_payment_id = corrects\<rparr>"

definition assign_payment_update :: "payment_update \<Rightarrow> payment \<Rightarrow> payment" where
  "assign_payment_update pl p = p\<lparr>
     pay_amount := set_req (pay_u_amount pl) (pay_amount p),
     paid_at := set_req (pay_u_paid_at pl) (paid_at p),
     payment_method := set_null (pay_u_method pl) (payment_method p),
     pay_status := set_req (pay_u_status pl) (pay_status p),
     reference_number := set_null (pay_u_reference pl) (reference_number p)\<rparr>"

definition payment_update_nulls :: "payment_update \<Rightarrow> string list" where
  "payment_update_nulls pl =
     null_viol ''amount'' (pay_u_amount pl) @ null_viol ''paid_at'' (pay_u_paid_at pl) @
     null_viol ''status'' (pay_u_status pl)"

section \<open>Repository\<close>

definition payment_get_by_contract :: "uuid \<Rightarrow> payment list svc" where
  "payment_get_by_contract i = repo_all payments_tbl (\<lambda>p. pay_contract_id p = i)"

definition payment_get_by_status :: "payment_status \<Rightarrow> payment list svc" where
  "payment_get_by_status st = repo_all payments_tbl (\<lambda>p. pay_status p = st)"

definition get_by_billing_record :: "uuid \<Rightarrow> payment list svc" where
  "get_by_billing_record i = repo_all payments_tbl (\<lambda>p. billing_record_id p = Some i)"

definition payment_visible :: "uuid \<Rightarrow> tables \<Rightarrow> payment \<Rightarrow> bool" where
  "payment_visible m t p \<longleftrightarrow> pay_contract_id p \<in> set (owned_contract_ids m t)"

definition payment_get_all_for_manager :: "uuid \<Rightarrow> int \<Rightarrow> int \<Rightarrow> payment list svc" where
  "payment_get_all_for_manager m skip limit =
     query (\<lambda>t. page skip limit (build_query payments_tbl (payment_visible m t) t))"

definition payment_count_all_for_manager :: "uuid \<Rightarrow> nat svc" where
  "payment_count_all_for_manager m = query (\<lambda>t. length (filter (payment_visible m t) (payments t)))"

definition payment_repo :: "payment scoped_repo" where
  "payment_repo = \<lparr>get_all = repo_get_all payments_tbl, count_all = repo_count payments_tbl (\<lambda>_. True),
     get_all_for_manager = payment_get_all_for_manager,
     count_all_for_manager = payment_count_all_for_manager\<rparr>"

text \<open>\<open>f\"CASH-{seq:04d}\"\<close>.\<close>

definition cash_reference :: "nat \<Rightarrow> string" where
  "cash_reference n = ''CASH-'' @ zero_pad 4 (decimal n)"

section \<open>Service\<close>

definition list_payments :: "user \<Rightarrow> int \<Rightarrow> int \<Rightarrow> payment paginated svc" where
  "list_payments current_user skip limit =
     list_scoped_by_manager PaymentForbidden current_user payment_repo skip limit"

definition get_payment_or_404 :: "uuid \<Rightarrow> payment svc" where
  "get_payment_or_404 i =
     found_or (RelatedResourceNotFoundError ''Payment'' i) (repo_get_by_id payments_tbl i)"

definition get_payment :: "uuid \<Rightarrow> user \<Rightarrow> payment svc" where
  "get_payment i current_user =
     bnd (get_payment_or_404 i) (\<lambda>p.
     bnd (authorize_user_to_property PaymentForbidden current_user None (Some (pay_contract_id p)) None) (\<lambda>_.
     ret p))"

definition prepare_payment_context :: "user \<Rightarrow> payment option \<Rightarrow> uuid option \<Rightarrow> uuid option svc" where
  "prepare_payment_context current_user p contract_id =
     (let cid = resolve_id (\<lambda>p. Some (pay_contract_id p)) p contract_id
      in bnd (case cid of
                None \<Rightarrow> ret None
              | Some c \<Rightarrow>
                  bnd (found_or (RelatedResourceNotFoundError ''Contract'' c) (repo_get_by_id contracts_tbl c))
                    (\<lambda>contract. ret (Some contract))) (\<lambda>contract.
         bnd (authorize_user_to_property PaymentForbidden current_user None cid contract) (\<lambda>_.
         ret cid)))"

definition resolve_reference_number :: "string option \<Rightarrow> string option \<Rightarrow> string option svc" where
  "resolve_reference_number method ref =
     (if method = Some ''cash'' \<and> ref = None then
        bnd nextval_cash (\<lambda>seq. ret (Some (cash_reference seq)))
      else
        (case (get_reference_number_prefix method, ref) of
           (Some pre, Some r) \<Rightarrow>
             if \<not> prefix (pre @ ''-'') (py_upper r) then ret (Some (pre @ ''-'' @ r)) else ret ref
         | _ \<Rightarrow> ret ref))"

definition get_billing_record_for_contract :: "uuid \<Rightarrow> uuid option \<Rightarrow> billing_record svc" where
  "get_billing_record_for_contract bid contract_id =
     bnd (find_billing_record bid) (\<lambda>record.
     bnd (find_lease (br_lease_id record)) (\<lambda>l.
     bnd (raise_if (Some (lease_contract_id l) \<noteq> contract_id)
            (RelatedResourceNotFoundError ''BillingRecord'' bid)) (\<lambda>_.
     ret record)))"

definition apply_payment_to_billing_record :: "billing_record \<Rightarrow> unit svc" where
  "apply_payment_to_billing_record record =
     bnd (get_by_billing_record (row_id record)) (\<lambda>ps.
     let cumulative_paid = (\<Sum>p\<leftarrow>filter (\<lambda>p. pay_status p \<noteq> VOIDED) ps. pay_amount p)
     in bnd (of_result (apply_payment record cumulative_paid)) (\<lambda>r.
        bnd (flush_record r) (\<lambda>_. ret ())))"

definition create_payment :: "payment_create \<Rightarrow> user \<Rightarrow> payment svc" where
  "create_payment payload current_user =
     bnd (prepare_payment_context current_user None (Some (pay_c_contract_id payload))) (\<lambda>cid.
     bnd (case pay_c_billing_record_id payload of
            None \<Rightarrow> ret None
          | Some b \<Rightarrow> bnd (get_billing_record_for_contract b cid) (\<lambda>r. ret (Some r))) (\<lambda>record.
     bnd (resolve_reference_number (pay_c_method payload) (pay_c_reference payload)) (\<lambda>ref.
     bnd (repo_create payments_tbl
            (new_payment (pay_c_contract_id payload) (pay_c_billing_record_id payload)
               (pay_c_amount payload) (pay_c_paid_at payload) (pay_c_method payload)
               (pay_c_status payload) ref None)) (\<lambda>p.
     bnd (write_audit_log current_user CREATE ''Payment'' (row_id p)) (\<lambda>_.
     bnd (case record of None \<Rightarrow> ret () | Some r \<Rightarrow> apply_payment_to_billing_record r) (\<lambda>_.
     bnd commit (\<lambda>_.
     ret p)))))))"

definition update_payment :: "uuid \<Rightarrow> payment_update \<Rightarrow> user \<Rightarrow> payment option svc" where
  "update_payment i payload current_user =
     bnd (get_payment_or_404 i) (\<lambda>p.
     bnd (prepare_payment_context current_user (Some p) (Some (pay_contract_id p))) (\<lambda>_.
     bnd (raise_if (pay_status p = VOIDED) (PaymentAlreadyVoidedError i)) (\<lambda>_.
     bnd (if attr (pay_u_method payload) \<noteq> None \<and> attr (pay_u_reference payload) \<noteq> None then
            bnd (resolve_reference_number (attr (pay_u_method payload)) (attr (pay_u_reference payload))) (\<lambda>ref.
            ret (payload\<lparr>pay_u_reference := Some ref\<rparr>))
          else ret payload) (\<lambda>payload'.
     bnd (repo_update payments_tbl i (payment_update_nulls payload') (assign_payment_update payload')) (\<lambda>r.
     bnd (write_audit_log current_user UPDATE ''Payment'' i) (\<lambda>_.
     bnd commit (\<lambda>_.
     ret r)))))))"

definition void_and_correct_payment :: "uuid \<Rightarrow> payment_correction \<Rightarrow> user \<Rightarrow> payment svc" where
  "void_and_correct_payment i payload current_user =
     bnd (get_payment_or_404 i) (\<lambda>original.
     bnd (prepare_payment_context current_user (Some original) (Some (pay_contract_id original))) (\<lambda>_.
     bnd (raise_if (pay_status original = VOIDED) (PaymentAlreadyVoidedError i)) (\<lambda>_.
     bnd (resolve_reference_number (pay_k_method payload) (pay_k_reference payload)) (\<lambda>ref.
     bnd (repo_create payments_tbl
            (new_payment (pay_contract_id original) None (pay_k_amount payload) (pay_k_paid_at payload)
               (pay_k_method payload) (pay_k_status payload) ref (Some (row_id original)))) (\<lambda>p.
     bnd (repo_update payments_tbl (row_id original) [] (\<lambda>q. q\<lparr>pay_status := VOIDED\<rparr>)) (\<lambda>_.
     bnd (write_audit_log current_user CREATE ''Payment'' (row_id p)) (\<lambda>_.
     bnd (write_audit_log current_user UPDATE ''Payment'' (row_id original)) (\<lambda>_.
     bnd commit (\<lambda>_.
     ret p)))))))))"

definition delete_payment :: "uuid \<Rightarrow> user \<Rightarrow> payment option svc" where
  "delete_payment i current_user =
     bnd (get_payment_or_404 i) (\<lambda>p.
     bnd (prepare_payment_context current_user (Some p) (Some (pay_contract_id p))) (\<lambda>_.
     bnd (repo_delete payments_tbl (\<lambda>_ t. t) i) (\<lambda>r.
     bnd (write_audit_log current_user DELETE ''Payment'' i) (\<lambda>_.
     bnd commit (\<lambda>_.
     ret r)))))"

section \<open>Lemmas\<close>

lemma pure_read_payments [atomic_intros]:
  "pure_read (get_payment_or_404 i)" "pure_read (get_payment i u)"
  "pure_read (prepare_payment_context u p c)" "pure_read (get_billing_record_for_contract b c)"
  "pure_read (get_by_billing_record b)"
  unfolding get_payment_or_404_def get_payment_def prepare_payment_context_def Let_def
    get_billing_record_for_contract_def get_by_billing_record_def
  by (intro atomic_intros)+

lemma logs_payment_reads [trail_intros]:
  "logs [] (get_payment_or_404 i)" "logs [] (get_payment i u)"
  "logs [] (prepare_payment_context u p c)" "logs [] (get_billing_record_for_contract b c)"
  "logs [] (get_by_billing_record b)"
  by (rule logs_pure, rule atomic_intros)+

lemma silent_resolve_reference [atomic_intros]: "silent (resolve_reference_number m r)"
  by (cases "get_reference_number_prefix m"; cases r)
    (auto simp: resolve_reference_number_def intro!: silent_bnd silent_nextval
      pure_read_silent [OF pure_read_ret])

lemma logs_resolve_reference [trail_intros]: "logs [] (resolve_reference_number m r)"
  by (cases "get_reference_number_prefix m"; cases r)
    (auto simp: resolve_reference_number_def intro!: trail_intros)

lemma silent_apply_to_record [atomic_intros]: "silent (apply_payment_to_billing_record r)"
  unfolding apply_payment_to_billing_record_def Let_def by (intro atomic_intros)

lemma logs_apply_to_record [trail_intros]: "logs [] (apply_payment_to_billing_record r)"
  unfolding apply_payment_to_billing_record_def Let_def by (intro trail_intros)

lemma atomic_payments [atomic_intros]:
  "atomic (create_payment pl u)" "atomic (update_payment i upl u)"
  "atomic (void_and_correct_payment i kpl u)" "atomic (delete_payment i u)"
  unfolding create_payment_def update_payment_def void_and_correct_payment_def delete_payment_def
  by (intro atomic_intros)+

lemma logs_payments:
  "logs [(CREATE, ''Payment'')] (create_payment pl u)"
  "logs [(UPDATE, ''Payment'')] (update_payment i upl u)"
  "logs [(CREATE, ''Payment''), (UPDATE, ''Payment'')] (void_and_correct_payment i kpl u)"
  "logs [(DELETE, ''Payment'')] (delete_payment i u)"
  unfolding create_payment_def update_payment_def void_and_correct_payment_def delete_payment_def
  by (intro trail_intros refl)+

lemma get_payment_Inr:
  "get_payment i u s = (Inr p, s') \<longleftrightarrow> s' = s \<and> get_row payments_tbl i (working s) = Some p \<and>
     authorize_user_to_property PaymentForbidden u None (Some (pay_contract_id p)) None s = (Inr (), s)"
  using pure_readD [OF pure_read_authorize]
  by (fastforce simp: get_payment_def get_payment_or_404_def svc_iffs)

interpretation payment_scope: scoped_resource payments_tbl payment_repo payment_visible get_payment
proof
  fix s :: session and p u
  assume *: "schema_ok (working s)" "p \<in> set (rows payments_tbl (working s))"
  then have "pay_contract_id p \<in> set (ids (contracts (working s)))" by (simp add: schema_ok_refs)
  with * show "get_payment (row_id p) u s = (Inr p, s) \<longleftrightarrow>
      role u = ADMIN \<or> role u = MANAGER \<and> payment_visible (row_id u) (working s) p"
    by (simp add: get_payment_Inr get_row_Some_iff schema_ok_keys authorize_contract_iff
        payment_visible_def)
qed (simp_all add: payment_repo_def payment_get_all_for_manager_def
    payment_count_all_for_manager_def query_def schema_ok_keys)

section \<open>Reconciliation\<close>

text \<open>The status machine admits every step that \<open>apply_payment\<close> takes.\<close>

lemma apply_payment_eq:
  "apply_payment r c = Inr (
     if br_status r = WrittenOff then r
     else if br_status r = Paid \<or> total_owed r \<le> c
       then r\<lparr>br_status := Paid,
              overpaid_amount := (if total_owed r < c then Some (c - total_owed r) else None)\<rparr>
     else r\<lparr>br_status := PartiallyPaid\<rparr>)"
  by (cases "br_status r") (auto simp: apply_payment_def transition_def Let_def)

lemma resolve_reference_Inr:
  "resolve_reference_number m r s = (x, s') \<Longrightarrow>
     (\<exists>ref. x = Inr ref) \<and> (s' = s \<or> s' = s\<lparr>cash_seq := Suc (cash_seq s)\<rparr>)"
  by (cases "get_reference_number_prefix m"; cases r)
    (auto simp: resolve_reference_number_def bnd_def nextval_cash_def ret_def split: if_splits)

lemma prepare_payment_context_Inr:
  "prepare_payment_context u p (Some c) s = (Inr x, s') \<longleftrightarrow> s' = s \<and> x = Some c \<and>
     (\<exists>ct. get_row contracts_tbl c (working s) = Some ct \<and>
        authorize_user_to_property PaymentForbidden u None (Some c) (Some ct) s = (Inr (), s))"
proof -
  have "authorize_user_to_property f u q k g s = (Inr v, s1) \<longleftrightarrow>
      s1 = s \<and> fst (authorize_user_to_property f u q k g s) = Inr ()" for f q k g v s1
    using pure_readD [OF pure_read_authorize, of f u q k g s]
    by (cases "authorize_user_to_property f u q k g s") auto
  then show ?thesis
    by (auto simp: prepare_payment_context_def resolve_id_def Let_def svc_iffs)
qed

lemma sum_list_mset_eq:
  fixes f :: "'a \<Rightarrow> int"
  shows "mset xs = mset ys \<Longrightarrow> sum_list (map f xs) = sum_list (map f ys)"
  by (metis mset_map sum_mset_sum_list)

definition paid_for :: "uuid \<Rightarrow> tables \<Rightarrow> money" where
  "paid_for i t = (\<Sum>p\<leftarrow>filter (counts_for i) (payments t). pay_amount p)"

lemma paid_for_query:
  "(\<Sum>p\<leftarrow>filter (\<lambda>p. pay_status p \<noteq> VOIDED)
      (build_query payments_tbl (\<lambda>p. billing_record_id p = Some i) t). pay_amount p) = paid_for i t"
  unfolding paid_for_def
  by (rule sum_list_mset_eq) (simp add: build_query_def filter_filter_mset counts_for_def [abs_def])

lemma remaining_paid_for: "remaining r t = max 0 (total_owed r - paid_for (row_id r) t)"
  by (simp add: remaining_def paid_for_def)

lemma touch_payment [simp]:
  "pay_status (touch n f p) = pay_status (f p)"
  "pay_amount (touch n f p) = pay_amount (f p)"
  "billing_record_id (touch n f p) = billing_record_id (f p)"
  "payment_method (touch n f p) = payment_method (f p)"
  by (simp_all add: touch_def Let_def)

lemma new_payment_simps [simp]:
  "row_id (new_payment c b a t m st ref k i n) = i"
  "pay_contract_id (new_payment c b a t m st ref k i n) = c"
  "billing_record_id (new_payment c b a t m st ref k i n) = b"
  "pay_amount (new_payment c b a t m st ref k i n) = a"
  "pay_status (new_payment c b a t m st ref k i n) = st"
  "corrects_payment_id (new_payment c b a t m st ref k i n) = k"
  "payment_method (new_payment c b a t m st ref k i n) = m"
  by (simp_all add: new_payment_def)

lemma get_billing_record_for_contract_Inr:
  "get_billing_record_for_contract b c s = (Inr r, s') \<longleftrightarrow> s' = s \<and>
     get_row billing_records_tbl b (working s) = Some r \<and>
     (\<exists>l. get_row leases_tbl (br_lease_id r) (working s) = Some l \<and> Some (lease_contract_id l) = c)"
  by (auto simp: get_billing_record_for_contract_def find_billing_record_def find_lease_def svc_iffs)

definition reconciled :: "billing_record \<Rightarrow> money \<Rightarrow> billing_record" where
  "reconciled r paid = projr (apply_payment r paid)"

lemma reconciled_simps [simp]:
  "row_id (reconciled r c) = row_id r" "total_owed (reconciled r c) = total_owed r"
  "br_lease_id (reconciled r c) = br_lease_id r"
  by (simp_all add: reconciled_def apply_payment_eq total_owed_def)

lemma apply_to_record_Inr:
  assumes "apply_payment_to_billing_record r s = (Inr v, s')"
    and "get_row billing_records_tbl (row_id r) (working s) = Some r0"
  shows "working s' = billing_records_update (map_row (row_id r)
      (touch (clock s) (\<lambda>_. reconciled r (paid_for (row_id r) (working s))))) (working s)"
proof -
  have "apply_payment r c = Inr (reconciled r c)" for c
    by (simp add: reconciled_def apply_payment_eq)
  then have "\<exists>x. flush_record (reconciled r (paid_for (row_id r) (working s))) s = (Inr x, s')"
    using assms(1)
    by (auto simp: apply_payment_to_billing_record_def get_by_billing_record_def Let_def
        paid_for_query bnd_Inr_iff)
  then show ?thesis using assms(2) by (auto simp: flush_record_Inr)
qed

text \<open>Everything a successful \<open>create_payment\<close> does.\<close>

lemma create_payment_Inr:
  assumes "create_payment pl u s = (Inr p, s')"
  shows "payments (working s') = payments (working s) @ [p] \<and>
    pay_contract_id p = pay_c_contract_id pl \<and> billing_record_id p = pay_c_billing_record_id pl \<and>
    pay_amount p = pay_c_amount pl \<and> pay_status p = pay_c_status pl \<and>
    (case pay_c_billing_record_id pl of
       None \<Rightarrow> billing_records (working s') = billing_records (working s)
     | Some b \<Rightarrow>
         (\<exists>r l. get_row billing_records_tbl b (working s) = Some r \<and>
            get_row leases_tbl (br_lease_id r) (working s) = Some l \<and>
            lease_contract_id l = pay_c_contract_id pl \<and>
            billing_records (working s') = map_row b (touch (clock s)
              (\<lambda>_. reconciled r (paid_for b (working s')))) (billing_records (working s))))"
proof -
  from assms obtain br ref s1 s2 s3 s4 where
    rec: "(case pay_c_billing_record_id pl of None \<Rightarrow> ret None
        | Some b \<Rightarrow> bnd (get_billing_record_for_contract b (Some (pay_c_contract_id pl))) (\<lambda>r. ret (Some r))) s
      = (Inr br, s)"
    and r1: "resolve_reference_number (pay_c_method pl) (pay_c_reference pl) s = (Inr ref, s1)"
    and r2: "repo_create payments_tbl (new_payment (pay_c_contract_id pl) (pay_c_billing_record_id pl)
         (pay_c_amount pl) (pay_c_paid_at pl) (pay_c_method pl) (pay_c_status pl) ref None) s1 = (Inr p, s2)"
    and r3: "write_audit_log u CREATE ''Payment'' (row_id p) s2 = (Inr (), s3)"
    and r4: "(case br of None \<Rightarrow> ret () | Some r \<Rightarrow> apply_payment_to_billing_record r) s3 = (Inr (), s4)"
    and r5: "working s' = working s4"
    by (cases "pay_c_billing_record_id pl")
      (auto simp: create_payment_def bnd_Inr_iff prepare_payment_context_Inr
        get_billing_record_for_contract_Inr)
  from resolve_reference_Inr [OF r1] have s1: "working s1 = working s" "clock s1 = clock s" by auto
  from r2 s1 have s2: "working s2 = payments_update (\<lambda>ps. ps @ [p]) (working s)" "clock s2 = clock s"
    and p: "pay_contract_id p = pay_c_contract_id pl" "billing_record_id p = pay_c_billing_record_id pl"
      "pay_amount p = pay_c_amount pl" "pay_status p = pay_c_status pl"
    by (auto simp: repo_iffs)
  from r3 s2 have s3: "payments (working s3) = payments (working s) @ [p]"
    "billing_records (working s3) = billing_records (working s)" "clock s3 = clock s"
    by (auto simp: write_audit_log_iff)
  show ?thesis
  proof (cases "pay_c_billing_record_id pl")
    case None
    with rec r4 r5 p s3 show ?thesis by simp
  next
    case (Some b)
    with rec obtain r l where r: "br = Some r" "get_row billing_records_tbl b (working s) = Some r"
      "get_row leases_tbl (br_lease_id r) (working s) = Some l" "lease_contract_id l = pay_c_contract_id pl"
      by (auto simp: bnd_Inr_iff get_billing_record_for_contract_Inr)
    from get_row_id [OF r(2)] have i: "row_id r = b" .
    have g: "get_row billing_records_tbl (row_id r) (working s3) = Some r"
      using r(2) i s3(2) by (simp add: get_row_def build_query_def)
    from r(1) r4 have "apply_payment_to_billing_record r s3 = (Inr (), s4)" by simp
    from apply_to_record_Inr [OF this g] have w: "working s' = billing_records_update (map_row b
        (touch (clock s) (\<lambda>_. reconciled r (paid_for b (working s3))))) (working s3)"
      by (simp add: r5 i s3)
    moreover from w have "paid_for b (working s') = paid_for b (working s3)" by (simp add: paid_for_def)
    ultimately show ?thesis using Some p s3 r by auto
  qed
qed

section \<open>Reference numbers are distinct\<close>

lemma cash_reference_inj: "cash_reference m = cash_reference n \<Longrightarrow> m = n"
  by (simp add: cash_reference_def zero_pad_def) (metis decimal_val_decimal decimal_val_zeros)

section \<open>Properties\<close>

text \<open>
  C12. Recording a payment against a billing record reconciles the record in the same
  transaction, and touches no other record: a record that was still open becomes paid exactly
  when the payments that count now cover what is owed and partially paid otherwise; on a paid
  record the excess is kept as \<open>overpaid_amount\<close>; a written-off record is left alone, to the
  last field. Nothing but the status, the overpaid amount and the time stamp ever changes.
\<close>

theorem payment_reconciles_record:
  assumes "create_payment pl u s = (Inr p, s')" "pay_c_billing_record_id pl = Some b"
    and "get_row billing_records_tbl b (working s) = Some r" "schema_ok (working s)"
  shows "\<exists>r'. get_row billing_records_tbl b (committed s') = Some r' \<and>
    billing_records (committed s') = map_row b (\<lambda>_. r') (billing_records (working s)) \<and>
    (br_status r \<notin> {Paid, WrittenOff} \<longrightarrow>
       br_status r' = (if remaining r' (committed s') = 0 then Paid else PartiallyPaid)) \<and>
    (br_status r = Paid \<longrightarrow> br_status r' = Paid) \<and>
    (br_status r = WrittenOff \<longrightarrow> r' = r) \<and>
    overpaid_amount r' = (if br_status r' \<noteq> Paid then overpaid_amount r else
       let excess = paid_for b (committed s') - total_owed r in if 0 < excess then Some excess else None) \<and>
    r' = r\<lparr>br_status := br_status r', overpaid_amount := overpaid_amount r', updated_at := updated_at r'\<rparr>"
proof -
  have c: "committed s' = working s'" "schema_ok (working s')"
    using assms(1) atomic_payments(1) atomic_Inr atomic_schema by metis+
  from create_payment_Inr [OF assms(1)] assms(2,3) have
    t: "billing_records (working s') = map_row b (touch (clock s)
      (\<lambda>_. reconciled r (paid_for b (working s')))) (billing_records (working s))" by auto
  let ?r = "touch (clock s) (\<lambda>_. reconciled r (paid_for b (working s'))) r"
  from get_row_SomeD [OF assms(3)] have m: "r \<in> set (billing_records (working s))" "row_id r = b" by simp_all
  have "x = r" if "x \<in> set (billing_records (working s))" "row_id x = b" for x
    using distinct_ids_eq [OF schema_ok_keys(6) [OF assms(4)] that(1) m(1)] that(2) m(2) by simp
  then have all: "billing_records (working s') = map_row b (\<lambda>_. ?r) (billing_records (working s))"
    unfolding t map_row_def by (intro map_cong refl) auto
  have "?r \<in> set (billing_records (working s'))" using m by (auto simp: t set_map_row)
  then have "get_row billing_records_tbl b (working s') = Some ?r"
    using schema_ok_keys(6) [OF c(2)] m(2) by (simp add: get_row_Some_iff)
  moreover have "remaining ?r (working s') = max 0 (total_owed r - paid_for b (working s'))"
    using m(2) by (simp add: remaining_paid_for total_owed_def reconciled_def apply_payment_eq)
  moreover have "br_status ?r = (if br_status r = WrittenOff then WrittenOff
      else if br_status r = Paid \<or> total_owed r \<le> paid_for b (working s') then Paid else PartiallyPaid)"
    by (simp add: reconciled_def apply_payment_eq)
  moreover have "overpaid_amount ?r = (if br_status ?r \<noteq> Paid then overpaid_amount r else
      let excess = paid_for b (working s') - total_owed r in if 0 < excess then Some excess else None)"
    by (auto simp: reconciled_def apply_payment_eq Let_def split: if_splits)
  moreover have "br_status r = WrittenOff \<Longrightarrow> ?r = r"
    by (simp add: touch_def reconciled_def apply_payment_eq)
  moreover have "?r = r\<lparr>br_status := br_status ?r, overpaid_amount := overpaid_amount ?r, updated_at := updated_at ?r\<rparr>"
    by (simp add: touch_def reconciled_def apply_payment_eq Let_def)
  ultimately obtain r' where "get_row billing_records_tbl b (working s') = Some r'"
    "remaining r' (working s') = max 0 (total_owed r - paid_for b (working s'))"
    "billing_records (working s') = map_row b (\<lambda>_. r') (billing_records (working s))"
    "br_status r' = (if br_status r = WrittenOff then WrittenOff
      else if br_status r = Paid \<or> total_owed r \<le> paid_for b (working s') then Paid else PartiallyPaid)"
    "overpaid_amount r' = (if br_status r' \<noteq> Paid then overpaid_amount r else
      let excess = paid_for b (working s') - total_owed r in if 0 < excess then Some excess else None)"
    "br_status r = WrittenOff \<Longrightarrow> r' = r"
    "r' = r\<lparr>br_status := br_status r', overpaid_amount := overpaid_amount r', updated_at := updated_at r'\<rparr>"
    using all by blast
  then show ?thesis unfolding c(1) by (intro exI [of _ r'] conjI) auto
qed

theorem payment_reconciles_record_witness:
  "\<exists>r'. get_row billing_records_tbl 50 (committed (snd (create_payment
      \<lparr>pay_c_contract_id = 30, pay_c_billing_record_id = Some 50, pay_c_amount = 100000, pay_c_paid_at = 1,
       pay_c_method = Some ''cash'', pay_c_status = PAID, pay_c_reference = None\<rparr>
      mgr (session_of sample_tables)))) = Some r' \<and> br_status r' \<in> {Paid, PartiallyPaid}"
  (is "\<exists>r'. get_row _ _ (committed (snd (create_payment ?pl mgr ?s))) = _ \<and> _")
proof -
  have "\<not> isl (fst (create_payment ?pl mgr ?s))" by code_simp
  then obtain p where p: "create_payment ?pl mgr ?s = (Inr p, snd (create_payment ?pl mgr ?s))"
    by (blast dest: run_ok)
  have g: "get_row billing_records_tbl 50 (working ?s) = Some (sample_billing_record 50 40 Pending)" by code_simp
  have st: "br_status (sample_billing_record 50 40 Pending) = Pending" by (simp add: sample_billing_record_def)
  from payment_reconciles_record [OF p _ g] st show ?thesis
    by (auto simp: schema_ok_sample split: if_splits)
qed

text \<open>
  C13. Correcting a payment is append-only: the original keeps every field but its status,
  which becomes \<open>VOIDED\<close>, one new payment of the same contract that names the original is
  appended, and no other payment changes.
\<close>

theorem correction_is_append_only:
  assumes "void_and_correct_payment i pl u s = (Inr p, s')"
  shows "\<exists>orig. get_row payments_tbl i (working s) = Some orig \<and> pay_status orig \<noteq> VOIDED \<and>
    payments (committed s') =
      map_row i (touch (clock s) (\<lambda>q. q\<lparr>pay_status := VOIDED\<rparr>)) (payments (working s)) @ [p] \<and>
    corrects_payment_id p = Some i \<and> pay_contract_id p = pay_contract_id orig \<and>
    billing_records (committed s') = billing_records (working s) \<and> billing_record_id p = None"
proof -
  from assms obtain orig ref s1 s2 s3 where
    o: "get_row payments_tbl i (working s) = Some orig" "pay_status orig \<noteq> VOIDED"
    and r1: "resolve_reference_number (pay_k_method pl) (pay_k_reference pl) s = (Inr ref, s1)"
    and r2: "repo_create payments_tbl (new_payment (pay_contract_id orig) None (pay_k_amount pl)
      (pay_k_paid_at pl) (pay_k_method pl) (pay_k_status pl) ref (Some (row_id orig))) s1 = (Inr p, s2)"
    and r3: "\<exists>x. repo_update payments_tbl (row_id orig) [] (\<lambda>q. q\<lparr>pay_status := VOIDED\<rparr>) s2 = (Inr x, s3)"
    and s': "payments (working s') = payments (working s3)"
      "billing_records (working s') = billing_records (working s3)" "committed s' = working s'"
    by (auto simp: void_and_correct_payment_def bnd_Inr_iff get_payment_or_404_def
        prepare_payment_context_Inr write_audit_log_iff)
  from get_row_id [OF o(1)] have i: "row_id orig = i" .
  from resolve_reference_Inr [OF r1] have s1: "working s1 = working s" "clock s1 = clock s" by auto
  from r2 s1 i have p: "corrects_payment_id p = Some i" "pay_contract_id p = pay_contract_id orig"
      "billing_record_id p = None"
    and s2: "payments (working s2) = payments (working s) @ [p]" "schema_ok (working s2)"
      "billing_records (working s2) = billing_records (working s)" "clock s2 = clock s"
    by (auto simp: repo_iffs)
  have "distinct (ids (payments (working s) @ [p]))" using schema_ok_keys(7) [OF s2(2)] s2(1) by simp
  moreover have "i \<in> set (ids (payments (working s)))"
    using get_row_SomeD [OF o(1)] by (auto simp: ids_def)
  ultimately have "row_id p \<noteq> i" by auto
  moreover have "get_row payments_tbl i (working s2) = Some orig"
    using get_row_SomeD [OF o(1)] s2(1) schema_ok_keys(7) [OF s2(2)] by (simp add: get_row_Some_iff)
  ultimately have "payments (working s3) =
      map_row i (touch (clock s) (\<lambda>q. q\<lparr>pay_status := VOIDED\<rparr>)) (payments (working s)) @ [p]"
    "billing_records (working s3) = billing_records (working s)"
    using r3 s2(1,3,4) i by (auto simp: repo_update_Inr map_row_simps)
  with o p s' show ?thesis by auto
qed

theorem correction_is_append_only_witness:
  "\<exists>p. payments (committed (snd (void_and_correct_payment 60
       \<lparr>pay_k_amount = 200, pay_k_paid_at = 5, pay_k_method = None, pay_k_status = PAID, pay_k_reference = None\<rparr>
       mgr (session_of (sample_tables\<lparr>payments := [sample_payment 60 30 (Some 50) 30000 PAID]\<rparr>))))) =
     map_row 60 (touch 1000 (\<lambda>q. q\<lparr>pay_status := VOIDED\<rparr>)) [sample_payment 60 30 (Some 50) 30000 PAID] @ [p]"
  (is "\<exists>p. payments (committed (snd (void_and_correct_payment 60 ?pl mgr ?s))) = _")
proof -
  have "\<not> isl (fst (void_and_correct_payment 60 ?pl mgr ?s))" by code_simp
  from run_ok [of "void_and_correct_payment 60 ?pl mgr" ?s, OF this] obtain p where
    "void_and_correct_payment 60 ?pl mgr ?s = (Inr p, snd (void_and_correct_payment 60 ?pl mgr ?s))" ..
  from correction_is_append_only [OF this] have "payments (committed (snd (void_and_correct_payment 60 ?pl mgr ?s))) =
      map_row 60 (touch (clock ?s) (\<lambda>q. q\<lparr>pay_status := VOIDED\<rparr>)) (payments (working ?s)) @ [p]"
    by blast
  moreover have "clock ?s = 1000" "payments (working ?s) = [sample_payment 60 30 (Some 50) 30000 PAID]" by simp_all
  ultimately show ?thesis by metis
qed

text \<open>
  A voided payment is frozen: neither an update nor a second correction of it succeeds,
  and a caller who may manage its contract is told that it is already voided.
\<close>

theorem voided_payment_is_frozen:
  assumes "get_row payments_tbl i (working s) = Some p" "pay_status p = VOIDED"
  shows "isl (fst (update_payment i upl u s)) \<and> isl (fst (void_and_correct_payment i kpl u s)) \<and>
    (get_payment i u s = (Inr p, s) \<and> schema_ok (working s) \<longrightarrow>
       fst (update_payment i upl u s) = Inl (PaymentAlreadyVoidedError i) \<and>
       fst (void_and_correct_payment i kpl u s) = Inl (PaymentAlreadyVoidedError i))"
proof -
  have g: "get_payment_or_404 i s = (Inr p, s)" using assms(1) by (simp add: get_payment_or_404_def)
  let ?ctx = "prepare_payment_context u (Some p) (Some (pay_contract_id p)) s"
  have x: "fst (update_payment i upl u s) = (case ?ctx of (Inl e, _) \<Rightarrow> Inl e | _ \<Rightarrow> Inl (PaymentAlreadyVoidedError i))"
    "fst (void_and_correct_payment i kpl u s) = (case ?ctx of (Inl e, _) \<Rightarrow> Inl e | _ \<Rightarrow> Inl (PaymentAlreadyVoidedError i))"
    using assms(2) g by (auto simp: update_payment_def void_and_correct_payment_def bnd_def raise_if_def raise_def
        split: prod.splits sum.splits)
  have "\<exists>c. ?ctx = (Inr c, s)" if "get_payment i u s = (Inr p, s)" "schema_ok (working s)"
  proof -
    from get_row_SomeD [OF assms(1)] have "pay_contract_id p \<in> set (ids (contracts (working s)))"
      using schema_ok_refs(5) [OF that(2)] by simp
    moreover from this obtain ct where "get_row contracts_tbl (pay_contract_id p) (working s) = Some ct"
      using get_row_ex [of contracts_tbl "pay_contract_id p" "working s"] by auto
    ultimately show ?thesis
      using that by (auto simp: prepare_payment_context_Inr get_payment_Inr authorize_contract_iff)
  qed
  with x show ?thesis by (auto split: prod.splits sum.splits)
qed

theorem voided_payment_is_frozen_witness:
  "isl (fst (update_payment 60
     \<lparr>pay_u_amount = Some (Some 5), pay_u_paid_at = None, pay_u_method = None, pay_u_status = None, pay_u_reference = None\<rparr>
     ann (session_of (sample_tables\<lparr>payments := [sample_payment 60 30 None 30000 VOIDED]\<rparr>))))"
proof -
  have "get_row payments_tbl 60 (working (session_of (sample_tables\<lparr>payments := [sample_payment 60 30 None 30000 VOIDED]\<rparr>)))
      = Some (sample_payment 60 30 None 30000 VOIDED)" by code_simp
  from voided_payment_is_frozen [OF this] show ?thesis by (simp add: sample_payment_def)
qed

end
