(* ===== verification/Dashboard.thy ===== *)
theory Dashboard
  imports Payments Calendar
begin

text \<open>
  The landlord's dashboard: the aggregate queries of BillingRecordRepository and
  PaymentRepository (app/billing/repositories) and DashboardService
  (app/billing/services/dashboard_service.py), seven figures for an administrator and the
  same seven for what a manager owns.
\<close>

section \<open>Aggregates\<close>

text \<open>The joins to lease, contract and property, all along primary keys.\<close>

definition record_visible :: "uuid \<Rightarrow> tables \<Rightarrow> billing_record \<Rightarrow> bool" where
  "record_visible m t r \<longleftrightarrow> br_lease_id r \<in> set (ids (filter (lease_visible m t) (leases t)))"

definition unpaid :: "billing_record \<Rightarrow> bool" where
  "unpaid r \<longleftrightarrow> br_status r \<in> set UNPAID_STATUSES"

definition sum_outstanding :: "money svc" where
  "sum_outstanding = query (\<lambda>t. \<Sum>r\<leftarrow>filter unpaid (billing_records t). total_owed r)"

definition sum_outstanding_for_manager :: "uuid \<Rightarrow> money svc" where
  "sum_outstanding_for_manager m =
     query (\<lambda>t. \<Sum>r\<leftarrow>filter (\<lambda>r. unpaid r \<and> record_visible m t r) (billing_records t). total_owed r)"

definition sum_credits :: "money svc" where
  "sum_credits =
     query (\<lambda>t. \<Sum>r\<leftarrow>filter (\<lambda>r. overpaid_amount r \<noteq> None) (billing_records t). the (overpaid_amount r))"

definition sum_credits_for_manager :: "uuid \<Rightarrow> money svc" where
  "sum_credits_for_manager m =
     query (\<lambda>t. \<Sum>r\<leftarrow>filter (\<lambda>r. overpaid_amount r \<noteq> None \<and> record_visible m t r) (billing_records t).
       the (overpaid_amount r))"

definition with_grace :: "tables \<Rightarrow> billing_record list \<Rightarrow> (billing_record \<times> int) list" where
  "with_grace t rs = concat (map (\<lambda>r. map (\<lambda>l. (r, grace_period_days l))
     (filter (\<lambda>l. row_id l = br_lease_id r) (leases t))) rs)"

text \<open>The SELECT has no ORDER BY; the rows come in the order of the table, one of those PostgreSQL may choose.\<close>

definition get_unpaid_with_grace :: "(billing_record \<times> int) list svc" where
  "get_unpaid_with_grace = query (\<lambda>t. with_grace t (filter unpaid (billing_records t)))"

definition get_unpaid_with_grace_for_manager :: "uuid \<Rightarrow> (billing_record \<times> int) list svc" where
  "get_unpaid_with_grace_for_manager m =
     query (\<lambda>t. with_grace t (filter (\<lambda>r. unpaid r \<and> record_visible m t r) (billing_records t)))"

definition collected :: "instant \<Rightarrow> instant \<Rightarrow> payment \<Rightarrow> bool" where
  "collected st en p \<longleftrightarrow> pay_status p = PAID \<and> st \<le> paid_at p \<and> paid_at p \<le> en"

definition sum_collected :: "instant \<Rightarrow> instant \<Rightarrow> money svc" where
  "sum_collected st en = query (\<lambda>t. \<Sum>p\<leftarrow>filter (collected st en) (payments t). pay_amount p)"

definition sum_collected_for_manager :: "uuid \<Rightarrow> instant \<Rightarrow> instant \<Rightarrow> money svc" where
  "sum_collected_for_manager m st en =
     query (\<lambda>t. \<Sum>p\<leftarrow>filter (\<lambda>p. payment_visible m t p \<and> collected st en p) (payments t). pay_amount p)"

definition latest_paid :: "int \<Rightarrow> payment list \<Rightarrow> payment list" where
  "latest_paid limit ps = take (nat (min (max 0 limit) 100)) (sort_key (\<lambda>p. (- paid_at p, row_id p)) ps)"

definition get_recent :: "int \<Rightarrow> payment list svc" where
  "get_recent limit = query (\<lambda>t. latest_paid limit (payments t))"

definition get_recent_for_manager :: "uuid \<Rightarrow> int \<Rightarrow> payment list svc" where
  "get_recent_for_manager m limit = query (\<lambda>t. latest_paid limit (filter (payment_visible m t) (payments t)))"

section \<open>DashboardService\<close>

definition require_manager_or_admin :: "user \<Rightarrow> user_role svc" where
  "require_manager_or_admin current_user =
     bnd (raise_if (role current_user \<notin> {ADMIN, MANAGER})
            (ResourceForbiddenError DashboardForbidden ''User not authorized to view dashboard figures.'')) (\<lambda>_.
     ret (role current_user))"

text \<open>A figure of the whole portfolio for an administrator, the scoped one for a manager.\<close>

definition figure :: "user \<Rightarrow> 'a svc \<Rightarrow> (uuid \<Rightarrow> 'a svc) \<Rightarrow> 'a svc" where
  "figure current_user whole scoped =
     bnd (require_manager_or_admin current_user) (\<lambda>r.
     if r = ADMIN then whole else scoped (row_id current_user))"

definition vacant_units :: "user \<Rightarrow> nat svc" where
  "vacant_units current_user = figure current_user count_vacant count_vacant_for_manager"

definition outstanding :: "user \<Rightarrow> money svc" where
  "outstanding current_user = figure current_user sum_outstanding sum_outstanding_for_manager"

definition total_credits :: "user \<Rightarrow> money svc" where
  "total_credits current_user = figure current_user sum_credits sum_credits_for_manager"

text \<open>
  The UTC day of an instant, the first and the last day of its month, and the instants
  \<open>datetime.combine(first, time.min)\<close> and \<open>datetime.combine(last, time.max)\<close>.
\<close>

definition DAY :: int where "DAY = 86400000000"

definition day_number :: "instant \<Rightarrow> nat" where
  "day_number n = nat (n div DAY)"

definition first_of_month :: "nat \<Rightarrow> nat" where
  "first_of_month day = (case ymd day of (y, m, d) \<Rightarrow> day - (d - 1))"

definition last_day_of_month :: "nat \<Rightarrow> nat" where
  "last_day_of_month day = (case ymd day of (y, m, d) \<Rightarrow> day + (month_lengths y ! (m - 1) - d))"

definition month_start :: "instant \<Rightarrow> instant" where
  "month_start n = int (first_of_month (day_number n)) * DAY"

definition month_end :: "instant \<Rightarrow> instant" where
  "month_end n = int (last_day_of_month (day_number n)) * DAY + (DAY - 1)"

definition collected_this_month :: "user \<Rightarrow> money svc" where
  "collected_this_month current_user =
     bnd (require_manager_or_admin current_user) (\<lambda>r.
     bnd now (\<lambda>n.
     if r = ADMIN then sum_collected (month_start n) (month_end n)
     else sum_collected_for_manager (row_id current_user) (month_start n) (month_end n)))"

definition late_payments :: "user \<Rightarrow> billed list svc" where
  "late_payments current_user =
     bnd (figure current_user get_unpaid_with_grace get_unpaid_with_grace_for_manager) (\<lambda>found.
     bnd date_today (\<lambda>today.
     attach_remaining_balance (map fst (filter (\<lambda>(r, grace). due_date r + grace < today) found))))"

definition expiring_leases :: "user \<Rightarrow> int \<Rightarrow> lease list svc" where
  "expiring_leases current_user lookahead_days =
     bnd (require_manager_or_admin current_user) (\<lambda>r.
     bnd date_today (\<lambda>today.
     if r = ADMIN then get_expiring today (today + lookahead_days)
     else get_expiring_for_manager (row_id current_user) today (today + lookahead_days)))"

definition recent_payments :: "user \<Rightarrow> int \<Rightarrow> payment list svc" where
  "recent_payments current_user limit =
     figure current_user (get_recent limit) (\<lambda>m. get_recent_for_manager m limit)"

text \<open>The route: the seven figures one after the other.\<close>

record dashboard_summary =
  sum_collected_this_month :: money
  sum_owed :: money
  sum_credit :: money
  late :: "billed list"
  vacant :: nat
  expiring_soon :: "lease list"
  recent :: "payment list"

definition get_dashboard_summary :: "user \<Rightarrow> int \<Rightarrow> int \<Rightarrow> dashboard_summary svc" where
  "get_dashboard_summary current_user lookahead limit =
     bnd (collected_this_month current_user) (\<lambda>c.
     bnd (outstanding current_user) (\<lambda>out.
     bnd (total_credits current_user) (\<lambda>cr.
     bnd (late_payments current_user) (\<lambda>lp.
     bnd (vacant_units current_user) (\<lambda>v.
     bnd (expiring_leases current_user lookahead) (\<lambda>el.
     bnd (recent_payments current_user limit) (\<lambda>rp.
     ret \<lparr>sum_collected_this_month = c, sum_owed = out, sum_credit = cr, late = lp, vacant = v,
           expiring_soon = el, recent = rp\<rparr>)))))))"

lemmas dashboard_code [code] = fun_cong [OF require_manager_or_admin_def] fun_cong [OF figure_def]
  fun_cong [OF collected_this_month_def] fun_cong [OF late_payments_def] fun_cong [OF expiring_leases_def]
  fun_cong [OF get_dashboard_summary_def]

section \<open>Lemmas\<close>

lemma require_manager_or_admin_Inr [simp]:
  "require_manager_or_admin u s = (Inr r, s') \<longleftrightarrow> role u \<noteq> USER \<and> r = role u \<and> s' = s"
  by (cases "role u") (auto simp: require_manager_or_admin_def bnd_Inr_iff)

lemma figure_eq:
  "role u = ADMIN \<Longrightarrow> figure u a b s = a s"
  "role u = MANAGER \<Longrightarrow> figure u a b s = b (row_id u) s"
  "role u = USER \<Longrightarrow> fst (figure u a b s) =
     Inl (ResourceForbiddenError DashboardForbidden ''User not authorized to view dashboard figures.'')"
  by (simp_all add: figure_def require_manager_or_admin_def bnd_def raise_if_def ret_def raise_def)

lemma set_with_grace: "(r, g) \<in> set (with_grace t rs) \<longleftrightarrow>
    r \<in> set rs \<and> (\<exists>l\<in>set (leases t). row_id l = br_lease_id r \<and> g = grace_period_days l)"
  by (auto simp: with_grace_def)

section \<open>One manager for each row\<close>

lemma id_filter_iff:
  assumes "distinct (ids xs)" "x \<in> set xs"
  shows "row_id x \<in> set (ids (filter P xs)) \<longleftrightarrow> P x"
proof -
  have "set (ids (filter P xs)) = row_id ` {y \<in> set xs. P y}" by (simp add: ids_def)
  with assms show ?thesis by (auto dest: distinct_ids_eq)
qed

text \<open>Every contract, lease, record and payment belongs to one property, hence to its manager.\<close>

lemma contract_anchor:
  assumes "schema_ok t" "i \<in> set (ids (contracts t))"
  shows "\<exists>p\<in>set (properties t). \<forall>m. i \<in> set (owned_contract_ids m t) \<longleftrightarrow> manager_id p = Some m"
proof -
  from assms(2) obtain c where c: "c \<in> set (contracts t)" "i = row_id c" by (auto simp: ids_def)
  from schema_ok_refs(1) [OF assms(1) c(1)] obtain p
    where p: "p \<in> set (properties t)" "contract_property_id c = row_id p" by (auto simp: ids_def)
  have "i \<in> set (owned_contract_ids m t) \<longleftrightarrow> manager_id p = Some m" for m
    unfolding owned_contract_ids_def c(2) id_filter_iff [OF schema_ok_keys(4) [OF assms(1)] c(1)] p(2)
      owned_property_ids_def id_filter_iff [OF schema_ok_keys(2) [OF assms(1)] p(1)] ..
  with p show ?thesis by blast
qed

lemma record_anchor:
  assumes "schema_ok t" "r \<in> set (billing_records t)"
  shows "\<exists>p\<in>set (properties t). \<forall>m. record_visible m t r \<longleftrightarrow> manager_id p = Some m"
proof -
  from schema_ok_refs(4) [OF assms] obtain l
    where l: "l \<in> set (leases t)" "br_lease_id r = row_id l" by (auto simp: ids_def)
  have "record_visible m t r \<longleftrightarrow> lease_contract_id l \<in> set (owned_contract_ids m t)" for m
    unfolding record_visible_def l(2) id_filter_iff [OF schema_ok_keys(5) [OF assms(1)] l(1)] lease_visible_def ..
  then show ?thesis using contract_anchor [OF assms(1) schema_ok_refs(3) [OF assms(1) l(1)]] by simp
qed

lemma payment_anchor:
  assumes "schema_ok t" "p \<in> set (payments t)"
  shows "\<exists>q\<in>set (properties t). \<forall>m. payment_visible m t p \<longleftrightarrow> manager_id q = Some m"
  using contract_anchor [OF assms(1) schema_ok_refs(5) [OF assms]] by (simp add: payment_visible_def)

definition manages_all :: "user list \<Rightarrow> tables \<Rightarrow> bool" where
  "manages_all ms t \<longleftrightarrow> distinct (map row_id ms) \<and> list_all (\<lambda>m. role m = MANAGER) ms \<and>
     list_all (\<lambda>p. \<exists>m\<in>set ms. manager_id p = Some (row_id m)) (properties t)"

text \<open>Summing the shares of all managers gives the sum over all rows.\<close>

lemma sum_one_share:
  fixes c :: int
  assumes "distinct (map row_id ms)" "m \<in> set ms"
  shows "(\<Sum>k\<leftarrow>ms. if row_id k = row_id m then c else 0) = c"
  using assms
proof (induction ms)
  case (Cons k ms)
  have z: "(\<Sum>k\<leftarrow>ks. if row_id k = i then c else 0) = 0" if "i \<notin> row_id ` set ks" for i ks
    using that by (induction ks) auto
  show ?case using Cons by (auto simp: z)
qed simp

lemma shares_add_up:
  fixes f :: "'a \<Rightarrow> int"
  assumes "manages_all ms t"
    and "\<And>x. x \<in> set xs \<Longrightarrow> \<exists>p\<in>set (properties t). \<forall>m. V m x \<longleftrightarrow> manager_id p = Some m"
  shows "(\<Sum>m\<leftarrow>ms. \<Sum>x\<leftarrow>filter (\<lambda>x. P x \<and> V (row_id m) x) xs. f x) = (\<Sum>x\<leftarrow>filter P xs. f x)"
  using assms(2)
proof (induction xs)
  case (Cons x xs)
  from Cons.prems [of x] assms(1) obtain m
    where m: "m \<in> set ms" "\<And>k. V k x \<longleftrightarrow> k = row_id m"
    by (fastforce simp: manages_all_def list_all_iff)
  have "(\<Sum>k\<leftarrow>ms. \<Sum>x\<leftarrow>filter (\<lambda>x. P x \<and> V (row_id k) x) (x # xs). f x) =
      (\<Sum>k\<leftarrow>ms. (if row_id k = row_id m then (if P x then f x else 0) else 0) +
        (\<Sum>x\<leftarrow>filter (\<lambda>x. P x \<and> V (row_id k) x) xs. f x))"
    by (intro arg_cong [of _ _ sum_list] map_cong) (auto simp: m(2))
  also have "\<dots> = (if P x then f x else 0) + (\<Sum>x\<leftarrow>filter P xs. f x)"
    using Cons assms(1) m(1) by (simp add: sum_list_addf sum_one_share manages_all_def)
  finally show ?case by simp
qed simp

section \<open>The window of a month\<close>

lemma month_interval:
  assumes "0 \<le> n" "0 \<le> p"
  shows "month_start n \<le> p \<and> p \<le> month_end n \<longleftrightarrow>
    first_of_month (day_number n) \<le> day_number p \<and> day_number p \<le> last_day_of_month (day_number n)"
proof -
  have p: "p = int (day_number p) * DAY + p mod DAY" "0 \<le> p mod DAY" "p mod DAY < DAY"
    using assms(2) by (simp_all add: day_number_def DAY_def pos_imp_zdiv_nonneg_iff)
  have s: "int a * DAY \<le> p \<longleftrightarrow> a \<le> day_number p" for a
  proof
    assume "int a * DAY \<le> p"
    then have "int a * DAY < (int (day_number p) + 1) * DAY" using p by (simp add: distrib_right)
    then show "a \<le> day_number p" by (simp add: DAY_def)
  next
    assume "a \<le> day_number p"
    then have "int a * DAY \<le> int (day_number p) * DAY" by (intro mult_right_mono) (simp_all add: DAY_def)
    with p show "int a * DAY \<le> p" by linarith
  qed
  have "p \<le> int b * DAY + (DAY - 1) \<longleftrightarrow> day_number p \<le> b" for b
    using s [of "Suc b"] by (auto simp: distrib_right)
  with s show ?thesis by (simp add: month_start_def month_end_def)
qed

definition same_month :: "instant \<Rightarrow> instant \<Rightarrow> bool" where
  "same_month n p \<longleftrightarrow> (case (ymd (day_number n), ymd (day_number p)) of
     ((y, m, _), (y', m', _)) \<Rightarrow> y = y' \<and> m = m')"

lemma month_window:
  assumes "0 \<le> n" "0 \<le> p"
  shows "month_start n \<le> p \<and> p \<le> month_end n \<longleftrightarrow> same_month n p"
proof -
  obtain y m d where n: "ymd (day_number n) = (y, m, d)" by (metis prod_cases3)
  obtain y' m' d' where p: "ymd (day_number p) = (y', m', d')" by (metis prod_cases3)
  show ?thesis
    unfolding month_interval [OF assms] first_of_month_def last_day_of_month_def n prod.case
      same_month_iff [OF n, symmetric]
    using n p by (auto simp: same_month_def)
qed

section \<open>What the figures mean\<close>

lemma collected_eq:
  "role u \<noteq> USER \<Longrightarrow> collected_this_month u s = (Inr (\<Sum>p\<leftarrow>filter (\<lambda>p.
       collected (month_start (clock s)) (month_end (clock s)) p \<and>
       (role u = ADMIN \<or> payment_visible (row_id u) (working s) p)) (payments (working s)). pay_amount p), s)"
  by (cases "role u") (auto simp: collected_this_month_def require_manager_or_admin_def sum_collected_def
      sum_collected_for_manager_def query_def raise_if_def bnd_def ret_def now_def conj_commute)

lemmas figure_defs = outstanding_def total_credits_def vacant_units_def figure_eq sum_outstanding_def
  sum_outstanding_for_manager_def sum_credits_def sum_credits_for_manager_def count_vacant_def
  count_vacant_for_manager_def repo_count_def query_def

lemma int_sum_list: "int (\<Sum>x\<leftarrow>xs. f x) = (\<Sum>x\<leftarrow>xs. int (f x))"
  by (induction xs) simp_all

lemma length_filter_sum: "int (length (filter P xs)) = (\<Sum>x\<leftarrow>filter P xs. 1)"
  by (induction xs) simp_all

text \<open>
  C26. The figures a manager sees are that manager's share of the administrator's: over any list
  of managers that covers every property once, the outstanding amounts, the credits, this
  month's collections and the vacant units add up to what the administrator is shown.
\<close>

theorem manager_figures_add_up:
  assumes "schema_ok (working s)" "manages_all ms (working s)" "role a = ADMIN"
  shows "fst (outstanding a s) = Inr (\<Sum>m\<leftarrow>ms. projr (fst (outstanding m s))) \<and>
    fst (total_credits a s) = Inr (\<Sum>m\<leftarrow>ms. projr (fst (total_credits m s))) \<and>
    fst (collected_this_month a s) = Inr (\<Sum>m\<leftarrow>ms. projr (fst (collected_this_month m s))) \<and>
    fst (vacant_units a s) = Inr (\<Sum>m\<leftarrow>ms. projr (fst (vacant_units m s)))"
proof (intro conjI)
  let ?t = "working s"
  from assms(2) have r: "m \<in> set ms \<Longrightarrow> role m = MANAGER" for m
    by (simp add: manages_all_def list_all_iff)
  note add = shares_add_up [OF assms(2), symmetric] record_anchor [OF assms(1)] payment_anchor [OF assms(1)]
  show "fst (outstanding a s) = Inr (\<Sum>m\<leftarrow>ms. projr (fst (outstanding m s)))"
    using add(1) [OF add(2), where P = unpaid and f = total_owed]
    by (simp add: figure_defs r assms(3) cong: map_cong)
  show "fst (total_credits a s) = Inr (\<Sum>m\<leftarrow>ms. projr (fst (total_credits m s)))"
    using add(1) [OF add(2), where P = "\<lambda>r. overpaid_amount r \<noteq> None" and f = "\<lambda>r. the (overpaid_amount r)"]
    by (simp add: figure_defs r assms(3) cong: map_cong)
  show "fst (collected_this_month a s) = Inr (\<Sum>m\<leftarrow>ms. projr (fst (collected_this_month m s)))"
    using add(1) [OF add(3), where P = "collected (month_start (clock s)) (month_end (clock s))" and f = pay_amount]
    by (simp add: collected_eq r assms(3) cong: map_cong)
  have "int (length (filter (\<lambda>p. prop_status p = Vacant) (properties ?t))) =
      int (\<Sum>m\<leftarrow>ms. length (filter (\<lambda>p. prop_status p = Vacant \<and> manager_id p = Some (row_id m)) (properties ?t)))"
    using add(1) [of "properties ?t" "\<lambda>m p. manager_id p = Some m" "\<lambda>_. 1" "\<lambda>p. prop_status p = Vacant"]
    by (simp only: length_filter_sum int_sum_list) blast
  then show "fst (vacant_units a s) = Inr (\<Sum>m\<leftarrow>ms. projr (fst (vacant_units m s)))"
    by (simp only: of_nat_eq_iff) (simp add: figure_defs r assms(3) cong: map_cong)
qed

definition sample_month :: tables where
  "sample_month = sample_tables\<lparr>
     properties := [sample_property 10 ''Villa'' (Some 2) Occupied, sample_property 11 ''Loft'' (Some 3) Vacant],
     contracts := [sample_contract 30 10 20 ContractActive, sample_contract 31 11 21 ContractTerminated],
     payments := [sample_payment 500 30 (Some 50) 30000 PAID, sample_payment 501 31 None 500 PAID,
       (sample_payment 502 31 None 900 PAID)\<lparr>paid_at := 4000000000000\<rparr>]\<rparr>"

theorem manager_figures_add_up_witness:
  "fst (collected_this_month ann (session_of sample_month)) = Inr (30000 + 500) \<and>
   fst (outstanding ann (session_of sample_month)) = Inr (100000 + 0)"
proof -
  have "schema_ok sample_month" "manages_all [mgr, mia] sample_month" "role ann = ADMIN" by code_simp+
  moreover have "projr (fst (collected_this_month mgr (session_of sample_month))) = 30000"
    "projr (fst (collected_this_month mia (session_of sample_month))) = 500"
    "projr (fst (outstanding mgr (session_of sample_month))) = 100000"
    "projr (fst (outstanding mia (session_of sample_month))) = 0"
    by code_simp+
  ultimately show ?thesis
    using manager_figures_add_up [of "session_of sample_month" "[mgr, mia]" ann] by simp
qed

text \<open>
  C27. The collections of this month are exactly the paid payments dated, in UTC, in the month
  and year of the current instant: the window from the first midnight to the last
  microsecond of the last day misses none, and takes none of a neighbouring month.
\<close>

theorem collected_month_exact:
  assumes "role a = ADMIN" "0 \<le> clock s" "\<And>p. p \<in> set (payments (working s)) \<Longrightarrow> 0 \<le> paid_at p"
  shows "collected_this_month a s = (Inr (\<Sum>p\<leftarrow>filter (\<lambda>p. pay_status p = PAID \<and>
    same_month (clock s) (paid_at p)) (payments (working s)). pay_amount p), s)"
proof -
  have "filter (collected (month_start (clock s)) (month_end (clock s))) (payments (working s)) =
      filter (\<lambda>p. pay_status p = PAID \<and> same_month (clock s) (paid_at p)) (payments (working s))"
    using month_window [OF assms(2,3)] by (intro filter_cong) (auto simp: collected_def)
  then show ?thesis using assms(1) by (simp add: collected_eq)
qed

theorem collected_month_exact_witness:
  "collected_this_month ann (session_of sample_month) = (Inr 30500, session_of sample_month)"
proof -
  have "role ann = ADMIN" by code_simp
  moreover have "\<forall>p\<in>set (payments sample_month). 0 \<le> paid_at p" by code_simp
  moreover have "(\<Sum>p\<leftarrow>filter (\<lambda>p. pay_status p = PAID \<and> same_month 1000 (paid_at p))
      (payments sample_month). pay_amount p) = 30500" by code_simp
  ultimately show ?thesis using collected_month_exact [of ann "session_of sample_month"] by simp
qed

text \<open>Each record joins exactly one lease.\<close>

definition grace_of :: "tables \<Rightarrow> billing_record \<Rightarrow> int" where
  "grace_of t r = (case get_row leases_tbl (br_lease_id r) t of None \<Rightarrow> 0 | Some l \<Rightarrow> grace_period_days l)"

lemma filter_own_id:
  assumes "distinct (ids xs)" "x \<in> set xs"
  shows "filter (\<lambda>y. row_id y = row_id x) xs = [x]"
  using assms
proof (induction xs)
  case (Cons y ys)
  show ?case
  proof (cases "y = x")
    case True
    with Cons.prems(1) have "\<forall>z\<in>set ys. row_id z \<noteq> row_id x"
      by (simp add: ids_def) (metis image_eqI)
    with True show ?thesis by (simp add: filter_empty_conv)
  next
    case False
    with Cons.prems have "x \<in> set ys" "row_id y \<noteq> row_id x" by (auto simp: ids_def)
    with Cons show ?thesis by simp
  qed
qed simp

lemma with_grace_eq:
  assumes "schema_ok t" "set rs \<subseteq> set (billing_records t)"
  shows "with_grace t rs = map (\<lambda>r. (r, grace_of t r)) rs"
  using assms(2)
proof (induction rs)
  case (Cons r rs)
  then have "br_lease_id r \<in> set (ids (leases t))" using schema_ok_refs(4) [OF assms(1)] by simp
  then obtain l where l: "l \<in> set (leases t)" "row_id l = br_lease_id r" by (auto simp: ids_def)
  have "filter (\<lambda>k. row_id k = row_id l) (leases t) = [l]"
    by (rule filter_own_id [OF schema_ok_keys(5) [OF assms(1)] l(1)])
  moreover have "get_row leases_tbl (row_id l) t = Some l"
    using l(1) schema_ok_keys(5) [OF assms(1)] by (simp add: get_row_Some_iff)
  ultimately show ?case using Cons l(2) by (simp add: with_grace_def grace_of_def)
qed (simp add: with_grace_def)

text \<open>
  The late payments shown to an administrator or a manager are exactly the unpaid records
  (of the manager's own leases) whose due date plus the lease's grace period has passed today,
  each once, with the balance that payments leave open; a plain user is refused.
\<close>

theorem late_payments_exact:
  assumes "schema_ok (working s)"
  shows "late_payments u s =
    (if role u = USER
     then (Inl (ResourceForbiddenError DashboardForbidden ''User not authorized to view dashboard figures.''), s)
     else (Inr (map (\<lambda>r. (r, remaining r (working s))) (filter (\<lambda>r. unpaid r \<and>
        (role u = ADMIN \<or> record_visible (row_id u) (working s) r) \<and>
        due_date r + grace_of (working s) r < local_today s) (billing_records (working s)))), s))"
proof -
  have f: "figure u get_unpaid_with_grace get_unpaid_with_grace_for_manager s =
      (if role u = USER
       then (Inl (ResourceForbiddenError DashboardForbidden ''User not authorized to view dashboard figures.''), s)
       else (Inr (map (\<lambda>r. (r, grace_of (working s) r)) (filter (\<lambda>r. unpaid r \<and>
          (role u = ADMIN \<or> record_visible (row_id u) (working s) r)) (billing_records (working s)))), s))"
    by (cases "role u")
      (simp_all add: figure_def require_manager_or_admin_def bnd_def raise_if_def ret_def raise_def query_def
        get_unpaid_with_grace_def get_unpaid_with_grace_for_manager_def with_grace_eq [OF assms] subset_iff)
  show ?thesis
    by (simp add: late_payments_def f bnd_def date_today_def attach_remaining_balance_eq remaining_def
        filter_map comp_def conj_commute conj_left_commute cong: filter_cong)
qed

theorem late_payments_exact_witness:
  "late_payments mgr (session_of sample_month) =
     (Inr [(sample_billing_record 50 40 Pending, 70000)], session_of sample_month)"
proof -
  have "schema_ok sample_month" "role mgr = MANAGER" by code_simp+
  moreover have "filter (\<lambda>r. unpaid r \<and> (role mgr = ADMIN \<or> record_visible (row_id mgr) sample_month r) \<and>
      due_date r + grace_of sample_month r < 738100) (billing_records sample_month) =
      [sample_billing_record 50 40 Pending]" by code_simp
  moreover have "remaining (sample_billing_record 50 40 Pending) sample_month = 70000" by code_simp
  ultimately show ?thesis using late_payments_exact [of "session_of sample_month" mgr] by simp
qed

text \<open>
  The outstanding figure ignores part payments: it is the sum of the balances that are open
  plus what has already been paid on the records that are not settled.
\<close>

theorem outstanding_counts_paid_parts:
  assumes "role a = ADMIN"
  shows "outstanding a s = (Inr (\<Sum>r\<leftarrow>filter unpaid (billing_records (working s)).
    remaining r (working s) + min (total_owed r) (paid_for (row_id r) (working s))), s)"
proof -
  have "remaining r t + min (total_owed r) (paid_for (row_id r) t) = total_owed r" for r t
    by (simp add: remaining_paid_for)
  then show ?thesis using assms by (simp add: figure_defs)
qed

theorem outstanding_counts_paid_parts_witness:
  "outstanding ann (session_of sample_month) = (Inr (70000 + 30000), session_of sample_month)"
proof -
  have "role ann = ADMIN" by code_simp
  moreover have "(\<Sum>r\<leftarrow>filter unpaid (billing_records sample_month).
    remaining r sample_month + min (total_owed r) (paid_for (row_id r) sample_month)) = 70000 + 30000" by code_simp
  ultimately show ?thesis using outstanding_counts_paid_parts [of ann "session_of sample_month"] by simp
qed

end
