(* ===== verification/Storage.thy ===== *)
theory Storage
  imports Startup Samples
begin

text \<open>
  The object store and the uploads (the storage half of
  app/documents/services/document_service.py): the MinIO client as a parameter, the programs
  that run on a session next to a store, reading and checking an uploaded file, and the keys
  under which files are stored. Files are strings of bytes.
\<close>

section \<open>The storage client\<close>

text \<open>
  The three calls of the MinIO client that the program makes. A call that raises returns
  \<open>False\<close> or \<open>None\<close>; \<open>'w\<close> is the state of the store, which a failed call may change too.
\<close>

record 'w storage_client =
  put_object :: "string \<Rightarrow> string \<Rightarrow> string \<Rightarrow> string \<Rightarrow> 'w \<Rightarrow> bool \<times> 'w"
  get_object :: "string \<Rightarrow> string \<Rightarrow> 'w \<Rightarrow> string option \<times> 'w"
  remove_object :: "string \<Rightarrow> string \<Rightarrow> 'w \<Rightarrow> bool \<times> 'w"

text \<open>A store maps a bucket and a key to the bytes and the content type of an object.\<close>

type_synonym objects = "string \<times> string \<Rightarrow> (string \<times> string) option"

text \<open>
  The documented behaviour: an accepted \<open>put_object\<close> is read back, \<open>remove_object\<close> deletes,
  and a failed call has either happened or not; no call touches another key.
\<close>

definition storage_spec :: "'w storage_client \<Rightarrow> ('w \<Rightarrow> objects) \<Rightarrow> bool" where
  "storage_spec cl view \<longleftrightarrow>
     (\<forall>b k d ct w. case put_object cl b k d ct w of
        (True, w') \<Rightarrow> view w' = (view w)((b, k) \<mapsto> (d, ct))
      | (False, w') \<Rightarrow> view w' \<in> {view w, (view w)((b, k) \<mapsto> (d, ct))}) \<and>
     (\<forall>b k w. case get_object cl b k w of
        (Some d, w') \<Rightarrow> (\<exists>ct. view w (b, k) = Some (d, ct)) \<and> view w' = view w
      | (None, w') \<Rightarrow> view w' = view w) \<and>
     (\<forall>b k w. case remove_object cl b k w of
        (True, w') \<Rightarrow> view w' = (view w)((b, k) := None)
      | (False, w') \<Rightarrow> view w' \<in> {view w, (view w)((b, k) := None)})"

text \<open>Programs over a session and a store: a step is taken on one of the two.\<close>

type_synonym ('w, 'a) stored = "(session \<times> 'w, 'a) prog"

fun with_store :: "'w \<Rightarrow> 'a result \<times> session \<Rightarrow> 'a result \<times> session \<times> 'w" where
  "with_store w (r, s) = (r, s, w)"

fun with_session :: "session \<Rightarrow> 'a result \<times> 'w \<Rightarrow> 'a result \<times> session \<times> 'w" where
  "with_session s (r, w) = (r, s, w)"

definition in_db :: "'a svc \<Rightarrow> ('w, 'a) stored" where
  "in_db m sw = with_store (snd sw) (m (fst sw))"

definition in_store :: "('w, 'a) prog \<Rightarrow> ('w, 'a) stored" where
  "in_store m sw = with_session (fst sw) (m (snd sw))"

section \<open>Storage operations of the document service\<close>

definition put_file :: "settings \<Rightarrow> 'w storage_client \<Rightarrow> string \<Rightarrow> string \<Rightarrow> string \<Rightarrow> ('w, unit) prog" where
  "put_file cfg cl key data content_type w =
     (case put_object cl (MINIO_BUCKET_NAME cfg) key data content_type w of
        (True, w') \<Rightarrow> (Inr (), w')
      | (False, w') \<Rightarrow> (Inl (DocumentUploadError ''Storage upload failed''), w'))"

definition delete_from_storage :: "settings \<Rightarrow> 'w storage_client \<Rightarrow> string \<Rightarrow> ('w, unit) prog" where
  "delete_from_storage cfg cl key w =
     (case remove_object cl (MINIO_BUCKET_NAME cfg) key w of
        (True, w') \<Rightarrow> (Inr (), w')
      | (False, w') \<Rightarrow> (Inl DocumentDeletionError, w'))"

text \<open>\<open>except DocumentDeletionError\<close>: the orphan is logged, nothing is raised.\<close>

definition discard_object :: "settings \<Rightarrow> 'w storage_client \<Rightarrow> string \<Rightarrow> ('w, unit) prog" where
  "discard_object cfg cl key =
     try_except (delete_from_storage cfg cl key)
       (\<lambda>e. if e = DocumentDeletionError then ret () else raise e)"

definition rstrip_slash :: "string \<Rightarrow> string" where
  "rstrip_slash s = rev (dropWhile (\<lambda>c. c = CHR ''/'') (rev s))"

definition build_object_url :: "settings \<Rightarrow> string \<Rightarrow> string" where
  "build_object_url cfg key = rstrip_slash (MINIO_ENDPOINT cfg) @ ''/'' @ MINIO_BUCKET_NAME cfg @ ''/'' @ key"

definition build_storage_key :: "uuid \<Rightarrow> string \<Rightarrow> string" where
  "build_storage_key document_id filename =
     ''documents/'' @ uuid_str document_id @ ''_'' @ path_name filename"

text \<open>\<open>uuid4().hex\<close>: the 32 digits without dashes.\<close>

definition build_staging_key :: "uuid \<Rightarrow> uuid \<Rightarrow> string" where
  "build_staging_key document_id token =
     ''documents/_staging/'' @ uuid_str document_id @ ''_'' @ hex_digits 32 token"

section \<open>Reading an upload\<close>

text \<open>
  A file object: the type its client declared, and a stream; \<open>read n\<close> returns at most \<open>n\<close>
  bytes, none at the end.
\<close>

record 'f upload =
  content_type :: "string option"
  read_bytes :: "int \<Rightarrow> 'f \<Rightarrow> string \<times> 'f"
  stream :: 'f

definition MAX_FILE_SIZE :: int where "MAX_FILE_SIZE = 10 * 1024 * 1024"
definition SIGNATURE_PEEK_SIZE :: int where "SIGNATURE_PEEK_SIZE = 4096"
definition UPLOAD_CHUNK_SIZE :: int where "UPLOAD_CHUNK_SIZE = 64 * 1024"

definition ALLOWED_MIME :: "string list" where
  "ALLOWED_MIME =
     [''application/pdf'', ''image/png'', ''image/jpeg'', ''image/jpg'', ''application/msword'',
      ''application/vnd.openxmlformats-officedocument.wordprocessingml.document'']"

definition sniff_content_type :: "string \<Rightarrow> string option" where
  "sniff_content_type data =
     (if prefix ''%PDF-'' data then Some ''application/pdf''
      else if prefix [CHR 0x89, CHR 0x50, CHR 0x4E, CHR 0x47, CHR 0x0D, CHR 0x0A, CHR 0x1A, CHR 0x0A] data then Some ''image/png''
      else if prefix [CHR 0xFF, CHR 0xD8, CHR 0xFF] data then Some ''image/jpeg''
      else if prefix [CHR 0xD0, CHR 0xCF, CHR 0x11, CHR 0xE0, CHR 0xA1, CHR 0xB1, CHR 0x1A, CHR 0xE1] data then Some ''application/msword''
      else if prefix [CHR 0x50, CHR 0x4B, CHR 0x03, CHR 0x04] data
      then Some ''application/vnd.openxmlformats-officedocument.wordprocessingml.document''
      else None)"

text \<open>
  The loop that copies the rest of the stream: it asks for a chunk, never beyond one byte
  past the limit, and stops at the end of the stream. Every round shrinks the cap.
\<close>

function copy_rest :: "(int \<Rightarrow> 'f \<Rightarrow> string \<times> 'f) \<Rightarrow> int \<Rightarrow> 'f \<Rightarrow> string \<Rightarrow> string \<times> 'f" where
  "copy_rest rd remaining_cap f spooled =
     (if 0 < remaining_cap then
        (case rd (min UPLOAD_CHUNK_SIZE remaining_cap) f of
           (chunk, f') \<Rightarrow>
             if chunk = [] then (spooled, f')
             else copy_rest rd (remaining_cap - int (length chunk)) f' (spooled @ chunk))
      else (spooled, f))"
  by pat_completeness auto
termination
  by (relation "measure (\<lambda>(rd, cap, f, sp). nat cap)") auto

declare copy_rest.simps [simp del]

text \<open>
  \<open>payload\<close> gives the file name and type of the request, \<open>None\<close> when the caller passes a
  dictionary, which has no such attributes.
\<close>

definition falsy :: "string option \<Rightarrow> bool" where
  "falsy v \<longleftrightarrow> v = None \<or> v = Some []"

definition declared_type :: "'f upload \<Rightarrow> (string \<times> string) option \<Rightarrow> svc_error + string" where
  "declared_type file_obj payload =
     (if falsy (content_type file_obj) then
        (case payload of None \<Rightarrow> Inl AttributeError | Some (_, ft) \<Rightarrow> Inr ft)
      else Inr (the (content_type file_obj)))"

definition jpg_alias :: "string \<Rightarrow> string" where
  "jpg_alias t = (if t = ''image/jpg'' then ''image/jpeg'' else t)"

text \<open>The copy together with the bytes taken from the stream.\<close>

definition read_and_validate_upload ::
  "(string \<times> string) option \<Rightarrow> 'f upload \<Rightarrow> svc_error + string \<times> string \<times> int" where
  "read_and_validate_upload payload file_obj =
     (case declared_type file_obj payload of
        Inl e \<Rightarrow> Inl e
      | Inr declared \<Rightarrow>
          (case read_bytes file_obj SIGNATURE_PEEK_SIZE (stream file_obj) of
             (peek, f) \<Rightarrow>
               (case sniff_content_type peek of
                  None \<Rightarrow> Inl (if payload = None then AttributeError
                             else DocumentUploadError ''Unsupported file type'')
                | Some sniffed \<Rightarrow>
                    if sniffed \<notin> set ALLOWED_MIME
                    then Inl (if payload = None then AttributeError
                              else DocumentUploadError ''Unsupported file type'')
                    else if sniffed \<noteq> jpg_alias declared then Inl (DocumentUploadError ''File type mismatch'')
                    else
                      (let spooled = fst (copy_rest (read_bytes file_obj)
                             (MAX_FILE_SIZE + 1 - int (length peek)) f peek);
                           total_size = int (length spooled)
                       in if MAX_FILE_SIZE < total_size then Inl (DocumentUploadError ''File too large'')
                          else Inr (spooled, sniffed, total_size)))))"

definition upload_to_storage ::
  "settings \<Rightarrow> 'w storage_client \<Rightarrow> string \<Rightarrow> (string \<times> string) option \<Rightarrow> 'f upload \<Rightarrow> ('w, unit) prog" where
  "upload_to_storage cfg cl key payload file_obj =
     (case read_and_validate_upload payload file_obj of
        Inl e \<Rightarrow> raise e
      | Inr (data, sniffed, total_size) \<Rightarrow> put_file cfg cl key data sniffed)"

section \<open>Lemmas on stores\<close>

lemma in_db_iff [simp]: "in_db m (s, w) = (r, s', w') \<longleftrightarrow> m s = (r, s') \<and> w' = w"
  by (cases "m s") (auto simp: in_db_def)

lemma in_store_iff [simp]: "in_store m (s, w) = (r, s', w') \<longleftrightarrow> m w = (r, w') \<and> s' = s"
  by (cases "m w") (auto simp: in_store_def)

lemma put_file_Inr: "put_file cfg cl k d ct w = (Inr u, w') \<longleftrightarrow> put_object cl (MINIO_BUCKET_NAME cfg) k d ct w = (True, w')"
  by (auto simp: put_file_def split: prod.splits bool.splits)

lemma put_file_Inl: "put_file cfg cl k d ct w = (Inl e, w') \<longleftrightarrow>
    put_object cl (MINIO_BUCKET_NAME cfg) k d ct w = (False, w') \<and> e = DocumentUploadError ''Storage upload failed''"
  by (auto simp: put_file_def split: prod.splits bool.splits)

lemma storage_specD:
  assumes "storage_spec cl view"
  shows "put_object cl b k d ct w = (True, w') \<Longrightarrow> view w' = (view w)((b, k) \<mapsto> (d, ct))"
    and "put_object cl b k d ct w = (False, w') \<Longrightarrow> view w' = view w \<or> view w' = (view w)((b, k) \<mapsto> (d, ct))"
    and "get_object cl b k w = (g, w') \<Longrightarrow> view w' = view w"
    and "get_object cl b k w = (Some d, w') \<Longrightarrow> \<exists>ct. view w (b, k) = Some (d, ct)"
    and "remove_object cl b k w = (True, w') \<Longrightarrow> view w' = (view w)((b, k) := None)"
    and "remove_object cl b k w = (False, w') \<Longrightarrow> view w' = view w \<or> view w' = (view w)((b, k) := None)"
proof -
  note c = assms [unfolded storage_spec_def]
  note put = spec [where x = w, OF spec [where x = ct, OF spec [where x = d, OF spec [where x = k,
        OF spec [where x = b, OF c [THEN conjunct1]]]]]]
    and get = spec [where x = w, OF spec [where x = k, OF spec [where x = b, OF c [THEN conjunct2, THEN conjunct1]]]]
    and del = spec [where x = w, OF spec [where x = k, OF spec [where x = b, OF c [THEN conjunct2, THEN conjunct2]]]]
  show "put_object cl b k d ct w = (True, w') \<Longrightarrow> view w' = (view w)((b, k) \<mapsto> (d, ct))"
    "put_object cl b k d ct w = (False, w') \<Longrightarrow> view w' = view w \<or> view w' = (view w)((b, k) \<mapsto> (d, ct))"
    using put by simp_all
  show "get_object cl b k w = (g, w') \<Longrightarrow> view w' = view w" using get by (cases g) simp_all
  show "get_object cl b k w = (Some d, w') \<Longrightarrow> \<exists>ct. view w (b, k) = Some (d, ct)" using get by simp
  show "remove_object cl b k w = (True, w') \<Longrightarrow> view w' = (view w)((b, k) := None)"
    "remove_object cl b k w = (False, w') \<Longrightarrow> view w' = view w \<or> view w' = (view w)((b, k) := None)"
    using del by simp_all
qed

text \<open>What a call leaves of the other objects.\<close>

lemma put_file_view:
  assumes "storage_spec cl view" "put_file cfg cl k d ct w = (r, w')"
  shows "(r = Inr () \<longrightarrow> view w' (MINIO_BUCKET_NAME cfg, k) = Some (d, ct)) \<and>
    (bk \<noteq> (MINIO_BUCKET_NAME cfg, k) \<longrightarrow> view w' bk = view w bk)"
  using assms(2) storage_specD(1,2) [OF assms(1), of "MINIO_BUCKET_NAME cfg" k d ct w w']
  by (cases r) (auto simp: put_file_Inr put_file_Inl)

lemma discard_object_iff:
  "discard_object cfg cl k w = (r, w') \<longleftrightarrow>
     r = Inr () \<and> snd (remove_object cl (MINIO_BUCKET_NAME cfg) k w) = w'"
  by (cases "remove_object cl (MINIO_BUCKET_NAME cfg) k w"; cases "fst (remove_object cl (MINIO_BUCKET_NAME cfg) k w)")
    (auto simp: discard_object_def delete_from_storage_def try_except_def)

lemma discard_object_eq:
  "discard_object cfg cl k w = (Inr (), snd (remove_object cl (MINIO_BUCKET_NAME cfg) k w))"
  by (simp add: discard_object_iff)

lemma discard_object_view:
  assumes "storage_spec cl view" "discard_object cfg cl k w = (r, w')"
  shows "r = Inr () \<and> (bk \<noteq> (MINIO_BUCKET_NAME cfg, k) \<longrightarrow> view w' bk = view w bk) \<and>
    (view w' (MINIO_BUCKET_NAME cfg, k) \<in> {None, view w (MINIO_BUCKET_NAME cfg, k)}) \<and>
    (fst (remove_object cl (MINIO_BUCKET_NAME cfg) k w) \<longrightarrow> view w' (MINIO_BUCKET_NAME cfg, k) = None)"
proof -
  obtain b where b: "remove_object cl (MINIO_BUCKET_NAME cfg) k w = (b, w')" "r = Inr ()"
    using assms(2) by (cases "remove_object cl (MINIO_BUCKET_NAME cfg) k w") (auto simp: discard_object_iff)
  with storage_specD(5,6) [OF assms(1), of "MINIO_BUCKET_NAME cfg" k w w'] show ?thesis
    by (cases b) auto
qed

section \<open>Reading a stream\<close>

text \<open>
  What a stream promises: \<open>rest f\<close> is what is left to read, a call returns a prefix of it of
  at most the size asked for, and nothing only at the end.
\<close>

definition reader_spec :: "(int \<Rightarrow> 'f \<Rightarrow> string \<times> 'f) \<Rightarrow> ('f \<Rightarrow> string) \<Rightarrow> bool" where
  "reader_spec rd rest \<longleftrightarrow>
     (\<forall>n f. case rd n f of (c, f') \<Rightarrow>
        rest f = c @ rest f' \<and> (0 < n \<longrightarrow> int (length c) \<le> n \<and> (c = [] \<longrightarrow> rest f = [])))"

lemma reader_specD:
  assumes "reader_spec rd rest" "rd n f = (c, f')"
  shows "rest f = c @ rest f' \<and> (0 < n \<longrightarrow> int (length c) \<le> n \<and> (c = [] \<longrightarrow> rest f = []))"
  using spec [where x = f, OF spec [where x = n, OF assms(1) [unfolded reader_spec_def]]]
  unfolding assms(2) prod.case .

lemma copy_rest_result:
  assumes "reader_spec rd rest" "0 \<le> cap"
  shows "\<exists>c. fst (copy_rest rd cap f acc) = acc @ c \<and>
    rest f = c @ rest (snd (copy_rest rd cap f acc)) \<and> int (length c) \<le> cap \<and>
    (int (length c) < cap \<longrightarrow> rest (snd (copy_rest rd cap f acc)) = [])"
  using assms
proof (induction rd cap f acc rule: copy_rest.induct)
  case (1 rd cap f acc)
  show ?case
  proof (cases "0 < cap")
    case False
    with "1.prems" show ?thesis by (simp add: copy_rest.simps [of rd 0])
  next
    case True
    obtain c f' where r: "rd (min UPLOAD_CHUNK_SIZE cap) f = (c, f')" by fastforce
    from True have n: "0 < min UPLOAD_CHUNK_SIZE cap" by (simp add: UPLOAD_CHUNK_SIZE_def)
    from reader_specD [OF "1.prems"(1) r] n have c: "rest f = c @ rest f'"
      "int (length c) \<le> min UPLOAD_CHUNK_SIZE cap" "c = [] \<Longrightarrow> rest f = []" by blast+
    show ?thesis
    proof (cases "c = []")
      case True
      with c(1,3) have "rest f' = []" "rest f = []" by (metis append_Nil, blast)
      with True r \<open>0 < cap\<close> show ?thesis by (simp add: copy_rest.simps [of rd cap])
    next
      case False
      from c(2) have "0 \<le> cap - int (length c)" by simp
      from "1.IH" [OF True r [symmetric] False "1.prems"(1) this] obtain d where
        "fst (copy_rest rd (cap - int (length c)) f' (acc @ c)) = (acc @ c) @ d"
        "rest f' = d @ rest (snd (copy_rest rd (cap - int (length c)) f' (acc @ c)))"
        "int (length d) \<le> cap - int (length c)"
        "int (length d) < cap - int (length c) \<longrightarrow>
           rest (snd (copy_rest rd (cap - int (length c)) f' (acc @ c))) = []" by auto
      with True False r c(1) show ?thesis
        by (intro exI [of _ "c @ d"]) (simp add: copy_rest.simps [of rd cap])
    qed
  qed
qed

lemma peek_prefix_of:
  assumes "reader_spec rd rest" "rd SIGNATURE_PEEK_SIZE f = (c, f')"
  shows "prefix c (rest f)" "int (length c) \<le> SIGNATURE_PEEK_SIZE"
  using reader_specD [OF assms] by (simp_all add: SIGNATURE_PEEK_SIZE_def prefix_def)

lemma sniff_prefix:
  assumes "sniff_content_type c = Some t" "prefix c d"
  shows "sniff_content_type d = Some t"
proof -
  obtain e where d: "d = c @ e" using assms(2) by (auto simp: prefix_def)
  show ?thesis
    using assms(1) unfolding d sniff_content_type_def
    by (auto simp: prefix_def split: if_splits)
qed

text \<open>What comes out of reading: the file as it was sent, of a known type and size.\<close>

lemma read_upload_Inr:
  assumes "reader_spec (read_bytes fo) rest" "read_and_validate_upload pl fo = Inr (d, t, n)"
  shows "d = rest (stream fo) \<and> n = int (length d) \<and> n \<le> MAX_FILE_SIZE \<and>
    t \<in> set ALLOWED_MIME \<and> sniff_content_type d = Some t \<and>
    (\<exists>dt. declared_type fo pl = Inr dt \<and> t = jpg_alias dt)"
proof -
  obtain peek f where pk: "read_bytes fo SIGNATURE_PEEK_SIZE (stream fo) = (peek, f)" by fastforce
  from assms(2) pk obtain dt where dt: "declared_type fo pl = Inr dt" "t = jpg_alias dt"
    "sniff_content_type peek = Some t" "t \<in> set ALLOWED_MIME"
    and d: "d = fst (copy_rest (read_bytes fo) (MAX_FILE_SIZE + 1 - int (length peek)) f peek)"
    and n: "n = int (length d)" "n \<le> MAX_FILE_SIZE"
    by (auto simp: read_and_validate_upload_def Let_def split: sum.splits option.splits if_splits)
  from reader_specD [OF assms(1) pk] have r: "rest (stream fo) = peek @ rest f"
    and l: "int (length peek) \<le> SIGNATURE_PEEK_SIZE" by (simp_all add: SIGNATURE_PEEK_SIZE_def)
  from l have "0 \<le> MAX_FILE_SIZE + 1 - int (length peek)" by (simp add: SIGNATURE_PEEK_SIZE_def MAX_FILE_SIZE_def)
  from copy_rest_result [OF assms(1) this, of f peek] d obtain c where c: "d = peek @ c"
    "int (length c) < MAX_FILE_SIZE + 1 - int (length peek) \<longrightarrow> rest f = c"
    by auto
  then have "d = peek @ rest f" using n by auto
  with n r dt sniff_prefix [OF dt(3), of d] show ?thesis by auto
qed

end
