(* ===== verification/Collections.thy ===== *)
theory Collections
  imports Samples
begin

text \<open>
  Collections, the folders of a property's documents: CollectionRepository
  (app/collections/repositories/collection.py), the request bodies
  (app/collections/schemas/collection.py) and CollectionService
  (app/collections/services/collection_service.py).
\<close>

section \<open>Repository\<close>

definition collection_get_by_property :: "uuid \<Rightarrow> collection list svc" where
  "collection_get_by_property i = repo_all collections_tbl (\<lambda>k. coll_property_id k = i)"

definition collection_get_by_contract :: "uuid \<Rightarrow> collection list svc" where
  "collection_get_by_contract i = repo_all collections_tbl (\<lambda>k. coll_contract_id k = Some i)"

definition collection_visible :: "uuid \<Rightarrow> tables \<Rightarrow> collection \<Rightarrow> bool" where
  "collection_visible m t k \<longleftrightarrow> coll_property_id k \<in> set (owned_property_ids m t)"

definition collection_get_all_for_manager :: "uuid \<Rightarrow> int \<Rightarrow> int \<Rightarrow> collection list svc" where
  "collection_get_all_for_manager m skip limit =
     query (\<lambda>t. page skip limit (build_query collections_tbl (collection_visible m t) t))"

definition collection_count_all_for_manager :: "uuid \<Rightarrow> nat svc" where
  "collection_count_all_for_manager m =
     query (\<lambda>t. length (filter (collection_visible m t) (collections t)))"

definition collection_repo :: "collection scoped_repo" where
  "collection_repo = \<lparr>get_all = repo_get_all collections_tbl,
     count_all = repo_count collections_tbl (\<lambda>_. True),
     get_all_for_manager = collection_get_all_for_manager,
     count_all_for_manager = collection_count_all_for_manager\<rparr>"

text \<open>The foreign key of the documents is \<open>ON DELETE SET NULL\<close>.\<close>

definition collection_on_delete :: "uuid \<Rightarrow> tables \<Rightarrow> tables" where
  "collection_on_delete i = documents_update (map (\<lambda>d.
     if doc_collection_id d = Some i then d\<lparr>doc_collection_id := None\<rparr> else d))"

section \<open>Request bodies\<close>

record collection_create =
  kc_name :: string
  kc_description :: "string option"
  kc_property_id :: uuid
  kc_contract_id :: "uuid option"

record collection_update =
  ku_name :: "string patch"
  ku_description :: "string patch"
  ku_contract_id :: "uuid patch"

definition new_collection :: "collection_create \<Rightarrow> uuid \<Rightarrow> instant \<Rightarrow> collection" where
  "new_collection pl i n =
     \<lparr>row_id = i, created_at = n, updated_at = n, coll_name = kc_name pl,
      coll_description = kc_description pl, coll_property_id = kc_property_id pl,
      coll_contract_id = kc_contract_id pl\<rparr>"

definition assign_collection_update :: "collection_update \<Rightarrow> collection \<Rightarrow> collection" where
  "assign_collection_update pl k = k\<lparr>
     coll_name := set_req (ku_name pl) (coll_name k),
     coll_description := set_null (ku_description pl) (coll_description k),
     coll_contract_id := set_null (ku_contract_id pl) (coll_contract_id k)\<rparr>"

section \<open>CollectionService\<close>

definition list_collections :: "user \<Rightarrow> int \<Rightarrow> int \<Rightarrow> collection paginated svc" where
  "list_collections current_user skip limit =
     list_scoped_by_manager CollectionForbidden current_user collection_repo skip limit"

definition get_collection :: "uuid \<Rightarrow> user \<Rightarrow> collection svc" where
  "get_collection i current_user =
     bnd (found_or (RelatedResourceNotFoundError ''Collection'' i) (repo_get_by_id collections_tbl i)) (\<lambda>k.
     bnd (authorize_user_to_property CollectionForbidden current_user (Some (coll_property_id k)) None None) (\<lambda>_.
     ret k))"

text \<open>
  A contract must belong to the property; \<open>contract.property_id\<close> on a missing contract would
  be an \<open>AttributeError\<close>, but its existence was just checked.
\<close>

definition contract_belongs_to :: "uuid \<Rightarrow> uuid option \<Rightarrow> unit svc" where
  "contract_belongs_to property_id contract_id =
     (case contract_id of
        None \<Rightarrow> ret ()
      | Some cid \<Rightarrow>
          bnd (found_or AttributeError (repo_get_by_id contracts_tbl cid)) (\<lambda>c.
          raise_if (contract_property_id c \<noteq> property_id) CollectionValidationError))"

definition prepare_collection_context :: "user \<Rightarrow> uuid \<Rightarrow> uuid option \<Rightarrow> (uuid \<times> uuid option) svc" where
  "prepare_collection_context current_user property_id contract_id =
     bnd (validate_related_resources (Some property_id) contract_id None None) (\<lambda>_.
     bnd (contract_belongs_to property_id contract_id) (\<lambda>_.
     bnd (authorize_user_to_property CollectionForbidden current_user (Some property_id) None None) (\<lambda>_.
     ret (property_id, contract_id))))"

definition create_collection :: "collection_create \<Rightarrow> user \<Rightarrow> collection svc" where
  "create_collection payload current_user =
     bnd (prepare_collection_context current_user (kc_property_id payload) (kc_contract_id payload)) (\<lambda>(p, c).
     bnd (repo_create collections_tbl
            (new_collection (payload\<lparr>kc_property_id := p, kc_contract_id := c\<rparr>))) (\<lambda>k.
     bnd commit (\<lambda>_.
     ret k)))"

definition update_collection :: "uuid \<Rightarrow> collection_update \<Rightarrow> user \<Rightarrow> collection option svc" where
  "update_collection i payload current_user =
     bnd (get_collection i current_user) (\<lambda>k.
     bnd (if attr (ku_contract_id payload) \<noteq> None
          then bnd (prepare_collection_context current_user (coll_property_id k)
                      (attr (ku_contract_id payload))) (\<lambda>_. ret ())
          else ret ()) (\<lambda>_.
     bnd (repo_update collections_tbl i (null_viol ''name'' (ku_name payload))
            (assign_collection_update payload)) (\<lambda>u.
     bnd commit (\<lambda>_.
     ret u))))"

definition delete_collection :: "uuid \<Rightarrow> user \<Rightarrow> collection option svc" where
  "delete_collection i current_user =
     bnd (get_collection i current_user) (\<lambda>_.
     bnd (repo_delete collections_tbl collection_on_delete i) (\<lambda>deleted.
     bnd commit (\<lambda>_.
     ret deleted)))"

lemmas collection_code [code] = fun_cong [OF get_collection_def] fun_cong [OF contract_belongs_to_def]
  fun_cong [OF prepare_collection_context_def] fun_cong [OF create_collection_def]
  fun_cong [OF update_collection_def] fun_cong [OF delete_collection_def]

section \<open>Lemmas\<close>

lemmas contract_rowD = get_row_SomeD [of contracts_tbl, simplified]

lemma get_collection_Inr:
  "get_collection i u s = (Inr k, s') \<longleftrightarrow> s' = s \<and> get_row collections_tbl i (working s) = Some k \<and>
     authorize_user_to_property CollectionForbidden u (Some (coll_property_id k)) None None s = (Inr (), s)"
  by (auto simp: get_collection_def svc_iffs dest: pure_readD [OF pure_read_authorize])

lemma pure_read_collections [atomic_intros]:
  "pure_read (get_collection i u)" "pure_read (contract_belongs_to p c)"
  "pure_read (prepare_collection_context u p c)"
  unfolding get_collection_def contract_belongs_to_def prepare_collection_context_def
  by (intro atomic_intros)+

lemma prepare_collection_context_Inr:
  "prepare_collection_context u p c s = (Inr x, s') \<longleftrightarrow> s' = s \<and> x = (p, c) \<and>
     p \<in> set (ids (properties (working s))) \<and>
     (\<forall>cid. c = Some cid \<longrightarrow>
        (\<exists>ct. get_row contracts_tbl cid (working s) = Some ct \<and> contract_property_id ct = p)) \<and>
     authorize_user_to_property CollectionForbidden u (Some p) None None s = (Inr (), s)"
  by (cases c)
    (auto simp: prepare_collection_context_def contract_belongs_to_def svc_iffs opt_in_simps
      dest: pure_readD [OF pure_read_authorize] row_in_ids)

interpretation collection_scope: scoped_resource collections_tbl collection_repo collection_visible get_collection
proof (unfold_locales, goal_cases)
  case (5 s r u)
  then have r: "get_row collections_tbl (row_id r) (working s) = Some r"
    by (simp add: get_row_Some_iff schema_ok_keys)
  from 5 have "coll_property_id r \<in> set (ids (properties (working s)))"
    by (simp add: schema_ok_refs)
  with 5 r show ?case
    by (simp add: get_collection_Inr authorize_property_iff collection_visible_def)
qed (simp_all add: collection_repo_def collection_get_all_for_manager_def
    collection_count_all_for_manager_def schema_ok_keys)

text \<open>The contract of a collection is a contract of the collection's property.\<close>

definition collections_ok :: "tables \<Rightarrow> bool" where
  "collections_ok t \<longleftrightarrow> list_all (\<lambda>k. case coll_contract_id k of
     None \<Rightarrow> True
   | Some i \<Rightarrow> list_ex (\<lambda>c. row_id c = i \<and> contract_property_id c = coll_property_id k) (contracts t)) (collections t)"

lemma collections_ok_iff:
  "collections_ok t \<longleftrightarrow> (\<forall>k\<in>set (collections t). \<forall>i. coll_contract_id k = Some i \<longrightarrow>
     (\<exists>c\<in>set (contracts t). row_id c = i \<and> contract_property_id c = coll_property_id k))"
  by (auto simp: collections_ok_def list_all_iff list_ex_iff split: option.splits)

lemma create_collection_Inr:
  "create_collection pl u s = (Inr k, s') \<Longrightarrow>
     (\<exists>n i. k = new_collection pl i n \<and> collections (working s') = collections (working s) @ [k]) \<and>
     contracts (working s') = contracts (working s) \<and> documents (working s') = documents (working s) \<and>
     audit_logs (working s') = audit_logs (working s) \<and>
     (\<forall>cid. kc_contract_id pl = Some cid \<longrightarrow>
        (\<exists>ct. get_row contracts_tbl cid (working s) = Some ct \<and> contract_property_id ct = kc_property_id pl))"
  by (auto simp: create_collection_def bnd_Inr_iff prepare_collection_context_Inr repo_create_Inr)

lemma update_collection_Inr:
  assumes "update_collection i pl u s = (Inr r, s')"
  shows "\<exists>k. get_row collections_tbl i (working s) = Some k \<and>
     collections (working s') = map_row i (touch (clock s) (assign_collection_update pl)) (collections (working s)) \<and>
     contracts (working s') = contracts (working s) \<and> audit_logs (working s') = audit_logs (working s) \<and>
     (\<forall>cid. attr (ku_contract_id pl) = Some cid \<longrightarrow>
        (\<exists>ct. get_row contracts_tbl cid (working s) = Some ct \<and> contract_property_id ct = coll_property_id k))"
  using assms
  by (auto simp: update_collection_def bnd_Inr_iff get_collection_Inr prepare_collection_context_Inr
      repo_update_Inr split: if_splits)

lemma delete_collection_Inr:
  assumes "delete_collection i u s = (Inr r, s')"
  shows "collections (working s') = filter (\<lambda>k. row_id k \<noteq> i) (collections (working s)) \<and>
     contracts (working s') = contracts (working s) \<and> audit_logs (working s') = audit_logs (working s) \<and>
     documents (working s') = map (\<lambda>d. if doc_collection_id d = Some i then d\<lparr>doc_collection_id := None\<rparr> else d)
       (documents (working s)) \<and> committed s' = working s'"
  using assms
  by (auto simp: delete_collection_def bnd_Inr_iff get_collection_Inr repo_delete_iff collection_on_delete_def)

section \<open>Properties\<close>

lemma touch_collection [simp]:
  "row_id (touch n (assign_collection_update pl) k) = row_id k"
  "coll_property_id (touch n (assign_collection_update pl) k) = coll_property_id k"
  "coll_contract_id (touch n (assign_collection_update pl) k) = set_null (ku_contract_id pl) (coll_contract_id k)"
  by (simp_all add: touch_field [of row_id] touch_field [of coll_property_id] touch_field [of coll_contract_id]
      assign_collection_update_def)

lemma collections_ok_create:
  "collections_ok (working s) \<Longrightarrow> create_collection pl u s = (Inr k, s') \<Longrightarrow> collections_ok (working s')"
  by (drule create_collection_Inr) (fastforce simp: collections_ok_iff new_collection_def dest: contract_rowD)

lemma collections_ok_update:
  assumes "collections_ok (working s)" "distinct (ids (collections (working s)))"
    and "update_collection i pl u s = (Inr r, s')"
  shows "collections_ok (working s')"
proof -
  let ?f = "touch (clock s) (assign_collection_update pl)"
  from update_collection_Inr [OF assms(3)] obtain k where
    k: "get_row collections_tbl i (working s) = Some k"
    and u: "collections (working s') = map_row i ?f (collections (working s))"
      "contracts (working s') = contracts (working s)"
    and c: "\<And>cid. attr (ku_contract_id pl) = Some cid \<Longrightarrow>
      \<exists>ct. get_row contracts_tbl cid (working s) = Some ct \<and> contract_property_id ct = coll_property_id k" by auto
  have "\<exists>c\<in>set (contracts (working s)). row_id c = cid \<and> contract_property_id c = coll_property_id q"
    if q: "q \<in> set (collections (working s))" "row_id q = i"
      "set_null (ku_contract_id pl) (coll_contract_id q) = Some cid" for q cid
  proof -
    from k have "k \<in> set (collections (working s))" "row_id k = i" by (auto dest: get_row_SomeD)
    with distinct_ids_eq [OF assms(2) q(1)] q(2) have "q = k" by simp
    then show ?thesis
      using q(3) c [of cid] assms(1) q(1)
      by (cases "ku_contract_id pl") (auto simp: collections_ok_iff dest: contract_rowD)
  qed
  with u assms(1) show ?thesis by (auto simp: collections_ok_iff ball_map_row)
qed

text \<open>
  The contract of a collection is always a contract of the collection's property:
  creating, updating and deleting collections keep this, and so a collection can never be
  moved to a contract of another property. Deleting a collection keeps its documents, outside
  of any collection.
\<close>

theorem collection_operations_keep_contracts:
  assumes "collections_ok (working s)" "distinct (ids (collections (working s)))"
  shows "(case create_collection pl u s of (Inr _, s') \<Rightarrow> collections_ok (working s') | _ \<Rightarrow> True) \<and>
    (case update_collection i upd u s of (Inr _, s') \<Rightarrow> collections_ok (working s') | _ \<Rightarrow> True) \<and>
    (case delete_collection i u s of
       (Inr _, s') \<Rightarrow> collections_ok (working s') \<and> committed s' = working s' \<and>
         map row_id (documents (working s')) = map row_id (documents (working s)) \<and>
         (\<forall>d\<in>set (documents (working s')). doc_collection_id d \<noteq> Some i)
     | _ \<Rightarrow> True)"
proof (intro conjI)
  show "case create_collection pl u s of (Inr _, s') \<Rightarrow> collections_ok (working s') | _ \<Rightarrow> True"
    using collections_ok_create [OF assms(1)] by (auto split: prod.splits sum.splits)
  show "case update_collection i upd u s of (Inr _, s') \<Rightarrow> collections_ok (working s') | _ \<Rightarrow> True"
    using collections_ok_update [OF assms] by (auto split: prod.splits sum.splits)
  show "case delete_collection i u s of
       (Inr _, s') \<Rightarrow> collections_ok (working s') \<and> committed s' = working s' \<and>
         map row_id (documents (working s')) = map row_id (documents (working s)) \<and>
         (\<forall>d\<in>set (documents (working s')). doc_collection_id d \<noteq> Some i)
     | _ \<Rightarrow> True"
    using assms(1)
    by (auto simp: collections_ok_iff dest!: delete_collection_Inr split: prod.splits sum.splits)
qed

text \<open>The manager of the villa files the lease of contract 30 under a new collection.\<close>

theorem collection_operations_keep_contracts_witness:
  "collections_ok (working (snd (create_collection
     \<lparr>kc_name = ''Lease'', kc_description = None, kc_property_id = 10, kc_contract_id = Some 30\<rparr>
     mgr (session_of sample_tables))))"
  (is "collections_ok (working (snd (create_collection ?pl mgr ?s)))")
proof -
  have "\<not> isl (fst (create_collection ?pl mgr ?s))" by code_simp
  moreover have "collections_ok (working ?s)" "distinct (ids (collections (working ?s)))"
    by (simp_all add: sample_tables_def empty_tables_def collections_ok_def ids_def)
  note collection_operations_keep_contracts [OF this, of ?pl mgr, THEN conjunct1]
  ultimately show ?thesis by (rule run_case)
qed

end
