(* ===== verification/Documents.thy ===== *)
theory Documents
  imports Storage Collections
begin

text \<open>
  Documents: DocumentRepository (app/documents/repositories/document.py), the request bodies
  (app/documents/schemas/document.py) and DocumentService
  (app/documents/services/document_service.py). A document is a row and an object of the
  store; its methods are programs over a session and a store, which no transaction spans.
\<close>

section \<open>Repository\<close>

definition document_get_by_contract :: "uuid \<Rightarrow> document list svc" where
  "document_get_by_contract i = repo_all documents_tbl (\<lambda>d. doc_contract_id d = Some i)"

definition document_get_by_property :: "uuid \<Rightarrow> document list svc" where
  "document_get_by_property i = repo_all documents_tbl (\<lambda>d. doc_property_id d = Some i)"

definition document_get_by_tenant :: "uuid \<Rightarrow> document list svc" where
  "document_get_by_tenant i = repo_all documents_tbl (\<lambda>d. doc_tenant_id d = Some i)"

definition document_get_by_type :: "string \<Rightarrow> document list svc" where
  "document_get_by_type ft = repo_all documents_tbl (\<lambda>d. file_type d = ft)"

definition document_visible :: "uuid \<Rightarrow> tables \<Rightarrow> document \<Rightarrow> bool" where
  "document_visible m t d \<longleftrightarrow>
     (case doc_property_id d of None \<Rightarrow> False | Some p \<Rightarrow> p \<in> set (owned_property_ids m t)) \<or>
     (case doc_contract_id d of None \<Rightarrow> False | Some c \<Rightarrow> c \<in> set (owned_contract_ids m t))"

definition document_get_all_for_manager :: "uuid \<Rightarrow> int \<Rightarrow> int \<Rightarrow> document list svc" where
  "document_get_all_for_manager m skip limit =
     query (\<lambda>t. page skip limit (build_query documents_tbl (document_visible m t) t))"

definition document_count_all :: "nat svc" where
  "document_count_all = repo_count documents_tbl (\<lambda>_. True)"

definition document_count_all_for_manager :: "uuid \<Rightarrow> nat svc" where
  "document_count_all_for_manager m = query (\<lambda>t. length (filter (document_visible m t) (documents t)))"

definition document_repo :: "document scoped_repo" where
  "document_repo = \<lparr>get_all = repo_get_all documents_tbl, count_all = document_count_all,
     get_all_for_manager = document_get_all_for_manager,
     count_all_for_manager = document_count_all_for_manager\<rparr>"

section \<open>Request bodies and context\<close>

record document_create =
  dc_file_name :: string
  dc_file_type :: string
  dc_contract_id :: "uuid option"
  dc_property_id :: "uuid option"
  dc_tenant_id :: "uuid option"
  dc_collection_id :: "uuid option"

text \<open>The service reads the attributes only, so a null and an absent field are the same.\<close>

record document_relink =
  dr_contract_id :: "uuid option"
  dr_property_id :: "uuid option"
  dr_tenant_id :: "uuid option"
  dr_collection_id :: "uuid option"

record document_context =
  ctx_property_id :: "uuid option"
  ctx_contract_id :: "uuid option"
  ctx_tenant_id :: "uuid option"
  ctx_collection_id :: "uuid option"

definition new_document :: "string \<Rightarrow> document_create \<Rightarrow> document_context \<Rightarrow> uuid \<Rightarrow> instant \<Rightarrow> document" where
  "new_document url pl ctx i n =
     \<lparr>row_id = i, created_at = n, updated_at = n, file_name = dc_file_name pl, file_url = url,
      file_type = dc_file_type pl, doc_contract_id = ctx_contract_id ctx,
      doc_property_id = ctx_property_id ctx, doc_tenant_id = ctx_tenant_id ctx,
      doc_collection_id = ctx_collection_id ctx\<rparr>"

definition assign_relink :: "document_context \<Rightarrow> document \<Rightarrow> document" where
  "assign_relink ctx d = d\<lparr>
     doc_contract_id := ctx_contract_id ctx, doc_property_id := ctx_property_id ctx,
     doc_tenant_id := ctx_tenant_id ctx, doc_collection_id := ctx_collection_id ctx\<rparr>"

definition assign_file :: "string \<Rightarrow> document_create \<Rightarrow> document_context \<Rightarrow> document \<Rightarrow> document" where
  "assign_file url pl ctx d = assign_relink ctx (d\<lparr>
     file_name := dc_file_name pl, file_type := dc_file_type pl, file_url := url\<rparr>)"

section \<open>Relationships\<close>

text \<open>A contract is the source of truth: its property and tenant are what is stored.\<close>

definition resolve_document_relationship ::
  "document option \<Rightarrow> document_relink \<Rightarrow> (document_context \<times> contract option) svc" where
  "resolve_document_relationship doc pl =
     (let property_id = resolve_id doc_property_id doc (dr_property_id pl);
          tenant_id = resolve_id doc_tenant_id doc (dr_tenant_id pl);
          collection_id = resolve_id doc_collection_id doc (dr_collection_id pl)
      in case resolve_id doc_contract_id doc (dr_contract_id pl) of
           None \<Rightarrow>
             bnd (validate_related_resources property_id None tenant_id collection_id) (\<lambda>_.
             ret (\<lparr>ctx_property_id = property_id, ctx_contract_id = None, ctx_tenant_id = tenant_id,
                   ctx_collection_id = collection_id\<rparr>, None))
         | Some cid \<Rightarrow>
             bnd (found_or (RelatedResourceNotFoundError ''Contract'' cid) (repo_get_by_id contracts_tbl cid)) (\<lambda>c.
             bnd (validate_related_resources property_id None tenant_id collection_id) (\<lambda>_.
             bnd (raise_if (property_id \<noteq> None \<and> property_id \<noteq> Some (contract_property_id c))
                    (DocumentValidationError ''Property does not match contract'')) (\<lambda>_.
             bnd (raise_if (tenant_id \<noteq> None \<and> tenant_id \<noteq> Some (contract_tenant_id c))
                    (DocumentValidationError ''Tenant does not match contract'')) (\<lambda>_.
             ret (\<lparr>ctx_property_id = Some (contract_property_id c), ctx_contract_id = Some (row_id c),
                   ctx_tenant_id = Some (contract_tenant_id c), ctx_collection_id = collection_id\<rparr>,
                  Some c))))))"

definition prepare_document_context :: "user \<Rightarrow> document option \<Rightarrow> document_relink \<Rightarrow> document_context svc" where
  "prepare_document_context current_user doc pl =
     bnd (resolve_document_relationship doc pl) (\<lambda>(ctx, c).
     bnd (authorize_user_to_property DocumentForbidden current_user (ctx_property_id ctx)
            (ctx_contract_id ctx) c) (\<lambda>_.
     ret ctx))"

definition links_of :: "document_create \<Rightarrow> document_relink" where
  "links_of pl = \<lparr>dr_contract_id = dc_contract_id pl, dr_property_id = dc_property_id pl,
     dr_tenant_id = dc_tenant_id pl, dr_collection_id = dc_collection_id pl\<rparr>"

section \<open>DocumentService\<close>

definition list_documents :: "user \<Rightarrow> int \<Rightarrow> int \<Rightarrow> document paginated svc" where
  "list_documents current_user skip limit =
     list_scoped_by_manager DocumentForbidden current_user document_repo skip limit"

definition get_document :: "uuid \<Rightarrow> user \<Rightarrow> document svc" where
  "get_document i current_user =
     bnd (found_or (RelatedResourceNotFoundError ''Document'' i) (repo_get_by_id documents_tbl i)) (\<lambda>d.
     bnd (authorize_user_to_property DocumentForbidden current_user (doc_property_id d)
            (doc_contract_id d) None) (\<lambda>_.
     ret d))"

definition read_object :: "settings \<Rightarrow> 'w storage_client \<Rightarrow> string \<Rightarrow> ('w, string) prog" where
  "read_object cfg cl key w =
     (case get_object cl (MINIO_BUCKET_NAME cfg) key w of
        (None, w') \<Rightarrow> (Inl (ServiceException ''Failed to read document from storage''), w')
      | (Some data, w') \<Rightarrow> (Inr data, w'))"

definition read_document :: "settings \<Rightarrow> 'w storage_client \<Rightarrow> document \<Rightarrow> ('w, string) prog" where
  "read_document cfg cl d = read_object cfg cl (build_storage_key (row_id d) (file_name d))"

definition get_document_content ::
  "settings \<Rightarrow> 'w storage_client \<Rightarrow> uuid \<Rightarrow> user \<Rightarrow> ('w, document \<times> string) stored" where
  "get_document_content cfg cl i current_user =
     bnd (in_db (get_document i current_user)) (\<lambda>d.
     bnd (in_store (read_document cfg cl d)) (\<lambda>data.
     ret (d, data)))"

text \<open>The two optional arguments: the file is uploaded when both are given.\<close>

type_synonym ('w, 'f) file_arg = "('w storage_client \<times> 'f upload) option"

definition insert_document :: "string \<Rightarrow> document_create \<Rightarrow> document_context \<Rightarrow> uuid \<Rightarrow> user \<Rightarrow> document svc" where
  "insert_document url payload ctx doc_id current_user =
     bnd now (\<lambda>n.
     bnd (repo_insert documents_tbl (new_document url payload ctx doc_id n)) (\<lambda>d.
     bnd (write_audit_log current_user CREATE ''Document'' doc_id) (\<lambda>_.
     bnd commit (\<lambda>_.
     ret d))))"

text \<open>Step 1: the file is uploaded before any row is written; step 2: the row, or the clean-up.\<close>

definition store_document ::
  "settings \<Rightarrow> ('w, 'f) file_arg \<Rightarrow> document_create \<Rightarrow> user \<Rightarrow> document_context \<Rightarrow> uuid \<Rightarrow> ('w, document) stored" where
  "store_document cfg file payload current_user ctx doc_id =
     (let key = build_storage_key doc_id (dc_file_name payload) in
      bnd (case file of
             None \<Rightarrow> ret ()
           | Some (cl, file_obj) \<Rightarrow>
               in_store (upload_to_storage cfg cl key
                 (Some (dc_file_name payload, dc_file_type payload)) file_obj)) (\<lambda>_.
      try_except
        (in_db (insert_document (build_object_url cfg key) payload ctx doc_id current_user))
        (\<lambda>e. bnd (case file of
                    None \<Rightarrow> ret ()
                  | Some (cl, _) \<Rightarrow> in_store (discard_object cfg cl key)) (\<lambda>_.
             raise e))))"

definition create_document ::
  "settings \<Rightarrow> ('w, 'f) file_arg \<Rightarrow> document_create \<Rightarrow> user \<Rightarrow> ('w, document) stored" where
  "create_document cfg file payload current_user =
     bnd (in_db (prepare_document_context current_user None (links_of payload))) (\<lambda>ctx.
     bnd (in_db uuid4) (\<lambda>doc_id.
     store_document cfg file payload current_user ctx doc_id))"

text \<open>The end of both updates.\<close>

definition save_document :: "uuid \<Rightarrow> (document \<Rightarrow> document) \<Rightarrow> user \<Rightarrow> document option svc" where
  "save_document i assign current_user =
     bnd (repo_update documents_tbl i [] assign) (\<lambda>u.
     bnd (write_audit_log current_user UPDATE ''Document'' i) (\<lambda>_.
     bnd commit (\<lambda>_.
     ret u)))"

definition update_document :: "uuid \<Rightarrow> document_relink \<Rightarrow> user \<Rightarrow> document option svc" where
  "update_document i payload current_user =
     bnd (get_document i current_user) (\<lambda>d.
     bnd (prepare_document_context current_user (Some d) payload) (\<lambda>ctx.
     save_document i (assign_relink ctx) current_user))"

definition commit_file_replacement ::
  "settings \<Rightarrow> 'w storage_client \<Rightarrow> uuid \<Rightarrow> (document \<Rightarrow> document) \<Rightarrow> string \<Rightarrow> user \<Rightarrow>
     ('w, document option) stored" where
  "commit_file_replacement cfg cl i assign staging_key current_user =
     try_except
       (in_db (save_document i assign current_user))
       (\<lambda>e. bnd (in_store (discard_object cfg cl staging_key)) (\<lambda>_. raise e))"

definition promote_staged_upload ::
  "settings \<Rightarrow> 'w storage_client \<Rightarrow> string \<Rightarrow> string \<Rightarrow> string \<Rightarrow> ('w, unit) prog" where
  "promote_staged_upload cfg cl key data sniffed =
     try_except (put_file cfg cl key data sniffed)
       (\<lambda>e. case e of DocumentUploadError _ \<Rightarrow> raise DocumentStorageInconsistentError | _ \<Rightarrow> raise e)"

definition finalize_replacement_cleanup ::
  "settings \<Rightarrow> 'w storage_client \<Rightarrow> string \<Rightarrow> string \<Rightarrow> string \<Rightarrow> ('w, unit) prog" where
  "finalize_replacement_cleanup cfg cl staging_key old_key key =
     bnd (discard_object cfg cl staging_key) (\<lambda>_.
     if old_key \<noteq> key then discard_object cfg cl old_key else ret ())"

text \<open>From the staging of the new file on; \<open>token\<close> is the random part of the staging key.\<close>

definition store_replacement ::
  "settings \<Rightarrow> 'w storage_client \<Rightarrow> document \<Rightarrow> document_create \<Rightarrow> document_context \<Rightarrow> string \<Rightarrow> string \<Rightarrow>
     user \<Rightarrow> uuid \<Rightarrow> ('w, document option) stored" where
  "store_replacement cfg cl d payload ctx data sniffed current_user token =
     (let i = row_id d;
          key = build_storage_key i (dc_file_name payload);
          old_key = build_storage_key i (file_name d);
          staging_key = build_staging_key i token in
      bnd (in_store (put_file cfg cl staging_key data sniffed)) (\<lambda>_.
      bnd (commit_file_replacement cfg cl i
             (assign_file (build_object_url cfg key) payload ctx) staging_key current_user) (\<lambda>u.
      bnd (in_store (promote_staged_upload cfg cl key data sniffed)) (\<lambda>_.
      bnd (in_store (finalize_replacement_cleanup cfg cl staging_key old_key key)) (\<lambda>_.
      ret u)))))"

definition replace_document_file ::
  "settings \<Rightarrow> 'w storage_client \<Rightarrow> uuid \<Rightarrow> document_create \<Rightarrow> 'f upload \<Rightarrow> user \<Rightarrow>
     ('w, document option) stored" where
  "replace_document_file cfg cl i payload file_obj current_user =
     bnd (in_db (get_document i current_user)) (\<lambda>d.
     bnd (in_db (prepare_document_context current_user (Some d) (links_of payload))) (\<lambda>ctx.
     case read_and_validate_upload None file_obj of
       Inl e \<Rightarrow> raise e
     | Inr (data, sniffed, _) \<Rightarrow>
         bnd (in_db uuid4) (\<lambda>token.
         store_replacement cfg cl d payload ctx data sniffed current_user token)))"

definition delete_document ::
  "settings \<Rightarrow> 'w storage_client option \<Rightarrow> uuid \<Rightarrow> user \<Rightarrow> ('w, document option) stored" where
  "delete_document cfg storage i current_user =
     bnd (in_db (get_document i current_user)) (\<lambda>d.
     bnd (in_db (try_except
            (bnd (repo_delete documents_tbl (\<lambda>_ t. t) i) (\<lambda>deleted.
             bnd (write_audit_log current_user DELETE ''Document'' i) (\<lambda>_.
             bnd commit (\<lambda>_.
             ret deleted))))
            (\<lambda>e. bnd rollback (\<lambda>_. raise e)))) (\<lambda>deleted.
     bnd (case (deleted, storage) of
            (Some _, Some cl) \<Rightarrow> in_store (discard_object cfg cl (build_storage_key i (file_name d)))
          | _ \<Rightarrow> ret ()) (\<lambda>_.
     ret deleted)))"

text \<open>The answers of the routes: what they translate before the global handlers see it.\<close>

definition document_route_error :: "svc_error \<Rightarrow> svc_error" where
  "document_route_error e =
     (case e of
        DocumentUploadError _ \<Rightarrow> HTTPException 503 ''Failed to store document''
      | DocumentValidationError m \<Rightarrow> HTTPException 400 m
      | other \<Rightarrow> other)"

lemmas document_code [code] = fun_cong [OF resolve_document_relationship_def, of d for d]
  fun_cong [OF prepare_document_context_def] fun_cong [OF get_document_def]
  fun_cong [OF get_document_content_def] fun_cong [OF insert_document_def]
  fun_cong [OF read_document_def] fun_cong [OF store_document_def] fun_cong [OF store_replacement_def]
  fun_cong [OF create_document_def] fun_cong [OF save_document_def] fun_cong [OF update_document_def]
  fun_cong [OF commit_file_replacement_def] fun_cong [OF promote_staged_upload_def]
  fun_cong [OF finalize_replacement_cleanup_def] fun_cong [OF replace_document_file_def]
  fun_cong [OF delete_document_def]

section \<open>Lemmas\<close>

lemma pure_read_prod [atomic_intros]: "(\<And>a b. pure_read (f a b)) \<Longrightarrow> pure_read (case p of (a, b) \<Rightarrow> f a b)"
  by (cases p) simp

lemma pure_read_resolve_relationship [atomic_intros]: "pure_read (resolve_document_relationship d pl)"
  unfolding resolve_document_relationship_def Let_def by (intro atomic_intros)

lemma pure_read_documents [atomic_intros]:
  "pure_read (prepare_document_context u d pl)" "pure_read (get_document i u)"
  unfolding prepare_document_context_def get_document_def by (intro atomic_intros)+

lemma atomic_insert_document: "atomic (insert_document url pl ctx i u)"
  unfolding insert_document_def by (intro atomic_intros)

lemma atomic_save_document: "atomic (save_document i f u)"
  unfolding save_document_def by (intro atomic_intros)

lemma atomic_update_document: "atomic (update_document i pl u)"
  unfolding update_document_def save_document_def by (intro atomic_intros)

lemma get_document_Inr:
  "get_document i u s = (Inr d, s') \<longleftrightarrow> s' = s \<and> get_row documents_tbl i (working s) = Some d \<and>
     authorize_user_to_property DocumentForbidden u (doc_property_id d) (doc_contract_id d) None s = (Inr (), s)"
  by (auto simp: get_document_def svc_iffs dest: pure_readD [OF pure_read_authorize])

text \<open>A context that came out of the resolution agrees with its contract.\<close>

definition context_ok :: "tables \<Rightarrow> document_context \<Rightarrow> bool" where
  "context_ok t ctx \<longleftrightarrow> (case ctx_contract_id ctx of
     None \<Rightarrow> True
   | Some i \<Rightarrow> \<exists>c\<in>set (contracts t). row_id c = i \<and>
       ctx_property_id ctx = Some (contract_property_id c) \<and> ctx_tenant_id ctx = Some (contract_tenant_id c))"

lemma resolve_relationship_Inr:
  assumes "resolve_document_relationship d pl s = (Inr (ctx, c), s')"
  shows "s' = s \<and> (case ctx_contract_id ctx of
     None \<Rightarrow> c = None
   | Some i \<Rightarrow> \<exists>k. c = Some k \<and> get_row contracts_tbl i (working s) = Some k \<and>
       ctx_property_id ctx = Some (contract_property_id k) \<and> ctx_tenant_id ctx = Some (contract_tenant_id k))"
proof (cases "resolve_id doc_contract_id d (dr_contract_id pl)")
  case None
  with assms show ?thesis by (auto simp: resolve_document_relationship_def Let_def bnd_Inr_iff)
next
  case (Some cid)
  with assms obtain k where "get_row contracts_tbl cid (working s) = Some k" "c = Some k" "s' = s"
    "ctx_property_id ctx = Some (contract_property_id k)" "ctx_contract_id ctx = Some (row_id k)"
    "ctx_tenant_id ctx = Some (contract_tenant_id k)"
    by (auto simp: resolve_document_relationship_def Let_def bnd_Inr_iff)
  then show ?thesis using get_row_id by fastforce
qed

lemma prepare_context_ok:
  assumes "prepare_document_context u d pl s = (Inr ctx, s')"
  shows "s' = s \<and> context_ok (working s) ctx"
proof -
  from assms obtain c s1 where r: "resolve_document_relationship d pl s = (Inr (ctx, c), s1)"
    by (auto simp: prepare_document_context_def bnd_Inr_iff)
  with pure_readD [OF pure_read_documents(1) assms] show ?thesis
    by (auto simp: context_ok_def dest!: resolve_relationship_Inr contract_rowD split: option.splits)
qed

lemma insert_document_Inr:
  assumes "insert_document url pl ctx i u s = (Inr d, s')"
  shows "d = new_document url pl ctx i (clock s) \<and> documents (working s') = documents (working s) @ [d] \<and>
    contracts (working s') = contracts (working s) \<and> properties (working s') = properties (working s) \<and>
    committed s' = working s' \<and> schema_ok (working s')"
  using assms by (auto simp: insert_document_def bnd_Inr_iff now_def repo_insert_Inr write_audit_log_iff)

text \<open>The outcomes of an upload: refused before anything happened, failed, or done.\<close>

lemma create_document_cases:
  assumes "create_document cfg file pl u (s, w) = (r, s', w')"
  obtains
    (refused) e where "r = Inl e" "s' = s" "w' = w"
  | (not_stored) e cl fo where "r = Inl e" "committed s' = committed s" "file = Some (cl, fo)"
      "upload_to_storage cfg cl (build_storage_key (uuid_source s (uuid_drawn s)) (dc_file_name pl))
         (Some (dc_file_name pl, dc_file_type pl)) fo w = (Inl e, w')"
  | (not_inserted) e w1 where "r = Inl e" "committed s' = committed s"
      "case file of None \<Rightarrow> w1 = w \<and> w' = w
       | Some (cl, fo) \<Rightarrow> upload_to_storage cfg cl (build_storage_key (uuid_source s (uuid_drawn s)) (dc_file_name pl))
           (Some (dc_file_name pl, dc_file_type pl)) fo w = (Inr (), w1) \<and>
         discard_object cfg cl (build_storage_key (uuid_source s (uuid_drawn s)) (dc_file_name pl)) w1 = (Inr (), w')"
  | (stored) d ctx where "r = Inr d" "context_ok (working s) ctx"
      "prepare_document_context u None (links_of pl) s = (Inr ctx, s)"
      "d = new_document (build_object_url cfg (build_storage_key (uuid_source s (uuid_drawn s)) (dc_file_name pl)))
         pl ctx (uuid_source s (uuid_drawn s)) (clock s)"
      "documents (working s') = documents (working s) @ [d]" "contracts (working s') = contracts (working s)"
      "properties (working s') = properties (working s)" "committed s' = working s'" "schema_ok (working s')"
      "case file of None \<Rightarrow> w' = w
       | Some (cl, fo) \<Rightarrow> upload_to_storage cfg cl (build_storage_key (uuid_source s (uuid_drawn s)) (dc_file_name pl))
           (Some (dc_file_name pl, dc_file_type pl)) fo w = (Inr (), w')"
proof -
  let ?key = "build_storage_key (uuid_source s (uuid_drawn s)) (dc_file_name pl)"
  let ?s1 = "s\<lparr>uuid_drawn := Suc (uuid_drawn s)\<rparr>"
  let ?up = "case file of None \<Rightarrow> (Inr (), w)
    | Some (cl, fo) \<Rightarrow> upload_to_storage cfg cl ?key (Some (dc_file_name pl, dc_file_type pl)) fo w"
  obtain p where p: "prepare_document_context u None (links_of pl) s = (p, s)"
    using pure_readD [OF pure_read_documents(1)] by (metis surj_pair)
  show thesis
  proof (cases p)
    case (Inl e)
    with p assms refused [of e] show ?thesis by (simp add: create_document_def bnd_def in_db_def)
  next
    case (Inr ctx)
    with p have ctx: "context_ok (working s) ctx" using prepare_context_ok by blast
    obtain ur w1 where up: "?up = (ur, w1)" by fastforce
    show ?thesis
    proof (cases ur)
      case (Inl e)
      with up obtain cl fo where fl: "file = Some (cl, fo)"
        "upload_to_storage cfg cl ?key (Some (dc_file_name pl, dc_file_type pl)) fo w = (Inl e, w1)"
        by (auto split: option.splits)
      with p Inr assms have "r = Inl e" "committed s' = committed s" "w' = w1"
        by (auto simp: create_document_def store_document_def bnd_def in_db_def in_store_def uuid4_def Let_def)
      with fl not_stored show ?thesis by blast
    next
      case up_ok: (Inr v)
      with up have up: "case file of None \<Rightarrow> w1 = w
        | Some (cl, fo) \<Rightarrow> upload_to_storage cfg cl ?key (Some (dc_file_name pl, dc_file_type pl)) fo w = (Inr (), w1)"
        by (auto split: option.splits)
      obtain q s2 where q: "insert_document (build_object_url cfg ?key) pl ctx (uuid_source s (uuid_drawn s)) u ?s1 = (q, s2)"
        by fastforce
      show ?thesis
      proof (cases q)
        case (Inl e)
        with q have "committed s2 = committed s" using atomic_Inl [OF atomic_insert_document] by fastforce
        with up p \<open>p = Inr ctx\<close> q Inl assms not_inserted [of e w1] show ?thesis
          by (auto simp: create_document_def store_document_def bnd_def in_db_def in_store_def uuid4_def Let_def try_except_def ret_def raise_def
              discard_object_eq split: option.splits)
      next
        case (Inr d)
        with up p \<open>p = Inr ctx\<close> q assms have e: "r = Inr d" "s' = s2" "w' = w1"
          by (auto simp: create_document_def store_document_def bnd_def in_db_def in_store_def uuid4_def Let_def try_except_def ret_def raise_def
              split: option.splits)
        from up [folded e(3)] insert_document_Inr [OF q [unfolded Inr]] show ?thesis
          by (intro stored [OF e(1) ctx p [unfolded \<open>p = Inr ctx\<close>]]) (auto simp: e(2))
      qed
    qed
  qed
qed

lemma save_document_Inr:
  assumes "save_document i f u s = (Inr r, s')" "get_row documents_tbl i (working s) = Some d"
  shows "r = Some (touch (clock s) f d) \<and>
    documents (working s') = map_row i (touch (clock s) f) (documents (working s)) \<and>
    contracts (working s') = contracts (working s) \<and> properties (working s') = properties (working s) \<and>
    committed s' = working s' \<and> schema_ok (working s')"
  using assms by (auto simp: save_document_def bnd_Inr_iff repo_update_Inr write_audit_log_iff)

lemma save_document_Inl:
  assumes "save_document i f u s = (Inl e, s')"
  shows "committed s' = committed s \<and> e \<noteq> DocumentStorageInconsistentError"
  using assms atomic_Inl [OF atomic_save_document assms]
  by (auto simp: save_document_def bnd_Inl_iff repo_update_Inl write_audit_log_iff)

lemma update_document_Inr:
  assumes "update_document i pl u s = (Inr r, s')"
  obtains d ctx where "get_row documents_tbl i (working s) = Some d" "context_ok (working s) ctx"
    "prepare_document_context u (Some d) pl s = (Inr ctx, s)"
    "save_document i (assign_relink ctx) u s = (Inr r, s')"
  using assms
  by (fastforce simp: update_document_def bnd_Inr_iff get_document_Inr dest: prepare_context_ok)

lemma commit_file_replacement_iff:
  "commit_file_replacement cfg cl i f k u (s, w) = (r, s', w') \<longleftrightarrow>
     (\<exists>x. save_document i f u s = (Inr x, s') \<and> r = Inr x \<and> w' = w) \<or>
     (\<exists>e. save_document i f u s = (Inl e, s') \<and> r = Inl e \<and> discard_object cfg cl k w = (Inr (), w'))"
proof (cases "save_document i f u s")
  case (Pair q s2)
  then show ?thesis
    by (cases q) (auto simp: commit_file_replacement_def try_except_def in_db_def in_store_def bnd_def
        discard_object_eq raise_def)
qed

lemma promote_staged_upload_iff:
  "promote_staged_upload cfg cl k data ct w = (r, w') \<longleftrightarrow>
     put_file cfg cl k data ct w = (Inr (), w') \<and> r = Inr () \<or>
     (\<exists>e. put_file cfg cl k data ct w = (Inl e, w') \<and> r = Inl DocumentStorageInconsistentError)"
proof (cases "put_object cl (MINIO_BUCKET_NAME cfg) k data ct w")
  case (Pair b w2)
  then show ?thesis
    by (cases b) (auto simp: promote_staged_upload_def try_except_def put_file_def raise_def)
qed

lemma finalize_replacement_total:
  "finalize_replacement_cleanup cfg cl k1 k2 k3 w = (Inr (), snd (finalize_replacement_cleanup cfg cl k1 k2 k3 w))"
  by (simp add: finalize_replacement_cleanup_def bnd_def discard_object_eq ret_def)

text \<open>
  The outcomes of a replacement: refused before the store is touched, the new file not
  staged, staged but the row not saved, the row saved but the file not promoted, and done.
\<close>

lemma replace_document_cases:
  assumes "replace_document_file cfg cl i pl fo u (s, w) = (r, s', w')"
    and keys: "key = build_storage_key i (dc_file_name pl)"
      "staging_key = build_staging_key i (uuid_source s (uuid_drawn s))"
  obtains
    (refused) e where "r = Inl e" "s' = s" "w' = w"
  | (not_staged) e d data ct n where "r = Inl e" "committed s' = committed s"
      "get_row documents_tbl i (working s) = Some d"
      "read_and_validate_upload None fo = Inr (data, ct, n)"
      "e = DocumentUploadError ''Storage upload failed''"
      "put_file cfg cl staging_key data ct w = (Inl e, w')"
  | (not_saved) e w1 d data ct n where "r = Inl e" "committed s' = committed s"
      "get_row documents_tbl i (working s) = Some d"
      "read_and_validate_upload None fo = Inr (data, ct, n)"
      "put_file cfg cl staging_key data ct w = (Inr (), w1)"
      "discard_object cfg cl staging_key w1 = (Inr (), w')" "e \<noteq> DocumentStorageInconsistentError"
  | (not_promoted) w1 d ctx data ct n e where "r = Inl DocumentStorageInconsistentError"
      "get_row documents_tbl i (working s) = Some d" "context_ok (working s) ctx"
      "read_and_validate_upload None fo = Inr (data, ct, n)"
      "save_document i (assign_file (build_object_url cfg key) pl ctx) u
         (s\<lparr>uuid_drawn := Suc (uuid_drawn s)\<rparr>) = (Inr (Some (touch (clock s) (assign_file (build_object_url cfg key) pl ctx) d)), s')"
      "put_file cfg cl staging_key data ct w = (Inr (), w1)"
      "put_file cfg cl key data ct w1 = (Inl e, w')"
  | (replaced) w1 w2 d ctx data ct n where
      "r = Inr (Some (touch (clock s) (assign_file (build_object_url cfg key) pl ctx) d))"
      "get_row documents_tbl i (working s) = Some d" "context_ok (working s) ctx"
      "read_and_validate_upload None fo = Inr (data, ct, n)"
      "save_document i (assign_file (build_object_url cfg key) pl ctx) u
         (s\<lparr>uuid_drawn := Suc (uuid_drawn s)\<rparr>) = (Inr (Some (touch (clock s) (assign_file (build_object_url cfg key) pl ctx) d)), s')"
      "put_file cfg cl staging_key data ct w = (Inr (), w1)"
      "put_file cfg cl key data ct w1 = (Inr (), w2)"
      "finalize_replacement_cleanup cfg cl staging_key (build_storage_key i (file_name d)) key w2 = (Inr (), w')"
proof -
  let ?s1 = "s\<lparr>uuid_drawn := Suc (uuid_drawn s)\<rparr>"
  obtain g where g: "get_document i u s = (g, s)"
    using pure_readD [OF pure_read_documents(2)] by (metis surj_pair)
  obtain v where v: "read_and_validate_upload None fo = v" by simp
  show thesis
  proof (cases g)
    case (Inl e)
    with g assms(1) refused [of e] show ?thesis by (simp add: replace_document_file_def bnd_def in_db_def)
  next
    case get: (Inr d)
    with g have d: "get_row documents_tbl i (working s) = Some d" by (simp add: get_document_Inr)
    obtain p where p: "prepare_document_context u (Some d) (links_of pl) s = (p, s)"
      using pure_readD [OF pure_read_documents(1)] by (metis surj_pair)
    show ?thesis
    proof (cases p)
      case (Inl e)
      with g get p assms(1) refused [of e] show ?thesis
        by (simp add: replace_document_file_def bnd_def in_db_def)
    next
      case prep: (Inr ctx)
      with p have ctx: "context_ok (working s) ctx" using prepare_context_ok by blast
      let ?f = "assign_file (build_object_url cfg key) pl ctx"
      show ?thesis
      proof (cases v)
        case (Inl e)
        with v g get p prep assms(1) refused [of e] show ?thesis
          by (simp add: replace_document_file_def bnd_def in_db_def raise_def)
      next
        case (Inr y)
        then obtain data ct n where up: "read_and_validate_upload None fo = Inr (data, ct, n)"
          using v by (cases y) auto
        let ?k = "build_storage_key i (file_name d)"
        obtain x w1 where st: "put_file cfg cl staging_key data ct w = (x, w1)" by fastforce
        obtain y2 s2 w2 where cm: "commit_file_replacement cfg cl i ?f staging_key u (?s1, w1) = (y2, s2, w2)"
          using prod_cases3 by blast
        obtain z w3 where pr: "promote_staged_upload cfg cl key data ct w2 = (z, w3)" by fastforce
        define w4 where "w4 = snd (finalize_replacement_cleanup cfg cl staging_key ?k key w3)"
        have fin: "finalize_replacement_cleanup cfg cl staging_key ?k key w3 = (Inr (), w4)"
          unfolding w4_def by (rule finalize_replacement_total)
        have "replace_document_file cfg cl i pl fo u (s, w) = (case x of Inl e \<Rightarrow> (Inl e, ?s1, w1) | Inr _ \<Rightarrow>
            (case y2 of Inl e \<Rightarrow> (Inl e, s2, w2) | Inr v \<Rightarrow>
            (case z of Inl e \<Rightarrow> (Inl e, s2, w3)
             | Inr _ \<Rightarrow> (Inr v, s2, w4))))"
        proof -
          have steps: "in_db (get_document i u) (s, w) = (Inr d, s, w)"
            "in_db (prepare_document_context u (Some d) (links_of pl)) (s, w) = (Inr ctx, s, w)"
            "in_db uuid4 (s, w) = (Inr (uuid_source s (uuid_drawn s)), ?s1, w)"
            "in_store (put_file cfg cl staging_key data ct) (?s1, w) = (x, ?s1, w1)"
            "in_store (promote_staged_upload cfg cl key data ct) (s2, w2) = (z, s2, w3)"
            "in_store (finalize_replacement_cleanup cfg cl staging_key ?k key) (s2, w3) = (Inr (), s2, w4)"
            using g get p prep st pr fin by (simp_all add: uuid4_def)
          show ?thesis
            unfolding replace_document_file_def store_replacement_def
            using get_row_id [OF d] by (cases x; cases y2; cases z) (simp_all add: bnd_def steps cm up ret_def Let_def keys [symmetric])
        qed
        note out = this [unfolded assms(1)]
        show ?thesis
        proof (cases x)
          case (Inl e)
          with st have "e = DocumentUploadError ''Storage upload failed''" by (simp add: put_file_Inl)
          with not_staged d up st Inl out show ?thesis by simp
        next
          case x: (Inr a)
          from cm consider (bad) e where "save_document i ?f u ?s1 = (Inl e, s2)" "y2 = Inl e"
              "discard_object cfg cl staging_key w1 = (Inr (), w2)"
            | (good) v where "save_document i ?f u ?s1 = (Inr v, s2)" "y2 = Inr v" "w2 = w1"
            by (auto simp: commit_file_replacement_iff)
          then show ?thesis
          proof cases
            case bad
            then have "committed s2 = committed s" "e \<noteq> DocumentStorageInconsistentError"
              using save_document_Inl [OF bad(1)] by simp_all
            with bad not_saved d up st x out show ?thesis by simp
          next
            case good
            with save_document_Inr [OF good(1), of d] d have v: "v = Some (touch (clock s) ?f d)" by simp
            with good have sv: "save_document i ?f u ?s1 = (Inr (Some (touch (clock s) ?f d)), s2)" by simp
            show ?thesis
            proof (cases z)
              case (Inl e)
              with pr obtain e' where "e = DocumentStorageInconsistentError" "put_file cfg cl key data ct w2 = (Inl e', w3)"
                by (auto simp: promote_staged_upload_iff)
              with not_promoted d ctx up st x good sv Inl out show ?thesis by simp
            next
              case (Inr b)
              with pr good have p: "put_file cfg cl key data ct w1 = (Inr (), w3)"
                by (simp add: promote_staged_upload_iff)
              from out x good Inr v have e: "r = Inr (Some (touch (clock s) ?f d))" "s' = s2" "w' = w4" by simp_all
              from st x have "put_file cfg cl staging_key data ct w = (Inr (), w1)" by simp
              from replaced [OF e(1) d ctx up sv [folded e(2)] this p fin [folded e(3)]] show ?thesis .
            qed
          qed
        qed
      qed
    qed
  qed
qed

section \<open>Samples\<close>

text \<open>A store in memory, a stream in memory, and a small file for the contract of the villa.\<close>

definition mem_store :: "objects storage_client" where
  "mem_store =
     \<lparr>put_object = (\<lambda>b k d ct w. (True, w((b, k) \<mapsto> (d, ct)))),
      get_object = (\<lambda>b k w. (map_option fst (w (b, k)), w)),
      remove_object = (\<lambda>b k w. (True, w((b, k) := None)))\<rparr>"

lemma mem_store_spec: "storage_spec mem_store (\<lambda>w. w)"
  by (auto simp: storage_spec_def mem_store_def split: prod.splits option.splits)

fun string_reader :: "int \<Rightarrow> string \<Rightarrow> string \<times> string" where
  "string_reader n [] = ([], [])"
| "string_reader n (c # cs) =
     (if n \<le> 0 then ([], c # cs) else case string_reader (n - 1) cs of (xs, ys) \<Rightarrow> (c # xs, ys))"

lemma string_reader_eq: "string_reader n f = (take (nat n) f, drop (nat n) f)"
  by (induction n f rule: string_reader.induct) (auto simp: take_Cons' drop_Cons' nat_diff_distrib)

lemma string_reader_spec: "reader_spec string_reader (\<lambda>f. f)"
  by (auto simp: reader_spec_def string_reader_eq)

definition sample_upload :: "string \<Rightarrow> string \<Rightarrow> string upload" where
  "sample_upload ct bs = \<lparr>content_type = Some ct, read_bytes = string_reader, stream = bs\<rparr>"

lemma sample_upload_simps [simp]:
  "content_type (sample_upload ct bs) = Some ct" "read_bytes (sample_upload ct bs) = string_reader"
  "stream (sample_upload ct bs) = bs"
  by (simp_all add: sample_upload_def)

definition pdf :: "string upload" where "pdf = sample_upload ''application/pdf'' ''%PDF-1.4''"

definition sample_payload :: "string \<Rightarrow> document_create" where
  "sample_payload n = \<lparr>dc_file_name = n, dc_file_type = ''application/pdf'', dc_contract_id = Some 30,
     dc_property_id = None, dc_tenant_id = None, dc_collection_id = None\<rparr>"

definition sample_document :: "uuid \<Rightarrow> document" where
  "sample_document i = \<lparr>row_id = i, created_at = 5, updated_at = 5, file_name = ''old.pdf'', file_url = ''u'',
     file_type = ''application/pdf'', doc_contract_id = Some 30, doc_property_id = Some 10,
     doc_tenant_id = Some 20, doc_collection_id = None\<rparr>"

definition with_document :: "uuid \<Rightarrow> session" where
  "with_document i = session_of (sample_tables\<lparr>documents := [sample_document i]\<rparr>)"

text \<open>The store of that session: the old file under its key.\<close>

definition old_store :: "uuid \<Rightarrow> objects" where
  "old_store i = (\<lambda>_. None)((MINIO_BUCKET_NAME BaseConfig, build_storage_key i ''old.pdf'') \<mapsto> (''%PDF-old'', ''application/pdf''))"

section \<open>Links\<close>

text \<open>A document of a contract carries the property and the tenant of the contract.\<close>

definition document_linked :: "tables \<Rightarrow> document \<Rightarrow> bool" where
  "document_linked t d \<longleftrightarrow> (case doc_contract_id d of
     None \<Rightarrow> True
   | Some i \<Rightarrow> list_ex (\<lambda>c. row_id c = i \<and> doc_property_id d = Some (contract_property_id c) \<and>
       doc_tenant_id d = Some (contract_tenant_id c)) (contracts t))"

definition documents_ok :: "tables \<Rightarrow> bool" where
  "documents_ok t \<longleftrightarrow> list_all (document_linked t) (documents t)"

lemma document_linked_cong: "contracts t = contracts t' \<Longrightarrow> document_linked t = document_linked t'"
  by (simp add: document_linked_def fun_eq_iff cong: option.case_cong)

lemma linked_new_document: "context_ok t ctx \<Longrightarrow> document_linked t (new_document url pl ctx i n)"
  by (auto simp: context_ok_def document_linked_def new_document_def list_ex_iff split: option.splits)

lemma linked_assign:
  assumes "context_ok t ctx"
  shows "document_linked t (touch n (assign_relink ctx) d)" "document_linked t (touch n (assign_file url pl ctx) d)"
proof -
  have "document_linked t (assign_relink ctx d)" for d
    using assms by (auto simp: context_ok_def document_linked_def assign_relink_def list_ex_iff split: option.splits)
  moreover have "document_linked t (touch n f d) = document_linked t (f d)" for f
    by (rule touch_field) (simp add: document_linked_def split: option.split)
  ultimately show "document_linked t (touch n (assign_relink ctx) d)"
    "document_linked t (touch n (assign_file url pl ctx) d)"
    by (simp_all only: assign_file_def)
qed

lemma documents_ok_save:
  assumes "documents_ok (working s)" "context_ok (working s) ctx" "get_row documents_tbl i (working s) = Some d"
    and "save_document i f u s = (Inr r, s')" "f = assign_relink ctx \<or> f = assign_file url pl ctx"
  shows "documents_ok (committed s')"
proof -
  note sv = save_document_Inr [OF assms(4,3)]
  then have l: "document_linked (committed s') = document_linked (working s)" by (intro document_linked_cong) simp
  have "document_linked (working s) q" if "q \<in> set (documents (committed s'))" for q
  proof -
    from that sv obtain q0 where "q0 \<in> set (documents (working s))"
      "q = (if row_id q0 = i then touch (clock s) f q0 else q0)" by (auto simp: set_map_row)
    with assms(1,5) linked_assign [OF assms(2)] show ?thesis
      by (cases "row_id q0 = i") (auto simp: documents_ok_def list_all_iff)
  qed
  with l show ?thesis by (simp add: documents_ok_def list_all_iff)
qed

lemma delete_document_cases:
  assumes "delete_document cfg st i u (s, w) = (r, s', w')"
  shows "committed s' = committed s \<and> w' = w \<and> isl r \<or>
    (\<exists>d. r = Inr (Some d) \<and> get_row documents_tbl i (working s) = Some d \<and>
       documents (committed s') = filter (\<lambda>q. row_id q \<noteq> i) (documents (working s)) \<and>
       contracts (committed s') = contracts (working s) \<and>
       (case st of None \<Rightarrow> w' = w
        | Some cl \<Rightarrow> discard_object cfg cl (build_storage_key i (file_name d)) w = (Inr (), w')))"
proof -
  let ?del = "try_except (bnd (repo_delete documents_tbl (\<lambda>_ t. t) i) (\<lambda>deleted.
     bnd (write_audit_log u DELETE ''Document'' i) (\<lambda>_. bnd commit (\<lambda>_. ret deleted))))
     (\<lambda>e. bnd rollback (\<lambda>_. raise e))"
  obtain g where g: "get_document i u s = (g, s)"
    using pure_readD [OF pure_read_documents(2)] by (metis surj_pair)
  show ?thesis
  proof (cases g)
    case (Inl e)
    with g assms show ?thesis by (auto simp: delete_document_def bnd_def in_db_def)
  next
    case (Inr d)
    with g have d: "get_row documents_tbl i (working s) = Some d" by (simp add: get_document_Inr)
    obtain q s2 where q: "?del s = (q, s2)" by fastforce
    have c: "isl q \<and> committed s2 = committed s \<or> q = Inr (Some d) \<and>
        documents (committed s2) = filter (\<lambda>q. row_id q \<noteq> i) (documents (working s)) \<and>
        contracts (committed s2) = contracts (working s)"
      using q d by (cases q)
        (auto simp: try_except_Inl_iff try_except_Inr_iff bnd_Inl_iff bnd_Inr_iff repo_delete_iff write_audit_log_iff)
    have "delete_document cfg st i u (s, w) = (case q of Inl e \<Rightarrow> (Inl e, s2, w) | Inr x \<Rightarrow>
        bnd (case (x, st) of (Some _, Some cl) \<Rightarrow> in_store (discard_object cfg cl (build_storage_key i (file_name d)))
          | _ \<Rightarrow> ret ()) (\<lambda>_. ret x) (s2, w))"
      using g Inr q by (cases q) (simp_all add: delete_document_def bnd_def in_db_def split: option.split)
    with c assms d show ?thesis
      by (cases q; cases st) (auto simp: bnd_def in_store_def discard_object_eq ret_def)
  qed
qed

text \<open>
  C25. A document that names a contract always carries the property and the tenant of that
  contract: uploading, relinking, replacing the file and deleting keep this in the database,
  with every outcome, an upload that fails halfway included.
\<close>

theorem document_links_follow_contracts:
  assumes "documents_ok (committed s)" "working s = committed s"
  shows "documents_ok (committed (fst (snd (create_document cfg file_arg pl u (s, w))))) \<and>
    documents_ok (committed (snd (update_document i rl u s))) \<and>
    documents_ok (committed (fst (snd (replace_document_file cfg cl i pl fo u (s, w))))) \<and>
    documents_ok (committed (fst (snd (delete_document cfg st i u (s, w)))))"
proof (intro conjI)
  obtain r s' w' where c: "create_document cfg file_arg pl u (s, w) = (r, s', w')" using prod_cases3 by blast
  have "documents_ok (committed s')"
    using c
  proof (cases rule: create_document_cases)
    case (stored d ctx)
    then have "document_linked (committed s') = document_linked (working s)" by (intro document_linked_cong) simp
    with stored assms show ?thesis by (simp add: documents_ok_def linked_new_document)
  qed (use assms in simp_all)
  with c show "documents_ok (committed (fst (snd (create_document cfg file_arg pl u (s, w)))))" by simp
next
  obtain r s' where c: "update_document i rl u s = (r, s')" by fastforce
  have "documents_ok (committed s')"
  proof (cases r)
    case (Inl e)
    with c assms show ?thesis using atomic_Inl [OF atomic_update_document] by simp
  next
    case (Inr x)
    from update_document_Inr [OF c [unfolded Inr]] show ?thesis
      using documents_ok_save assms by metis
  qed
  with c show "documents_ok (committed (snd (update_document i rl u s)))" by simp
next
  obtain r s' w' where c: "replace_document_file cfg cl i pl fo u (s, w) = (r, s', w')" using prod_cases3 by blast
  let ?s1 = "s\<lparr>uuid_drawn := Suc (uuid_drawn s)\<rparr>"
  have k: "documents_ok (working ?s1)" using assms by simp
  have "documents_ok (committed s')"
    using c refl refl
  proof (cases rule: replace_document_cases)
    case (not_promoted w1 d ctx data ct n e)
    show ?thesis
      by (rule documents_ok_save [OF k _ _ not_promoted(5) disjI2 [OF refl]]) (simp_all add: not_promoted(2,3))
  next
    case (replaced w1 w2 d ctx data ct n)
    show ?thesis
      by (rule documents_ok_save [OF k _ _ replaced(5) disjI2 [OF refl]]) (simp_all add: replaced(2,3))
  qed (use assms in simp_all)
  with c show "documents_ok (committed (fst (snd (replace_document_file cfg cl i pl fo u (s, w)))))" by simp
next
  obtain r s' w' where c: "delete_document cfg st i u (s, w) = (r, s', w')" using prod_cases3 by blast
  have "documents_ok (committed s')"
    using delete_document_cases [OF c] assms document_linked_cong [of "committed s'" "working s"]
    by (auto simp: documents_ok_def list_all_iff)
  with c show "documents_ok (committed (fst (snd (delete_document cfg st i u (s, w)))))" by simp
qed

theorem document_links_follow_contracts_witness:
  "documents_ok (committed (fst (snd (create_document BaseConfig (Some (mem_store, pdf)) (sample_payload ''new.pdf'') mgr
     (session_of sample_tables, \<lambda>_. None))))) \<and>
   documents_ok (committed (fst (snd (delete_document BaseConfig (Some mem_store) 60 mgr (with_document 60, old_store 60)))))"
proof
  show "documents_ok (committed (fst (snd (create_document BaseConfig (Some (mem_store, pdf)) (sample_payload ''new.pdf'') mgr
     (session_of sample_tables, \<lambda>_. None)))))"
    by (rule document_links_follow_contracts [THEN conjunct1])
      (simp_all add: documents_ok_def sample_tables_def empty_tables_def)
  have "documents_ok (committed (with_document 60))" "working (with_document 60) = committed (with_document 60)"
    by code_simp (simp add: with_document_def)
  note l = document_links_follow_contracts [OF this, THEN conjunct2, THEN conjunct2, THEN conjunct2]
  show "documents_ok (committed (fst (snd (delete_document BaseConfig (Some mem_store) 60 mgr (with_document 60, old_store 60)))))"
    by (rule l)
qed

section \<open>Objects\<close>

lemma hex_digits_values: "c \<in> set (hex_digits k n) \<Longrightarrow> hex_val c \<noteq> None"
  by (induction k arbitrary: n) (auto simp: hex_val_char)

lemma staging_key_apart:
  "build_staging_key i tok \<noteq> build_storage_key j n" "build_storage_key j n \<noteq> build_staging_key i tok"
proof -
  obtain c cs where c: "uuid_str j = c # cs" "c \<in> set (hex_digits 32 j)"
    by (cases "hex_digits 32 j") (auto simp: uuid_str_def Let_def dest: arg_cong [where f = length])
  from hex_digits_values [OF c(2)] have "c \<noteq> CHR ''_''" by (auto simp: hex_val_def)
  with c(1) show "build_staging_key i tok \<noteq> build_storage_key j n"
    "build_storage_key j n \<noteq> build_staging_key i tok"
    by (simp_all add: build_staging_key_def build_storage_key_def)
qed

text \<open>Every call is answered.\<close>

definition store_up :: "'w storage_client \<Rightarrow> bool" where
  "store_up cl \<longleftrightarrow> (\<forall>b k d ct w. fst (put_object cl b k d ct w)) \<and>
     (\<forall>b k w. fst (remove_object cl b k w))"

lemma store_up_put: "store_up cl \<Longrightarrow> put_file cfg cl k d t w \<noteq> (Inl e, w')"
proof
  assume "store_up cl" "put_file cfg cl k d t w = (Inl e, w')"
  moreover from this(1) have "fst (put_object cl (MINIO_BUCKET_NAME cfg) k d t w)" by (simp add: store_up_def)
  ultimately show False by (simp add: put_file_Inl)
qed

lemma upload_Inr:
  "upload_to_storage cfg cl key pl fo w = (Inr u, w') \<longleftrightarrow>
     (\<exists>d t n. read_and_validate_upload pl fo = Inr (d, t, n) \<and> put_file cfg cl key d t w = (Inr u, w'))"
  by (auto simp: upload_to_storage_def split: sum.splits)

lemma upload_Inl:
  "upload_to_storage cfg cl key pl fo w = (Inl e, w') \<longleftrightarrow>
     read_and_validate_upload pl fo = Inl e \<and> w' = w \<or>
     (\<exists>d t n. read_and_validate_upload pl fo = Inr (d, t, n) \<and> put_file cfg cl key d t w = (Inl e, w'))"
  by (auto simp: upload_to_storage_def split: sum.splits)

text \<open>
  C22. A failed upload leaves nothing behind: no row, no other object touched, and unless a
  call to the store failed, no object under the new key either.
\<close>

theorem failed_upload_leaves_nothing:
  assumes "storage_spec cl view" "create_document cfg (Some (cl, fo)) pl u (s, w) = (Inl e, s', w')"
    and "key = build_storage_key (uuid_source s (uuid_drawn s)) (dc_file_name pl)"
  shows "committed s' = committed s \<and>
    (\<forall>bk. bk \<noteq> (MINIO_BUCKET_NAME cfg, key) \<longrightarrow> view w' bk = view w bk) \<and>
    (store_up cl \<longrightarrow> view w' (MINIO_BUCKET_NAME cfg, key) \<in> {None, view w (MINIO_BUCKET_NAME cfg, key)})"
  using assms(2)
proof (cases rule: create_document_cases)
  case (not_stored e cl' fo')
  then have c: "committed s' = committed s" and "cl' = cl" "fo' = fo" by simp_all
  with not_stored(4) assms(3) have
    "w' = w \<or> (\<exists>d t. put_file cfg cl key d t w = (Inl e, w'))" by (auto simp: upload_Inl)
  then show ?thesis
  proof
    assume "w' = w"
    with c show ?thesis by simp
  next
    assume "\<exists>d t. put_file cfg cl key d t w = (Inl e, w')"
    then obtain d t where p: "put_file cfg cl key d t w = (Inl e, w')" by blast
    with c store_up_put [of cl cfg key d t w e w'] put_file_view [OF assms(1) p] show ?thesis by auto
  qed
next
  case (not_inserted e w1)
  then obtain d t where up: "put_file cfg cl key d t w = (Inr (), w1)"
    and dis: "discard_object cfg cl key w1 = (Inr (), w')" using assms(3) by (auto simp: upload_Inr)
  show ?thesis
    using not_inserted(2) put_file_view [OF assms(1) up] discard_object_view [OF assms(1) dis]
    by (auto simp: store_up_def)
qed (use assms in simp_all)

text \<open>The identifier is taken: the row cannot be inserted after the file was stored.\<close>

theorem failed_upload_leaves_nothing_witness:
  "(snd (snd (create_document BaseConfig (Some (mem_store, pdf)) (sample_payload ''new.pdf'') mgr
      (with_document 1000, \<lambda>_. None))))
     (MINIO_BUCKET_NAME BaseConfig, build_storage_key 1000 ''new.pdf'') = None"
  (is "snd (snd ?run) _ = None")
proof -
  have "isl (fst ?run)" by code_simp
  then obtain e where e: "?run = (Inl e, fst (snd ?run), snd (snd ?run))"
    by (cases ?run) (auto simp: isl_def)
  have "store_up mem_store" by (simp add: store_up_def mem_store_def)
  moreover have "build_storage_key 1000 ''new.pdf'' =
    build_storage_key (uuid_source (with_document 1000) (uuid_drawn (with_document 1000))) (dc_file_name (sample_payload ''new.pdf''))"
    by (simp add: with_document_def session_of_def sample_payload_def)
  ultimately show ?thesis
    using failed_upload_leaves_nothing [OF mem_store_spec e] by auto
qed

text \<open>The ownership check of the upload is the one of the download.\<close>

lemma same_ownership:
  assumes "prepare_document_context u None pl s = (Inr ctx, s)"
    and "contracts (working s2) = contracts (working s)" "properties (working s2) = properties (working s)"
  shows "authorize_user_to_property DocumentForbidden u (ctx_property_id ctx) (ctx_contract_id ctx) None s2 = (Inr (), s2)"
proof -
  have rows: "get_row contracts_tbl i (working s2) = get_row contracts_tbl i (working s)"
    "get_row properties_tbl i (working s2) = get_row properties_tbl i (working s)" for i
    using assms(2,3) by (simp_all add: get_row_def build_query_def)
  from assms(1) obtain c where r: "resolve_document_relationship None pl s = (Inr (ctx, c), s)"
    and a: "authorize_user_to_property DocumentForbidden u (ctx_property_id ctx) (ctx_contract_id ctx) c s = (Inr (), s)"
    by (auto simp: prepare_document_context_def bnd_Inr_iff
        dest: pure_readD [OF pure_read_resolve_relationship] pure_readD [OF pure_read_authorize])
  show ?thesis
    using a resolve_relationship_Inr [OF r] by (cases "ctx_contract_id ctx") (auto simp: authorize_Inr resolve_property_Inr rows split: option.splits)
qed

text \<open>
  C23. What was uploaded can be downloaded: after a successful upload the same user gets the
  new row and exactly the bytes that were sent, as long as the store answers. They are of an
  allowed type, which their first bytes show, which they are stored under, and which was
  declared: by the content type of the upload, or by the request when the upload has none.
\<close>

theorem uploaded_file_is_downloaded:
  assumes "storage_spec cl view" "reader_spec (read_bytes fo) rest"
    and "create_document cfg (Some (cl, fo)) pl u (s, w) = (Inr d, s', w')"
    and "fst (get_object cl (MINIO_BUCKET_NAME cfg) (build_storage_key (row_id d) (file_name d)) w') \<noteq> None"
  shows "\<exists>w2. get_document_content cfg cl (row_id d) u (s', w') = (Inr (d, rest (stream fo)), s', w2) \<and>
    view w2 = view w' \<and> int (length (rest (stream fo))) \<le> MAX_FILE_SIZE \<and>
    (\<exists>t\<in>set ALLOWED_MIME. sniff_content_type (rest (stream fo)) = Some t \<and>
       view w' (MINIO_BUCKET_NAME cfg, build_storage_key (row_id d) (file_name d)) = Some (rest (stream fo), t) \<and>
       (let declared = (if content_type fo \<in> {None, Some []} then dc_file_type pl else the (content_type fo))
        in t = (if declared = ''image/jpg'' then ''image/jpeg'' else declared)))"
  using assms(3)
proof (cases rule: create_document_cases)
  case (stored d' ctx)
  let ?b = "MINIO_BUCKET_NAME cfg" and ?k = "build_storage_key (row_id d) (file_name d)"
  from stored(1) have d: "d' = d" by simp
  with stored(4) have k: "?k = build_storage_key (uuid_source s (uuid_drawn s)) (dc_file_name pl)"
    and links: "doc_property_id d = ctx_property_id ctx" "doc_contract_id d = ctx_contract_id ctx"
    by (simp_all add: new_document_def)
  from stored(10) obtain data t n where
    rd: "read_and_validate_upload (Some (dc_file_name pl, dc_file_type pl)) fo = Inr (data, t, n)"
    and put: "put_file cfg cl ?k data t w = (Inr (), w')" by (auto simp: upload_Inr k)
  note up = read_upload_Inr [OF assms(2) rd]
  from put_file_view [OF assms(1) put] have v: "view w' (?b, ?k) = Some (data, t)" by simp
  obtain g w2 where g: "get_object cl ?b ?k w' = (g, w2)" by fastforce
  with assms(4) obtain x where x: "g = Some x" by auto
  from storage_specD(3) [OF assms(1) g] storage_specD(4) [OF assms(1) g [unfolded x]] v
  have gd: "x = data" "view w2 = view w'" by auto
  have row: "get_row documents_tbl (row_id d) (working s') = Some d"
    using stored(5) d schema_ok_keys(8) [OF stored(9)] by (simp add: get_row_Some_iff)
  have "get_document (row_id d) u s' = (Inr d, s')"
    using row same_ownership [OF stored(3,6,7)] links by (simp add: get_document_Inr)
  then have "get_document_content cfg cl (row_id d) u (s', w') = (Inr (d, data), s', w2)"
    using g x gd(1) by (simp add: get_document_content_def bnd_def in_db_def in_store_def read_document_def read_object_def ret_def)
  moreover from up obtain dt where "declared_type fo (Some (dc_file_name pl, dc_file_type pl)) = Inr dt" "t = jpg_alias dt"
    by blast
  then have "let declared = (if content_type fo \<in> {None, Some []} then dc_file_type pl else the (content_type fo))
      in t = (if declared = ''image/jpg'' then ''image/jpeg'' else declared)"
    by (auto simp: declared_type_def falsy_def jpg_alias_def Let_def split: if_splits)
  ultimately show ?thesis using up v gd by auto
qed simp_all

theorem uploaded_file_is_downloaded_witness:
  "\<exists>d s w w2. get_document_content BaseConfig mem_store (row_id d) mgr (s, w) = (Inr (d, ''%PDF-1.4''), s, w2) \<and>
     documents (committed s) = [d]"
proof -
  let ?run = "create_document BaseConfig (Some (mem_store, pdf)) (sample_payload ''new.pdf'') mgr
    (session_of sample_tables, \<lambda>_. None)"
  have c: "(case ?run of (Inr d, s, w) \<Rightarrow> documents (committed s) = [d] \<and>
      fst (get_object mem_store (MINIO_BUCKET_NAME BaseConfig) (build_storage_key (row_id d) (file_name d)) w) \<noteq> None
    | _ \<Rightarrow> False)" by code_simp
  then obtain d s w where r: "?run = (Inr d, s, w)" "documents (committed s) = [d]"
    "fst (get_object mem_store (MINIO_BUCKET_NAME BaseConfig) (build_storage_key (row_id d) (file_name d)) w) \<noteq> None"
    by (cases ?run) (auto split: sum.splits)
  from uploaded_file_is_downloaded [OF mem_store_spec _ r(1,3), of "\<lambda>f. f"] string_reader_spec r(2)
  show ?thesis by (auto simp: pdf_def)
qed

lemma save_document_row:
  assumes "save_document i f u s = (Inr r, s')" "get_row documents_tbl i (working s) = Some d"
    and "row_id (f d) = row_id d"
  shows "get_row documents_tbl i (committed s') = Some (touch (clock s) f d)"
proof -
  note sv = save_document_Inr [OF assms(1,2)]
  from get_row_SomeD [OF assms(2)] have d: "d \<in> set (documents (working s))" "row_id d = i" by simp_all
  with sv have "touch (clock s) f d \<in> set (documents (committed s'))" by (auto simp: set_map_row)
  moreover have "row_id (touch (clock s) f d) = i" using d assms(3) by (simp add: touch_field [of row_id])
  moreover from sv have "schema_ok (committed s')" by simp
  then have "distinct (ids (documents (committed s')))" by (rule schema_ok_keys)
  ultimately show ?thesis by (simp add: get_row_Some_iff)
qed

lemma assign_file_simps [simp]:
  "row_id (assign_file url pl ctx d) = row_id d" "file_name (assign_file url pl ctx d) = dc_file_name pl"
  by (simp_all add: assign_file_def assign_relink_def)

lemma file_name_touch: "file_name (touch n (assign_file url pl ctx) d) = dc_file_name pl"
  by (simp add: touch_field [of file_name])

lemma finalize_view:
  assumes "storage_spec cl view" "finalize_replacement_cleanup cfg cl k1 k2 k3 w = (r, w')"
    and "bk \<noteq> (MINIO_BUCKET_NAME cfg, k1)" "bk = (MINIO_BUCKET_NAME cfg, k3)"
  shows "view w' bk = view w bk"
proof -
  let ?b = "MINIO_BUCKET_NAME cfg"
  let ?w1 = "snd (remove_object cl ?b k1 w)"
  from assms(2) have w': "w' = (if k2 \<noteq> k3 then snd (remove_object cl ?b k2 ?w1) else ?w1)"
    by (auto simp: finalize_replacement_cleanup_def bnd_def discard_object_eq ret_def split: if_splits)
  from discard_object_view [OF assms(1) discard_object_eq, of bk] assms(3) have "view ?w1 bk = view w bk" by simp
  moreover from discard_object_view [OF assms(1) discard_object_eq, of bk cfg k2 ?w1] assms(4)
  have "k2 \<noteq> k3 \<Longrightarrow> view (snd (remove_object cl ?b k2 ?w1)) bk = view ?w1 bk" by simp
  ultimately show ?thesis using w' by simp
qed

text \<open>
  C4. Replacing a file never costs the old one: as long as the new row is not committed the
  database and the old object are as they were, whatever fails; if only the promotion fails,
  the new bytes are kept under the staging key, and an old object of another name is still
  there; on success the new bytes are under the key of the new row.
\<close>

theorem replacement_keeps_old_file:
  assumes "storage_spec cl view" "reader_spec (read_bytes fo) rest"
    and "replace_document_file cfg cl i pl fo u (s, w) = (r, s', w')"
    and "get_row documents_tbl i (working s) = Some d"
    and "old = (MINIO_BUCKET_NAME cfg, build_storage_key i (file_name d))"
    and "new = (MINIO_BUCKET_NAME cfg, build_storage_key i (dc_file_name pl))"
    and "staged = (MINIO_BUCKET_NAME cfg, build_staging_key i (uuid_source s (uuid_drawn s)))"
  shows "case r of
      Inl e \<Rightarrow>
        committed s' = committed s \<and> view w' old = view w old \<or>
        e = DocumentStorageInconsistentError \<and> map_option fst (view w' staged) = Some (rest (stream fo)) \<and>
          (old = new \<or> view w' old = view w old) \<and>
          map_option file_name (get_row documents_tbl i (committed s')) = Some (dc_file_name pl)
    | Inr x \<Rightarrow>
        map_option fst (view w' new) = Some (rest (stream fo)) \<and>
        map_option file_name x = Some (dc_file_name pl) \<and> committed s' = working s'"
  using assms(3) refl refl
proof (cases rule: replace_document_cases)
  case (not_staged e d' data ct n)
  with put_file_view [OF assms(1) not_staged(6), of old] staging_key_apart assms(5) show ?thesis by auto
next
  case (not_saved e w1 d' data ct n)
  with put_file_view [OF assms(1) not_saved(5), of old] discard_object_view [OF assms(1) not_saved(6), of old]
    staging_key_apart assms(5) show ?thesis by auto
next
  case (not_promoted w1 d' ctx data ct n e)
  have "view w' staged = Some (data, ct)"
    using put_file_view [OF assms(1) not_promoted(6)] put_file_view [OF assms(1) not_promoted(7), of staged]
      staging_key_apart assms(7) by auto
  moreover have "old = new \<or> view w' old = view w old"
    using put_file_view [OF assms(1) not_promoted(6), of old] put_file_view [OF assms(1) not_promoted(7), of old]
      staging_key_apart assms(5,6) by auto
  moreover have "map_option file_name (get_row documents_tbl i (committed s')) = Some (dc_file_name pl)"
    using save_document_row [OF not_promoted(5), of d'] not_promoted(2) by (simp add: file_name_touch)
  ultimately show ?thesis
    using not_promoted(1) read_upload_Inr [OF assms(2) not_promoted(4)] by simp
next
  case (replaced w1 w2 d' ctx data ct n)
  have "view w2 new = Some (data, ct)"
    using put_file_view [OF assms(1) replaced(7)] assms(6) by simp
  moreover have "view w2 new = view w' new"
    using finalize_view [OF assms(1) replaced(8), of new] staging_key_apart assms(4,6) replaced(2) by auto
  ultimately have n: "view w' new = Some (data, ct)" by simp
  have "committed s' = working s'" using save_document_Inr [OF replaced(5), of d'] replaced(2) by simp
  moreover from read_upload_Inr [OF assms(2) replaced(4)] have "data = rest (stream fo)" by simp
  ultimately show ?thesis unfolding replaced(1) sum.case n by (simp add: file_name_touch)
qed simp

theorem replacement_keeps_old_file_witness:
  "map_option fst (snd (snd (replace_document_file BaseConfig mem_store 60 (sample_payload ''new.pdf'') pdf mgr
     (with_document 60, old_store 60))) (MINIO_BUCKET_NAME BaseConfig, build_storage_key 60 ''new.pdf'')) = Some ''%PDF-1.4''"
  (is "map_option fst (snd (snd ?run) _) = _")
proof -
  have "\<not> isl (fst ?run)" by code_simp
  then obtain x where r: "?run = (Inr x, fst (snd ?run), snd (snd ?run))"
    by (cases ?run) (auto simp: isl_def split: sum.splits intro: sum.exhaust)
  have "get_row documents_tbl 60 (working (with_document 60)) = Some (sample_document 60)" by code_simp
  from replacement_keeps_old_file [OF mem_store_spec _ r this refl refl refl, of "\<lambda>f. f"] string_reader_spec
  show ?thesis by (simp add: pdf_def sample_payload_def)
qed

text \<open>
  Replacing a file by one of an unsupported type crashes instead of being refused: the
  reading code wants the attributes \<open>file_name\<close> and \<open>file_type\<close>, but this caller passes
  a dictionary. The client gets a 500 where the same file in an upload gets a 503.
\<close>

theorem unsupported_replacement_crashes:
  assumes "get_document i u s = (Inr d, s)" "prepare_document_context u (Some d) (links_of pl) s = (Inr ctx, s)"
    and "prepare_document_context u None (links_of pl) s = (Inr ctx', s)"
    and "\<not> falsy (content_type fo)" "read_bytes fo SIGNATURE_PEEK_SIZE (stream fo) = (peek, f)"
    and "sniff_content_type peek = None"
  shows "replace_document_file cfg cl i pl fo u (s, w) = (Inl AttributeError, s, w) \<and>
    http_status (document_route_error AttributeError) = 500 \<and>
    (\<exists>m s'. create_document cfg (Some (cl, fo)) pl u (s, w) = (Inl (DocumentUploadError m), s', w) \<and>
       http_status (document_route_error (DocumentUploadError m)) = 503)"
proof -
  have r: "read_and_validate_upload None fo = Inl AttributeError"
    "read_and_validate_upload (Some x) fo = Inl (DocumentUploadError ''Unsupported file type'')" for x
    using assms(4,5,6) by (simp_all add: read_and_validate_upload_def declared_type_def)
  show ?thesis
    using assms(1-3) r
    by (simp add: replace_document_file_def create_document_def store_document_def bnd_def in_db_def in_store_def uuid4_def
        upload_to_storage_def Let_def raise_def document_route_error_def)
qed

theorem unsupported_replacement_crashes_witness:
  "fst (replace_document_file BaseConfig mem_store 60 (sample_payload ''a.html'') (sample_upload ''text/html'' ''<html>'') mgr
     (with_document 60, old_store 60)) = Inl AttributeError"
proof -
  let ?s = "with_document 60" and ?pl = "links_of (sample_payload ''a.html'')"
  let ?ctx = "\<lparr>ctx_property_id = Some 10, ctx_contract_id = Some 30, ctx_tenant_id = Some 20, ctx_collection_id = None\<rparr>"
  have "fst (get_document 60 mgr ?s) = Inr (sample_document 60)"
    "fst (prepare_document_context mgr (Some (sample_document 60)) ?pl ?s) = Inr ?ctx"
    "fst (prepare_document_context mgr None ?pl ?s) = Inr ?ctx" by code_simp+
  then have run: "get_document 60 mgr ?s = (Inr (sample_document 60), ?s)"
    "prepare_document_context mgr (Some (sample_document 60)) ?pl ?s = (Inr ?ctx, ?s)"
    "prepare_document_context mgr None ?pl ?s = (Inr ?ctx, ?s)"
    by - (rule pure_run [OF pure_read_documents(2)], assumption, (rule pure_run [OF pure_read_documents(1)], assumption)+)
  let ?fo = "sample_upload ''text/html'' ''<html>''"
  have "\<not> falsy (content_type ?fo)" by (simp add: falsy_def)
  moreover have "read_bytes ?fo SIGNATURE_PEEK_SIZE (stream ?fo) = (''<html>'', [])"
    "sniff_content_type ''<html>'' = None" by code_simp+
  ultimately have "replace_document_file BaseConfig mem_store 60 (sample_payload ''a.html'') ?fo mgr
      (?s, old_store 60) = (Inl AttributeError, ?s, old_store 60)"
    by (rule unsupported_replacement_crashes [OF run, THEN conjunct1])
  then show ?thesis by simp
qed

text \<open>The verdict on a file that was read in one piece.\<close>

definition verdict :: "string \<Rightarrow> string \<Rightarrow> svc_error + string \<times> string \<times> int" where
  "verdict declared data =
     (case sniff_content_type data of
        None \<Rightarrow> Inl (DocumentUploadError ''Unsupported file type'')
      | Some t \<Rightarrow>
          if t \<noteq> jpg_alias declared then Inl (DocumentUploadError ''File type mismatch'')
          else if MAX_FILE_SIZE < int (length data) then Inl (DocumentUploadError ''File too large'')
          else Inr (data, t, int (length data)))"

lemma prefix_take_iff: "prefix p d \<longleftrightarrow> take (length p) d = p"
  by (metis append_eq_conv_conj prefix_def)

lemma sniff_take: "sniff_content_type (take 4096 d) = sniff_content_type d"
  by (simp add: sniff_content_type_def prefix_take_iff min_def)

lemma sniff_allowed: "sniff_content_type d = Some t \<Longrightarrow> t \<in> set ALLOWED_MIME"
  by (auto simp: sniff_content_type_def ALLOWED_MIME_def split: if_splits)

text \<open>
  C24. Reading in chunks gives the verdict on the whole file: however long the file is, the
  outcome is that of looking at all its bytes at once, while at most one byte more than the
  limit is kept.
\<close>

theorem chunked_reading_agrees_with_whole:
  assumes "reader_spec (read_bytes fo) rest" "\<And>n f. 0 < n \<Longrightarrow> fst (read_bytes fo n f) = take (nat n) (rest f)"
    and "declared_type fo (Some pl) = Inr declared"
  shows "read_and_validate_upload (Some pl) fo = verdict declared (rest (stream fo)) \<and>
    int (length (fst (copy_rest (read_bytes fo) (MAX_FILE_SIZE + 1 - int (length peek)) f peek)))
      \<le> max (MAX_FILE_SIZE + 1) (int (length peek))"
proof
  let ?d = "rest (stream fo)"
  obtain pk f0 where pk: "read_bytes fo SIGNATURE_PEEK_SIZE (stream fo) = (pk, f0)" by fastforce
  with assms(2) [of SIGNATURE_PEEK_SIZE "stream fo"] have t: "pk = take 4096 ?d"
    by (simp add: SIGNATURE_PEEK_SIZE_def)
  let ?cap = "MAX_FILE_SIZE + 1 - int (length pk)"
  from t have c: "0 \<le> ?cap" by (simp add: MAX_FILE_SIZE_def)
  from copy_rest_result [OF assms(1) c, of f0 pk] obtain x where
    x: "fst (copy_rest (read_bytes fo) ?cap f0 pk) = pk @ x" "int (length x) \<le> ?cap"
    and r: "rest f0 = x @ rest (snd (copy_rest (read_bytes fo) ?cap f0 pk))"
      "int (length x) < ?cap \<Longrightarrow> rest (snd (copy_rest (read_bytes fo) ?cap f0 pk)) = []" by auto
  from reader_specD [OF assms(1) pk] have d: "?d = pk @ rest f0" by simp
  have "(if MAX_FILE_SIZE < int (length (pk @ x)) then Inl (DocumentUploadError ''File too large'')
      else Inr (pk @ x, ty, int (length (pk @ x)))) =
    (if MAX_FILE_SIZE < int (length ?d) then Inl (DocumentUploadError ''File too large'')
      else Inr (?d, ty, int (length ?d)))" for ty :: string
  proof (cases "int (length x) < ?cap")
    case True
    from r(1) r(2) [OF True] d have "?d = pk @ x" by simp
    then show ?thesis by simp
  next
    case False
    with x(2) have "MAX_FILE_SIZE < int (length (pk @ x))" by simp
    moreover from d r(1) have "length (pk @ x) \<le> length ?d" by simp
    ultimately show ?thesis by simp
  qed
  then show "read_and_validate_upload (Some pl) fo = verdict declared ?d"
    using x(1) pk assms(3) sniff_take [of ?d, folded t] sniff_allowed [of ?d]
    by (auto simp: read_and_validate_upload_def verdict_def Let_def split: option.splits)
next
  show "int (length (fst (copy_rest (read_bytes fo) (MAX_FILE_SIZE + 1 - int (length peek)) f peek)))
      \<le> max (MAX_FILE_SIZE + 1) (int (length peek))"
  proof (cases "0 \<le> MAX_FILE_SIZE + 1 - int (length peek)")
    case True
    from copy_rest_result [OF assms(1) this, of f peek] show ?thesis by auto
  next
    case False
    then show ?thesis by (simp add: copy_rest.simps)
  qed
qed

theorem chunked_reading_agrees_with_whole_witness:
  "read_and_validate_upload (Some (''new.pdf'', ''application/pdf'')) pdf =
     Inr (''%PDF-1.4'', ''application/pdf'', 8)"
proof -
  have "declared_type pdf (Some (''new.pdf'', ''application/pdf'')) = Inr ''application/pdf''" by code_simp
  with chunked_reading_agrees_with_whole [of pdf "\<lambda>f. f" "(''new.pdf'', ''application/pdf'')"] string_reader_spec
  have "read_and_validate_upload (Some (''new.pdf'', ''application/pdf'')) pdf = verdict ''application/pdf'' ''%PDF-1.4''"
    by (simp add: pdf_def string_reader_eq)
  also have "\<dots> = Inr (''%PDF-1.4'', ''application/pdf'', 8)" by code_simp
  finally show ?thesis .
qed

section \<open>Listing\<close>

interpretation document_scope: manager_scope documents_tbl document_repo document_visible
  by unfold_locales (simp_all add: document_repo_def document_get_all_for_manager_def
      document_count_all_def document_count_all_for_manager_def)

text \<open>For a document whose links agree, the two ways to own it are one.\<close>

lemma get_document_iff:
  assumes "schema_ok (working s)" "documents_ok (working s)" "d \<in> set (documents (working s))"
  shows "get_document (row_id d) u s = (Inr d, s) \<longleftrightarrow>
    role u = ADMIN \<or> role u = MANAGER \<and> document_visible (row_id u) (working s) d"
proof -
  have g: "get_row documents_tbl (row_id d) (working s) = Some d"
    using assms(1,3) by (simp add: get_row_Some_iff schema_ok_keys)
  have refs: "opt_in (doc_property_id d) (ids (properties (working s)))"
    "opt_in (doc_contract_id d) (ids (contracts (working s)))"
    using assms(1,3) by (auto simp: schema_ok_tables table_constraints_defs list_all_iff)
  show ?thesis
  proof (cases "doc_contract_id d")
    case None
    show ?thesis
    proof (cases "doc_property_id d")
      case None
      with \<open>doc_contract_id d = None\<close> g show ?thesis
        by (auto simp: get_document_Inr document_visible_def authorize_Inr resolve_property_Inr)
    next
      case (Some p)
      with refs None g assms(1) show ?thesis
        by (simp add: get_document_Inr document_visible_def authorize_property_iff)
    qed
  next
    case (Some cid)
    from assms(2,3) have "document_linked (working s) d" by (simp add: documents_ok_def list_all_iff)
    with Some obtain c where c: "c \<in> set (contracts (working s))" "row_id c = cid"
      "doc_property_id d = Some (contract_property_id c)"
      by (auto simp: document_linked_def list_ex_iff)
    have u: "c' = c" if "c' \<in> set (contracts (working s))" "row_id c' = cid" for c'
      using distinct_ids_eq [OF schema_ok_keys(4) [OF assms(1)] that(1) c(1)] c(2) that(2) by simp
    have "cid \<in> set (owned_contract_ids m (working s)) \<longleftrightarrow>
        contract_property_id c \<in> set (owned_property_ids m (working s))" for m
      unfolding owned_contract_ids_iff using c(1,2) u by blast
    with Some refs c g assms(1) show ?thesis
      by (simp add: get_document_Inr document_visible_def authorize_contract_iff)
  qed
qed

text \<open>
  The document list and the single lookup agree: while the links of documents follow
  their contracts, a document is on some page of the caller's list if and only if the caller
  can get it.
\<close>

theorem document_list_agrees_with_lookup:
  assumes "schema_ok (working s)" "documents_ok (working s)" "d \<in> set (documents (working s))"
    and "role u \<noteq> USER"
  shows "(\<exists>k. d \<in> set (items (projr (fst (list_documents u (int (k * 100)) 100 s))))) \<longleftrightarrow>
    get_document (row_id d) u s = (Inr d, s)"
proof -
  from assms(4) have "MANAGER \<le> role u" by (cases "role u") simp_all
  from document_scope.listed_iff [OF this, of d DocumentForbidden s] assms show ?thesis
    by (simp add: document_scope.page_no_def list_documents_def document_scope.seen_by_def get_document_iff
        del: of_nat_mult)
qed

theorem document_list_agrees_with_lookup_witness:
  "\<not> (\<exists>k. sample_document 60 \<in> set (items (projr (fst (list_documents mia (int (k * 100)) 100 (with_document 60)))))) \<and>
   (\<exists>k. sample_document 60 \<in> set (items (projr (fst (list_documents mgr (int (k * 100)) 100 (with_document 60))))))"
proof -
  let ?s = "with_document 60"
  have "schema_ok (working ?s)" "documents_ok (working ?s)" by code_simp+
  moreover have "sample_document 60 \<in> set (documents (working ?s))" by (simp add: with_document_def)
  note document_list_agrees_with_lookup [OF calculation this]
  moreover have "isl (fst (get_document 60 mia ?s))" "fst (get_document 60 mgr ?s) = Inr (sample_document 60)" by code_simp+
  then have "get_document 60 mia ?s \<noteq> (Inr (sample_document 60), ?s)"
    "get_document 60 mgr ?s = (Inr (sample_document 60), ?s)"
    using pure_run [OF pure_read_documents(2)] by fastforce+
  moreover have "row_id (sample_document 60) = 60" "role mia \<noteq> USER" "role mgr \<noteq> USER"
    by (simp_all add: sample_document_def mia_def mgr_def sample_user_def)
  ultimately show ?thesis by simp
qed

end
