(* ===== verification/Reporting.thy ===== *)
theory Reporting
  imports Documents Payments "HOL-Library.Multiset" "HOL-Library.Product_Lexorder"
begin

text \<open>
  Reading the audit trail: AuditLogRepository (app/core/repositories/audit_log.py) and
  AuditLogService (app/core/services/audit_log_service.py), the filtered listing of all
  entries, and ActivityFeedRepository (app/reporting/repositories/activity_feed.py) and
  ActivityFeedService (app/reporting/services/activity_feed_service.py), the entries that
  concern one property, newest first.
\<close>

section \<open>The audit log\<close>

definition log_criteria :: "string option \<Rightarrow> uuid option \<Rightarrow> audit_log \<Rightarrow> bool" where
  "log_criteria kind i a \<longleftrightarrow>
     (case kind of None \<Rightarrow> True | Some k \<Rightarrow> entity_type a = k) \<and>
     (case i of None \<Rightarrow> True | Some x \<Rightarrow> entity_id a = x)"

definition get_filtered :: "string option \<Rightarrow> uuid option \<Rightarrow> int \<Rightarrow> int \<Rightarrow> audit_log list svc" where
  "get_filtered kind i skip limit =
     query (\<lambda>t. page skip limit (build_query audit_logs_tbl (log_criteria kind i) t))"

definition count_filtered :: "string option \<Rightarrow> uuid option \<Rightarrow> nat svc" where
  "count_filtered kind i = repo_count audit_logs_tbl (log_criteria kind i)"

definition list_audit_logs :: "string option \<Rightarrow> uuid option \<Rightarrow> int \<Rightarrow> int \<Rightarrow> audit_log paginated svc" where
  "list_audit_logs kind i skip limit =
     bnd (get_filtered kind i skip limit) (\<lambda>its.
     bnd (count_filtered kind i) (\<lambda>n.
     ret \<lparr>items = its, total = n\<rparr>))"

section \<open>The activity feed\<close>

text \<open>The subqueries: contracts, documents and payments of a property.\<close>

definition contracts_of :: "uuid \<Rightarrow> tables \<Rightarrow> uuid list" where
  "contracts_of p t = ids (filter (\<lambda>c. contract_property_id c = p) (contracts t))"

definition documents_of :: "uuid \<Rightarrow> tables \<Rightarrow> uuid list" where
  "documents_of p t =
     ids (filter (\<lambda>d. doc_property_id d = Some p \<or>
            (case doc_contract_id d of None \<Rightarrow> False | Some c \<Rightarrow> c \<in> set (contracts_of p t))) (documents t))"

definition payments_of :: "uuid \<Rightarrow> tables \<Rightarrow> uuid list" where
  "payments_of p t = ids (filter (\<lambda>q. pay_contract_id q \<in> set (contracts_of p t)) (payments t))"

definition entries_about :: "string \<Rightarrow> (tables \<Rightarrow> uuid list) \<Rightarrow> audit_log list svc" where
  "entries_about kind found =
     query (\<lambda>t. build_query audit_logs_tbl (\<lambda>a. entity_type a = kind \<and> entity_id a \<in> set (found t)) t)"

definition get_property_entries :: "uuid \<Rightarrow> audit_log list svc" where
  "get_property_entries p = entries_about ''Property'' (\<lambda>_. [p])"

definition get_contract_entries :: "uuid \<Rightarrow> audit_log list svc" where
  "get_contract_entries p = entries_about ''Contract'' (contracts_of p)"

definition get_document_entries :: "uuid \<Rightarrow> audit_log list svc" where
  "get_document_entries p = entries_about ''Document'' (documents_of p)"

definition get_payment_entries :: "uuid \<Rightarrow> audit_log list svc" where
  "get_payment_entries p = entries_about ''Payment'' (payments_of p)"

text \<open>\<open>sort(reverse=True)\<close>: a stable sort in descending order.\<close>

definition newest_first :: "audit_log list \<Rightarrow> audit_log list" where
  "newest_first xs = rev (sort_key row_key (rev xs))"

definition get_property_activity :: "uuid \<Rightarrow> user \<Rightarrow> int \<Rightarrow> int \<Rightarrow> audit_log paginated svc" where
  "get_property_activity p current_user skip limit =
     bnd (found_or (RelatedResourceNotFoundError ''Property'' p) (repo_get_by_id properties_tbl p)) (\<lambda>prop.
     let is_admin = (role current_user = ADMIN);
         is_owning_manager = (role current_user = MANAGER \<and> Some (row_id current_user) = manager_id prop)
     in bnd (raise_if (\<not> (is_admin \<or> is_owning_manager))
               (ResourceForbiddenError ActivityFeedForbidden ''activity feed is not accessible for this user'')) (\<lambda>_.
        bnd (get_property_entries p) (\<lambda>es1.
        bnd (get_contract_entries p) (\<lambda>es2.
        bnd (get_document_entries p) (\<lambda>es3.
        bnd (get_payment_entries p) (\<lambda>es4.
        let entries = newest_first (es1 @ es2 @ es3 @ es4)
        in ret \<lparr>items = page skip limit entries, total = length entries\<rparr>))))))"

lemmas reporting_code [code] = fun_cong [OF get_filtered_def] fun_cong [OF entries_about_def]

section \<open>Lemmas\<close>

lemma pure_read_reporting [atomic_intros]:
  "pure_read (list_audit_logs k i skip limit)" "pure_read (get_property_activity p u skip limit)"
  unfolding list_audit_logs_def get_filtered_def count_filtered_def get_property_activity_def
    get_property_entries_def get_contract_entries_def get_document_entries_def get_payment_entries_def
    entries_about_def Let_def
  by (intro atomic_intros)+

text \<open>
  The entries that concern a property, said of the rows of the tables and not of the queries:
  those about the property, about a contract on it, about a payment of such a contract, and
  about a document of the property or of such a contract.
\<close>

definition concerns :: "uuid \<Rightarrow> tables \<Rightarrow> audit_log \<Rightarrow> bool" where
  "concerns p t a \<longleftrightarrow>
     (entity_type a, entity_id a) = (''Property'', p) \<or>
     (\<exists>c\<in>set (contracts t). contract_property_id c = p \<and>
        ((entity_type a, entity_id a) = (''Contract'', row_id c) \<or>
         (\<exists>q\<in>set (payments t). pay_contract_id q = row_id c \<and>
            (entity_type a, entity_id a) = (''Payment'', row_id q)) \<or>
         (\<exists>d\<in>set (documents t). doc_contract_id d = Some (row_id c) \<and>
            (entity_type a, entity_id a) = (''Document'', row_id d)))) \<or>
     (\<exists>d\<in>set (documents t). doc_property_id d = Some p \<and> (entity_type a, entity_id a) = (''Document'', row_id d))"

lemma concerns_iff:
  "concerns p t a \<longleftrightarrow>
     entity_type a = ''Property'' \<and> entity_id a = p \<or>
     entity_type a = ''Contract'' \<and> entity_id a \<in> set (contracts_of p t) \<or>
     entity_type a = ''Document'' \<and> entity_id a \<in> set (documents_of p t) \<or>
     entity_type a = ''Payment'' \<and> entity_id a \<in> set (payments_of p t)"
proof -
  have c: "i \<in> set (contracts_of p t) \<longleftrightarrow> (\<exists>c\<in>set (contracts t). contract_property_id c = p \<and> i = row_id c)" for i
    by (auto simp: contracts_of_def ids_def)
  have d: "i \<in> set (documents_of p t) \<longleftrightarrow> (\<exists>d\<in>set (documents t). i = row_id d \<and>
      (doc_property_id d = Some p \<or> (\<exists>k\<in>set (contracts_of p t). doc_contract_id d = Some k)))" for i
    by (auto simp: documents_of_def ids_def split: option.splits)
  have q: "i \<in> set (payments_of p t) \<longleftrightarrow>
      (\<exists>q\<in>set (payments t). i = row_id q \<and> pay_contract_id q \<in> set (contracts_of p t))" for i
    by (auto simp: payments_of_def ids_def)
  show ?thesis unfolding concerns_def q d Bex_def c prod.inject by blast
qed

lemma filter_four:
  assumes "\<And>x. x \<in> set xs \<Longrightarrow> P x \<longleftrightarrow> A x \<or> B x \<or> C x \<or> D x"
    and "\<And>x. \<not> (A x \<and> B x) \<and> \<not> (A x \<and> C x) \<and> \<not> (A x \<and> D x) \<and> \<not> (B x \<and> C x) \<and> \<not> (B x \<and> D x) \<and> \<not> (C x \<and> D x)"
  shows "mset (filter A xs) + mset (filter B xs) + mset (filter C xs) + mset (filter D xs) = mset (filter P xs)"
  using assms(1)
proof (induction xs)
  case (Cons x xs)
  then have "mset (filter A xs) + mset (filter B xs) + mset (filter C xs) + mset (filter D xs) = mset (filter P xs)"
    by simp
  with Cons.prems [of x] assms(2) [of x] show ?case by auto
qed simp

text \<open>Keys of distinct rows differ, so the order of the parts does not matter.\<close>

lemma newest_first_eq:
  assumes "mset xs = mset (filter P (audit_logs t))" "distinct (ids (audit_logs t))"
  shows "newest_first xs = rev (build_query audit_logs_tbl P t)"
proof -
  have "set xs = set (filter P (audit_logs t))" using mset_eq_setD [OF assms(1)] .
  then have "inj_on row_key (set (rev xs))"
    using distinct_ids_eq [OF assms(2)] by (auto simp: inj_on_def row_key_def)
  moreover have "mset (rev xs) = mset (build_query audit_logs_tbl P t)" using assms(1) by (simp add: build_query_def)
  ultimately show ?thesis
    unfolding newest_first_def using sort_key_inj_key_eq [OF _ _ sorted_build_query] by metis
qed

lemma audit_ids_distinct: "schema_ok t \<Longrightarrow> distinct (ids (audit_logs t))"
  by (simp add: schema_ok_tables audit_logs_constraints_def)

lemma feed_eq:
  assumes "schema_ok (working s)" "get_row properties_tbl p (working s) = Some q"
    and "role u = ADMIN \<or> role u = MANAGER \<and> manager_id q = Some (row_id u)"
  shows "get_property_activity p u skip limit s =
    (Inr \<lparr>items = page skip limit (rev (build_query audit_logs_tbl (concerns p (working s)) (working s))),
          total = length (filter (concerns p (working s)) (audit_logs (working s)))\<rparr>, s)"
proof -
  let ?t = "working s"
  let ?q = "\<lambda>k found. build_query audit_logs_tbl (\<lambda>a. entity_type a = k \<and> entity_id a \<in> set found) ?t"
  let ?es = "?q ''Property'' [p] @ ?q ''Contract'' (contracts_of p ?t) @ ?q ''Document'' (documents_of p ?t) @
    ?q ''Payment'' (payments_of p ?t)"
  have "mset ?es = mset (filter (concerns p ?t) (audit_logs ?t))"
    using filter_four [of "audit_logs ?t" "concerns p ?t" "\<lambda>a. entity_type a = ''Property'' \<and> entity_id a \<in> set [p]"
      "\<lambda>a. entity_type a = ''Contract'' \<and> entity_id a \<in> set (contracts_of p ?t)"
      "\<lambda>a. entity_type a = ''Document'' \<and> entity_id a \<in> set (documents_of p ?t)"
      "\<lambda>a. entity_type a = ''Payment'' \<and> entity_id a \<in> set (payments_of p ?t)"]
    by (simp add: concerns_iff build_query_def add.assoc)
  from newest_first_eq [OF this audit_ids_distinct [OF assms(1)]]
  have nf: "newest_first ?es = rev (build_query audit_logs_tbl (concerns p ?t) ?t)" .
  have ok: "role u = ADMIN \<or> role u = MANAGER \<and> Some (row_id u) = manager_id q" using assms(3) by auto
  then have "get_property_activity p u skip limit s =
      (Inr \<lparr>items = page skip limit (newest_first ?es), total = length (newest_first ?es)\<rparr>, s)"
    using assms(2)
    by (simp add: get_property_activity_def get_property_entries_def get_contract_entries_def get_document_entries_def
        get_payment_entries_def entries_about_def Let_def svc)
  then show ?thesis by (simp only: nf length_rev length_build_query rows_tbl)
qed

lemma activity_Inr:
  assumes "schema_ok (working s)" "get_property_activity p u skip limit s = (Inr pg, s')"
  shows "s' = s \<and> (\<exists>q. get_row properties_tbl p (working s) = Some q \<and>
      (role u = ADMIN \<or> role u = MANAGER \<and> manager_id q = Some (row_id u))) \<and>
    items pg = page skip limit (rev (build_query audit_logs_tbl (concerns p (working s)) (working s))) \<and>
    total pg = length (filter (concerns p (working s)) (audit_logs (working s)))"
proof -
  from assms(2) obtain q where q: "get_row properties_tbl p (working s) = Some q"
    "role u = ADMIN \<or> role u = MANAGER \<and> manager_id q = Some (row_id u)"
    by (auto simp: get_property_activity_def Let_def svc_iffs)
  with feed_eq [OF assms(1) q, of skip limit] assms(2) show ?thesis by simp
qed

section \<open>Properties\<close>

text \<open>
  C33. The activity feed of a property, put together from four queries and sorted in memory, is
  exactly the part of the audit log about the property and what belongs to it now - its
  contracts, their payments, and the documents of both: read in pages of a hundred it gives
  every such entry once, newest first, and the reported total is their number. Entries about
  what was deleted since are not in it. Only an administrator and the manager of the property
  read it.
\<close>

theorem activity_feed_is_exact:
  assumes "schema_ok (working s)" "get_property_activity p u skip limit s = (Inr pg, s')"
    and "length (filter (concerns p (working s)) (audit_logs (working s))) \<le> k * 100"
  shows "s' = s \<and> total pg = length (filter (concerns p (working s)) (audit_logs (working s))) \<and>
    (\<exists>feed. concat (map (\<lambda>j. items (projr (fst (get_property_activity p u (int (j * 100)) 100 s)))) [0..<k]) = feed \<and>
       mset feed = mset (filter (concerns p (working s)) (audit_logs (working s))) \<and>
       sorted (map row_key (rev feed))) \<and>
    (role u = ADMIN \<or> role u = MANAGER \<and> p \<in> set (owned_property_ids (row_id u) (working s)))"
proof -
  let ?t = "working s"
  let ?feed = "rev (build_query audit_logs_tbl (concerns p ?t) ?t)"
  from activity_Inr [OF assms(1,2)] obtain q where q: "get_row properties_tbl p ?t = Some q"
    "role u = ADMIN \<or> role u = MANAGER \<and> manager_id q = Some (row_id u)"
    and pg: "s' = s" "total pg = length (filter (concerns p ?t) (audit_logs ?t))" by blast
  have "items (projr (fst (get_property_activity p u (int (j * 100)) 100 s))) = page (int (j * 100)) 100 ?feed" for j
    by (simp add: feed_eq [OF assms(1) q] del: of_nat_mult)
  then have "concat (map (\<lambda>j. items (projr (fst (get_property_activity p u (int (j * 100)) 100 s)))) [0..<k]) = ?feed"
    using page_concat [of 100 ?feed k] assms(3) by (simp del: of_nat_mult)
  moreover have "mset ?feed = mset (filter (concerns p ?t) (audit_logs ?t))" by (simp add: build_query_def)
  moreover have "sorted (map row_key (rev ?feed))" using sorted_build_query by (simp add: rev_rev_ident)
  moreover have "role u = ADMIN \<or> role u = MANAGER \<and> p \<in> set (owned_property_ids (row_id u) ?t)"
    using q get_row_SomeD [OF q(1)] by (auto simp: owned_property_ids_iff)
  ultimately show ?thesis using pg by blast
qed

definition sample_entry :: "uuid \<Rightarrow> audit_action \<Rightarrow> string \<Rightarrow> uuid \<Rightarrow> audit_log" where
  "sample_entry i act kind e =
     \<lparr>row_id = i, created_at = int i, actor_id = Some 1, action = act, entity_type = kind,
      entity_id = e, diff = None\<rparr>"

definition logged_sample :: session where
  "logged_sample = session_of (sample_tables\<lparr>
     payments := [sample_payment 60 30 (Some 50) 1000 PAID],
     audit_logs := [sample_entry 80 CREATE ''Property'' 10, sample_entry 81 CREATE ''User'' 2,
       sample_entry 82 CREATE ''Payment'' 60, sample_entry 83 CREATE ''Contract'' 30]\<rparr>)"

theorem activity_feed_is_exact_witness:
  "\<exists>pg. get_property_activity 10 mgr 0 100 logged_sample = (Inr pg, logged_sample) \<and> total pg = 3 \<and>
     map row_id (items pg) = [83, 82, 80]"
proof -
  have ok: "schema_ok (working logged_sample)" by code_simp
  have n: "length (filter (concerns 10 (working logged_sample)) (audit_logs (working logged_sample))) = 3" by code_simp
  have "map_sum (\<lambda>_. ()) (\<lambda>pg. map row_id (items pg)) (fst (get_property_activity 10 mgr 0 100 logged_sample)) = Inr [83, 82, 80]"
    by code_simp
  then obtain pg where "fst (get_property_activity 10 mgr 0 100 logged_sample) = Inr pg" and i: "map row_id (items pg) = [83, 82, 80]"
    by (cases "fst (get_property_activity 10 mgr 0 100 logged_sample)") auto
  from pure_run [OF pure_read_reporting(2) this(1)]
  have "get_property_activity 10 mgr 0 100 logged_sample = (Inr pg, logged_sample)" .
  with activity_feed_is_exact [OF ok this, of 1] n i show ?thesis by simp
qed

text \<open>
  The feed forgets what was deleted: once a payment is gone, none of its entries, not even
  the one about its deletion, appears in the feed of any property, although the audit log holds
  them.
\<close>

theorem deleted_payment_leaves_feed:
  assumes "delete_payment i u s = (Inr r, s1)" "schema_ok (working s)"
    and "get_property_activity p v skip limit s1 = (Inr pg, s2)"
  shows "(\<forall>a\<in>set (items pg). \<not> (entity_type a = ''Payment'' \<and> entity_id a = i)) \<and>
    (\<exists>a\<in>set (audit_logs (committed s1)). entity_type a = ''Payment'' \<and> entity_id a = i \<and> action a = DELETE)"
proof -
  from assms(1) have gone: "i \<notin> set (ids (payments (working s1)))" and ok: "schema_ok (working s1)"
    and log: "\<exists>a\<in>set (audit_logs (committed s1)). entity_type a = ''Payment'' \<and> entity_id a = i \<and> action a = DELETE"
    by (auto simp: delete_payment_def get_payment_or_404_def svc_iffs repo_delete_iff write_audit_log_iff
        prepare_payment_context_Inr audit_row_def ids_def)
  have "\<not> concerns q (working s1) a" if "entity_type a = ''Payment''" "entity_id a = i" for q a
    using gone that by (auto simp: concerns_iff payments_of_def ids_def)
  moreover have "set (items pg) \<subseteq> {a. concerns p (working s1) a}"
    using activity_Inr [OF ok assms(3)] set_page_subset by fastforce
  ultimately show ?thesis using log by blast
qed

theorem deleted_payment_leaves_feed_witness:
  "\<exists>r s1 pg. delete_payment 60 mgr logged_sample = (Inr r, s1) \<and>
     get_property_activity 10 mgr 0 100 s1 = (Inr pg, s1) \<and> (\<forall>a\<in>set (items pg). entity_id a \<noteq> 60) \<and>
     (\<exists>a\<in>set (audit_logs (committed s1)). entity_id a = 60 \<and> action a = DELETE)"
proof -
  have "\<not> isl (fst (delete_payment 60 mgr logged_sample))" by code_simp
  from run_ok [of "delete_payment 60 mgr" logged_sample, OF this] obtain r where
    d: "delete_payment 60 mgr logged_sample = (Inr r, snd (delete_payment 60 mgr logged_sample))" by blast
  let ?s1 = "snd (delete_payment 60 mgr logged_sample)"
  have ok: "schema_ok (working logged_sample)" by code_simp
  have "(case fst (get_property_activity 10 mgr 0 100 ?s1) of
      Inr pg \<Rightarrow> list_all (\<lambda>a. entity_type a = ''Payment'' \<or> entity_id a \<noteq> 60) (items pg) | _ \<Rightarrow> False)" by code_simp
  then obtain pg where p: "fst (get_property_activity 10 mgr 0 100 ?s1) = Inr pg"
    and o: "list_all (\<lambda>a. entity_type a = ''Payment'' \<or> entity_id a \<noteq> 60) (items pg)"
    by (cases "fst (get_property_activity 10 mgr 0 100 ?s1)") auto
  from pure_run [OF pure_read_reporting(2) p] have g: "get_property_activity 10 mgr 0 100 ?s1 = (Inr pg, ?s1)" .
  from deleted_payment_leaves_feed [OF d ok g] d g o show ?thesis by (fastforce simp: list_all_iff)
qed

end
