(* ===== verification/ReceiptTemplates.thy ===== *)
theory ReceiptTemplates
  imports Documents
begin

text \<open>
  Receipt templates: ReceiptTemplateRepository (app/receipts/repositories/receipt_template.py)
  and ReceiptTemplateService (app/receipts/services/receipt_template_service.py). A template is
  a row and an HTML object of the store; at most one template is active per scope, a property
  or the global default.
\<close>

section \<open>Repository\<close>

definition get_active_for_property :: "uuid \<Rightarrow> receipt_template option svc" where
  "get_active_for_property p =
     repo_first receipt_templates_tbl (\<lambda>t. tmpl_property_id t = Some p \<and> tmpl_is_active t)"

definition get_active_global :: "receipt_template option svc" where
  "get_active_global = repo_first receipt_templates_tbl (\<lambda>t. tmpl_property_id t = None \<and> tmpl_is_active t)"

definition template_get_by_property :: "uuid \<Rightarrow> receipt_template list svc" where
  "template_get_by_property p = repo_all receipt_templates_tbl (\<lambda>t. tmpl_property_id t = Some p)"

definition get_global_templates :: "receipt_template list svc" where
  "get_global_templates = repo_all receipt_templates_tbl (\<lambda>t. tmpl_property_id t = None)"

section \<open>Reading a template\<close>

definition MAX_TEMPLATE_SIZE :: int where "MAX_TEMPLATE_SIZE = 512 * 1024"

text \<open>The well-formed byte sequences of \<open>bytes.decode("utf-8")\<close>.\<close>

definition byte_in :: "nat \<Rightarrow> nat \<Rightarrow> char \<Rightarrow> bool" where
  "byte_in lo hi c = (let n = of_char c :: nat in lo \<le> n \<and> n \<le> hi)"

fun continued :: "nat \<Rightarrow> string \<Rightarrow> string option" where
  "continued 0 cs = Some cs"
| "continued (Suc k) [] = None"
| "continued (Suc k) (c # cs) = (if byte_in 128 191 c then continued k cs else None)"

text \<open>The number of continuation bytes after the first two, and the range of the second.\<close>

definition lead_byte :: "char \<Rightarrow> (nat \<times> nat \<times> nat) option" where
  "lead_byte c =
     (if byte_in 194 223 c then Some (128, 191, 0)
      else if byte_in 224 224 c then Some (160, 191, 1)
      else if byte_in 237 237 c then Some (128, 159, 1)
      else if byte_in 225 239 c then Some (128, 191, 1)
      else if byte_in 240 240 c then Some (144, 191, 2)
      else if byte_in 241 243 c then Some (128, 191, 2)
      else if byte_in 244 244 c then Some (128, 143, 2)
      else None)"

lemma continued_length: "continued k cs = Some r \<Longrightarrow> length r \<le> length cs"
  by (induction k cs rule: continued.induct) (auto split: if_splits)

function valid_utf8 :: "string \<Rightarrow> bool" where
  "valid_utf8 [] = True"
| "valid_utf8 (c # cs) =
     (if byte_in 0 127 c then valid_utf8 cs
      else case lead_byte c of
        None \<Rightarrow> False
      | Some (lo, hi, k) \<Rightarrow>
          (case cs of
             [] \<Rightarrow> False
           | d # ds \<Rightarrow>
               byte_in lo hi d \<and> (case continued k ds of None \<Rightarrow> False | Some r \<Rightarrow> valid_utf8 r)))"
  by pat_completeness auto
termination
  by (relation "measure length") (auto dest!: continued_length)

text \<open>One read of at most a byte more than the limit.\<close>

definition read_and_validate_html :: "'f upload \<Rightarrow> svc_error + string" where
  "read_and_validate_html file_obj =
     (let data = fst (read_bytes file_obj (MAX_TEMPLATE_SIZE + 1) (stream file_obj))
      in if MAX_TEMPLATE_SIZE < int (length data)
         then Inl (ReceiptTemplateValidationError ''Template file too large'')
         else if \<not> valid_utf8 data
         then Inl (ReceiptTemplateValidationError ''Template file must be valid UTF-8 HTML'')
         else Inr data)"

section \<open>ReceiptTemplateService\<close>

definition authorize_template_scope :: "user \<Rightarrow> uuid option \<Rightarrow> unit svc" where
  "authorize_template_scope current_user property_id =
     (case property_id of
        None \<Rightarrow> raise_if (role current_user \<noteq> ADMIN) (ResourceForbiddenError ReceiptTemplateForbidden
            ''Only admins may manage the global default receipt template.'')
      | Some p \<Rightarrow>
          bnd (found_or (RelatedResourceNotFoundError ''Property'' p) (repo_get_by_id properties_tbl p)) (\<lambda>_.
          authorize_user_to_property ReceiptTemplateForbidden current_user (Some p) None None))"

definition template_key :: "uuid \<Rightarrow> string" where
  "template_key i = ''receipt_templates/'' @ uuid_str i @ ''.html''"

definition put_template :: "settings \<Rightarrow> 'w storage_client \<Rightarrow> string \<Rightarrow> string \<Rightarrow> ('w, unit) prog" where
  "put_template cfg cl key html w =
     (case put_object cl (MINIO_BUCKET_NAME cfg) key html ''text/html'' w of
        (True, w') \<Rightarrow> (Inr (), w')
      | (False, w') \<Rightarrow> (Inl ReceiptTemplateUploadError, w'))"

text \<open>The clean-up after a failed insert: an error of the store is only logged.\<close>

definition discard_template :: "settings \<Rightarrow> 'w storage_client \<Rightarrow> string \<Rightarrow> ('w, unit) prog" where
  "discard_template cfg cl key w = (Inr (), snd (remove_object cl (MINIO_BUCKET_NAME cfg) key w))"

definition insert_template ::
  "settings \<Rightarrow> string \<Rightarrow> uuid option \<Rightarrow> user \<Rightarrow> uuid \<Rightarrow> receipt_template svc" where
  "insert_template cfg name property_id current_user template_id =
     bnd now (\<lambda>n.
     bnd (repo_insert receipt_templates_tbl
            \<lparr>row_id = template_id, created_at = n, updated_at = n, tmpl_name = name,
             tmpl_property_id = property_id, storage_key = template_key template_id,
             tmpl_file_url = build_object_url cfg (template_key template_id), tmpl_is_active = False\<rparr>) (\<lambda>t.
     bnd (write_audit_log current_user CREATE ''ReceiptTemplate'' (row_id t)) (\<lambda>_.
     bnd commit (\<lambda>_.
     ret t))))"

definition store_template ::
  "settings \<Rightarrow> 'w storage_client \<Rightarrow> string \<Rightarrow> string \<Rightarrow> uuid option \<Rightarrow> user \<Rightarrow> uuid \<Rightarrow> ('w, receipt_template) stored" where
  "store_template cfg cl html name property_id current_user template_id =
     (let key = template_key template_id in
      bnd (in_store (put_template cfg cl key html)) (\<lambda>_.
      try_except (in_db (insert_template cfg name property_id current_user template_id))
        (\<lambda>e. bnd (in_store (discard_template cfg cl key)) (\<lambda>_. raise e))))"

definition upload_template ::
  "settings \<Rightarrow> 'w storage_client \<Rightarrow> string \<Rightarrow> uuid option \<Rightarrow> user \<Rightarrow> 'f upload \<Rightarrow> ('w, receipt_template) stored" where
  "upload_template cfg cl name property_id current_user file_obj =
     bnd (in_db (authorize_template_scope current_user property_id)) (\<lambda>_.
     case read_and_validate_html file_obj of
       Inl e \<Rightarrow> raise e
     | Inr html \<Rightarrow>
         bnd (in_db uuid4) (\<lambda>template_id.
         store_template cfg cl html name property_id current_user template_id))"

definition get_template_or_404 :: "uuid \<Rightarrow> receipt_template svc" where
  "get_template_or_404 i =
     found_or (RelatedResourceNotFoundError ''ReceiptTemplate'' i) (repo_get_by_id receipt_templates_tbl i)"

definition set_active :: "bool \<Rightarrow> receipt_template \<Rightarrow> receipt_template" where
  "set_active b t = t\<lparr>tmpl_is_active := b\<rparr>"

definition get_active_in_scope :: "uuid option \<Rightarrow> receipt_template option svc" where
  "get_active_in_scope scope =
     (case scope of None \<Rightarrow> get_active_global | Some p \<Rightarrow> get_active_for_property p)"

definition deactivate_current :: "receipt_template option \<Rightarrow> uuid \<Rightarrow> unit svc" where
  "deactivate_current current i =
     (case current of
        None \<Rightarrow> ret ()
      | Some c \<Rightarrow>
          if row_id c \<noteq> i
          then bnd (repo_update receipt_templates_tbl (row_id c) [] (set_active False)) (\<lambda>_. ret ())
          else ret ())"

definition activate_template :: "uuid \<Rightarrow> user \<Rightarrow> receipt_template option svc" where
  "activate_template i current_user =
     bnd (get_template_or_404 i) (\<lambda>t.
     bnd (authorize_template_scope current_user (tmpl_property_id t)) (\<lambda>_.
     bnd (get_active_in_scope (tmpl_property_id t)) (\<lambda>current.
     bnd (deactivate_current current (row_id t)) (\<lambda>_.
     bnd (repo_update receipt_templates_tbl (row_id t) [] (set_active True)) (\<lambda>updated.
     bnd (write_audit_log current_user UPDATE ''ReceiptTemplate'' (row_id t)) (\<lambda>_.
     bnd commit (\<lambda>_.
     ret updated)))))))"

definition list_templates :: "user \<Rightarrow> uuid option \<Rightarrow> receipt_template list svc" where
  "list_templates current_user property_id =
     (case property_id of
        Some p \<Rightarrow>
          bnd (authorize_template_scope current_user (Some p)) (\<lambda>_. template_get_by_property p)
      | None \<Rightarrow>
          bnd (raise_if (role current_user \<noteq> ADMIN) (ResourceForbiddenError ReceiptTemplateForbidden
                 ''Only admins may list every receipt template.'')) (\<lambda>_.
          repo_get_all receipt_templates_tbl 0 100))"

definition get_template :: "uuid \<Rightarrow> user \<Rightarrow> receipt_template svc" where
  "get_template i current_user =
     bnd (get_template_or_404 i) (\<lambda>t.
     bnd (authorize_template_scope current_user (tmpl_property_id t)) (\<lambda>_.
     ret t))"

definition fetch_html :: "settings \<Rightarrow> 'w storage_client \<Rightarrow> string \<Rightarrow> ('w, string) prog" where
  "fetch_html cfg cl key w =
     (case get_object cl (MINIO_BUCKET_NAME cfg) key w of
        (None, w') \<Rightarrow> (Inl StorageClientError, w')
      | (Some data, w') \<Rightarrow> (if valid_utf8 data then Inr data else Inl UnicodeDecodeError, w'))"

text \<open>The property's own active template, the active global one, or the built-in file.\<close>

definition resolve_template :: "uuid option \<Rightarrow> receipt_template option svc" where
  "resolve_template property_id =
     bnd (case property_id of None \<Rightarrow> ret None | Some p \<Rightarrow> get_active_for_property p) (\<lambda>own.
     case own of Some t \<Rightarrow> ret (Some t) | None \<Rightarrow> get_active_global)"

definition resolve_active_template_html ::
  "settings \<Rightarrow> 'w storage_client \<Rightarrow> string \<Rightarrow> uuid option \<Rightarrow> ('w, string) stored" where
  "resolve_active_template_html cfg cl default_template property_id =
     bnd (in_db (resolve_template property_id)) (\<lambda>found.
     case found of
       None \<Rightarrow> ret default_template
     | Some t \<Rightarrow> in_store (fetch_html cfg cl (storage_key t)))"

text \<open>What the routes answer for the two template errors.\<close>

definition template_route_error :: "svc_error \<Rightarrow> svc_error" where
  "template_route_error e =
     (case e of
        ReceiptTemplateUploadError \<Rightarrow> HTTPException 400 ''Storage upload failed''
      | ReceiptTemplateValidationError m \<Rightarrow> HTTPException 400 m
      | other \<Rightarrow> other)"

lemmas template_code [code] = fun_cong [OF authorize_template_scope_def, of u for u] fun_cong [OF insert_template_def]
  fun_cong [OF store_template_def] fun_cong [OF upload_template_def] fun_cong [OF get_template_or_404_def] fun_cong [OF deactivate_current_def, of c for c]
  fun_cong [OF activate_template_def] fun_cong [OF get_template_def] fun_cong [OF resolve_template_def]
  fun_cong [OF resolve_active_template_html_def]

section \<open>Lemmas\<close>

lemma pure_read_templates [atomic_intros]:
  "pure_read (authorize_template_scope u p)" "pure_read (get_template_or_404 i)"
  "pure_read (get_active_in_scope p)" "pure_read (resolve_template p)" "pure_read (get_template i u)"
  unfolding authorize_template_scope_def get_template_or_404_def get_active_in_scope_def get_active_global_def
    get_active_for_property_def resolve_template_def get_template_def
  by (intro atomic_intros)+

lemma silent_deactivate [atomic_intros]: "silent (deactivate_current c i)"
  unfolding deactivate_current_def by (intro atomic_intros)

lemma atomic_templates [atomic_intros]:
  "atomic (activate_template i u)" "atomic (insert_template cfg n p u i)"
  unfolding activate_template_def insert_template_def by (intro atomic_intros)+

lemma touch_template [simp]:
  "row_id (touch n (set_active b) t) = row_id t"
  "tmpl_property_id (touch n (set_active b) t) = tmpl_property_id t"
  "storage_key (touch n (set_active b) t) = storage_key t"
  "tmpl_is_active (touch n (set_active b) t) = b"
  by (simp_all add: touch_field [of tmpl_property_id] touch_field [of storage_key] touch_field [of tmpl_is_active]
      set_active_def)

lemma read_html_Inr:
  "read_and_validate_html fo = Inr html \<longleftrightarrow>
     html = fst (read_bytes fo (MAX_TEMPLATE_SIZE + 1) (stream fo)) \<and>
     int (length html) \<le> MAX_TEMPLATE_SIZE \<and> valid_utf8 html"
  by (auto simp: read_and_validate_html_def Let_def)

lemma insert_template_Inr:
  assumes "insert_template cfg name p u i s = (Inr t, s')"
  shows "row_id t = i \<and> tmpl_property_id t = p \<and> storage_key t = template_key i \<and> \<not> tmpl_is_active t \<and>
    receipt_templates (working s') = receipt_templates (working s) @ [t] \<and>
    users (working s') = users (working s) \<and> properties (working s') = properties (working s) \<and>
    committed s' = working s' \<and> schema_ok (working s')"
  using assms by (auto simp: insert_template_def svc_iffs now_def repo_iffs write_audit_log_iff)

lemma first_query_Some: "first_of (build_query T p t) = Some r \<Longrightarrow> r \<in> set (rows T t) \<and> p r"
  using first_of_SomeD [of "build_query T p t" r] by simp

lemma first_query_None: "first_of (build_query T p t) = None \<Longrightarrow> r \<in> set (rows T t) \<Longrightarrow> \<not> p r"
  using set_build_query [of T p t] by auto

definition in_scope :: "uuid option \<Rightarrow> receipt_template \<Rightarrow> bool" where
  "in_scope sc t \<longleftrightarrow> tmpl_property_id t = sc \<and> tmpl_is_active t"

lemma active_in_scope_eq:
  "get_active_in_scope sc = repo_first receipt_templates_tbl (in_scope sc)"
  by (cases sc) (simp_all add: get_active_in_scope_def get_active_global_def get_active_for_property_def
      in_scope_def [abs_def])

lemma deactivate_Inr:
  assumes "deactivate_current c i s = (Inr v, s')" "\<And>x. c = Some x \<Longrightarrow> x \<in> set (receipt_templates (working s))"
  shows "clock s' = clock s \<and> receipt_templates (working s') =
    (case c of None \<Rightarrow> receipt_templates (working s)
     | Some x \<Rightarrow> if row_id x = i then receipt_templates (working s)
        else map_row (row_id x) (touch (clock s) (set_active False)) (receipt_templates (working s)))"
proof (cases c)
  case (Some x)
  with assms(2) have "get_row receipt_templates_tbl (row_id x) (working s) \<noteq> None"
    by (auto simp: get_row_None ids_def)
  with Some assms(1) show ?thesis
    by (auto simp: deactivate_current_def svc_iffs repo_update_Inr)
qed (use assms in \<open>simp add: deactivate_current_def\<close>)

text \<open>Everything a successful activation does.\<close>

lemma activate_template_Inr:
  assumes "activate_template i u s = (Inr r, s')"
  obtains t X where "get_row receipt_templates_tbl i (working s) = Some t"
    "committed s' = working s'" "schema_ok (working s')"
    "receipt_templates (working s') = map_row i (touch (clock s) (set_active True)) X"
    "X = receipt_templates (working s) \<or> (\<exists>x\<in>set (receipt_templates (working s)).
       row_id x \<noteq> i \<and> in_scope (tmpl_property_id t) x \<and>
       X = map_row (row_id x) (touch (clock s) (set_active False)) (receipt_templates (working s)))"
proof -
  let ?tail = "\<lambda>t. bnd (repo_update receipt_templates_tbl (row_id t) [] (set_active True)) (\<lambda>updated.
       bnd (write_audit_log u UPDATE ''ReceiptTemplate'' (row_id t)) (\<lambda>_. bnd commit (\<lambda>_. ret updated)))"
  let ?first = "\<lambda>t. first_of (build_query receipt_templates_tbl (in_scope (tmpl_property_id t)) (working s))"
  from assms obtain t where g: "get_row receipt_templates_tbl i (working s) = Some t"
    and "bnd (authorize_template_scope u (tmpl_property_id t)) (\<lambda>_.
      bnd (get_active_in_scope (tmpl_property_id t)) (\<lambda>current.
      bnd (deactivate_current current (row_id t)) (\<lambda>_. ?tail t))) s = (Inr r, s')"
    by (auto simp: activate_template_def get_template_or_404_def bnd_found_or_get split: option.splits)
  then obtain v s0 where "authorize_template_scope u (tmpl_property_id t) s = (Inr v, s0)"
    and more: "bnd (get_active_in_scope (tmpl_property_id t)) (\<lambda>current.
      bnd (deactivate_current current (row_id t)) (\<lambda>_. ?tail t)) s0 = (Inr r, s')"
    unfolding bnd_Inr_iff [of "authorize_template_scope u (tmpl_property_id t)"] by blast
  then have "s0 = s" by (auto dest: pure_readD [OF pure_read_templates(1)])
  with more have "bnd (deactivate_current (?first t) i) (\<lambda>_. ?tail t) s = (Inr r, s')"
    using get_row_id [OF g] by (simp add: active_in_scope_eq bnd_repo_first)
  then obtain c s1 where c: "c = ?first t" and d: "deactivate_current c i s = (Inr (), s1)"
    and rest: "bnd (repo_update receipt_templates_tbl i [] (set_active True)) (\<lambda>updated.
       bnd (write_audit_log u UPDATE ''ReceiptTemplate'' i) (\<lambda>_. bnd commit (\<lambda>_. ret updated))) s1 = (Inr r, s')"
    unfolding bnd_Inr_iff [of "deactivate_current (?first t) i"] using get_row_id [OF g] by auto
  have cx: "c = Some x \<Longrightarrow> x \<in> set (receipt_templates (working s)) \<and> in_scope (tmpl_property_id t) x" for x
    using first_query_Some [of receipt_templates_tbl "in_scope (tmpl_property_id t)" "working s" x] by (simp add: c)
  note dd = deactivate_Inr [OF d] 
  let ?X = "receipt_templates (working s1)"
  have x: "?X = receipt_templates (working s) \<or> (\<exists>x\<in>set (receipt_templates (working s)).
       row_id x \<noteq> i \<and> in_scope (tmpl_property_id t) x \<and>
       ?X = map_row (row_id x) (touch (clock s) (set_active False)) (receipt_templates (working s)))"
    and k: "clock s1 = clock s"
    using dd cx by (auto split: option.splits if_splits)
  have "i \<in> set (ids (receipt_templates (working s)))" using row_in_ids [OF g] by simp
  then have "i \<in> set (ids ?X)" using x by (auto simp: ids_map_row)
  then have "get_row receipt_templates_tbl i (working s1) \<noteq> None" by (simp add: get_row_None)
  with rest k have "receipt_templates (working s') = map_row i (touch (clock s) (set_active True)) ?X"
    "committed s' = working s'" "schema_ok (working s')"
    by (auto simp: svc_iffs repo_update_Inr write_audit_log_iff)
  from that [OF g this(2,3,1) x] show ?thesis .
qed

text \<open>In a consistent database a scope resolves to its only active template.\<close>

lemma first_in_scope:
  assumes "schema_ok t" "x \<in> set (receipt_templates t)" "in_scope sc x"
  shows "first_of (build_query receipt_templates_tbl (in_scope sc) t) = Some x"
proof -
  have "distinct (map tmpl_property_id (active_templates t))"
    using assms(1) by (simp add: schema_ok_tables receipt_templates_constraints_def)
  then have "\<And>y. y \<in> set (receipt_templates t) \<Longrightarrow> in_scope sc y \<Longrightarrow> y = x"
    using assms(2,3) by (auto simp: distinct_map active_templates_def in_scope_def inj_on_def)
  moreover obtain y where y: "first_of (build_query receipt_templates_tbl (in_scope sc) t) = Some y"
    using first_query_None [of receipt_templates_tbl "in_scope sc" t x] assms(2,3)
    by (cases "first_of (build_query receipt_templates_tbl (in_scope sc) t)") auto
  ultimately show ?thesis using first_query_Some [OF y] y by simp
qed

lemma resolve_template_eq:
  "resolve_template q s = (Inr (case (case q of None \<Rightarrow> None
       | Some p \<Rightarrow> first_of (build_query receipt_templates_tbl (in_scope (Some p)) (working s))) of
     None \<Rightarrow> first_of (build_query receipt_templates_tbl (in_scope None) (working s))
   | Some t \<Rightarrow> Some t), s)"
proof -
  have a: "get_active_for_property p = repo_first receipt_templates_tbl (in_scope (Some p))" for p
    using active_in_scope_eq [of "Some p"] by (simp add: get_active_in_scope_def)
  have b: "get_active_global = repo_first receipt_templates_tbl (in_scope None)"
    using active_in_scope_eq [of None] by (simp add: get_active_in_scope_def)
  show ?thesis
    by (cases q) (auto simp: resolve_template_def a b bnd_def ret_def repo_first_def query_def split: option.split)
qed

lemma upload_template_Inr:
  assumes "upload_template cfg cl name p u fo (s, w) = (Inr t, s1, w1)"
  obtains html where "read_and_validate_html fo = Inr html"
    "put_object cl (MINIO_BUCKET_NAME cfg) (storage_key t) html ''text/html'' w = (True, w1)"
    "tmpl_property_id t = p" "\<not> tmpl_is_active t" "t \<in> set (receipt_templates (working s1))"
    "committed s1 = working s1" "schema_ok (working s1)"
proof (cases "read_and_validate_html fo")
  case (Inl e)
  with assms show ?thesis by (auto simp: upload_template_def bnd_Inr_iff)
next
  case (Inr html)
  let ?k = "\<lambda>i. template_key i"
  from assms Inr obtain s0 s2 i where
    put: "put_template cfg cl (?k i) html w = (Inr (), w1)" and
    ins: "insert_template cfg name p u i s2 = (Inr t, s1)"
    by (auto simp: upload_template_def store_template_def Let_def bnd_Inr_iff try_except_Inr_iff discard_template_def)
  from insert_template_Inr [OF ins] put Inr that show ?thesis
    by (auto simp: put_template_def split: prod.splits bool.splits)
qed

lemma in_map_row_other: "x \<in> set rs \<Longrightarrow> row_id x \<noteq> i \<Longrightarrow> x \<in> set (map_row i f rs)"
  and in_map_row_own: "x \<in> set rs \<Longrightarrow> row_id x = i \<Longrightarrow> f x \<in> set (map_row i f rs)"
  by (auto simp: set_map_row intro!: bexI [of _ x])

text \<open>What an activation leaves: one active template in the scope, the other scopes untouched.\<close>

lemma activation_effect:
  assumes "schema_ok (working s)" "t \<in> set (receipt_templates (working s))"
    and "activate_template (row_id t) u s = (Inr r, s')"
  shows "committed s' = working s'" "schema_ok (working s')"
    and "touch (clock s) (set_active True) t \<in> set (receipt_templates (working s'))"
    and "\<And>y. tmpl_property_id y \<noteq> tmpl_property_id t \<Longrightarrow>
      y \<in> set (receipt_templates (working s')) \<longleftrightarrow> y \<in> set (receipt_templates (working s))"
proof -
  note d = schema_ok_keys(11) [OF assms(1)]
  note uniq = distinct_ids_eq [OF d]
  from assms(3) obtain t0 X where t0: "get_row receipt_templates_tbl (row_id t) (working s) = Some t0"
    and ok: "committed s' = working s'" "schema_ok (working s')"
    and m: "receipt_templates (working s') = map_row (row_id t) (touch (clock s) (set_active True)) X"
    and X: "X = receipt_templates (working s) \<or> (\<exists>x\<in>set (receipt_templates (working s)).
       row_id x \<noteq> row_id t \<and> in_scope (tmpl_property_id t0) x \<and>
       X = map_row (row_id x) (touch (clock s) (set_active False)) (receipt_templates (working s)))"
    by (rule activate_template_Inr)
  have "t0 = t" using t0 assms(2) d by (auto simp: get_row_Some_iff dest: uniq)
  have X_own: "y \<in> set X \<longleftrightarrow> y \<in> set (receipt_templates (working s))"
    if "tmpl_property_id y \<noteq> tmpl_property_id t" for y
    using X
  proof
    assume "\<exists>x\<in>set (receipt_templates (working s)). row_id x \<noteq> row_id t \<and> in_scope (tmpl_property_id t0) x \<and>
       X = map_row (row_id x) (touch (clock s) (set_active False)) (receipt_templates (working s))"
    then obtain x where x: "x \<in> set (receipt_templates (working s))" "tmpl_property_id x = tmpl_property_id t"
      "X = map_row (row_id x) (touch (clock s) (set_active False)) (receipt_templates (working s))"
      using \<open>t0 = t\<close> by (auto simp: in_scope_def)
    show ?thesis
    proof
      assume "y \<in> set X"
      then obtain r0 where r0: "r0 \<in> set (receipt_templates (working s))"
        "y = (if row_id r0 = row_id x then touch (clock s) (set_active False) r0 else r0)"
        by (auto simp: x(3) set_map_row)
      have "row_id r0 \<noteq> row_id x" using uniq [OF r0(1) x(1)] r0(2) that x(2) by auto
      with r0 show "y \<in> set (receipt_templates (working s))" by simp
    next
      assume "y \<in> set (receipt_templates (working s))"
      then show "y \<in> set X" using that x(2) uniq [OF _ x(1), of y] by (auto simp: x(3) intro!: in_map_row_other)
    qed
  qed simp
  have tX: "t \<in> set X" using X assms(2) by (auto intro: in_map_row_other)
  have tX_only: "y \<in> set X \<Longrightarrow> row_id y = row_id t \<Longrightarrow> tmpl_property_id y = tmpl_property_id t" for y
    using X_own [of y] uniq [OF _ assms(2), of y] by auto
  show "committed s' = working s'" "schema_ok (working s')" by (fact ok)+
  show "touch (clock s) (set_active True) t \<in> set (receipt_templates (working s'))"
    using tX by (simp add: m in_map_row_own)
  show "y \<in> set (receipt_templates (working s')) \<longleftrightarrow> y \<in> set (receipt_templates (working s))"
    if "tmpl_property_id y \<noteq> tmpl_property_id t" for y
    unfolding X_own [OF that, symmetric] m
    using that tX_only by (auto simp: set_map_row intro!: bexI [of _ y])
qed

lemma fetch_stored_html:
  assumes "storage_spec cl view" "view w (MINIO_BUCKET_NAME cfg, k) = Some (html, ct)" "valid_utf8 html"
  shows "fst (fetch_html cfg cl k w) =
    (if fst (get_object cl (MINIO_BUCKET_NAME cfg) k w) = None then Inl StorageClientError else Inr html)"
proof -
  obtain g w' where g: "get_object cl (MINIO_BUCKET_NAME cfg) k w = (g, w')" by fastforce
  with storage_specD(4) [OF assms(1)] assms(2) have "g = Some h \<Longrightarrow> h = html" for h by fastforce
  with g assms(3) show ?thesis by (cases g) (auto simp: fetch_html_def)
qed

section \<open>Properties\<close>

text \<open>
  C30. An uploaded and activated template is the one receipts are rendered with: it is then the
  only active template of its scope, other scopes keep theirs, and resolving a property of that
  scope (or, for the global template, a property without one of its own) gives exactly the
  uploaded text, unless the store fails to answer.
\<close>

theorem activated_template_is_rendered:
  assumes "storage_spec cl view" "upload_template cfg cl name p u fo (s, w) = (Inr t, s1, w1)"
    and "activate_template (row_id t) v s1 = (Inr r, s2)"
    and "q = p \<or> p = None \<and> (\<forall>x\<in>set (receipt_templates (working s1)). \<not> in_scope q x)"
  shows "(\<forall>y\<in>set (receipt_templates (committed s2)). in_scope p y = (row_id y = row_id t)) \<and>
    (\<forall>y\<in>set (receipt_templates (working s1)). tmpl_property_id y \<noteq> p \<longrightarrow> y \<in> set (receipt_templates (committed s2))) \<and>
    fst (resolve_active_template_html cfg cl built_in q (s2, w1)) =
      (if fst (get_object cl (MINIO_BUCKET_NAME cfg) (storage_key t) w1) = None then Inl StorageClientError
       else read_and_validate_html fo)"
proof -
  from assms(2) obtain html where html: "read_and_validate_html fo = Inr html"
    and put: "put_object cl (MINIO_BUCKET_NAME cfg) (storage_key t) html ''text/html'' w = (True, w1)"
    and t: "tmpl_property_id t = p" "t \<in> set (receipt_templates (working s1))" and ok1: "schema_ok (working s1)"
    by (rule upload_template_Inr)
  note act = activation_effect [OF ok1 t(2) assms(3), unfolded t(1)]
  let ?t = "touch (clock s1) (set_active True) t"
  have sc: "in_scope p ?t" using t(1) by (simp add: in_scope_def)
  have only: "y = ?t" if "y \<in> set (receipt_templates (working s2))" "in_scope p y" for y
    using first_in_scope [OF act(2) that] first_in_scope [OF act(2) act(3) sc] by simp
  have "in_scope p y = (row_id y = row_id t)" if "y \<in> set (receipt_templates (working s2))" for y
    using that only [of y] distinct_ids_eq [OF schema_ok_keys(11) [OF act(2)] that act(3)] sc by auto
  moreover have "first_of (build_query receipt_templates_tbl (in_scope q) (working s2)) = None" if "q \<noteq> p"
  proof -
    have "\<not> in_scope q y" if "y \<in> set (receipt_templates (working s2))" for y
      using assms(4) \<open>q \<noteq> p\<close> act(4) [of y] that by (auto simp: in_scope_def)
    then show ?thesis
      using first_query_Some [of receipt_templates_tbl "in_scope q" "working s2"]
      by (cases "first_of (build_query receipt_templates_tbl (in_scope q) (working s2))") auto
  qed
  then have "resolve_template q s2 = (Inr (Some ?t), s2)"
    using assms(4) first_in_scope [OF act(2,3) sc]
    by (cases "q = p") (auto simp: resolve_template_eq split: option.split)
  then have "fst (resolve_active_template_html cfg cl built_in q (s2, w1)) = fst (fetch_html cfg cl (storage_key t) w1)"
    by (cases "fetch_html cfg cl (storage_key t) w1")
      (simp add: resolve_active_template_html_def bnd_def in_db_def in_store_def)
  moreover have "view w1 (MINIO_BUCKET_NAME cfg, storage_key t) = Some (html, ''text/html'')"
    using storage_specD(1) [OF assms(1) put] by simp
  note fetch_stored_html [OF assms(1) this]
  moreover have "valid_utf8 html" using html by (auto simp: read_html_Inr)
  ultimately show ?thesis using html act(1,4) by simp
qed

definition sample_html :: "string upload" where
  "sample_html = sample_upload ''text/html'' ''<p>{{ receipt_number }}</p>''"

definition uploaded_template :: "receipt_template result \<times> session \<times> objects" where
  "uploaded_template = upload_template BaseConfig mem_store ''house'' (Some 10) mgr sample_html
     (session_of sample_tables, \<lambda>_. None)"

fun activate_uploaded :: "receipt_template result \<times> session \<times> objects \<Rightarrow> receipt_template option result \<times> session" where
  "activate_uploaded (Inr t, s, w) = activate_template (row_id t) mgr s"
| "activate_uploaded (Inl e, s, w) = (Inl e, s)"

fun uploaded_object :: "receipt_template result \<times> session \<times> objects \<Rightarrow> string option" where
  "uploaded_object (Inr t, s, w) = fst (get_object mem_store (MINIO_BUCKET_NAME BaseConfig) (storage_key t) w)"
| "uploaded_object (Inl e, s, w) = None"

lemma uploaded_template_run:
  obtains t s1 w1 r s2 where "uploaded_template = (Inr t, s1, w1)" "activate_template (row_id t) mgr s1 = (Inr r, s2)"
    "fst (get_object mem_store (MINIO_BUCKET_NAME BaseConfig) (storage_key t) w1) \<noteq> None"
proof -
  have a: "\<not> isl (fst (activate_uploaded uploaded_template))" by code_simp
  have g: "uploaded_object uploaded_template \<noteq> None" by code_simp
  obtain x s1 w1 where x: "uploaded_template = (x, s1, w1)" by (metis prod_cases3)
  have "uploaded_object (x, s1, w1) \<noteq> None" using g unfolding x .
  then obtain t where "x = Inr t" by (cases x) simp_all
  with x have u: "uploaded_template = (Inr t, s1, w1)" by simp
  have "\<not> isl (fst (activate_template (row_id t) mgr s1))" using a unfolding u by simp
  from run_ok [of "activate_template (row_id t) mgr" s1, OF this] obtain r where
    "activate_template (row_id t) mgr s1 = (Inr r, snd (activate_template (row_id t) mgr s1))" by blast
  moreover have "fst (get_object mem_store (MINIO_BUCKET_NAME BaseConfig) (storage_key t) w1) \<noteq> None"
    using g unfolding u by simp
  ultimately show ?thesis using that u by blast
qed

theorem activated_template_is_rendered_witness:
  "\<exists>t s1 w1 r s2. uploaded_template = (Inr t, s1, w1) \<and> activate_template (row_id t) mgr s1 = (Inr r, s2) \<and>
     fst (resolve_active_template_html BaseConfig mem_store ''built in'' (Some 10) (s2, w1)) =
       Inr ''<p>{{ receipt_number }}</p>''"
proof (rule uploaded_template_run)
  fix t s1 w1 r s2
  assume u: "uploaded_template = (Inr t, s1, w1)" and a: "activate_template (row_id t) mgr s1 = (Inr r, s2)"
    and g: "fst (get_object mem_store (MINIO_BUCKET_NAME BaseConfig) (storage_key t) w1) \<noteq> None"
  have "read_and_validate_html sample_html = Inr ''<p>{{ receipt_number }}</p>''" by code_simp
  then have "fst (resolve_active_template_html BaseConfig mem_store ''built in'' (Some 10) (s2, w1)) =
      Inr ''<p>{{ receipt_number }}</p>''"
    using g activated_template_is_rendered [OF mem_store_spec u [unfolded uploaded_template_def] a, of "Some 10" "''built in''"]
    by simp
  with u a show ?thesis by blast
qed

end
