(* ===== verification/ReceiptRender.thy ===== *)
theory ReceiptRender
  imports Calendar Schema Exceptions
begin

text \<open>
  What is printed on a receipt (app/receipts/services/receipt_render_models.py and the
  formatting half of receipt_pdf.py): amounts in words, the render context with its property,
  tenant and payment parts, and the printed receipt number. Amounts are whole cents and never
  negative, as the validators of payments and late fees ensure.
\<close>

section \<open>Amounts in words\<close>

text \<open>Python's indexing of a tuple, and sequencing of steps that may raise.\<close>

definition index_of :: "'a list \<Rightarrow> nat \<Rightarrow> svc_error + 'a" where
  "index_of xs i = (if i < length xs then Inr (xs ! i) else Inl IndexError)"

fun then_do :: "'e + 'a \<Rightarrow> ('a \<Rightarrow> 'e + 'b) \<Rightarrow> 'e + 'b" where
  "then_do (Inl e) f = Inl e"
| "then_do (Inr x) f = f x"

text \<open>\<open>" ".join(parts)\<close>.\<close>

fun join_words :: "string list \<Rightarrow> string" where
  "join_words [] = []"
| "join_words [x] = x"
| "join_words (x # xs) = x @ '' '' @ join_words xs"

definition ONES :: "string list" where
  "ONES = ['''', ''One'', ''Two'', ''Three'', ''Four'', ''Five'', ''Six'', ''Seven'', ''Eight'', ''Nine'',
     ''Ten'', ''Eleven'', ''Twelve'', ''Thirteen'', ''Fourteen'', ''Fifteen'', ''Sixteen'', ''Seventeen'',
     ''Eighteen'', ''Nineteen'']"

definition TENS :: "string list" where
  "TENS = ['''', '''', ''Twenty'', ''Thirty'', ''Forty'', ''Fifty'', ''Sixty'', ''Seventy'', ''Eighty'', ''Ninety'']"

definition SCALES :: "(nat \<times> string) list" where
  "SCALES = [(1000000000, ''Billion''), (1000000, ''Million''), (1000, ''Thousand'')]"

definition hundreds_part :: "nat \<Rightarrow> svc_error + string list" where
  "hundreds_part hundreds =
     (if hundreds = 0 then Inr []
      else then_do (index_of ONES hundreds) (\<lambda>w. Inr [w @ '' Hundred'']))"

definition remainder_part :: "nat \<Rightarrow> svc_error + string list" where
  "remainder_part remainder =
     (if remainder = 0 then Inr []
      else if remainder < 20 then then_do (index_of ONES remainder) (\<lambda>w. Inr [w])
      else
        then_do (index_of TENS (remainder div 10)) (\<lambda>t.
        if remainder mod 10 = 0 then Inr [t]
        else then_do (index_of ONES (remainder mod 10)) (\<lambda>w. Inr [t @ ''-'' @ w])))"

definition three_digit_words :: "nat \<Rightarrow> svc_error + string" where
  "three_digit_words n =
     then_do (hundreds_part (n div 100)) (\<lambda>a.
     then_do (remainder_part (n mod 100)) (\<lambda>b.
     Inr (join_words (a @ b))))"

text \<open>The loop over the scales: the parts and what remains.\<close>

fun scale_words :: "(nat \<times> string) list \<Rightarrow> nat \<Rightarrow> svc_error + string list \<times> nat" where
  "scale_words [] remaining = Inr ([], remaining)"
| "scale_words ((v, name) # scales) remaining =
     (if v \<le> remaining then
        then_do (three_digit_words (remaining div v)) (\<lambda>w.
        then_do (scale_words scales (remaining mod v)) (\<lambda>(parts, r).
        Inr ((w @ '' '' @ name) # parts, r)))
      else scale_words scales remaining)"

definition integer_to_words :: "nat \<Rightarrow> svc_error + string" where
  "integer_to_words n =
     (if n = 0 then Inr ''Zero''
      else
        then_do (scale_words SCALES n) (\<lambda>(parts, r).
        if r = 0 then Inr (join_words parts)
        else then_do (three_digit_words r) (\<lambda>w. Inr (join_words (parts @ [w])))))"

definition amount_to_words :: "nat \<Rightarrow> svc_error + string" where
  "amount_to_words cents =
     then_do (integer_to_words (cents div 100)) (\<lambda>w.
     Inr (w @ '' Pesos and '' @ zero_pad 2 (decimal (cents mod 100)) @ ''/100''))"

section \<open>The render context\<close>

definition PLACEHOLDER :: string where "PLACEHOLDER = ''-''"

text \<open>\<open>getattr(obj, name, default) or default\<close>: also for an empty string.\<close>

definition attr_or_default :: "string option \<Rightarrow> string" where
  "attr_or_default v = (case v of None \<Rightarrow> PLACEHOLDER | Some s \<Rightarrow> if s = [] then PLACEHOLDER else s)"

record charge_line =
  charge_label :: string
  charge_amount :: "money option"

record property_info =
  info_name :: string
  info_address :: string

definition property_info_of :: "property \<Rightarrow> property_info" where
  "property_info_of p = \<lparr>info_name = attr_or_default (Some (prop_name p)),
     info_address = attr_or_default (Some (prop_address p))\<rparr>"

definition tenant_info_of :: "tenant \<Rightarrow> string" where
  "tenant_info_of t = attr_or_default (Some (tenant_full_name t))"

record payment_info =
  info_amount :: money
  other_charges :: "charge_line list"
  total_amount :: money
  amount_in_words :: string
  rental_period :: string
  info_paid_at :: string
  info_method :: string
  info_reference :: string

text \<open>\<open>str(d)\<close> of a date; the dash between the dates is U+2013, three bytes in UTF-8.\<close>

definition date_str :: "date \<Rightarrow> string" where
  "date_str d = date_iso (nat (d - 1))"

definition en_dash :: string where
  "en_dash = [CHR 0xE2, CHR 0x80, CHR 0x93]"

definition late_fee_lines :: "billing_record option \<Rightarrow> charge_line list" where
  "late_fee_lines b =
     (case b of
        None \<Rightarrow> []
      | Some r \<Rightarrow>
          if late_fee_applied r
          then [\<lparr>charge_label = ''Late Fee'', charge_amount = late_fee_amount_charged r\<rparr>]
          else [])"

text \<open>Adding up the charges: adding \<open>None\<close> is a \<open>TypeError\<close>.\<close>

fun sum_charges :: "charge_line list \<Rightarrow> svc_error + money" where
  "sum_charges [] = Inr 0"
| "sum_charges (c # cs) =
     (case charge_amount c of
        None \<Rightarrow> Inl TypeError
      | Some a \<Rightarrow> then_do (sum_charges cs) (\<lambda>b. Inr (a + b)))"

definition payment_info_of :: "payment \<Rightarrow> billing_record option \<Rightarrow> svc_error + payment_info" where
  "payment_info_of p b =
     (let charges = late_fee_lines b in
      then_do (sum_charges charges) (\<lambda>extra.
      let tot = pay_amount p + extra in
      then_do (amount_to_words (nat tot)) (\<lambda>w.
         Inr \<lparr>info_amount = pay_amount p, other_charges = charges, total_amount = tot,
              amount_in_words = w,
              rental_period = (case b of None \<Rightarrow> PLACEHOLDER
                | Some r \<Rightarrow> date_str (period_start r) @ '' '' @ en_dash @ '' '' @ date_str (period_end r)),
              info_paid_at = isoformat (paid_at p),
              info_method = attr_or_default (payment_method p),
              info_reference = attr_or_default (reference_number p)\<rparr>)))"

record receipt_render_context =
  rc_receipt_number :: string
  rc_property :: property_info
  rc_tenant :: string
  rc_payment :: payment_info
  rc_contact_email :: string
  rc_notes :: string
  rc_contact_number :: string

definition build_context ::
  "string \<Rightarrow> payment \<Rightarrow> property \<Rightarrow> tenant \<Rightarrow> billing_record option \<Rightarrow> string option
     \<Rightarrow> svc_error + receipt_render_context" where
  "build_context number p prop t b manager_email =
     then_do (payment_info_of p b) (\<lambda>info.
     Inr \<lparr>rc_receipt_number = number, rc_property = property_info_of prop, rc_tenant = tenant_info_of t,
          rc_payment = info, rc_contact_email = attr_or_default manager_email,
          rc_notes = PLACEHOLDER, rc_contact_number = PLACEHOLDER\<rparr>)"

section \<open>The printed receipt number\<close>

definition format_property_code :: "property \<Rightarrow> string" where
  "format_property_code p =
     (let letters = take 4 (filter (\<lambda>c. is_alpha c \<or> is_digit c) (py_upper (prop_name p)));
          name_part = (if letters = [] then ''PROP'' else letters);
          id_part = py_upper (drop 28 (hex_digits 32 (row_id p)))
      in name_part @ ''-'' @ id_part)"

definition format_receipt_number :: "nat \<Rightarrow> property \<Rightarrow> string" where
  "format_receipt_number n p = ''RCPT-'' @ format_property_code p @ ''-'' @ zero_pad 6 (decimal n)"

section \<open>Reading the words back\<close>

text \<open>The meaning of English number words, written down independently of how they are produced.\<close>

definition unit_value :: "string \<Rightarrow> nat option" where
  "unit_value w = map_of
     [(''One'', 1), (''Two'', 2), (''Three'', 3), (''Four'', 4), (''Five'', 5), (''Six'', 6), (''Seven'', 7),
      (''Eight'', 8), (''Nine'', 9), (''Ten'', 10), (''Eleven'', 11), (''Twelve'', 12), (''Thirteen'', 13),
      (''Fourteen'', 14), (''Fifteen'', 15), (''Sixteen'', 16), (''Seventeen'', 17), (''Eighteen'', 18),
      (''Nineteen'', 19), (''Twenty'', 20), (''Thirty'', 30), (''Forty'', 40), (''Fifty'', 50),
      (''Sixty'', 60), (''Seventy'', 70), (''Eighty'', 80), (''Ninety'', 90)] w"

fun value_of_parts :: "string list \<Rightarrow> nat" where
  "value_of_parts [] = 0"
| "value_of_parts (u # us) = (case unit_value u of None \<Rightarrow> 0 | Some v \<Rightarrow> v) + value_of_parts us"

definition word_value :: "string \<Rightarrow> nat" where
  "word_value w = value_of_parts (split_on CHR ''-'' w)"

definition scale_value :: "string \<Rightarrow> nat option" where
  "scale_value w =
     (if w = ''Thousand'' then Some 1000 else if w = ''Million'' then Some 1000000
      else if w = ''Billion'' then Some 1000000000 else None)"

text \<open>Reading a word: the total of the groups closed by a scale, and the group being read.\<close>

definition read_word :: "nat \<times> nat \<Rightarrow> string \<Rightarrow> nat \<times> nat" where
  "read_word = (\<lambda>(tot, g) w.
     if w = ''Hundred'' then (tot, g * 100)
     else case scale_value w of
       Some v \<Rightarrow> (tot + g * v, 0)
     | None \<Rightarrow> (tot, g + word_value w))"

definition read_integer :: "string list \<Rightarrow> nat" where
  "read_integer ws = (case foldl read_word (0, 0) ws of (tot, g) \<Rightarrow> tot + g)"

definition read_amount :: "string \<Rightarrow> nat" where
  "read_amount s =
     (let ws = split_on CHR '' '' s
      in 100 * read_integer (takeWhile (\<lambda>w. w \<noteq> ''Pesos'') ws) +
         decimal_val (takeWhile (\<lambda>c. c \<noteq> CHR ''/'') (last ws)))"

text \<open>A word that stands for a number below a hundred.\<close>

definition plain_word :: "string \<Rightarrow> nat \<Rightarrow> bool" where
  "plain_word w v \<longleftrightarrow> CHR '' '' \<notin> set w \<and> w \<noteq> ''Pesos'' \<and> w \<noteq> ''Hundred'' \<and>
     scale_value w = None \<and> word_value w = v"

lemma ones_plain: "0 < h \<Longrightarrow> h < 10 \<Longrightarrow> index_of ONES h = Inr (ONES ! h) \<and> plain_word (ONES ! h) h"
proof -
  have "list_all (\<lambda>h. index_of ONES h = Inr (ONES ! h) \<and> plain_word (ONES ! h) h) [1..<10]" by code_simp
  then show "0 < h \<Longrightarrow> h < 10 \<Longrightarrow> ?thesis" by (simp add: list_all_iff)
qed

lemma remainder_plain:
  assumes "0 < r" "r < 100"
  shows "\<exists>w. remainder_part r = Inr [w] \<and> plain_word w r"
proof -
  have "list_all (\<lambda>r. case remainder_part r of Inr [w] \<Rightarrow> plain_word w r | _ \<Rightarrow> False) [1..<100]" by code_simp
  with assms have *: "case remainder_part r of Inr [w] \<Rightarrow> plain_word w r | _ \<Rightarrow> False"
    by (simp only: list_all_iff set_upt atLeastLessThan_iff) auto
  then show ?thesis
  proof (cases "remainder_part r")
    case (Inr ws)
    with * show ?thesis by (cases ws rule: remdups_adj.cases) simp_all
  qed simp
qed

lemma read_plain: "plain_word w v \<Longrightarrow> read_word (t, g) w = (t, g + v)"
  by (simp add: read_word_def plain_word_def)

lemma read_hundred: "read_word (t, g) ''Hundred'' = (t, g * 100)"
  by (simp add: read_word_def)

lemma split_on_append: "split_on c (xs @ c # ys) = split_on c xs @ split_on c ys"
proof (induction xs)
  case (Cons x xs)
  have "split_on c xs \<noteq> []" by (induction xs) (auto split: list.splits)
  with Cons show ?case by (auto split: list.splits)
qed simp

lemma split_on_none: "c \<notin> set xs \<Longrightarrow> split_on c xs = [xs]"
  by (induction xs) auto

lemma split_join: "ps \<noteq> [] \<Longrightarrow> split_on CHR '' '' (join_words ps) = concat (map (split_on CHR '' '') ps)"
proof (induction ps rule: join_words.induct)
  case (3 x y ys)
  then show ?case using split_on_append [of "CHR '' ''" x "join_words (y # ys)"] by simp
qed simp_all

text \<open>A group of up to three digits reads as its number, whatever was read before.\<close>

definition reads_as :: "string \<Rightarrow> nat \<Rightarrow> bool" where
  "reads_as s n \<longleftrightarrow> ''Pesos'' \<notin> set (split_on CHR '' '' s) \<and>
     (\<forall>t. foldl read_word (t, 0) (split_on CHR '' '' s) = (t, n))"

lemma three_digits_read:
  assumes "0 < n" "n < 1000"
  shows "\<exists>w. three_digit_words n = Inr w \<and> reads_as w n"
proof -
  let ?h = "n div 100" and ?r = "n mod 100"
  have h: "?h < 10" using assms(2) by simp
  have n: "n = ?h * 100 + ?r" by simp
  have hu: "?h > 0 \<Longrightarrow> hundreds_part ?h = Inr [ONES ! ?h @ '' Hundred'']"
    using ones_plain [OF _ h] by (simp add: hundreds_part_def)
  have sh: "?h > 0 \<Longrightarrow> split_on CHR '' '' (ONES ! ?h @ '' Hundred'') = [ONES ! ?h, ''Hundred'']"
    using ones_plain [OF _ h] split_on_append [of "CHR '' ''" "ONES ! ?h" "''Hundred''"]
    by (simp add: plain_word_def split_on_none)
  show ?thesis
  proof (cases "?r = 0")
    case True
    with assms(1) n have "?h > 0" by linarith
    with hu sh True ones_plain [OF this h] n show ?thesis
      by (auto simp: three_digit_words_def remainder_part_def reads_as_def read_plain read_hundred plain_word_def)
  next
    case False
    then have "0 < ?r" "?r < 100" by simp_all
    from remainder_plain [OF this] obtain w where w: "remainder_part ?r = Inr [w]" "plain_word w ?r" by blast
    then have sw: "split_on CHR '' '' w = [w]" "w \<noteq> ''Pesos''" by (auto simp: plain_word_def split_on_none)
    show ?thesis
    proof (cases "?h = 0")
      case True
      with w sw n show ?thesis
        by (auto simp: three_digit_words_def hundreds_part_def reads_as_def read_plain)
    next
      case False
      then have h0: "?h > 0" by simp
      have "split_on CHR '' '' (join_words [ONES ! ?h @ '' Hundred'', w]) = [ONES ! ?h, ''Hundred'', w]"
        by (subst split_join) (simp_all add: sh [OF h0] sw)
      moreover have "three_digit_words n = Inr (join_words [ONES ! ?h @ '' Hundred'', w])"
        using hu [OF h0] w by (simp add: three_digit_words_def)
      ultimately show ?thesis
        using ones_plain [OF h0 h] w sw n
        by (auto simp: reads_as_def read_plain read_hundred plain_word_def simp del: join_words.simps)
    qed
  qed
qed

text \<open>Each scale is at most a thousand times the next one, and the last is a thousand.\<close>

fun chained :: "(nat \<times> string) list \<Rightarrow> nat \<Rightarrow> bool" where
  "chained [] bound = (bound \<le> 1000)"
| "chained ((v, name) # scales) bound =
     (0 < v \<and> bound \<le> 1000 * v \<and> scale_value name = Some v \<and> name \<noteq> ''Hundred'' \<and> name \<noteq> ''Pesos'' \<and>
      CHR '' '' \<notin> set name \<and> chained scales v)"

lemma chained_SCALES: "chained SCALES 1000000000000"
  by (simp add: SCALES_def scale_value_def)

lemma scales_read:
  assumes "chained scales bound" "n < bound"
  shows "\<exists>ps r. scale_words scales n = Inr (ps, r) \<and> r < 1000 \<and> r \<le> n \<and> (ps = [] \<longrightarrow> r = n) \<and>
    ''Pesos'' \<notin> set (concat (map (split_on CHR '' '') ps)) \<and>
    (\<forall>t. foldl read_word (t, 0) (concat (map (split_on CHR '' '') ps)) = (t + (n - r), 0))"
  using assms
proof (induction scales n arbitrary: bound rule: scale_words.induct)
  case (1 n)
  then show ?case by simp
next
  case (2 v name scales n)
  then have c: "0 < v" "bound \<le> 1000 * v" "scale_value name = Some v" "name \<noteq> ''Hundred''" "name \<noteq> ''Pesos''"
    "CHR '' '' \<notin> set name" "chained scales v" by simp_all
  show ?case
  proof (cases "v \<le> n")
    case False
    with 2(2) [OF False c(7)] show ?thesis by simp
  next
    case True
    let ?q = "n div v"
    have "0 < ?q" using True c(1) by (simp add: div_greater_zero_iff)
    moreover have "?q < 1000"
      using 2(4) c(1,2) by (simp add: less_mult_imp_div_less mult.commute)
    ultimately obtain w where w: "three_digit_words ?q = Inr w" "reads_as w ?q"
      using three_digits_read by blast
    from 2(1) [OF True c(7)] c(1) obtain ps r where
      ih: "scale_words scales (n mod v) = Inr (ps, r)" "r < 1000" "r \<le> n mod v"
      "''Pesos'' \<notin> set (concat (map (split_on CHR '' '') ps))"
      "\<And>t. foldl read_word (t, 0) (concat (map (split_on CHR '' '') ps)) = (t + (n mod v - r), 0)"
      using w by (metis mod_less_divisor)
    have s: "split_on CHR '' '' (w @ '' '' @ name) = split_on CHR '' '' w @ [name]"
      using split_on_append [of "CHR '' ''" w name] c(6) by (simp add: split_on_none)
    have "v * ?q + (n mod v - r) = n - r" using ih(3) mult_div_mod_eq [of v n] by linarith
    moreover have "foldl read_word (t, 0) (split_on CHR '' '' (w @ '' '' @ name)) = (t + ?q * v, 0)" for t
      using w(2) c(3,4) by (simp only: s reads_as_def foldl_append) (simp add: read_word_def)
    ultimately have "foldl read_word (t, 0) (concat (map (split_on CHR '' '') ((w @ '' '' @ name) # ps))) = (t + (n - r), 0)"
      for t by (simp only: list.map concat.simps foldl_append ih(5)) (simp add: mult.commute)
    moreover have "''Pesos'' \<notin> set (concat (map (split_on CHR '' '') ((w @ '' '' @ name) # ps)))"
      using w(2) c(5) ih(4) by (simp only: list.map concat.simps s set_append) (auto simp: reads_as_def)
    moreover have "scale_words ((v, name) # scales) n = Inr ((w @ '' '' @ name) # ps, r)"
      using True w(1) ih(1) by simp
    moreover have "r \<le> n" using ih(3) by (meson le_trans mod_less_eq_dividend)
    ultimately show ?thesis using ih(2) by blast
  qed
qed

lemma integer_words_read:
  assumes "n < 1000000000000"
  shows "\<exists>w. integer_to_words n = Inr w \<and> ''Pesos'' \<notin> set (split_on CHR '' '' w) \<and>
    read_integer (split_on CHR '' '' w) = n"
proof (cases "n = 0")
  case True
  have "''Pesos'' \<notin> set (split_on CHR '' '' ''Zero'')" "read_integer (split_on CHR '' '' ''Zero'') = 0"
    by code_simp+
  with True show ?thesis by (simp add: integer_to_words_def)
next
  case False
  from scales_read [OF chained_SCALES assms] obtain ps r where
    ps: "scale_words SCALES n = Inr (ps, r)" "r < 1000" "r \<le> n" "ps = [] \<longrightarrow> r = n"
    "''Pesos'' \<notin> set (concat (map (split_on CHR '' '') ps))"
    "\<And>t. foldl read_word (t, 0) (concat (map (split_on CHR '' '') ps)) = (t + (n - r), 0)" by blast
  show ?thesis
  proof (cases "r = 0")
    case True
    with False ps(4) have "ps \<noteq> []" by auto
    with True False ps show ?thesis
      by (simp add: integer_to_words_def split_join read_integer_def)
  next
    case r: False
    with three_digits_read [of r] ps(2) obtain w where w: "three_digit_words r = Inr w" "reads_as w r" by blast
    have s: "split_on CHR '' '' (join_words (ps @ [w])) = concat (map (split_on CHR '' '') ps) @ split_on CHR '' '' w"
      by (simp add: split_join)
    have "integer_to_words n = Inr (join_words (ps @ [w]))"
      using False r ps(1) w(1) by (simp add: integer_to_words_def)
    moreover have "read_integer (split_on CHR '' '' (join_words (ps @ [w]))) = n"
      using ps(3,6) w(2) by (simp add: s read_integer_def reads_as_def)
    moreover have "''Pesos'' \<notin> set (split_on CHR '' '' (join_words (ps @ [w])))"
      using ps(5) w(2) by (simp add: s reads_as_def)
    ultimately show ?thesis by blast
  qed
qed

section \<open>Properties\<close>

text \<open>
  C31. An amount below a trillion pesos is always put into words, never an index error, and the
  words read back as exactly that amount, pesos and centavos: no two amounts are printed alike.
\<close>

theorem amount_words_read_back:
  assumes "cents < 100000000000000"
  shows "\<exists>w. amount_to_words cents = Inr w \<and> read_amount w = cents"
proof -
  have "cents div 100 < 1000000000000" using assms by simp
  from integer_words_read [OF this] obtain w where
    w: "integer_to_words (cents div 100) = Inr w" "''Pesos'' \<notin> set (split_on CHR '' '' w)"
    "read_integer (split_on CHR '' '' w) = cents div 100" by blast
  let ?d = "zero_pad 2 (decimal (cents mod 100))"
  have d: "\<And>c. c \<in> set ?d \<Longrightarrow> is_digit c" using zero_pad_digits by (simp add: list_all_iff)
  then have sp: "CHR '' '' \<notin> set (?d @ ''/100'')" "CHR ''/'' \<notin> set ?d"
    by (auto simp: is_digit_def dest!: d)
  have "split_on CHR '' '' (w @ '' Pesos and '' @ ?d @ ''/100'') =
      split_on CHR '' '' w @ [''Pesos'', ''and'', ?d @ ''/100'']"
    using split_on_append [of "CHR '' ''" w "''Pesos and '' @ ?d @ ''/100''"]
      split_on_append [of "CHR '' ''" "''Pesos''" "''and '' @ ?d @ ''/100''"]
      split_on_append [of "CHR '' ''" "''and''" "?d @ ''/100''"] split_on_none [OF sp(1)] by simp
  moreover have "takeWhile (\<lambda>c. c \<noteq> CHR ''/'') (?d @ ''/100'') = ?d"
    using sp(2) by (subst takeWhile_append2) auto
  moreover have "takeWhile (\<lambda>w. w \<noteq> ''Pesos'') (split_on CHR '' '' w @ [''Pesos'', ''and'', ?d @ ''/100'']) =
      split_on CHR '' '' w"
    using w(2) by (subst takeWhile_append2) auto
  moreover have "decimal_val ?d = cents mod 100"
    by (simp add: zero_pad_def decimal_val_zeros decimal_val_decimal)
  ultimately have "read_amount (w @ '' Pesos and '' @ ?d @ ''/100'') = 100 * (cents div 100) + cents mod 100"
    using w(3) by (simp only: read_amount_def Let_def) simp
  with w(1) show ?thesis by (simp add: amount_to_words_def)
qed

theorem amount_words_read_back_witness:
  "amount_to_words 125007 = Inr ''One Thousand Two Hundred Fifty Pesos and 07/100'' \<and>
   (\<exists>w. amount_to_words 125007 = Inr w \<and> read_amount w = 125007)"
proof
  have "zero_pad 2 (decimal 7) = ''07''" by code_simp
  then show "amount_to_words 125007 = Inr ''One Thousand Two Hundred Fifty Pesos and 07/100''"
    by (simp add: amount_to_words_def integer_to_words_def SCALES_def three_digit_words_def hundreds_part_def
        remainder_part_def index_of_def ONES_def TENS_def)
  show "\<exists>w. amount_to_words 125007 = Inr w \<and> read_amount w = 125007"
    by (rule amount_words_read_back) simp
qed

end
