(* ===== verification/Receipts.thy ===== *)
theory Receipts
  imports ReceiptTemplates ReceiptRender Payments
begin

text \<open>
  Receipts: ReceiptRepository (app/receipts/repositories/receipt.py), the rendering step of
  app/receipts/services/receipt_pdf.py and ReceiptService
  (app/receipts/services/receipt_service.py). Jinja2 and WeasyPrint, which turn a template and
  a render context into the bytes of a PDF, are a parameter.
\<close>

section \<open>Repository\<close>

definition receipt_get_by_payment :: "uuid \<Rightarrow> receipt list svc" where
  "receipt_get_by_payment i =
     query (\<lambda>t. sort_key created_at (filter (\<lambda>r. rcpt_payment_id r = i) (receipts t)))"

definition receipt_visible :: "uuid \<Rightarrow> tables \<Rightarrow> receipt \<Rightarrow> bool" where
  "receipt_visible m t r \<longleftrightarrow>
     rcpt_payment_id r \<in> set (ids (filter (payment_visible m t) (payments t)))"

definition receipt_get_all_for_manager :: "uuid \<Rightarrow> int \<Rightarrow> int \<Rightarrow> receipt list svc" where
  "receipt_get_all_for_manager m skip limit =
     query (\<lambda>t. page skip limit (build_query receipts_tbl (receipt_visible m t) t))"

definition receipt_count_all :: "nat svc" where
  "receipt_count_all = repo_count receipts_tbl (\<lambda>_. True)"

definition receipt_count_all_for_manager :: "uuid \<Rightarrow> nat svc" where
  "receipt_count_all_for_manager m = query (\<lambda>t. length (filter (receipt_visible m t) (receipts t)))"

section \<open>Rendering\<close>

text \<open>\<open>engine html context\<close>: the PDF, or the exception of one of the two libraries.\<close>

type_synonym pdf_engine = "string \<Rightarrow> receipt_render_context \<Rightarrow> svc_error + string"

definition render_receipt_pdf ::
  "pdf_engine \<Rightarrow> string \<Rightarrow> nat \<Rightarrow> payment \<Rightarrow> property \<Rightarrow> tenant \<Rightarrow> billing_record option \<Rightarrow> string option
     \<Rightarrow> svc_error + string" where
  "render_receipt_pdf engine template_html number p prop t b manager_email =
     then_do (build_context (format_receipt_number number prop) p prop t b manager_email)
       (engine template_html)"

text \<open>The buffer handed to the document service: it has no declared content type.\<close>

definition bytes_io :: "string \<Rightarrow> string upload" where
  "bytes_io data = \<lparr>content_type = None, read_bytes = string_reader, stream = data\<rparr>"

section \<open>ReceiptService\<close>

text \<open>The lookups and the check with which issuing begins, up to drawing the number.\<close>

definition receipt_sources :: "uuid \<Rightarrow> user \<Rightarrow> (payment \<times> property \<times> tenant) svc" where
  "receipt_sources payment_id current_user =
     bnd (get_payment_or_404 payment_id) (\<lambda>p.
     bnd (found_or (RelatedResourceNotFoundError ''Contract'' (pay_contract_id p))
            (repo_get_by_id contracts_tbl (pay_contract_id p))) (\<lambda>c.
     bnd (authorize_user_to_property ReceiptForbidden current_user None (Some (pay_contract_id p)) (Some c)) (\<lambda>_.
     bnd (found_or (RelatedResourceNotFoundError ''Property'' (contract_property_id c))
            (repo_get_by_id properties_tbl (contract_property_id c))) (\<lambda>prop.
     bnd (found_or (RelatedResourceNotFoundError ''Tenant'' (contract_tenant_id c))
            (repo_get_by_id tenants_tbl (contract_tenant_id c))) (\<lambda>t.
     ret (p, prop, t))))))"

definition receipt_record :: "payment \<Rightarrow> billing_record option svc" where
  "receipt_record p =
     (case billing_record_id p of None \<Rightarrow> ret None | Some b \<Rightarrow> repo_get_by_id billing_records_tbl b)"

definition receipt_manager :: "property \<Rightarrow> user option svc" where
  "receipt_manager prop =
     (case manager_id prop of None \<Rightarrow> ret None | Some m \<Rightarrow> repo_get_by_id users_tbl m)"

definition receipt_document :: "nat \<Rightarrow> payment \<Rightarrow> property \<Rightarrow> document_create" where
  "receipt_document number p prop =
     \<lparr>dc_file_name = format_receipt_number number prop @ ''.pdf'', dc_file_type = ''application/pdf'',
      dc_contract_id = Some (pay_contract_id p), dc_property_id = None, dc_tenant_id = None,
      dc_collection_id = None\<rparr>"

text \<open>Number, payment and document of a receipt whose PDF is stored.\<close>

definition store_receipt_pdf ::
  "settings \<Rightarrow> 'w storage_client \<Rightarrow> pdf_engine \<Rightarrow> string \<Rightarrow> user \<Rightarrow> nat \<Rightarrow> payment \<times> property \<times> tenant
     \<Rightarrow> ('w, document) stored" where
  "store_receipt_pdf cfg cl engine default_template current_user number src =
     (case src of (p, prop, t) \<Rightarrow>
     bnd (in_db (receipt_record p)) (\<lambda>b.
     bnd (in_db (receipt_manager prop)) (\<lambda>manager.
     bnd (resolve_active_template_html cfg cl default_template (Some (row_id prop))) (\<lambda>html.
     case render_receipt_pdf engine html number p prop t b (map_option user_email manager) of
       Inl e \<Rightarrow> raise e
     | Inr pdf_buf \<Rightarrow>
         create_document cfg (Some (cl, bytes_io pdf_buf)) (receipt_document number p prop) current_user))))"

definition new_receipt :: "nat \<Rightarrow> uuid \<Rightarrow> uuid \<Rightarrow> uuid \<Rightarrow> instant \<Rightarrow> receipt" where
  "new_receipt number pid did i n =
     \<lparr>row_id = i, created_at = n, updated_at = n, receipt_number = number, rcpt_payment_id = pid,
      rcpt_document_id = did\<rparr>"

definition insert_receipt :: "user \<Rightarrow> nat \<Rightarrow> uuid \<Rightarrow> uuid \<Rightarrow> receipt svc" where
  "insert_receipt current_user number pid did =
     bnd (repo_create receipts_tbl (new_receipt number pid did)) (\<lambda>r.
     bnd (write_audit_log current_user CREATE ''Receipt'' (row_id r)) (\<lambda>_.
     bnd commit (\<lambda>_.
     ret r)))"

definition issue_receipt ::
  "settings \<Rightarrow> 'w storage_client \<Rightarrow> pdf_engine \<Rightarrow> string \<Rightarrow> uuid \<Rightarrow> user \<Rightarrow> ('w, receipt) stored" where
  "issue_receipt cfg cl engine default_template payment_id current_user =
     bnd (in_db (receipt_sources payment_id current_user)) (\<lambda>src.
     bnd (in_db nextval_receipt) (\<lambda>number.
     bnd (store_receipt_pdf cfg cl engine default_template current_user number src) (\<lambda>d.
     try_except (in_db (insert_receipt current_user number (row_id (fst src)) (row_id d)))
       (\<lambda>_. raise ReceiptCreationError))))"

definition list_receipts_for_payment :: "uuid \<Rightarrow> user \<Rightarrow> receipt list svc" where
  "list_receipts_for_payment payment_id current_user =
     bnd (get_payment_or_404 payment_id) (\<lambda>p.
     bnd (authorize_user_to_property ReceiptForbidden current_user None (Some (pay_contract_id p)) None) (\<lambda>_.
     receipt_get_by_payment payment_id))"

definition get_receipt :: "uuid \<Rightarrow> user \<Rightarrow> receipt svc" where
  "get_receipt i current_user =
     bnd (found_or (RelatedResourceNotFoundError ''Receipt'' i) (repo_get_by_id receipts_tbl i)) (\<lambda>r.
     bnd (get_payment_or_404 (rcpt_payment_id r)) (\<lambda>p.
     bnd (authorize_user_to_property ReceiptForbidden current_user None (Some (pay_contract_id p)) None) (\<lambda>_.
     ret r)))"

definition get_receipt_document ::
  "settings \<Rightarrow> 'w storage_client \<Rightarrow> uuid \<Rightarrow> user \<Rightarrow> ('w, document \<times> string) stored" where
  "get_receipt_document cfg cl i current_user =
     bnd (in_db (get_receipt i current_user)) (\<lambda>r.
     get_document_content cfg cl (rcpt_document_id r) current_user)"

definition receipt_route_error :: "svc_error \<Rightarrow> svc_error" where
  "receipt_route_error e =
     (case e of ReceiptCreationError \<Rightarrow> HTTPException 502 ''Failed to create receipt'' | other \<Rightarrow> other)"

lemmas receipt_code [code] = fun_cong [OF receipt_sources_def] fun_cong [OF insert_receipt_def]
  fun_cong [OF store_receipt_pdf_def, of src for src] fun_cong [OF issue_receipt_def] fun_cong [OF get_receipt_def]
  fun_cong [OF receipt_record_def] fun_cong [OF receipt_manager_def]
  fun_cong [OF get_receipt_document_def] fun_cong [OF list_receipts_for_payment_def]

section \<open>Lemmas\<close>

lemma pure_read_receipts [atomic_intros]:
  "pure_read (receipt_sources i u)" "pure_read (receipt_record p)" "pure_read (receipt_manager q)"
  "pure_read (get_receipt i u)" "pure_read (list_receipts_for_payment i u)"
  unfolding receipt_sources_def receipt_record_def receipt_manager_def get_receipt_def
    list_receipts_for_payment_def receipt_get_by_payment_def
  by (intro atomic_intros)+

lemma atomic_insert_receipt: "atomic (insert_receipt u n p d)"
  unfolding insert_receipt_def by (intro atomic_intros)

lemma insert_document_frame:
  assumes "insert_document url pl ctx i u s = (Inr d, s')"
  shows "receipts (working s') = receipts (working s) \<and> payments (working s') = payments (working s) \<and>
    receipt_seq s' = receipt_seq s"
  using assms by (auto simp: insert_document_def bnd_Inr_iff now_def repo_insert_Inr write_audit_log_iff)

lemma create_document_frame:
  assumes "create_document cfg (Some (cl, fo)) pl u (s, w) = (Inr d, s', w')"
  shows "receipts (working s') = receipts (working s) \<and> payments (working s') = payments (working s) \<and>
    receipt_seq s' = receipt_seq s"
proof -
  from assms obtain ctx url s0 where "insert_document url pl ctx (uuid_source s (uuid_drawn s)) u s0 = (Inr d, s')"
    and "s0 = s\<lparr>uuid_drawn := Suc (uuid_drawn s)\<rparr>"
    by (auto simp: create_document_def store_document_def Let_def bnd_Inr_iff try_except_Inr_iff uuid4_def
        dest!: pure_readD [OF pure_read_documents(1)])
  with insert_document_frame show ?thesis by fastforce
qed

lemma insert_receipt_Inr:
  assumes "insert_receipt u n p d s = (Inr r, s')"
  shows "receipt_number r = n \<and> rcpt_payment_id r = p \<and> rcpt_document_id r = d \<and>
    receipts (working s') = receipts (working s) @ [r] \<and> documents (working s') = documents (working s) \<and>
    payments (working s') = payments (working s) \<and> contracts (working s') = contracts (working s) \<and>
    properties (working s') = properties (working s) \<and>
    receipt_seq s' = receipt_seq s \<and> committed s' = working s' \<and> schema_ok (working s')"
  using assms by (auto simp: insert_receipt_def svc_iffs repo_iffs write_audit_log_iff new_receipt_def)

lemma receipt_sources_Inr:
  assumes "receipt_sources i u s = (Inr (p, prop, t), s')"
  shows "s' = s \<and> get_row payments_tbl i (working s) = Some p \<and>
    (\<exists>c. get_row contracts_tbl (pay_contract_id p) (working s) = Some c \<and>
       authorize_user_to_property ReceiptForbidden u None (Some (pay_contract_id p)) (Some c) s = (Inr (), s))"
proof -
  have "s' = s" using assms by (rule pure_readD [OF pure_read_receipts(1)])
  with assms show ?thesis
    by (auto simp: receipt_sources_def get_payment_or_404_def svc_iffs
        dest: pure_readD [OF pure_read_authorize])
qed

lemma store_receipt_pdf_Inr:
  assumes "store_receipt_pdf cfg cl engine dflt u n (p, prop, t) (s, w) = (Inr d, s', w')"
  obtains html bytes w1 b m where "render_receipt_pdf engine html n p prop t b m = Inr bytes"
    "create_document cfg (Some (cl, bytes_io bytes)) (receipt_document n p prop) u (s, w1) = (Inr d, s', w')"
proof -
  from assms obtain b s1 where "receipt_record p s = (Inr b, s1)"
    and 1: "bnd (in_db (receipt_manager prop)) (\<lambda>manager.
     bnd (resolve_active_template_html cfg cl dflt (Some (row_id prop))) (\<lambda>html.
     case render_receipt_pdf engine html n p prop t b (map_option user_email manager) of
       Inl e \<Rightarrow> raise e
     | Inr pdf_buf \<Rightarrow>
         create_document cfg (Some (cl, bytes_io pdf_buf)) (receipt_document n p prop) u)) (s1, w) = (Inr d, s', w')"
    by (auto simp: store_receipt_pdf_def bnd_Inr_iff [of "in_db (receipt_record p)"])
  then have s1: "s1 = s" by (auto dest: pure_readD [OF pure_read_receipts(2)])
  from 1 obtain m s2 where "receipt_manager prop s1 = (Inr m, s2)"
    and 2: "bnd (resolve_active_template_html cfg cl dflt (Some (row_id prop))) (\<lambda>html.
     case render_receipt_pdf engine html n p prop t b (map_option user_email m) of
       Inl e \<Rightarrow> raise e
     | Inr pdf_buf \<Rightarrow>
         create_document cfg (Some (cl, bytes_io pdf_buf)) (receipt_document n p prop) u) (s2, w) = (Inr d, s', w')"
    by (auto simp: bnd_Inr_iff [of "in_db (receipt_manager prop)"])
  then have s2: "s2 = s" using s1 by (auto dest: pure_readD [OF pure_read_receipts(3)])
  from 2 obtain html s3 w1 where r: "resolve_active_template_html cfg cl dflt (Some (row_id prop)) (s2, w) = (Inr html, s3, w1)"
    and 3: "(case render_receipt_pdf engine html n p prop t b (map_option user_email m) of
       Inl e \<Rightarrow> raise e
     | Inr pdf_buf \<Rightarrow>
         create_document cfg (Some (cl, bytes_io pdf_buf)) (receipt_document n p prop) u) (s3, w1) = (Inr d, s', w')"
    by (auto simp: bnd_Inr_iff)
  have "s3 = s2" using r
    by (auto simp: resolve_active_template_html_def bnd_Inr_iff dest!: pure_readD [OF pure_read_templates(4)]
        split: option.splits)
  with 3 s2 that show ?thesis by (auto split: sum.splits)
qed

text \<open>What a stored PDF document looks like.\<close>

lemma stored_pdf:
  assumes "storage_spec cl view"
    and "create_document cfg (Some (cl, bytes_io bytes)) (receipt_document n p prop) u (s, w) = (Inr d, s', w')"
  shows "documents (working s') = documents (working s) @ [d]" "doc_contract_id d = Some (pay_contract_id p)"
    and "contracts (working s') = contracts (working s)" "properties (working s') = properties (working s)"
    and "committed s' = working s'" "schema_ok (working s')"
    and "view w' (MINIO_BUCKET_NAME cfg, build_storage_key (row_id d) (file_name d)) = Some (bytes, ''application/pdf'')"
    and "documents (working s2) = documents (working s') \<Longrightarrow> contracts (working s2) = contracts (working s') \<Longrightarrow>
      properties (working s2) = properties (working s') \<Longrightarrow> schema_ok (working s2) \<Longrightarrow>
      get_document (row_id d) u s2 = (Inr d, s2)"
proof -
  from assms(2) have "documents (working s') = documents (working s) @ [d] \<and> doc_contract_id d = Some (pay_contract_id p) \<and>
    contracts (working s') = contracts (working s) \<and> properties (working s') = properties (working s) \<and>
    committed s' = working s' \<and> schema_ok (working s') \<and>
    view w' (MINIO_BUCKET_NAME cfg, build_storage_key (row_id d) (file_name d)) = Some (bytes, ''application/pdf'') \<and>
    (documents (working s2) = documents (working s') \<longrightarrow> contracts (working s2) = contracts (working s') \<longrightarrow>
      properties (working s2) = properties (working s') \<longrightarrow> schema_ok (working s2) \<longrightarrow>
      get_document (row_id d) u s2 = (Inr d, s2))"
  proof (cases rule: create_document_cases)
    case (stored d' ctx)
    let ?k = "build_storage_key (row_id d) (file_name d)"
    from stored(1) have d: "d' = d" by simp
    with stored(4) have k: "?k = build_storage_key (uuid_source s (uuid_drawn s)) (dc_file_name (receipt_document n p prop))"
      and links: "doc_property_id d = ctx_property_id ctx" "doc_contract_id d = ctx_contract_id ctx"
      by (simp_all add: new_document_def)
    from stored(10) obtain data ty l where
      rd: "read_and_validate_upload (Some (dc_file_name (receipt_document n p prop),
        dc_file_type (receipt_document n p prop))) (bytes_io bytes) = Inr (data, ty, l)"
      and put: "put_file cfg cl ?k data ty w = (Inr (), w')" by (auto simp: upload_Inr k)
    have "reader_spec (read_bytes (bytes_io bytes)) (\<lambda>f. f)" by (simp add: bytes_io_def string_reader_spec)
    from read_upload_Inr [OF this rd] have "data = bytes" "ty = ''application/pdf''"
      by (auto simp: bytes_io_def declared_type_def falsy_def receipt_document_def jpg_alias_def)
    with put_file_view [OF assms(1) put] have v: "view w' (MINIO_BUCKET_NAME cfg, ?k) = Some (bytes, ''application/pdf'')"
      by simp
    have cid: "ctx_contract_id ctx = Some (pay_contract_id p)"
    proof -
      from stored(3) obtain c where "resolve_document_relationship None (links_of (receipt_document n p prop)) s = (Inr (ctx, c), s)"
        by (auto simp: prepare_document_context_def bnd_Inr_iff dest: pure_readD [OF pure_read_resolve_relationship])
      then show ?thesis
        by (auto simp: resolve_document_relationship_def links_of_def receipt_document_def resolve_id_def Let_def svc_iffs
            dest: get_row_id)
    qed
    have "get_document (row_id d) u s2 = (Inr d, s2)"
      if "documents (working s2) = documents (working s')" "contracts (working s2) = contracts (working s')"
        "properties (working s2) = properties (working s')" "schema_ok (working s2)"
    proof -
      have "get_row documents_tbl (row_id d) (working s2) = Some d"
        using stored(5) d that(1) schema_ok_keys(8) [OF that(4)] by (simp add: get_row_Some_iff)
      then show ?thesis
        using same_ownership [OF stored(3), of s2] stored(6,7) that(2,3) links by (simp add: get_document_Inr)
    qed
    with stored d v links cid show ?thesis by simp
  qed simp_all
  then show "documents (working s') = documents (working s) @ [d]" "doc_contract_id d = Some (pay_contract_id p)"
    "contracts (working s') = contracts (working s)" "properties (working s') = properties (working s)"
    "committed s' = working s'" "schema_ok (working s')"
    "view w' (MINIO_BUCKET_NAME cfg, build_storage_key (row_id d) (file_name d)) = Some (bytes, ''application/pdf'')"
    "documents (working s2) = documents (working s') \<Longrightarrow> contracts (working s2) = contracts (working s') \<Longrightarrow>
      properties (working s2) = properties (working s') \<Longrightarrow> schema_ok (working s2) \<Longrightarrow>
      get_document (row_id d) u s2 = (Inr d, s2)" by blast+
qed

text \<open>A user who passed the check passes it again while contracts and properties stay.\<close>

lemma authorized_again:
  assumes "authorize_user_to_property f u None (Some i) (Some c) s = (Inr (), s)" "get_row contracts_tbl i (working s) = Some c"
    and "contracts (working s') = contracts (working s)" "properties (working s') = properties (working s)"
  shows "authorize_user_to_property f u None (Some i) None s' = (Inr (), s')"
  using assms by (auto simp: authorize_Inr resolve_property_Inr get_row_def build_query_def)

lemma issue_receipt_cases:
  assumes "issue_receipt cfg cl engine dflt i u (s, w) = (Inr r, s', w')"
  obtains p q t s1 d s2 where "receipt_sources i u s = (Inr (p, q, t), s)"
    and "s1 = s\<lparr>receipt_seq := Suc (receipt_seq s)\<rparr>"
    and "store_receipt_pdf cfg cl engine dflt u (Suc (receipt_seq s)) (p, q, t) (s1, w) = (Inr d, s2, w')"
    and "insert_receipt u (Suc (receipt_seq s)) (row_id p) (row_id d) s2 = (Inr r, s')"
proof -
  from assms obtain p q t s0 d s2 where "receipt_sources i u s = (Inr (p, q, t), s0)"
    and "store_receipt_pdf cfg cl engine dflt u (Suc (receipt_seq s0)) (p, q, t)
      (s0\<lparr>receipt_seq := Suc (receipt_seq s0)\<rparr>, w) = (Inr d, s2, w')"
    and "insert_receipt u (Suc (receipt_seq s0)) (row_id p) (row_id d) s2 = (Inr r, s')"
    by (auto simp: issue_receipt_def bnd_Inr_iff try_except_Inr_iff nextval_receipt_def)
  moreover from this(1) have "s0 = s" by (rule pure_readD [OF pure_read_receipts(1)])
  ultimately show ?thesis using that by blast
qed

section \<open>Properties\<close>

text \<open>
  C32. A receipt that was issued can be downloaded: issuing appends exactly one receipt, with the
  next number of the sequence and for the payment asked for, and one document of the contract of
  that payment; the bytes the rendering produced for this number and payment are what the same
  user then downloads for the receipt, unless the store does not answer.
\<close>

theorem issued_receipt_is_downloaded:
  assumes "storage_spec cl view"
    and "issue_receipt cfg cl engine dflt i u (s, w) = (Inr r, s', w')"
  shows "\<exists>p prop t html b m d bytes. get_row payments_tbl i (working s) = Some p \<and>
    render_receipt_pdf engine html (Suc (receipt_seq s)) p prop t b m = Inr bytes \<and>
    receipts (committed s') = receipts (working s) @ [r] \<and> documents (committed s') = documents (working s) @ [d] \<and>
    receipt_number r = Suc (receipt_seq s) \<and> receipt_seq s' = Suc (receipt_seq s) \<and>
    rcpt_payment_id r = i \<and> rcpt_document_id r = row_id d \<and> doc_contract_id d = Some (pay_contract_id p) \<and>
    fst (get_receipt_document cfg cl (row_id r) u (s', w')) =
      (if fst (get_object cl (MINIO_BUCKET_NAME cfg) (build_storage_key (row_id d) (file_name d)) w') = None
       then Inl (ServiceException ''Failed to read document from storage'') else Inr (d, bytes))"
  using assms(2)
proof (cases rule: issue_receipt_cases)
  case (1 p q t s1 d s2)
  let ?k = "build_storage_key (row_id d) (file_name d)"
  from receipt_sources_Inr [OF 1(1)] obtain c where p: "get_row payments_tbl i (working s) = Some p"
    and c: "get_row contracts_tbl (pay_contract_id p) (working s) = Some c"
    and a: "authorize_user_to_property ReceiptForbidden u None (Some (pay_contract_id p)) (Some c) s = (Inr (), s)"
    by blast
  have same: "working s1 = working s" "receipt_seq s1 = Suc (receipt_seq s)" using 1(2) by simp_all
  from 1(3) obtain html bytes w1 b m where ren: "render_receipt_pdf engine html (Suc (receipt_seq s)) p q t b m = Inr bytes"
    and cr: "create_document cfg (Some (cl, bytes_io bytes)) (receipt_document (Suc (receipt_seq s)) p q) u (s1, w1) =
      (Inr d, s2, w')"
    by (rule store_receipt_pdf_Inr)
  note doc = stored_pdf [OF assms(1) cr] and frame = create_document_frame [OF cr]
  note ins = insert_receipt_Inr [OF 1(4)]
  have pid: "row_id p = i" using p by (rule get_row_id)
  have "get_row payments_tbl i (working s') = Some p" using p ins frame same by (simp add: get_row_def build_query_def)
  moreover have "get_row receipts_tbl (row_id r) (working s') = Some r"
    using ins schema_ok_keys(10) [of "working s'"] by (simp add: get_row_Some_iff)
  moreover have "authorize_user_to_property ReceiptForbidden u None (Some (pay_contract_id p)) None s' = (Inr (), s')"
    using a c by (rule authorized_again) (use ins doc same in simp_all)
  ultimately have "get_receipt (row_id r) u s' = (Inr r, s')"
    using ins pid by (simp add: get_receipt_def get_payment_or_404_def bnd_Inr_iff svc_iffs)
  moreover have "get_document (row_id d) u s' = (Inr d, s')" by (rule doc(8)) (use ins in simp_all)
  ultimately have rd: "get_receipt_document cfg cl (row_id r) u (s', w') =
      bnd (in_store (read_document cfg cl d)) (\<lambda>data. ret (d, data)) (s', w')"
    using ins by (simp add: get_receipt_document_def get_document_content_def bnd_def in_db_def)
  obtain g w2 where g: "get_object cl (MINIO_BUCKET_NAME cfg) ?k w' = (g, w2)" by fastforce
  have "g = Some x \<Longrightarrow> x = bytes" for x using storage_specD(4) [OF assms(1)] g doc(7) by fastforce
  then have "fst (get_receipt_document cfg cl (row_id r) u (s', w')) =
      (if g = None then Inl (ServiceException ''Failed to read document from storage'') else Inr (d, bytes))"
    unfolding rd using g by (cases g) (auto simp: read_document_def read_object_def in_store_def bnd_def ret_def)
  with p ren ins frame doc same pid g show ?thesis
    by (intro exI [of _ p] exI [of _ q] exI [of _ t] exI [of _ html] exI [of _ b] exI [of _ m] exI [of _ d] exI [of _ bytes]) simp
qed

text \<open>An engine standing for two libraries that render every template.\<close>

definition plain_engine :: pdf_engine where "plain_engine html c = Inr ''%PDF-1.4''"

lemma plain_rendering:
  assumes "pay_amount p < 100000000000000" "\<not> late_fee_applied r"
  shows "render_receipt_pdf plain_engine html n p q t (Some r) m = Inr ''%PDF-1.4''"
proof -
  have "nat (pay_amount p) div 100 < 1000000000000" using assms(1) by linarith
  from integer_words_read [OF this] obtain x where "integer_to_words (nat (pay_amount p) div 100) = Inr x" by blast
  then show ?thesis using assms(2)
    by (simp add: render_receipt_pdf_def build_context_def payment_info_of_def late_fee_lines_def amount_to_words_def
        plain_engine_def Let_def)
qed

definition with_payment :: tables where
  "with_payment = sample_tables\<lparr>payments := [sample_payment 60 30 (Some 50) 100000 PAID]\<rparr>"

definition sample_source :: "payment \<times> property \<times> tenant" where
  "sample_source = (sample_payment 60 30 (Some 50) 100000 PAID, sample_property 10 ''Villa'' (Some 2) Occupied,
     sample_tenant 20 ''tom'')"

definition pdf_sample :: "tables \<Rightarrow> document result \<times> session \<times> objects" where
  "pdf_sample t = create_document BaseConfig (Some (mem_store, bytes_io ''%PDF-1.4''))
     (receipt_document 1 (fst sample_source) (fst (snd sample_source))) mgr (session_of t\<lparr>receipt_seq := 1\<rparr>, \<lambda>_. None)"

fun finish_sample :: "document result \<times> session \<times> objects \<Rightarrow> svc_error + receipt" where
  "finish_sample (Inl e, s, w) = Inl e"
| "finish_sample (Inr d, s, w) = fst (insert_receipt mgr 1 60 (row_id d) s)"

definition numbered :: "tables \<Rightarrow> session" where "numbered t = session_of t\<lparr>receipt_seq := 1\<rparr>"

lemma store_run:
  assumes "receipt_record p s = (Inr b, s)" "receipt_manager q s = (Inr m, s)"
    and "resolve_template (Some (row_id q)) s = (Inr None, s)"
    and "render_receipt_pdf engine dflt n p q t b (map_option user_email m) = Inr bytes"
  shows "store_receipt_pdf cfg cl engine dflt u n (p, q, t) (s, w) =
    create_document cfg (Some (cl, bytes_io bytes)) (receipt_document n p q) u (s, w)"
  using assms by (simp add: store_receipt_pdf_def resolve_active_template_html_def bnd_def in_db_def ret_def)

lemma store_sample:
  assumes "fst (receipt_record (fst sample_source) (numbered t)) = Inr (Some (sample_billing_record 50 40 Pending))"
    and "fst (receipt_manager (fst (snd sample_source)) (numbered t)) = Inr m"
    and "fst (resolve_template (Some 10) (numbered t)) = Inr None"
  shows "store_receipt_pdf BaseConfig mem_store plain_engine dflt mgr 1 sample_source (numbered t, \<lambda>_. None) = pdf_sample t"
proof -
  let ?p = "sample_payment 60 30 (Some 50) 100000 PAID" and ?q = "sample_property 10 ''Villa'' (Some 2) Occupied"
  have "receipt_record ?p (numbered t) = (Inr (Some (sample_billing_record 50 40 Pending)), numbered t)"
    by (rule pure_run [OF pure_read_receipts(2)]) (use assms(1) in \<open>simp add: sample_source_def\<close>)
  moreover have "receipt_manager ?q (numbered t) = (Inr m, numbered t)"
    by (rule pure_run [OF pure_read_receipts(3)]) (use assms(2) in \<open>simp add: sample_source_def\<close>)
  moreover have "resolve_template (Some (row_id ?q)) (numbered t) = (Inr None, numbered t)"
    by (rule pure_run [OF pure_read_templates(4)]) (use assms(3) in \<open>simp add: sample_property_def\<close>)
  moreover have "render_receipt_pdf plain_engine dflt 1 ?p ?q tn (Some (sample_billing_record 50 40 Pending)) e = Inr ''%PDF-1.4''" for tn e
    by (rule plain_rendering) (simp_all add: sample_payment_def sample_billing_record_def)
  ultimately show ?thesis
    unfolding sample_source_def pdf_sample_def fst_conv snd_conv numbered_def [symmetric] by (rule store_run)
qed

lemma sample_source_with_payment:
  "receipt_sources 60 mgr (session_of with_payment) = (Inr sample_source, session_of with_payment)"
  by (rule pure_run [OF pure_read_receipts(1)]) code_simp

lemma store_with_payment:
  "store_receipt_pdf BaseConfig mem_store plain_engine dflt mgr 1 sample_source (numbered with_payment, \<lambda>_. None) =
     pdf_sample with_payment"
  by (rule store_sample [of _ "Some mgr"]) code_simp+

definition issued_sample :: "receipt result \<times> session \<times> objects" where
  "issued_sample = issue_receipt BaseConfig mem_store plain_engine ''<p></p>'' 60 mgr (session_of with_payment, \<lambda>_. None)"

lemma issued_sample_ok: "\<not> isl (fst issued_sample)"
proof -
  have "\<not> isl (finish_sample (pdf_sample with_payment))" by code_simp
  then obtain r where "finish_sample (pdf_sample with_payment) = Inr r" by (metis isl_def sum.exhaust)
  moreover obtain x s w where x: "pdf_sample with_payment = (x, s, w)" by (metis prod_cases3)
  ultimately obtain d where d: "x = Inr d" and "fst (insert_receipt mgr 1 60 (row_id d) s) = Inr r"
    by (cases x) auto
  then obtain s' where i: "insert_receipt mgr 1 60 (row_id d) s = (Inr r, s')" by (metis prod.collapse)
  have q: "Suc (receipt_seq (session_of with_payment)) = 1" and f: "row_id (fst sample_source) = 60"
    by (simp_all add: session_of_def sample_source_def sample_payment_def)
  have "issued_sample = (Inr r, s', w)"
    unfolding issued_sample_def issue_receipt_def
    using sample_source_with_payment store_with_payment [of "''<p></p>''", unfolded numbered_def] i
    by (simp add: bnd_def in_db_def nextval_receipt_def try_except_def q f x d del: One_nat_def)
  from arg_cong [OF this, of "\<lambda>y. isl (fst y)"] show ?thesis by simp
qed

theorem issued_receipt_is_downloaded_witness:
  "\<exists>r s w d. issued_sample = (Inr r, s, w) \<and> receipts (committed s) = [r] \<and> documents (committed s) = [d] \<and>
     rcpt_document_id r = row_id d"
proof -
  obtain x s w where r: "issued_sample = (x, s, w)" by (metis prod_cases3)
  from issued_sample_ok [unfolded r] obtain y where "x = Inr y" by (cases x) simp_all
  with r have i: "issued_sample = (Inr y, s, w)" by simp
  have e: "receipts (working (session_of with_payment)) = []" "documents (working (session_of with_payment)) = []"
    by (simp_all add: with_payment_def sample_tables_def empty_tables_def)
  from issued_receipt_is_downloaded [OF mem_store_spec i [unfolded issued_sample_def]] i e show ?thesis by auto
qed

text \<open>
  Issuing is not atomic: the document is committed before the receipt. When the receipt cannot
  be stored, the caller gets a creation error and there is no receipt, but the document row and
  its object stay behind, and the drawn number is lost.
\<close>

theorem failed_receipt_leaves_document:
  assumes "storage_spec cl view" "receipt_sources i u s = (Inr src, s)"
    and "store_receipt_pdf cfg cl engine dflt u (Suc (receipt_seq s)) src (s\<lparr>receipt_seq := Suc (receipt_seq s)\<rparr>, w) =
      (Inr d, s1, w1)"
    and "isl (fst (insert_receipt u (Suc (receipt_seq s)) (row_id (fst src)) (row_id d) s1))"
  shows "\<exists>s'. issue_receipt cfg cl engine dflt i u (s, w) = (Inl ReceiptCreationError, s', w1) \<and>
    receipts (committed s') = receipts (working s) \<and> documents (committed s') = documents (working s) @ [d] \<and>
    view w1 (MINIO_BUCKET_NAME cfg, build_storage_key (row_id d) (file_name d)) \<noteq> None"
proof -
  obtain p q t where src: "src = (p, q, t)" by (metis prod_cases3)
  from assms(3) [unfolded src] obtain bytes w0 where
    cr: "create_document cfg (Some (cl, bytes_io bytes)) (receipt_document (Suc (receipt_seq s)) p q) u
      (s\<lparr>receipt_seq := Suc (receipt_seq s)\<rparr>, w0) = (Inr d, s1, w1)"
    by (rule store_receipt_pdf_Inr)
  note doc = stored_pdf [OF assms(1) cr] and frame = create_document_frame [OF cr]
  from assms(4) obtain e s' where ins: "insert_receipt u (Suc (receipt_seq s)) (row_id p) (row_id d) s1 = (Inl e, s')"
    by (cases "insert_receipt u (Suc (receipt_seq s)) (row_id p) (row_id d) s1") (auto simp: src isl_def)
  have "committed s' = committed s1" using atomic_Inl [OF atomic_insert_receipt ins] .
  moreover have "issue_receipt cfg cl engine dflt i u (s, w) = (Inl ReceiptCreationError, s', w1)"
    using assms(2,3) ins by (simp add: issue_receipt_def src bnd_def in_db_def nextval_receipt_def try_except_def raise_def)
  ultimately show ?thesis using doc(1,5,7) frame by auto
qed

text \<open>The sequence restarted below a number that is in use.\<close>

definition number_in_use :: tables where
  "number_in_use = with_payment\<lparr>documents := [sample_document 70], receipts := [new_receipt 1 60 70 80 0]\<rparr>"

theorem failed_receipt_leaves_document_witness:
  "\<exists>s w d. issue_receipt BaseConfig mem_store plain_engine ''<p></p>'' 60 mgr (session_of number_in_use, \<lambda>_. None) =
      (Inl ReceiptCreationError, s, w) \<and> documents (committed s) = [sample_document 70, d] \<and> length (receipts (committed s)) = 1"
proof -
  have f: "isl (finish_sample (pdf_sample number_in_use)) \<and> \<not> isl (fst (pdf_sample number_in_use))" by code_simp
  obtain x s w where x: "pdf_sample number_in_use = (x, s, w)" by (metis prod_cases3)
  with f obtain d where d: "x = Inr d" by (cases x) simp_all
  have src: "receipt_sources 60 mgr (session_of number_in_use) = (Inr sample_source, session_of number_in_use)"
    by (rule pure_run [OF pure_read_receipts(1)]) code_simp
  have st: "store_receipt_pdf BaseConfig mem_store plain_engine ''<p></p>'' mgr 1 sample_source (numbered number_in_use, \<lambda>_. None) =
      (Inr d, s, w)"
    unfolding x [unfolded d, symmetric] by (rule store_sample [of _ "Some mgr"]) code_simp+
  have q: "Suc (receipt_seq (session_of number_in_use)) = 1" and r: "row_id (fst sample_source) = 60"
    by (simp_all add: session_of_def sample_source_def sample_payment_def)
  have "isl (fst (insert_receipt mgr 1 60 (row_id d) s))"
    using f unfolding x d by simp
  from failed_receipt_leaves_document [OF mem_store_spec src, unfolded q r numbered_def [symmetric], OF st this]
  have "\<exists>s'. issue_receipt BaseConfig mem_store plain_engine ''<p></p>'' 60 mgr (session_of number_in_use, \<lambda>_. None) =
      (Inl ReceiptCreationError, s', w) \<and> receipts (committed s') = receipts (working (session_of number_in_use)) \<and>
      documents (committed s') = documents (working (session_of number_in_use)) @ [d]" by blast
  then show ?thesis by (auto simp: number_in_use_def)
qed

end
