(* ===== verification/Routes.thy ===== *)
theory Routes
  imports AuthService PropertyService TenantService Leasing Billing Payments Dashboard Reporting Receipts
begin

text \<open>
  The HTTP interface: the handler of every route of the files app/*/routes/*.py, with the
  dependency that authenticates and authorises the caller, the validation of the request body
  and the service errors the handler translates itself. The wording of a translated error is
  that of the exception without the identifiers in it. Bodies are already parsed into the
  records of the components; what remains of their validation is checked after the
  dependencies, as the framework does.
\<close>

section \<open>Dependencies and answers\<close>

text \<open>What the application is built on: its settings and the third-party libraries.\<close>

record 'w application =
  conf :: settings
  pwd_lib :: pwd_context
  jwt :: jwt_lib
  storage :: "'w storage_client"
  engine :: pdf_engine
  default_template :: string

definition as_user :: "'w application \<Rightarrow> string \<Rightarrow> (user \<Rightarrow> 'a svc) \<Rightarrow> 'a svc" where
  "as_user app token handler = bnd (get_current_user (conf app) (jwt app) token) handler"

definition as_manager :: "'w application \<Rightarrow> string \<Rightarrow> (user \<Rightarrow> 'a svc) \<Rightarrow> 'a svc" where
  "as_manager app token handler = bnd (require_manager_or_above (conf app) (jwt app) token) handler"

definition as_admin :: "'w application \<Rightarrow> string \<Rightarrow> (user \<Rightarrow> 'a svc) \<Rightarrow> 'a svc" where
  "as_admin app token handler = bnd (require_admin (conf app) (jwt app) token) handler"

definition as_storing_manager :: "'w application \<Rightarrow> string \<Rightarrow> (user \<Rightarrow> ('w, 'a) stored) \<Rightarrow> ('w, 'a) stored" where
  "as_storing_manager app token handler =
     bnd (in_db (require_manager_or_above (conf app) (jwt app) token)) handler"

text \<open>The \<open>except\<close> clauses of a handler; a handler without a reply body; a validated body.\<close>

definition answers :: "(svc_error \<Rightarrow> svc_error) \<Rightarrow> ('s, 'a) prog \<Rightarrow> ('s, 'a) prog" where
  "answers f m = try_except m (\<lambda>e. raise (f e))"

definition no_content :: "('s, 'a) prog \<Rightarrow> ('s, unit) prog" where
  "no_content m = bnd m (\<lambda>_. ret ())"

definition with_body :: "bool \<Rightarrow> 'a svc \<Rightarrow> 'a svc" where
  "with_body ok m = bnd (raise_if (\<not> ok) (ValidationError ''body'')) (\<lambda>_. m)"

definition or_404 :: "string \<Rightarrow> ('s, 'a option) prog \<Rightarrow> ('s, 'a) prog" where
  "or_404 detail m = found_or (HTTPException 404 detail) m"

section \<open>Accounts\<close>

definition route_me :: "'w application \<Rightarrow> string \<Rightarrow> user svc" where
  "route_me app token = as_user app token ret"

definition route_list_users :: "'w application \<Rightarrow> string \<Rightarrow> int \<Rightarrow> int \<Rightarrow> user list svc" where
  "route_list_users app token skip limit = as_admin app token (\<lambda>u. list_users u skip limit)"

definition user_not_found :: "svc_error \<Rightarrow> svc_error" where
  "user_not_found e = (case e of UserNotFoundError \<Rightarrow> HTTPException 404 ''User not found'' | other \<Rightarrow> other)"

definition user_conflict :: "svc_error \<Rightarrow> svc_error" where
  "user_conflict e =
     (case e of
        EmailAlreadyExistsError \<Rightarrow> HTTPException 409 ''A user with this email already exists''
      | UsernameAlreadyExistsError \<Rightarrow> HTTPException 409 ''A user with this username already exists''
      | other \<Rightarrow> other)"

definition route_get_user :: "'w application \<Rightarrow> string \<Rightarrow> uuid \<Rightarrow> user svc" where
  "route_get_user app token i = as_user app token (\<lambda>u. answers user_not_found (get_user i u))"

definition route_create_user :: "'w application \<Rightarrow> string \<Rightarrow> user_create \<Rightarrow> user svc" where
  "route_create_user app token payload =
     as_admin app token (\<lambda>u. answers user_conflict (create_user (pwd_lib app) payload u))"

definition update_user_error :: "svc_error \<Rightarrow> svc_error" where
  "update_user_error e =
     (case e of
        CurrentPasswordRequiredError \<Rightarrow> HTTPException 400 ''current_password is required to change your own password.''
      | InvalidCredentialsError \<Rightarrow> HTTPException 401 ''The current password you entered is incorrect.''
      | other \<Rightarrow> user_not_found (user_conflict other))"

definition route_update_user :: "'w application \<Rightarrow> string \<Rightarrow> uuid \<Rightarrow> user_update \<Rightarrow> user svc" where
  "route_update_user app token i payload =
     as_user app token (\<lambda>u. answers update_user_error (update_user (pwd_lib app) [logging_channel] i payload u))"

definition delete_user_error :: "svc_error \<Rightarrow> svc_error" where
  "delete_user_error e =
     (case e of
        ManagerAssignedToPropertyError \<Rightarrow>
          HTTPException 409 ''User cannot be deleted because they are still assigned as manager on one or more properties.''
      | other \<Rightarrow> user_not_found other)"

definition route_delete_user :: "'w application \<Rightarrow> string \<Rightarrow> uuid \<Rightarrow> unit svc" where
  "route_delete_user app token i =
     as_admin app token (\<lambda>u. no_content (answers delete_user_error (delete_user i u)))"

section \<open>Properties\<close>

definition route_list_properties :: "'w application \<Rightarrow> string \<Rightarrow> int \<Rightarrow> int \<Rightarrow> property paginated svc" where
  "route_list_properties app token skip limit = as_manager app token (\<lambda>u. list_properties u skip limit)"

definition route_get_property :: "'w application \<Rightarrow> string \<Rightarrow> uuid \<Rightarrow> property svc" where
  "route_get_property app token i = as_manager app token (get_property i)"

definition property_exists_error :: "svc_error \<Rightarrow> svc_error" where
  "property_exists_error e =
     (case e of PropertyAlreadyExistsError \<Rightarrow> HTTPException 409 ''already exists.'' | other \<Rightarrow> other)"

definition route_create_property :: "'w application \<Rightarrow> string \<Rightarrow> property_create \<Rightarrow> property svc" where
  "route_create_property app token payload =
     as_admin app token (\<lambda>u. answers property_exists_error (create_property payload u))"

definition route_update_property :: "'w application \<Rightarrow> string \<Rightarrow> uuid \<Rightarrow> property_update \<Rightarrow> property option svc" where
  "route_update_property app token i payload =
     as_admin app token (\<lambda>u. answers property_exists_error (update_property i payload u))"

definition property_in_use_error :: "svc_error \<Rightarrow> svc_error" where
  "property_in_use_error e =
     (case e of
        PropertyInUseError \<Rightarrow> HTTPException 409 ''Property cannot be deleted because it is still referenced by an existing contract, document or collection.''
      | other \<Rightarrow> other)"

definition route_delete_property :: "'w application \<Rightarrow> string \<Rightarrow> uuid \<Rightarrow> unit svc" where
  "route_delete_property app token i =
     as_admin app token (\<lambda>u. no_content (answers property_in_use_error (delete_property i u)))"

definition assign_manager_error :: "svc_error \<Rightarrow> svc_error" where
  "assign_manager_error e =
     (case e of
        UserNotFoundError \<Rightarrow> HTTPException 404 ''User not found.''
      | PropertyManagerAssignmentError \<Rightarrow> HTTPException 400 ''User does not have the manager role.''
      | other \<Rightarrow> other)"

definition route_assign_manager :: "'w application \<Rightarrow> string \<Rightarrow> uuid \<Rightarrow> uuid \<Rightarrow> property option svc" where
  "route_assign_manager app token i m =
     as_admin app token (\<lambda>u. answers assign_manager_error (assign_manager i m u))"

section \<open>Tenants\<close>

definition route_list_tenants :: "'w application \<Rightarrow> string \<Rightarrow> int \<Rightarrow> int \<Rightarrow> tenant paginated svc" where
  "route_list_tenants app token skip limit = as_manager app token (\<lambda>u. list_tenants u skip limit)"

definition route_get_tenant :: "'w application \<Rightarrow> string \<Rightarrow> uuid \<Rightarrow> tenant svc" where
  "route_get_tenant app token i = as_manager app token (get_tenant i)"

definition tenant_exists_error :: "svc_error \<Rightarrow> svc_error" where
  "tenant_exists_error e =
     (case e of TenantAlreadyExistsError \<Rightarrow> HTTPException 409 ''A tenant with this email already exists.'' | other \<Rightarrow> other)"

definition route_create_tenant :: "'w application \<Rightarrow> string \<Rightarrow> tenant_create \<Rightarrow> tenant svc" where
  "route_create_tenant app token payload =
     as_manager app token (\<lambda>u. answers tenant_exists_error (create_tenant payload u))"

definition route_update_tenant :: "'w application \<Rightarrow> string \<Rightarrow> uuid \<Rightarrow> tenant_update \<Rightarrow> tenant option svc" where
  "route_update_tenant app token i payload =
     as_manager app token (\<lambda>u. answers tenant_exists_error (update_tenant i payload u))"

definition tenant_in_use_error :: "svc_error \<Rightarrow> svc_error" where
  "tenant_in_use_error e =
     (case e of
        TenantInUseError \<Rightarrow> HTTPException 409 ''Tenant cannot be deleted because it is still referenced by an existing contract or document.''
      | other \<Rightarrow> other)"

definition route_delete_tenant :: "'w application \<Rightarrow> string \<Rightarrow> uuid \<Rightarrow> unit svc" where
  "route_delete_tenant app token i =
     as_manager app token (\<lambda>u. no_content (answers tenant_in_use_error (delete_tenant i u)))"

definition link_user_error :: "svc_error \<Rightarrow> svc_error" where
  "link_user_error e =
     (case e of
        UserNotFoundError \<Rightarrow> HTTPException 404 ''User not found.''
      | TenantAlreadyLinkedError m \<Rightarrow> HTTPException 409 m
      | other \<Rightarrow> other)"

definition route_link_tenant_user :: "'w application \<Rightarrow> string \<Rightarrow> uuid \<Rightarrow> uuid \<Rightarrow> tenant option svc" where
  "route_link_tenant_user app token i user_id =
     as_manager app token (\<lambda>u. answers link_user_error (link_user i user_id u))"

definition route_unlink_tenant_user :: "'w application \<Rightarrow> string \<Rightarrow> uuid \<Rightarrow> tenant option svc" where
  "route_unlink_tenant_user app token i = as_manager app token (unlink_user i)"

section \<open>Contracts and leases\<close>

definition route_list_contracts :: "'w application \<Rightarrow> string \<Rightarrow> int \<Rightarrow> int \<Rightarrow> contract paginated svc" where
  "route_list_contracts app token skip limit = as_manager app token (\<lambda>u. list_contracts u skip limit)"

definition route_get_contract :: "'w application \<Rightarrow> string \<Rightarrow> uuid \<Rightarrow> contract svc" where
  "route_get_contract app token i = as_manager app token (get_contract i)"

definition contract_active_error :: "svc_error \<Rightarrow> svc_error" where
  "contract_active_error e =
     (case e of ContractActiveError \<Rightarrow> HTTPException 409 ''Property already has an active contract'' | other \<Rightarrow> other)"

definition route_create_contract :: "'w application \<Rightarrow> string \<Rightarrow> contract_create \<Rightarrow> contract svc" where
  "route_create_contract app token payload =
     as_manager app token (\<lambda>u. with_body (valid_contract_create payload)
       (answers contract_active_error (create_contract payload u)))"

definition route_update_contract :: "'w application \<Rightarrow> string \<Rightarrow> uuid \<Rightarrow> contract_update \<Rightarrow> contract option svc" where
  "route_update_contract app token i payload =
     as_manager app token (\<lambda>u. with_body (valid_contract_update payload)
       (answers contract_active_error (update_contract i payload u)))"

definition contract_in_use_error :: "svc_error \<Rightarrow> svc_error" where
  "contract_in_use_error e =
     (case e of
        ContractInUseError \<Rightarrow> HTTPException 409 ''Contract cannot be deleted because it is still referenced by an existing payment or document.''
      | other \<Rightarrow> other)"

definition route_delete_contract :: "'w application \<Rightarrow> string \<Rightarrow> uuid \<Rightarrow> unit svc" where
  "route_delete_contract app token i =
     as_manager app token (\<lambda>u. no_content (answers contract_in_use_error (delete_contract i u)))"

definition route_list_leases :: "'w application \<Rightarrow> string \<Rightarrow> int \<Rightarrow> int \<Rightarrow> lease paginated svc" where
  "route_list_leases app token skip limit = as_manager app token (\<lambda>u. list_leases u skip limit)"

definition route_get_lease :: "'w application \<Rightarrow> string \<Rightarrow> uuid \<Rightarrow> lease svc" where
  "route_get_lease app token i = as_manager app token (get_lease i)"

definition create_lease_error :: "svc_error \<Rightarrow> svc_error" where
  "create_lease_error e =
     (case e of
        LeaseRentalTypeError \<Rightarrow> HTTPException 400 ''a Lease can only be created for a long-term contract.''
      | LeaseAlreadyExistsError \<Rightarrow> HTTPException 409 ''A lease already exists for this contract.''
      | other \<Rightarrow> other)"

definition route_create_lease :: "'w application \<Rightarrow> string \<Rightarrow> lease_create \<Rightarrow> lease svc" where
  "route_create_lease app token payload =
     as_manager app token (\<lambda>u. with_body (valid_lease_create payload)
       (answers create_lease_error (create_lease payload u)))"

definition route_update_lease :: "'w application \<Rightarrow> string \<Rightarrow> uuid \<Rightarrow> lease_update \<Rightarrow> lease option svc" where
  "route_update_lease app token i payload =
     as_manager app token (\<lambda>u. with_body (valid_lease_update payload) (update_lease i payload u))"

definition route_delete_lease :: "'w application \<Rightarrow> string \<Rightarrow> uuid \<Rightarrow> unit svc" where
  "route_delete_lease app token i = as_manager app token (\<lambda>u. no_content (delete_lease i u))"

section \<open>Billing records\<close>

definition route_list_billing_records :: "'w application \<Rightarrow> string \<Rightarrow> uuid \<Rightarrow> int \<Rightarrow> int \<Rightarrow> billed paginated svc" where
  "route_list_billing_records app token lease_id skip limit =
     as_manager app token (\<lambda>u. list_for_lease lease_id u skip limit)"

definition route_get_billing_record :: "'w application \<Rightarrow> string \<Rightarrow> uuid \<Rightarrow> billed svc" where
  "route_get_billing_record app token i = as_manager app token (get_billing_record i)"

definition already_generated_error :: "svc_error \<Rightarrow> svc_error" where
  "already_generated_error e =
     (case e of
        BillingRecordAlreadyGeneratedError \<Rightarrow> HTTPException 409 ''A BillingRecord already exists for this lease and billing period.''
      | other \<Rightarrow> other)"

definition route_generate_billing_record :: "'w application \<Rightarrow> string \<Rightarrow> uuid \<Rightarrow> billed svc" where
  "route_generate_billing_record app token lease_id =
     as_manager app token (\<lambda>u. answers already_generated_error (generate_billing_record lease_id u))"

definition route_evaluate_overdue :: "'w application \<Rightarrow> string \<Rightarrow> uuid \<Rightarrow> date option \<Rightarrow> billed svc" where
  "route_evaluate_overdue app token i as_of = as_manager app token (\<lambda>u. evaluate_overdue i u as_of)"

definition transition_error :: "svc_error \<Rightarrow> svc_error" where
  "transition_error e =
     (case e of
        InvalidBillingRecordTransitionError \<Rightarrow> HTTPException 409 ''Cannot transition BillingRecord.''
      | other \<Rightarrow> other)"

definition route_write_off_billing_record :: "'w application \<Rightarrow> string \<Rightarrow> uuid \<Rightarrow> billed svc" where
  "route_write_off_billing_record app token i =
     as_manager app token (\<lambda>u. answers transition_error (write_off_billing_record i u))"

definition correction_error :: "svc_error \<Rightarrow> svc_error" where
  "correction_error e =
     (case e of
        BillingRecordCorrectionNotAllowedError \<Rightarrow> HTTPException 409 ''Cannot correct late fee on BillingRecord in terminal status.''
      | other \<Rightarrow> other)"

definition route_correct_late_fee :: "'w application \<Rightarrow> string \<Rightarrow> uuid \<Rightarrow> late_fee_correction \<Rightarrow> billed svc" where
  "route_correct_late_fee app token i payload =
     as_manager app token (\<lambda>u. with_body (valid_late_fee_correction payload)
       (answers correction_error (correct_late_fee i payload u)))"

section \<open>Payments and receipts\<close>

definition route_list_payments :: "'w application \<Rightarrow> string \<Rightarrow> int \<Rightarrow> int \<Rightarrow> payment paginated svc" where
  "route_list_payments app token skip limit = as_manager app token (\<lambda>u. list_payments u skip limit)"

definition route_get_payment :: "'w application \<Rightarrow> string \<Rightarrow> uuid \<Rightarrow> payment svc" where
  "route_get_payment app token i = as_manager app token (get_payment i)"

text \<open>The automatic receipt: its failure is only logged.\<close>

definition issue_automatically :: "'w application \<Rightarrow> payment \<Rightarrow> user \<Rightarrow> ('w, unit) stored" where
  "issue_automatically app p u =
     try_except (no_content (issue_receipt (conf app) (storage app) (engine app) (default_template app) (row_id p) u))
       (\<lambda>_. ret ())"

definition route_create_payment :: "'w application \<Rightarrow> string \<Rightarrow> payment_create \<Rightarrow> ('w, payment) stored" where
  "route_create_payment app token payload =
     as_storing_manager app token (\<lambda>u.
     bnd (in_db (of_result (validate_payment_create payload))) (\<lambda>valid.
     bnd (in_db (create_payment valid u)) (\<lambda>p.
     bnd (issue_automatically app p u) (\<lambda>_.
     ret p))))"

definition voided_error :: "svc_error \<Rightarrow> svc_error" where
  "voided_error e =
     (case e of PaymentAlreadyVoidedError _ \<Rightarrow> HTTPException 409 ''Payment is already voided.'' | other \<Rightarrow> other)"

definition route_update_payment :: "'w application \<Rightarrow> string \<Rightarrow> uuid \<Rightarrow> payment_update \<Rightarrow> payment svc" where
  "route_update_payment app token i payload =
     as_manager app token (\<lambda>u.
     bnd (of_result (validate_payment_update payload)) (\<lambda>valid.
     or_404 ''Payment not found'' (answers voided_error (update_payment i valid u))))"

definition route_correct_payment :: "'w application \<Rightarrow> string \<Rightarrow> uuid \<Rightarrow> payment_correction \<Rightarrow> payment svc" where
  "route_correct_payment app token i payload =
     as_manager app token (\<lambda>u.
     bnd (of_result (validate_payment_correction payload)) (\<lambda>valid.
     answers voided_error (void_and_correct_payment i valid u)))"

definition route_delete_payment :: "'w application \<Rightarrow> string \<Rightarrow> uuid \<Rightarrow> unit svc" where
  "route_delete_payment app token i = as_manager app token (\<lambda>u. no_content (delete_payment i u))"

definition route_issue_receipt :: "'w application \<Rightarrow> string \<Rightarrow> uuid \<Rightarrow> ('w, receipt) stored" where
  "route_issue_receipt app token payment_id =
     as_storing_manager app token (\<lambda>u. answers receipt_route_error
       (issue_receipt (conf app) (storage app) (engine app) (default_template app) payment_id u))"

definition route_list_receipts :: "'w application \<Rightarrow> string \<Rightarrow> uuid \<Rightarrow> receipt list svc" where
  "route_list_receipts app token payment_id = as_manager app token (list_receipts_for_payment payment_id)"

definition route_get_receipt :: "'w application \<Rightarrow> string \<Rightarrow> uuid \<Rightarrow> receipt svc" where
  "route_get_receipt app token i = as_manager app token (get_receipt i)"

text \<open>A download: the bytes, the media type and the file name of the attachment.\<close>

definition attachment :: "document \<times> string \<Rightarrow> string \<times> string \<times> string" where
  "attachment = (\<lambda>(d, data). (data, file_type d, ''attachment; filename='' @ [CHR 0x22] @ file_name d @ [CHR 0x22]))"

definition route_download_receipt :: "'w application \<Rightarrow> string \<Rightarrow> uuid \<Rightarrow> ('w, string \<times> string \<times> string) stored" where
  "route_download_receipt app token i =
     as_storing_manager app token (\<lambda>u.
     bnd (get_receipt_document (conf app) (storage app) i u) (\<lambda>r. ret (attachment r)))"

section \<open>Receipt templates\<close>

definition route_upload_template ::
  "'w application \<Rightarrow> string \<Rightarrow> string \<Rightarrow> uuid option \<Rightarrow> 'f upload \<Rightarrow> ('w, receipt_template) stored" where
  "route_upload_template app token name property_id file_obj =
     as_storing_manager app token (\<lambda>u. answers template_route_error
       (upload_template (conf app) (storage app) name property_id u file_obj))"

definition route_activate_template :: "'w application \<Rightarrow> string \<Rightarrow> uuid \<Rightarrow> receipt_template option svc" where
  "route_activate_template app token i = as_manager app token (activate_template i)"

definition route_list_templates :: "'w application \<Rightarrow> string \<Rightarrow> uuid option \<Rightarrow> receipt_template list svc" where
  "route_list_templates app token property_id = as_manager app token (\<lambda>u. list_templates u property_id)"

definition route_get_template :: "'w application \<Rightarrow> string \<Rightarrow> uuid \<Rightarrow> receipt_template svc" where
  "route_get_template app token i = as_manager app token (get_template i)"

section \<open>Collections\<close>

definition route_list_collections :: "'w application \<Rightarrow> string \<Rightarrow> int \<Rightarrow> int \<Rightarrow> collection paginated svc" where
  "route_list_collections app token skip limit = as_manager app token (\<lambda>u. list_collections u skip limit)"

definition route_get_collection :: "'w application \<Rightarrow> string \<Rightarrow> uuid \<Rightarrow> collection svc" where
  "route_get_collection app token i = as_manager app token (get_collection i)"

definition collection_error :: "svc_error \<Rightarrow> svc_error" where
  "collection_error e =
     (case e of CollectionValidationError \<Rightarrow> HTTPException 400 ''Contract does not belong to property.'' | other \<Rightarrow> other)"

definition route_create_collection :: "'w application \<Rightarrow> string \<Rightarrow> collection_create \<Rightarrow> collection svc" where
  "route_create_collection app token payload =
     as_manager app token (\<lambda>u. answers collection_error (create_collection payload u))"

definition route_update_collection :: "'w application \<Rightarrow> string \<Rightarrow> uuid \<Rightarrow> collection_update \<Rightarrow> collection option svc" where
  "route_update_collection app token i payload =
     as_manager app token (\<lambda>u. answers collection_error (update_collection i payload u))"

definition route_delete_collection :: "'w application \<Rightarrow> string \<Rightarrow> uuid \<Rightarrow> unit svc" where
  "route_delete_collection app token i = as_manager app token (\<lambda>u. no_content (delete_collection i u))"

section \<open>Documents\<close>

definition route_list_documents :: "'w application \<Rightarrow> string \<Rightarrow> int \<Rightarrow> int \<Rightarrow> document paginated svc" where
  "route_list_documents app token skip limit = as_manager app token (\<lambda>u. list_documents u skip limit)"

definition route_get_document :: "'w application \<Rightarrow> string \<Rightarrow> uuid \<Rightarrow> document svc" where
  "route_get_document app token i = as_manager app token (get_document i)"

definition route_download_document :: "'w application \<Rightarrow> string \<Rightarrow> uuid \<Rightarrow> ('w, string \<times> string \<times> string) stored" where
  "route_download_document app token i =
     as_storing_manager app token (\<lambda>u.
     bnd (get_document_content (conf app) (storage app) i u) (\<lambda>r. ret (attachment r)))"

definition route_create_document :: "'w application \<Rightarrow> string \<Rightarrow> document_create \<Rightarrow> ('w, document) stored" where
  "route_create_document app token payload =
     as_storing_manager app token (\<lambda>u. answers document_route_error
       (create_document (conf app) (None :: ('w, string) file_arg) payload u))"

definition form_payload :: "string \<Rightarrow> string \<Rightarrow> uuid option \<Rightarrow> uuid option \<Rightarrow> uuid option \<Rightarrow> document_create" where
  "form_payload filename ftype contract_id property_id tenant_id =
     \<lparr>dc_file_name = filename, dc_file_type = ftype, dc_contract_id = contract_id,
      dc_property_id = property_id, dc_tenant_id = tenant_id, dc_collection_id = None\<rparr>"

definition route_upload_document ::
  "'w application \<Rightarrow> string \<Rightarrow> string \<Rightarrow> string \<Rightarrow> uuid option \<Rightarrow> uuid option \<Rightarrow> uuid option \<Rightarrow> 'f upload
     \<Rightarrow> ('w, document) stored" where
  "route_upload_document app token filename ftype contract_id property_id tenant_id file_obj =
     as_storing_manager app token (\<lambda>u. answers document_route_error
       (create_document (conf app) (Some (storage app, file_obj))
          (form_payload filename ftype contract_id property_id tenant_id) u))"

definition route_replace_document_file ::
  "'w application \<Rightarrow> string \<Rightarrow> uuid \<Rightarrow> string \<Rightarrow> string \<Rightarrow> uuid option \<Rightarrow> uuid option \<Rightarrow> uuid option \<Rightarrow> 'f upload
     \<Rightarrow> ('w, document) stored" where
  "route_replace_document_file app token i filename ftype contract_id property_id tenant_id file_obj =
     as_storing_manager app token (\<lambda>u. or_404 ''Document not found'' (answers document_route_error
       (replace_document_file (conf app) (storage app) i
          (form_payload filename ftype contract_id property_id tenant_id) file_obj u)))"

definition route_update_document :: "'w application \<Rightarrow> string \<Rightarrow> uuid \<Rightarrow> document_relink \<Rightarrow> document option svc" where
  "route_update_document app token i payload =
     as_manager app token (\<lambda>u. answers document_route_error (update_document i payload u))"

definition route_delete_document :: "'w application \<Rightarrow> string \<Rightarrow> uuid \<Rightarrow> ('w, unit) stored" where
  "route_delete_document app token i =
     as_storing_manager app token (\<lambda>u. no_content (delete_document (conf app) (Some (storage app)) i u))"

section \<open>Dashboard and audit trail\<close>

definition route_dashboard :: "'w application \<Rightarrow> string \<Rightarrow> int \<Rightarrow> int \<Rightarrow> dashboard_summary svc" where
  "route_dashboard app token lookahead limit = as_manager app token (\<lambda>u. get_dashboard_summary u lookahead limit)"

definition route_list_audit_logs ::
  "'w application \<Rightarrow> string \<Rightarrow> string option \<Rightarrow> uuid option \<Rightarrow> int \<Rightarrow> int \<Rightarrow> audit_log paginated svc" where
  "route_list_audit_logs app token kind i skip limit = as_admin app token (\<lambda>u. list_audit_logs kind i skip limit)"

definition route_property_activity ::
  "'w application \<Rightarrow> string \<Rightarrow> uuid \<Rightarrow> int \<Rightarrow> int \<Rightarrow> audit_log paginated svc" where
  "route_property_activity app token i skip limit =
     as_manager app token (\<lambda>u. get_property_activity i u skip limit)"

section \<open>Reading requests\<close>

lemma pure_read_listing:
  assumes "\<And>sk li. pure_read (get_all R sk li)" "pure_read (count_all R)"
    and "\<And>m sk li. pure_read (get_all_for_manager R m sk li)" "\<And>m. pure_read (count_all_for_manager R m)"
  shows "pure_read (list_scoped_by_manager f u R skip limit)"
  unfolding list_scoped_by_manager_def by (intro atomic_intros assms)

lemma pure_read_lists [atomic_intros]:
  "pure_read (list_properties u skip limit)" "pure_read (list_tenants u skip limit)"
  "pure_read (list_contracts u skip limit)" "pure_read (list_leases u skip limit)"
  "pure_read (list_payments u skip limit)" "pure_read (list_collections u skip limit)"
  "pure_read (list_documents u skip limit)"
  unfolding list_properties_def list_tenants_def list_contracts_def list_leases_def list_payments_def
    list_collections_def list_documents_def
  by (intro pure_read_listing;
      simp add: property_repo_def tenant_repo_def contract_repo_def lease_repo_def payment_repo_def collection_repo_def
        document_repo_def property_count_all_def property_get_all_for_manager_def property_count_all_for_manager_def
        tenant_count_all_def tenant_get_all_for_manager_def tenant_count_all_for_manager_def
        contract_get_all_for_manager_def contract_count_all_for_manager_def lease_get_all_for_manager_def
        lease_count_all_for_manager_def payment_get_all_for_manager_def payment_count_all_for_manager_def
        collection_get_all_for_manager_def collection_count_all_for_manager_def document_count_all_def
        document_get_all_for_manager_def document_count_all_for_manager_def;
      intro atomic_intros)+

lemma pure_read_billing_lists [atomic_intros]:
  "pure_read (list_for_lease l u skip limit)" "pure_read (get_billing_record i u)"
  unfolding list_for_lease_def get_billing_record_def get_all_for_lease_def count_for_lease_def
  by (intro atomic_intros)+

lemma pure_read_dashboard [atomic_intros]: "pure_read (get_dashboard_summary u lookahead limit)"
  unfolding get_dashboard_summary_def collected_this_month_def outstanding_def total_credits_def late_payments_def
    vacant_units_def expiring_leases_def recent_payments_def figure_def require_manager_or_admin_def
    sum_collected_def sum_collected_for_manager_def sum_outstanding_def sum_outstanding_for_manager_def
    sum_credits_def sum_credits_for_manager_def get_unpaid_with_grace_def get_unpaid_with_grace_for_manager_def
    get_recent_def get_recent_for_manager_def count_vacant_def count_vacant_for_manager_def
    get_expiring_def get_expiring_for_manager_def
  by (intro atomic_intros)

lemma pure_read_template_list [atomic_intros]: "pure_read (list_templates u p)"
  unfolding list_templates_def template_get_by_property_def by (intro atomic_intros)

lemma pure_read_current_user [atomic_intros]:
  "pure_read (get_current_user cfg lib token)" "pure_read (require_admin cfg lib token)"
  "pure_read (require_manager_or_above cfg lib token)"
proof -
  show "pure_read (get_current_user cfg lib token)" for cfg lib token
    unfolding get_current_user_def
    by (intro atomic_intros) (auto intro!: atomic_intros split: option.split claim.split)
  then show "pure_read (require_admin cfg lib token)" "pure_read (require_manager_or_above cfg lib token)"
    unfolding require_admin_def require_manager_or_above_def by (intro atomic_intros; simp)+
qed

end
