(* ===== verification/Jobs.thy ===== *)
theory Jobs
  imports UserService Dashboard Startup
begin

text \<open>
  The scheduled billing jobs (app/jobs/billing_jobs.py): the worker's start-up, the run that
  generates the next billing record of every active lease, the run that evaluates every
  unpaid record, and the times at which the worker starts them. Each step of a run has its
  own database session.
\<close>

section \<open>The jobs\<close>

text \<open>
  \<open>async with AsyncSessionLocal() as db\<close>: closing the session discards what was not
  committed, as at the end of a request.
\<close>

definition fresh_session :: "'a svc \<Rightarrow> 'a svc" where
  "fresh_session m = get_db m"

definition worker_startup :: "pwd_context \<Rightarrow> uuid \<Rightarrow> string \<Rightarrow> string \<Rightarrow> (uuid \<Rightarrow> string) \<Rightarrow> user svc" where
  "worker_startup pwd system_id name email token =
     bnd (fresh_session (seed_system_user pwd system_id name email token)) (\<lambda>(system_user, _). ret system_user)"

text \<open>One lease: the counters of generated and skipped records.\<close>

definition generate_step :: "user \<Rightarrow> nat \<times> nat \<Rightarrow> lease \<Rightarrow> (nat \<times> nat) svc" where
  "generate_step system_user counts l =
     fresh_session (try_except
       (bnd (generate_billing_record (row_id l) system_user) (\<lambda>_. ret (Suc (fst counts), snd counts)))
       (\<lambda>e. if e = BillingRecordAlreadyGeneratedError then ret (fst counts, Suc (snd counts)) else raise e))"

fun generate_each :: "user \<Rightarrow> nat \<times> nat \<Rightarrow> lease list \<Rightarrow> (nat \<times> nat) svc" where
  "generate_each system_user counts [] = ret counts"
| "generate_each system_user counts (l # ls) =
     bnd (generate_step system_user counts l) (\<lambda>c. generate_each system_user c ls)"

definition generate_due_billing_records :: "user \<Rightarrow> (nat \<times> nat) svc" where
  "generate_due_billing_records system_user =
     bnd (fresh_session get_active_leases) (generate_each system_user (0, 0))"

text \<open>One record; the date is read again for each of them.\<close>

definition evaluate_step :: "user \<Rightarrow> billing_record \<Rightarrow> billed svc" where
  "evaluate_step system_user record =
     fresh_session (bnd date_today (\<lambda>today. evaluate_overdue (row_id record) system_user (Some today)))"

fun evaluate_each :: "user \<Rightarrow> nat \<Rightarrow> billing_record list \<Rightarrow> nat svc" where
  "evaluate_each system_user evaluated [] = ret evaluated"
| "evaluate_each system_user evaluated (r # rs) =
     bnd (evaluate_step system_user r) (\<lambda>_. evaluate_each system_user (Suc evaluated) rs)"

definition evaluate_overdue_billing_records :: "user \<Rightarrow> nat svc" where
  "evaluate_overdue_billing_records system_user =
     bnd (fresh_session get_unpaid_with_grace) (\<lambda>records_with_grace.
     evaluate_each system_user 0 (map fst records_with_grace))"

text \<open>\<open>WorkerSettings.cron_jobs\<close>: the function with its hour and minute.\<close>

definition cron_jobs :: "'a scheduler_settings_scheme \<Rightarrow> (string \<times> int \<times> int) list" where
  "cron_jobs cfg =
     [(''generate_due_billing_records'', BILLING_JOB_CRON_HOUR cfg, BILLING_JOB_CRON_MINUTE cfg),
      (''evaluate_overdue_billing_records'', BILLING_JOB_CRON_HOUR cfg, BILLING_JOB_CRON_MINUTE cfg + 5)]"

lemmas jobs_code [code] = fun_cong [OF fresh_session_def] fun_cong [OF generate_step_def]
  fun_cong [OF generate_due_billing_records_def] fun_cong [OF evaluate_step_def]
  fun_cong [OF evaluate_overdue_billing_records_def] fun_cong [OF worker_startup_def]

text \<open>
  Nothing keeps the minute of the second job within an hour: the settings accept any integer.
\<close>

lemma evaluation_minute_out_of_range:
  "BILLING_JOB_CRON_MINUTE cfg = 55 \<Longrightarrow> (''evaluate_overdue_billing_records'', BILLING_JOB_CRON_HOUR cfg, 60) \<in> set (cron_jobs cfg)"
  by (simp add: cron_jobs_def)

section \<open>Generation runs\<close>

lemma generate_frame:
  assumes "generate_billing_record lid u s = (Inr out, s')"
  shows "leases (working s') = leases (working s) \<and> users (working s') = users (working s) \<and>
    contracts (working s') = contracts (working s) \<and>
    uuid_source s' = uuid_source s \<and> uuid_drawn s' = Suc (Suc (uuid_drawn s)) \<and>
    ids (audit_logs (working s')) = ids (audit_logs (working s)) @ [uuid_source s (Suc (uuid_drawn s))] \<and>
    ids (billing_records (working s')) = ids (billing_records (working s)) @ [uuid_source s (uuid_drawn s)]"
  using assms
  by (auto simp: generate_billing_record_def Let_def find_lease_def svc_iffs repo_iffs new_billing_record_def
      get_latest_for_lease_def write_audit_log_iff dest!: pure_readD [OF pure_read_billing(4)])

text \<open>Identifiers not drawn yet are not in use.\<close>

definition fresh_ids :: "session \<Rightarrow> bool" where
  "fresh_ids s \<longleftrightarrow> inj (uuid_source s) \<and> (\<forall>k\<ge>uuid_drawn s.
     uuid_source s k \<notin> set (ids (billing_records (committed s))) \<union> set (ids (audit_logs (committed s))))"

text \<open>The first day a lease is billed for, and records that follow each other from there on.\<close>

definition billed_from :: "tables \<Rightarrow> lease \<Rightarrow> date" where
  "billed_from t l = (case records_of (row_id l) t of [] \<Rightarrow> lease_start l | r # _ \<Rightarrow> period_start r)"

definition well_billed :: "tables \<Rightarrow> lease \<Rightarrow> bool" where
  "well_billed t l \<longleftrightarrow> contiguous (billed_from t l) (records_of (row_id l) t)"

definition ready :: "user \<Rightarrow> session \<Rightarrow> bool" where
  "ready u s \<longleftrightarrow> schema_ok (committed s) \<and> fresh_ids s \<and> role u = ADMIN \<and>
     row_id u \<in> set (ids (users (committed s))) \<and> list_all (well_billed (committed s)) (leases (committed s))"

lemma contiguous_start: "contiguous a (r # rs) \<Longrightarrow> period_start r = a"
  using contiguous_iff [of a "r # rs"] by force

lemma generate_step_runs:
  assumes "ready u s" "l \<in> set (leases (committed s))"
  shows "\<exists>s' r. generate_step u (g, k) l s = (Inr (Suc g, k), s') \<and> ready u s' \<and>
    leases (committed s') = leases (committed s) \<and>
    billing_records (committed s') = billing_records (committed s) @ [r] \<and> br_lease_id r = row_id l \<and>
    billed_from (committed s') l = billed_from (committed s) l"
proof -
  let ?t = "committed s" and ?s0 = "s\<lparr>working := committed s\<rparr>"
  let ?rs = "records_of (row_id l) ?t"
  from assms(1) have ok: "schema_ok ?t" and adm: "role u = ADMIN" and us: "row_id u \<in> set (ids (users ?t))"
    and wb: "list_all (well_billed ?t) (leases ?t)" and inj: "inj (uuid_source s)"
    and fr: "\<And>k. uuid_drawn s \<le> k \<Longrightarrow> uuid_source s k \<notin> set (ids (billing_records ?t)) \<union> set (ids (audit_logs ?t))"
    by (auto simp: ready_def fresh_ids_def)
  have lg: "get_row leases_tbl (row_id l) (working ?s0) = Some l"
    using assms(2) schema_ok_keys(5) [OF ok] by (simp add: get_row_Some_iff)
  have au: "authorize_billing u l ?s0 = (Inr (), ?s0)"
    using schema_ok_refs(3) [OF ok assms(2)] ok adm by (simp add: authorize_billing_def authorize_contract_iff)
  have cg: "contiguous (billed_from ?t l) (records_of (row_id l) (working ?s0))"
    using wb assms(2) by (simp add: list_all_iff well_billed_def)
  have em: "records_of (row_id l) (working ?s0) = [] \<Longrightarrow> billed_from ?t l = lease_start l"
    by (simp add: billed_from_def)
  have "uuid_source ?s0 (uuid_drawn ?s0) \<notin> set (ids (billing_records (working ?s0)))"
    "uuid_source ?s0 (Suc (uuid_drawn ?s0)) \<notin> set (ids (audit_logs (working ?s0)))"
    "row_id u \<in> set (ids (users (working ?s0)))" "schema_ok (working ?s0)"
    using fr us ok by simp_all
  from generate_succeeds [OF this(4) lg au cg em this(3,1,2)] obtain out s1
    where run: "generate_billing_record (row_id l) u ?s0 = (Inr out, s1)" by blast
  note app = generate_appends [OF run lg cg em]
  note frame = generate_frame [OF run]
  have cw: "committed s1 = working s1" and ok1: "schema_ok (committed s1)"
    using atomic_Inr [OF atomic_billing(1) run] atomic_schema [OF atomic_billing(1) run] .
  let ?s' = "s1\<lparr>working := committed s1\<rparr>"
  have step: "generate_step u (g, k) l s = (Inr (Suc g, k), ?s')"
    using run by (simp add: generate_step_def fresh_session_def get_db_def try_except_def bnd_def ret_def)
  have rec: "billing_records (committed s1) = billing_records ?t @ [fst out]" using app by simp
  have own: "br_lease_id (fst out) = row_id l"
    using generate_Inr [OF run] by (auto simp: new_billing_record_def)
  have keep: "billed_from (committed s1) l' = billed_from ?t l' \<and> well_billed (committed s1) l'"
    if "l' \<in> set (leases ?t)" for l'
  proof (cases "row_id l' = row_id l")
    case True
    then have "l' = l" using distinct_ids_eq [OF schema_ok_keys(5) [OF ok]] assms(2) that by blast
    have c1: "contiguous (billed_from ?t l) (?rs @ [fst out])"
      and r1: "records_of (row_id l) (committed s1) = ?rs @ [fst out]" using app by auto
    then have "billed_from (committed s1) l = billed_from ?t l"
    proof (cases ?rs)
      case Nil
      with c1 r1 contiguous_start [of "billed_from ?t l" "fst out" "[]"] show ?thesis
        by (simp add: billed_from_def [of "committed s1"])
    next
      case (Cons q qs)
      with r1 show ?thesis by (simp add: billed_from_def)
    qed
    with c1 r1 \<open>l' = l\<close> show ?thesis by (simp add: well_billed_def)
  next
    case False
    then have "records_of (row_id l') (committed s1) = records_of (row_id l') ?t"
      by (simp add: records_of_def rec own)
    with wb that show ?thesis by (simp add: well_billed_def billed_from_def list_all_iff)
  qed
  have "fresh_ids ?s'"
    unfolding fresh_ids_def
  proof (intro conjI allI impI)
    show "inj (uuid_source ?s')" using inj frame by simp
    fix j assume "uuid_drawn ?s' \<le> j"
    with frame have j: "uuid_drawn s \<le> j" "j \<noteq> uuid_drawn s" "j \<noteq> Suc (uuid_drawn s)" by simp_all
    with frame cw fr [OF j(1)] inj
    show "uuid_source ?s' j \<notin> set (ids (billing_records (committed ?s'))) \<union> set (ids (audit_logs (committed ?s')))"
      by (simp add: inj_eq)
  qed
  then have "ready u ?s'"
    using ok1 adm us keep frame cw by (simp add: ready_def list_all_iff)
  with step rec own keep [OF assms(2)] frame cw show ?thesis by auto
qed

lemma generate_each_runs:
  assumes "ready u s" "set ls \<subseteq> set (leases (committed s))"
  shows "\<exists>s'. generate_each u (g, k) ls s = (Inr (g + length ls, k), s') \<and> ready u s' \<and>
    leases (committed s') = leases (committed s) \<and>
    (\<forall>l\<in>set (leases (committed s)).
       length (records_of (row_id l) (committed s')) =
         length (records_of (row_id l) (committed s)) + count_list (map row_id ls) (row_id l) \<and>
       billed_from (committed s') l = billed_from (committed s) l)"
  using assms
proof (induction ls arbitrary: g s)
  case Nil
  then show ?case by simp
next
  case (Cons x xs)
  from generate_step_runs [OF Cons.prems(1), of x g k] Cons.prems(2) obtain s1 r where
    st: "generate_step u (g, k) x s = (Inr (Suc g, k), s1)" "ready u s1" "leases (committed s1) = leases (committed s)"
      "billing_records (committed s1) = billing_records (committed s) @ [r]" "br_lease_id r = row_id x"
      "billed_from (committed s1) x = billed_from (committed s) x" by auto
  from Cons.IH [OF st(2)] Cons.prems(2) st(3) obtain s2 where
    ih: "generate_each u (Suc g, k) xs s1 = (Inr (Suc g + length xs, k), s2)" "ready u s2"
      "leases (committed s2) = leases (committed s1)"
      "\<forall>l\<in>set (leases (committed s1)). length (records_of (row_id l) (committed s2)) =
         length (records_of (row_id l) (committed s1)) + count_list (map row_id xs) (row_id l) \<and>
       billed_from (committed s2) l = billed_from (committed s1) l" by fastforce
  have ro: "records_of i (committed s1) = records_of i (committed s) @ (if i = row_id x then [r] else [])" for i
    using st(4,5) by (simp add: records_of_def)
  have bf: "billed_from (committed s1) l = billed_from (committed s) l" if "l \<in> set (leases (committed s))" for l
  proof (cases "row_id l = row_id x")
    case True
    have "distinct (ids (leases (committed s)))" using Cons.prems(1) schema_ok_keys(5) by (simp add: ready_def)
    with True that Cons.prems(2) have "l = x" by (auto dest: distinct_ids_eq)
    then show ?thesis using st(6) by simp
  qed (simp add: billed_from_def ro)
  have "generate_each u (g, k) (x # xs) s = (Inr (g + length (x # xs), k), s2)"
    using st(1) ih(1) by (simp add: bnd_def)
  moreover have "\<forall>l\<in>set (leases (committed s)).
       length (records_of (row_id l) (committed s2)) =
         length (records_of (row_id l) (committed s)) + count_list (map row_id (x # xs)) (row_id l) \<and>
       billed_from (committed s2) l = billed_from (committed s) l"
    using ih(4) st(3) bf ro by auto
  ultimately show ?case using ih(2,3) st(3) by auto
qed

lemma count_ids: "distinct (ids xs) \<Longrightarrow> count_list (map row_id xs) i = (if i \<in> set (ids xs) then 1 else 0)"
  unfolding ids_def by (induction xs) auto

lemma ready_reopen: "ready u (s\<lparr>working := t\<rparr>) = ready u s"
  by (simp add: ready_def fresh_ids_def)

lemma generate_due_runs:
  assumes "ready u s"
  shows "\<exists>s'. generate_due_billing_records u s =
      (Inr (length (filter (\<lambda>l. lease_status l = LeaseActive) (leases (committed s))), 0), s') \<and> ready u s' \<and>
    leases (committed s') = leases (committed s) \<and>
    (\<forall>l\<in>set (leases (committed s)).
       length (records_of (row_id l) (committed s')) =
         length (records_of (row_id l) (committed s)) + (if lease_status l = LeaseActive then 1 else 0) \<and>
       billed_from (committed s') l = billed_from (committed s) l)"
proof -
  let ?q = "build_query leases_tbl (\<lambda>l. lease_status l = LeaseActive) (committed s)"
  let ?s1 = "s\<lparr>working := committed s\<rparr>"
  have d: "distinct (ids (leases (committed s)))" using assms schema_ok_keys(5) by (simp add: ready_def)
  have "mset (map row_id ?q) = mset (map row_id (filter (\<lambda>l. lease_status l = LeaseActive) (leases (committed s))))"
    by (simp add: build_query_def)
  moreover have "distinct (map row_id (filter (\<lambda>l. lease_status l = LeaseActive) (leases (committed s))))"
    using d by (simp add: ids_def distinct_map_filter)
  ultimately have dq: "distinct (ids ?q)" unfolding ids_def by (rule mset_eq_imp_distinct_iff [THEN iffD2])
  have c: "count_list (map row_id ?q) (row_id l) = (if lease_status l = LeaseActive then 1 else 0)"
    if "l \<in> set (leases (committed s))" for l
  proof -
    have "set (ids ?q) = set (ids (filter (\<lambda>l. lease_status l = LeaseActive) (leases (committed s))))"
      by (simp add: ids_def)
    then show ?thesis by (simp add: count_ids [OF dq] id_filter_iff [OF d that])
  qed
  have a: "fresh_session get_active_leases s = (Inr ?q, ?s1)"
    by (simp add: fresh_session_def get_db_def get_active_leases_def repo_all_def query_def)
  have r1: "ready u ?s1" using assms by (simp add: ready_reopen)
  have "set ?q \<subseteq> set (leases (committed ?s1))" by auto
  from generate_each_runs [OF r1 this, of 0 0] obtain s2 where
    s2: "generate_each u (0, 0) ?q ?s1 = (Inr (0 + length ?q, 0), s2)" "ready u s2"
    "leases (committed s2) = leases (committed ?s1)"
    "\<forall>l\<in>set (leases (committed ?s1)). length (records_of (row_id l) (committed s2)) =
       length (records_of (row_id l) (committed ?s1)) + count_list (map row_id ?q) (row_id l) \<and>
       billed_from (committed s2) l = billed_from (committed ?s1) l"
    by blast
  have "generate_due_billing_records u s = (Inr (length (filter (\<lambda>l. lease_status l = LeaseActive) (leases (committed s))), 0), s2)"
    using a s2(1) by (simp add: generate_due_billing_records_def bnd_def)
  with s2 c show ?thesis by simp
qed

section \<open>Evaluation runs\<close>

lemma atomic_finish_record [atomic_intros]: "atomic (finish_record u r)"
  unfolding finish_record_def by (intro atomic_intros)

lemma evaluate_cases:
  obtains (refused) e where "evaluate_overdue i u a s = (Inl e, s)"
  | (quiet) r l where "billing_context i u s = (Inr (r, l), s)" "\<not> is_late (eval_date a s) l r"
      "evaluate_overdue i u a s = (Inr (r, remaining r (working s)), s)"
  | (late) r l where "billing_context i u s = (Inr (r, l), s)" "is_late (eval_date a s) l r"
      "late_fee_applied r \<or> \<not> isl (late_fee l r)"
      "evaluate_overdue i u a s = bnd (flush_record (marked_overdue l r)) (finish_record u) s"
proof (cases "billing_context i u s")
  case (Pair x s1)
  then have s1: "s1 = s" by (rule pure_readD [OF pure_read_billing(7)])
  show ?thesis
  proof (cases x)
    case (Inl e)
    with Pair s1 have "evaluate_overdue i u a s = (Inl e, s)"
      by (simp add: evaluate_overdue_def bnd_InlI)
    then show ?thesis by (rule refused)
  next
    case (Inr rl)
    obtain r l where rl: "rl = (r, l)" by fastforce
    with Pair s1 Inr have c: "billing_context i u s = (Inr (r, l), s)" by simp
    show ?thesis
    proof (cases "is_late (eval_date a s) l r")
      case False
      from quiet [OF c False evaluate_not_late [OF c False]] show ?thesis .
    next
      case True
      show ?thesis
      proof (cases "late_fee_applied r \<or> \<not> isl (late_fee l r)")
        case ok: True
        from late [OF c True ok evaluate_late [OF c True ok]] show ?thesis .
      next
        case False
        then obtain e where "\<not> late_fee_applied r" "late_fee l r = Inl e" by (auto simp: isl_def)
        from refused [OF evaluate_no_fee [OF c True this]] show ?thesis .
      qed
    qed
  qed
qed

lemma evaluate_Inl:
  assumes "evaluate_overdue i u a s = (Inl e, s')"
  shows "committed s' = committed s"
proof (rule evaluate_cases [of i u a s])
  fix r l assume "evaluate_overdue i u a s = bnd (flush_record (marked_overdue l r)) (finish_record u) s"
  with assms have "bnd (flush_record (marked_overdue l r)) (finish_record u) s = (Inl e, s')" by simp
  then consider "flush_record (marked_overdue l r) s = (Inl e, s')"
    | x s1 where "flush_record (marked_overdue l r) s = (Inr x, s1)" "finish_record u x s1 = (Inl e, s')"
    by (auto simp: bnd_Inl_iff)
  then show ?thesis
    by cases (metis silentD silent_flush_record, metis silentD silent_flush_record atomic_Inl atomic_finish_record)
qed (use assms in auto)

lemma evaluate_today:
  assumes "evaluate_overdue i u a s = (Inr out, s')"
  shows "local_today s' = local_today s"
proof (rule evaluate_cases [of i u a s])
  fix r l assume c: "billing_context i u s = (Inr (r, l), s)"
    and "evaluate_overdue i u a s = bnd (flush_record (marked_overdue l r)) (finish_record u) s"
  with assms have "bnd (flush_record (marked_overdue l r)) (finish_record u) s = (Inr out, s')" by simp
  moreover from c have "get_row billing_records_tbl (row_id (marked_overdue l r)) (working s) = Some r"
    by (auto simp: billing_context_Inr dest: get_row_id)
  ultimately show ?thesis
    by (auto simp: bnd_Inr_iff flush_record_Inr finish_record_def write_audit_log_iff)
qed (use assms in auto)

text \<open>One step of the run changes no record but its own.\<close>

lemma evaluate_step_frame:
  assumes "evaluate_step u x s = (y, s')" "schema_ok (committed s)"
  shows "schema_ok (committed s') \<and> leases (committed s') = leases (committed s) \<and>
    (\<forall>q\<in>set (billing_records (committed s)). row_id q \<noteq> row_id x \<longrightarrow> q \<in> set (billing_records (committed s'))) \<and>
    (isl y \<or> local_today s' = local_today s)"
proof -
  let ?s0 = "s\<lparr>working := committed s\<rparr>"
  obtain s1 where run: "evaluate_overdue (row_id x) u (Some (local_today s)) ?s0 = (y, s1)"
    and s': "s' = s1\<lparr>working := committed s1\<rparr>"
    using assms(1)
    by (auto simp: evaluate_step_def fresh_session_def get_db_def bnd_date_today split: prod.splits sum.splits)
  show ?thesis
  proof (cases y)
    case (Inl e)
    with run have "committed s1 = committed s" using evaluate_Inl by fastforce
    with Inl s' assms(2) show ?thesis by simp
  next
    case (Inr out)
    have t: "local_today s' = local_today s" using evaluate_today [OF run [unfolded Inr]] s' by simp
    from evaluate_Inr [OF run [unfolded Inr]] obtain r l where *:
      "if is_late (eval_date (Some (local_today s)) ?s0) l r
       then fst out = touch (clock ?s0) (\<lambda>_. marked_overdue l r) r \<and>
         (late_fee_applied r \<or> late_fee l r = Inr (fee_or_zero l r)) \<and>
         billing_records (working s1) =
           map_row (row_id x) (touch (clock ?s0) (\<lambda>_. marked_overdue l r)) (billing_records (working ?s0)) \<and>
         payments (working s1) = payments (working ?s0) \<and> leases (working s1) = leases (working ?s0) \<and>
         committed s1 = working s1 \<and> schema_ok (working s1)
       else fst out = r \<and> s1 = ?s0" by blast
    show ?thesis
    proof (cases "is_late (eval_date (Some (local_today s)) ?s0) l r")
      case True
      with * t s' show ?thesis by (auto simp: set_map_row)
    next
      case False
      with * t s' assms(2) show ?thesis by simp
    qed
  qed
qed

text \<open>A late record whose percentage fee rounds to zero.\<close>

definition vanishing_fee :: "date \<Rightarrow> lease \<Rightarrow> billing_record \<Rightarrow> bool" where
  "vanishing_fee today l r \<longleftrightarrow> is_late today l r \<and> \<not> late_fee_applied r \<and> late_fee_amount l = None \<and>
     (case late_fee_percent l of None \<Rightarrow> False | Some p \<Rightarrow> amount_due r * p \<le> 5000)"

lemma vanishing_step_fails:
  assumes "evaluate_step u r s = (y, s')" "schema_ok (committed s)"
    and "r \<in> set (billing_records (committed s))" "l \<in> set (leases (committed s))" "row_id l = br_lease_id r"
    and "vanishing_fee (local_today s) l r"
  shows "isl y"
proof (rule ccontr)
  let ?s0 = "s\<lparr>working := committed s\<rparr>"
  assume "\<not> isl y"
  then obtain out where y: "y = Inr out" by (cases y) auto
  obtain s1 where run: "evaluate_overdue (row_id r) u (Some (local_today s)) ?s0 = (Inr out, s1)"
    using assms(1) y
    by (auto simp: evaluate_step_def fresh_session_def get_db_def bnd_date_today split: prod.splits sum.splits)
  from evaluate_Inr [OF run] obtain r' l' where
    c: "billing_context (row_id r) u ?s0 = (Inr (r', l'), ?s0)"
    and e: "is_late (eval_date (Some (local_today s)) ?s0) l' r' \<Longrightarrow>
       billing_records (working s1) =
         map_row (row_id r) (touch (clock ?s0) (\<lambda>_. marked_overdue l' r')) (billing_records (working ?s0)) \<and>
       schema_ok (working s1)" by (smt (verit))
  have "get_row billing_records_tbl (row_id r) (committed s) = Some r"
    "get_row leases_tbl (br_lease_id r) (committed s) = Some l"
    using assms(3-5) schema_ok_keys(5,6) [OF assms(2)] by (simp_all add: get_row_Some_iff)
  with c have "r' = r" "l' = l" by (auto simp: billing_context_Inr)
  moreover have "is_late (eval_date (Some (local_today s)) ?s0) l r"
    using assms(6) by (simp add: vanishing_fee_def eval_date_def)
  ultimately have ok: "schema_ok (working s1)"
    and "touch (clock s) (\<lambda>_. marked_overdue l r) r \<in> set (billing_records (working s1))"
    using e assms(3) by (auto simp: set_map_row)
  then have "holds_all (ck_billing_record (touch (clock s) (\<lambda>_. marked_overdue l r) r))"
    by (auto simp: schema_ok_tables billing_records_constraints_def)
  moreover obtain p fee where "late_fee_percent l = Some p" "amount_due r * p \<le> 5000" "late_fee l r = Inr fee"
    using assms(6) by (auto simp: vanishing_fee_def late_fee_def split: option.splits)
  moreover from this have "\<not> 0 < fee"
    using percent_fee_pos [of l p r fee] assms(6) by (simp add: vanishing_fee_def)
  ultimately show False
    using assms(6) by (simp add: ck_billing_record_def marked_overdue_def fee_or_zero_def vanishing_fee_def)
qed

lemma evaluate_each_aborts:
  assumes "schema_ok (committed s)" "r \<in> set (billing_records (committed s))"
    and "l \<in> set (leases (committed s))" "row_id l = br_lease_id r" "vanishing_fee (local_today s) l r"
    and "Q \<subseteq> set (billing_records (committed s))" "\<forall>x\<in>set pre. \<forall>q\<in>insert r Q. row_id q \<noteq> row_id x"
    and "\<forall>q\<in>Q. row_id q \<noteq> row_id r"
  shows "\<exists>e s'. evaluate_each u n (pre @ r # post) s = (Inl e, s') \<and> Q \<subseteq> set (billing_records (committed s'))"
  using assms
proof (induction pre arbitrary: n s)
  case Nil
  obtain y s1 where st: "evaluate_step u r s = (y, s1)" by fastforce
  from vanishing_step_fails [OF st Nil(1-5)] obtain e where "y = Inl e" by (cases y) auto
  moreover have "Q \<subseteq> set (billing_records (committed s1))"
    using evaluate_step_frame [OF st Nil(1)] Nil(6,8) by auto
  ultimately show ?case using st by (simp add: bnd_def)
next
  case (Cons x xs)
  obtain y s1 where st: "evaluate_step u x s = (y, s1)" by fastforce
  note fr = evaluate_step_frame [OF st Cons.prems(1)]
  then have Q: "insert r Q \<subseteq> set (billing_records (committed s1))" using Cons.prems(2,6,7) by auto
  show ?case
  proof (cases y)
    case (Inl e)
    with st Q show ?thesis by (simp add: bnd_def)
  next
    case (Inr out)
    from fr Inr Q Cons.prems have "\<exists>e s'. evaluate_each u (Suc n) (xs @ r # post) s1 = (Inl e, s') \<and>
        Q \<subseteq> set (billing_records (committed s'))" by (intro Cons.IH) auto
    with st Inr show ?thesis by (simp add: bnd_def)
  qed
qed

section \<open>Properties\<close>

text \<open>Successive runs, each at its own instant and date.\<close>

fun daily_runs :: "user \<Rightarrow> (instant \<times> date) list \<Rightarrow> session \<Rightarrow> session" where
  "daily_runs u [] s = s"
| "daily_runs u ((n, d) # days) s =
     daily_runs u days (snd (generate_due_billing_records u (s\<lparr>clock := n, local_today := d\<rparr>)))"

lemma ready_clock: "ready u (s\<lparr>clock := n, local_today := d\<rparr>) = ready u s"
  by (simp add: ready_def fresh_ids_def)

text \<open>
  C28. Every run of the generation job bills one more period of every active lease, whatever the
  date: n runs leave each active lease with n more records, end to end, so the billed horizon
  moves 31 n days. No lease is ever skipped as already generated.
\<close>

theorem every_run_bills_ahead:
  assumes "ready u s" "l \<in> set (leases (committed s))"
  shows "let t = committed (daily_runs u days s);
             n = length (records_of (row_id l) (committed s)) + (if lease_status l = LeaseActive then length days else 0)
    in length (records_of (row_id l) t) = n \<and> contiguous (billed_from (committed s) l) (records_of (row_id l) t)"
  using assms
proof (induction u days s rule: daily_runs.induct)
  case (1 u s)
  then show ?case by (auto simp: ready_def well_billed_def list_all_iff)
next
  case (2 u n d days s)
  let ?s = "s\<lparr>clock := n, local_today := d\<rparr>"
  have c: "committed ?s = committed s" by simp
  from 2(2) have "ready u ?s" by (simp add: ready_clock)
  note due = generate_due_runs [OF this, unfolded c]
  from due obtain s' where run: "generate_due_billing_records u ?s =
      (Inr (length (filter (\<lambda>l. lease_status l = LeaseActive) (leases (committed s))), 0), s')"
    and s': "ready u s'" "leases (committed s') = leases (committed s)"
    and all: "\<forall>l\<in>set (leases (committed s)). length (records_of (row_id l) (committed s')) =
         length (records_of (row_id l) (committed s)) + (if lease_status l = LeaseActive then 1 else 0) \<and>
       billed_from (committed s') l = billed_from (committed s) l" by blast
  have r: "snd (generate_due_billing_records u ?s) = s'" by (simp add: run)
  from 2(3) s'(2) have l: "l \<in> set (leases (committed s'))" by simp
  from 2(1) [unfolded r, OF s'(1) l] bspec [OF all 2(3)] r show ?case by (simp add: Let_def)
qed

theorem every_run_bills_ahead_witness:
  "length (records_of 40 (committed (daily_runs ann [(5, 738001), (6, 738002), (7, 738003)]
     (session_of sample_tables)))) = 4"
proof -
  let ?s = "session_of sample_tables"
  have "ann \<in> set (users sample_tables)" "role ann = ADMIN" by code_simp+
  moreover have "list_all (well_billed sample_tables) (leases sample_tables)" by code_simp
  moreover have "list_all (\<lambda>i. i < 1000) (ids (billing_records sample_tables) @ ids (audit_logs sample_tables))" by code_simp
  then have "fresh_ids ?s" by (auto simp: fresh_ids_def session_of_def inj_def list_all_iff)
  ultimately have r: "ready ann ?s" by (auto simp: ready_def schema_ok_sample ids_def)
  have l: "sample_lease 40 30 \<in> set (leases (committed ?s))" by (simp add: sample_tables_def)
  have "length (records_of 40 sample_tables) = 1" by code_simp
  then show ?thesis
    using every_run_bills_ahead [OF r l, of "[(5, 738001), (6, 738002), (7, 738003)]"]
    by (simp add: Let_def sample_lease_def)
qed

text \<open>
  C29. One late record whose percentage fee rounds to zero stops the evaluation run: the run ends
  in an exception, whatever happened to the records before it, and no record that comes after
  it in the table is evaluated, however late it is.
\<close>

theorem vanishing_fee_stops_the_run:
  assumes "schema_ok (committed s)" "billing_records (committed s) = pre @ r # post"
    and "l \<in> set (leases (committed s))" "row_id l = br_lease_id r" "vanishing_fee (local_today s) l r"
  shows "\<exists>e s'. evaluate_overdue_billing_records u s = (Inl e, s') \<and>
    set post \<subseteq> set (billing_records (committed s'))"
proof -
  let ?s1 = "s\<lparr>working := committed s\<rparr>"
  have d: "distinct (ids (pre @ r # post))" using schema_ok_keys(6) [OF assms(1)] by (simp add: assms(2))
  have u: "unpaid r" using assms(5) by (auto simp: vanishing_fee_def is_late_def unpaid_def UNPAID_STATUSES_def)
  have "map fst (with_grace (committed s) (filter unpaid (billing_records (committed s)))) =
      filter unpaid (billing_records (committed s))"
    by (subst with_grace_eq [OF assms(1)]) (auto simp: comp_def)
  then have g: "bnd (fresh_session get_unpaid_with_grace) (\<lambda>rs. evaluate_each u 0 (map fst rs)) s =
      evaluate_each u 0 (filter unpaid pre @ r # filter unpaid post) ?s1"
    using u by (simp add: fresh_session_def get_db_def get_unpaid_with_grace_def query_def bnd_def assms(2))
  have "\<forall>x\<in>set (filter unpaid pre). \<forall>q\<in>insert r (set post). row_id q \<noteq> row_id x"
    "\<forall>q\<in>set post. row_id q \<noteq> row_id r"
    using d by (auto simp: ids_def) (metis image_eqI)+
  with assms show ?thesis
    unfolding evaluate_overdue_billing_records_def g by (intro evaluate_each_aborts [where l = l]) auto
qed

theorem vanishing_fee_stops_the_run_witness:
  "\<exists>e s'. evaluate_overdue_billing_records ann (session_of (sample_tables\<lparr>billing_records :=
       [(sample_billing_record 50 40 Pending)\<lparr>amount_due := 10\<rparr>,
        (sample_billing_record 51 40 Pending)\<lparr>period_start := 738031, period_end := 738061, due_date := 738036\<rparr>]\<rparr>)) =
     (Inl e, s') \<and>
     (sample_billing_record 51 40 Pending)\<lparr>period_start := 738031, period_end := 738061, due_date := 738036\<rparr>
       \<in> set (billing_records (committed s')) \<and>
     is_late 738100 (sample_lease 40 30)
       ((sample_billing_record 51 40 Pending)\<lparr>period_start := 738031, period_end := 738061, due_date := 738036\<rparr>)"
  (is "\<exists>e s'. evaluate_overdue_billing_records ann (session_of ?t) = _ \<and> ?q \<in> _ \<and> _")
proof -
  have ok: "schema_ok (committed (session_of ?t))" by code_simp
  have b: "billing_records (committed (session_of ?t)) = [] @ (sample_billing_record 50 40 Pending)\<lparr>amount_due := 10\<rparr> # [?q]"
    by simp
  have "sample_lease 40 30 \<in> set (leases (committed (session_of ?t)))" by (simp add: sample_tables_def)
  moreover have "row_id (sample_lease 40 30) = br_lease_id ((sample_billing_record 50 40 Pending)\<lparr>amount_due := 10\<rparr>)"
    "vanishing_fee (local_today (session_of ?t)) (sample_lease 40 30)
       ((sample_billing_record 50 40 Pending)\<lparr>amount_due := 10\<rparr>)"
    "is_late 738100 (sample_lease 40 30) ?q"
    by code_simp+
  ultimately show ?thesis using vanishing_fee_stops_the_run [OF ok b, of "sample_lease 40 30" ann] by simp
qed

end
