(* ===== verification/History.thy ===== *)
theory History
  imports Routes Jobs
begin

text \<open>
  What a program may do to the committed database over time. \<open>moves R v m\<close> says that every
  commit of \<open>m\<close> takes the database from one state to another one related by \<open>R\<close> in which all
  constraints hold, where \<open>v\<close> picks the session out of the state \<open>m\<close> runs on; \<open>ends R v m\<close> is
  the same for a program after which nothing else runs. The locale collects what a relation has to satisfy so that all
  services respect it; the service lemmas are proved in it once, for every such relation.
\<close>

section \<open>Programs that respect a relation\<close>

definition leads :: "(tables \<Rightarrow> tables \<Rightarrow> bool) \<Rightarrow> tables \<Rightarrow> tables \<Rightarrow> bool" where
  "leads R t t' \<longleftrightarrow> R t t' \<and> (t' = t \<or> schema_ok t')"

definition moves :: "(tables \<Rightarrow> tables \<Rightarrow> bool) \<Rightarrow> ('s \<Rightarrow> session) \<Rightarrow> ('s, 'a) prog \<Rightarrow> bool" where
  "moves R v m \<longleftrightarrow>
     (\<forall>s r s'. R (committed (v s)) (working (v s)) \<longrightarrow> m s = (r, s') \<longrightarrow>
        leads R (committed (v s)) (committed (v s')) \<and> (\<not> isl r \<longrightarrow> R (committed (v s')) (working (v s'))))"

definition ends :: "(tables \<Rightarrow> tables \<Rightarrow> bool) \<Rightarrow> ('s \<Rightarrow> session) \<Rightarrow> ('s, 'a) prog \<Rightarrow> bool" where
  "ends R v m \<longleftrightarrow>
     (\<forall>s r s'. R (committed (v s)) (working (v s)) \<longrightarrow> m s = (r, s') \<longrightarrow> leads R (committed (v s)) (committed (v s')))"

text \<open>A step that does not touch the tables, and a handler that raises again.\<close>

definition still :: "('s \<Rightarrow> session) \<Rightarrow> ('s, 'a) prog \<Rightarrow> bool" where
  "still v m \<longleftrightarrow>
     (\<forall>s r s'. m s = (r, s') \<longrightarrow> committed (v s') = committed (v s) \<and> working (v s') = working (v s))"

definition gives_up :: "('s \<Rightarrow> session) \<Rightarrow> (svc_error \<Rightarrow> ('s, 'a) prog) \<Rightarrow> bool" where
  "gives_up v h \<longleftrightarrow> (\<forall>e s r s'. h e s = (r, s') \<longrightarrow> isl r \<and> committed (v s') = committed (v s))"

text \<open>Any change of a table is tolerated.\<close>

definition tolerates :: "(tables \<Rightarrow> tables \<Rightarrow> bool) \<Rightarrow> 'r tbl \<Rightarrow> bool" where
  "tolerates R T \<longleftrightarrow> (\<forall>f t. R t (upd_rows T f t))"

named_theorems history_intros

lemma movesD:
  "moves R v m \<Longrightarrow> R (committed (v s)) (working (v s)) \<Longrightarrow> m s = (r, s') \<Longrightarrow>
     leads R (committed (v s)) (committed (v s')) \<and> (\<not> isl r \<longrightarrow> R (committed (v s')) (working (v s')))"
  by (simp add: moves_def)

lemma ends_of_moves: "moves R v m \<Longrightarrow> ends R v m"
  by (simp add: moves_def ends_def)

lemma still_in_store [history_intros]: "still fst (in_store p)"
  by (auto simp: still_def)

lemma still_ret [history_intros]: "still v (ret x)" "still v (raise e)"
  by (simp_all add: still_def)

lemma still_option [history_intros]:
  "still v a \<Longrightarrow> (\<And>x. still v (b x)) \<Longrightarrow> still v (case z of None \<Rightarrow> a | Some x \<Rightarrow> b x)"
  by (cases z) simp_all

lemma still_pair [history_intros]: "(\<And>x y. still v (b x y)) \<Longrightarrow> still v (case z of (x, y) \<Rightarrow> b x y)"
  by (cases z) simp

lemma still_pure: "pure_read m \<Longrightarrow> still (\<lambda>s. s) m"
  unfolding still_def using pure_readD by metis

lemma still_draws [history_intros]:
  "still (\<lambda>s. s) uuid4" "still (\<lambda>s. s) nextval_cash" "still (\<lambda>s. s) nextval_receipt"
  by (auto simp: still_def outside_defs)

lemma gives_up_raise [history_intros]: "gives_up v (\<lambda>e. raise (g e))" "gives_up v raise"
  by (simp_all add: gives_up_def)

lemma gives_up_raises: "raises h \<Longrightarrow> gives_up (\<lambda>s. s) (on_integrity h)"
  unfolding gives_up_def using raisesD [OF raises_on_integrity] by (metis isl_def)

lemma gives_up_after [history_intros]:
  assumes "\<And>e. still v (m e)"
  shows "gives_up v (\<lambda>e. bnd (m e) (\<lambda>_. raise (g e)))"
  unfolding gives_up_def
proof (intro allI impI)
  fix e s r s'
  assume h: "bnd (m e) (\<lambda>_. raise (g e)) s = (r, s')"
  obtain q s1 where m: "m e s = (q, s1)" by fastforce
  with assms have "committed (v s1) = committed (v s)" by (simp add: still_def)
  with h m show "isl r \<and> committed (v s') = committed (v s)"
    by (cases q) (auto simp: bnd_def raise_def)
qed

lemma gives_up_rollback [history_intros]: "gives_up (\<lambda>s. s) (\<lambda>e. bnd rollback (\<lambda>_. raise (g e)))"
  by (auto simp: gives_up_def bnd_def rollback_def raise_def)

section \<open>The interface\<close>

text \<open>
  First only that commits may follow one another: a relation between database states that is
  reflexive and transitive.
\<close>

locale commit_order =
  fixes R :: "tables \<Rightarrow> tables \<Rightarrow> bool"
  assumes refl: "R t t"
    and trans: "R x y \<Longrightarrow> R y z \<Longrightarrow> R x z"
begin

lemma leads_same [simp]: "leads R t t"
  by (simp add: leads_def refl)

lemma leads_trans: "leads R x y \<Longrightarrow> leads R y z \<Longrightarrow> leads R x z"
  unfolding leads_def using trans by blast

lemma moves_still: "still v m \<Longrightarrow> moves R v m"
  by (simp add: moves_def still_def refl)

lemma moves_pure: "pure_read m \<Longrightarrow> moves R (\<lambda>s. s) m"
  by (rule moves_still) (rule still_pure)

lemma moves_bnd [history_intros]:
  assumes "moves R v m" "\<And>x. moves R v (f x)"
  shows "moves R v (bnd m f)"
  unfolding moves_def
proof (intro allI impI)
  fix s r s'
  assume a: "R (committed (v s)) (working (v s))" and b: "bnd m f s = (r, s')"
  obtain q s1 where m: "m s = (q, s1)" by fastforce
  note 1 = movesD [OF assms(1) a m]
  show "leads R (committed (v s)) (committed (v s')) \<and> (\<not> isl r \<longrightarrow> R (committed (v s')) (working (v s')))"
  proof (cases q)
    case (Inl e)
    with b m 1 show ?thesis by (auto simp: bnd_def)
  next
    case (Inr x)
    with b m have f: "f x s1 = (r, s')" by (simp add: bnd_def)
    from Inr 1 have "R (committed (v s1)) (working (v s1))" by simp
    from movesD [OF assms(2) this f] 1 show ?thesis by (blast intro: leads_trans)
  qed
qed

lemma ends_bnd:
  assumes "moves R v m" "\<And>x. ends R v (f x)"
  shows "ends R v (bnd m f)"
  unfolding ends_def
proof (intro allI impI)
  fix s r s'
  assume a: "R (committed (v s)) (working (v s))" and b: "bnd m f s = (r, s')"
  obtain q s1 where m: "m s = (q, s1)" by fastforce
  note 1 = movesD [OF assms(1) a m]
  show "leads R (committed (v s)) (committed (v s'))"
  proof (cases q)
    case (Inl e)
    with b m 1 show ?thesis by (auto simp: bnd_def)
  next
    case (Inr x)
    with b m have f: "f x s1 = (r, s')" by (simp add: bnd_def)
    from Inr 1 have "R (committed (v s1)) (working (v s1))" by simp
    with assms(2) f have "leads R (committed (v s1)) (committed (v s'))" unfolding ends_def by blast
    with 1 show ?thesis by (blast intro: leads_trans)
  qed
qed

lemma ends_bnd_still:
  assumes "ends R v m" "\<And>x. still v (f x)"
  shows "ends R v (bnd m f)"
  using assms unfolding ends_def still_def bnd_def
  by (auto split: prod.splits sum.splits)

lemma ends_recover:
  assumes "ends R v m" "\<And>e s r s'. h e s = (r, s') \<Longrightarrow> committed (v s') = committed (v s)"
  shows "ends R v (try_except m h)"
  using assms unfolding ends_def try_except_def
  by (fastforce split: prod.splits sum.splits)

lemma ends_try: "ends R v m \<Longrightarrow> (\<And>e. still v (h e)) \<Longrightarrow> ends R v (try_except m h)"
  by (rule ends_recover) (simp_all add: still_def)

lemma moves_try [history_intros]:
  assumes "moves R v m" "gives_up v h"
  shows "moves R v (try_except m h)"
  using assms unfolding moves_def gives_up_def try_except_def
  by (fastforce split: prod.splits sum.splits)

lemma moves_case [history_intros]:
  "moves R v a \<Longrightarrow> (\<And>x. moves R v (b x)) \<Longrightarrow> moves R v (case z of None \<Rightarrow> a | Some x \<Rightarrow> b x)"
  "(\<And>x y. moves R v (c x y)) \<Longrightarrow> moves R v (case p of (x, y) \<Rightarrow> c x y)"
  "(\<And>e. moves R v (g e)) \<Longrightarrow> (\<And>x. moves R v (b x)) \<Longrightarrow> moves R v (case w of Inl e \<Rightarrow> g e | Inr x \<Rightarrow> b x)"
  "moves R v a \<Longrightarrow> moves R v a' \<Longrightarrow> moves R v (if t then a else a')"
  by (auto split: option.splits prod.splits sum.splits)

lemma moves_simple [history_intros]:
  "moves R v (ret x)" "moves R v (raise e)" "moves R v (raise_if c e)"
  "moves R (\<lambda>s. s) uuid4" "moves R (\<lambda>s. s) now" "moves R (\<lambda>s. s) (query q)"
  "moves R (\<lambda>s. s) nextval_cash" "moves R (\<lambda>s. s) nextval_receipt" "moves R (\<lambda>s. s) (repo_get_by_id T i)"
  by (rule moves_still; simp add: still_def raise_if_def outside_defs repo_get_by_id_def)+

lemma moves_found_or [history_intros]: "moves R v m \<Longrightarrow> moves R v (found_or e m)"
  unfolding found_or_def by (intro history_intros)

lemma moves_modify: "(\<And>t. R t (g t)) \<Longrightarrow> moves R (\<lambda>s. s) (modify g)"
  unfolding moves_def by (auto intro: refl trans)

lemma moves_commit [history_intros]: "moves R (\<lambda>s. s) commit" "moves R (\<lambda>s. s) flush" "moves R (\<lambda>s. s) (flush_nulls ns)"
proof -
  show "moves R (\<lambda>s. s) commit"
    unfolding moves_def
  proof (intro allI impI)
    fix s r s'
    assume "R (committed s) (working s)" "commit s = (r, s')"
    then show "leads R (committed s) (committed s') \<and> (\<not> isl r \<longrightarrow> R (committed s') (working s'))"
      by (cases r) (auto simp: leads_def intro: refl)
  qed
qed (rule moves_pure, rule atomic_intros)+

lemma moves_repo_insert [history_intros]: "tolerates R T \<Longrightarrow> moves R (\<lambda>s. s) (repo_insert T r)"
  unfolding repo_insert_def tolerates_def by (intro history_intros moves_modify) blast

lemma moves_repo_create [history_intros]: "tolerates R T \<Longrightarrow> moves R (\<lambda>s. s) (repo_create T mk)"
  unfolding repo_create_def by (intro history_intros)

lemma moves_repo_update [history_intros]: "tolerates R T \<Longrightarrow> moves R (\<lambda>s. s) (repo_update T i ns f)"
  unfolding repo_update_def tolerates_def by (intro history_intros moves_modify) blast

lemma moves_repo_delete:
  assumes "tolerates R T" "\<And>t. R t (sn i t)"
  shows "moves R (\<lambda>s. s) (repo_delete T sn i)"
  unfolding repo_delete_def
  by (intro history_intros moves_modify) (use assms in \<open>auto simp: tolerates_def intro: trans\<close>)

lemma moves_in_db [history_intros]: "moves R (\<lambda>s. s) m \<Longrightarrow> moves R fst (in_db m)"
  unfolding moves_def by auto

lemma moves_in_store [history_intros]: "moves R fst (in_store p)"
  by (rule moves_still) (rule still_in_store)

lemma moves_get_db [history_intros]:
  assumes "ends R (\<lambda>s. s) m"
  shows "moves R (\<lambda>s. s) (get_db m)"
  unfolding moves_def
proof (intro allI impI)
  fix s r s'
  assume "get_db m s = (r, s')"
  then obtain s1 where "m (s\<lparr>working := committed s\<rparr>) = (r, s1)" "s' = s1\<lparr>working := committed s1\<rparr>"
    by (cases r) (auto simp: get_db_Inl get_db_Inr)
  with assms show "leads R (committed s) (committed s') \<and> (\<not> isl r \<longrightarrow> R (committed s') (working s'))"
    unfolding ends_def by (auto simp: refl dest: spec [of _ "s\<lparr>working := committed s\<rparr>"])
qed

lemma moves_entry:
  assumes "\<And>t a. R t (audit_logs_update (\<lambda>as. as @ [a]) t)"
  shows "moves R (\<lambda>s. s) (write_audit_log u a k i)"
  unfolding moves_def using assms by (auto simp: write_audit_log_iff intro: refl trans)

end

text \<open>
  Then what the services do: a relation that tolerates every change of the tables other than
  billing records, receipts and the audit log, the appending of a receipt and of an audit
  entry, and what the deletion of an account does to the rows that mention it - for the
  accounts that are deleted at all, the second parameter.
\<close>

locale history = commit_order +
  fixes gone :: "uuid \<Rightarrow> bool"
  assumes free_tables:
      "R t (users_update f1 t)" "R t (properties_update f2 t)" "R t (tenants_update f3 t)"
      "R t (contracts_update f4 t)" "R t (leases_update f5 t)" "R t (payments_update f6 t)"
      "R t (documents_update f7 t)" "R t (collections_update f8 t)" "R t (receipt_templates_update f9 t)"
    and receipt_issued: "R t (receipts_update (\<lambda>rs. rs @ [r]) t)"
    and entry_written: "R t (audit_logs_update (\<lambda>as. as @ [a]) t)"
    and account_deleted: "gone i \<Longrightarrow> R t (user_on_delete i t)"
begin

lemma tolerates_tbl [history_intros]:
  "tolerates R users_tbl" "tolerates R properties_tbl" "tolerates R tenants_tbl" "tolerates R contracts_tbl" "tolerates R leases_tbl"
  "tolerates R payments_tbl" "tolerates R documents_tbl" "tolerates R collections_tbl" "tolerates R receipt_templates_tbl"
  by (simp_all add: tolerates_def free_tables)

lemma moves_write_audit_log [history_intros]: "moves R (\<lambda>s. s) (write_audit_log u a k i)"
  by (rule moves_entry) (rule entry_written)

text \<open>What the services are made of beside the repositories.\<close>

lemma quitting_handlers [history_intros]:
  "gives_up (\<lambda>s. s) (on_integrity raise_if_name_address_conflict)"
  "gives_up (\<lambda>s. s) (on_integrity raise_tenant_conflict)" "gives_up (\<lambda>s. s) (on_integrity raise_link_conflict)"
  "gives_up (\<lambda>s. s) (on_integrity (raise_user_conflict d))" "gives_up (\<lambda>s. s) (on_integrity raise_if_active_contract_conflict)"
  "gives_up (\<lambda>s. s) (on_integrity raise_if_duplicate_lease_conflict)"
  "gives_up (\<lambda>s. s) (on_integrity raise_if_already_generated_conflict)"
  "gives_up (\<lambda>s. s) (on_integrity (\<lambda>_. raise e))"
  by (intro gives_up_raises leasing_conflicts_raise generated_conflict_raises; simp)+

lemma moves_deletions [history_intros]:
  "tolerates R T \<Longrightarrow> moves R (\<lambda>s. s) (repo_delete T (\<lambda>_ t. t) i)"
  "gone i \<Longrightarrow> moves R (\<lambda>s. s) (repo_delete users_tbl user_on_delete i)"
  "moves R (\<lambda>s. s) (repo_delete collections_tbl collection_on_delete i)"
  by (rule moves_repo_delete; simp add: refl account_deleted collection_on_delete_def free_tables tolerates_tbl)+

lemma moves_receipt_insert [history_intros]: "moves R (\<lambda>s. s) (repo_create receipts_tbl mk)"
  unfolding repo_create_def repo_insert_def
  by (intro history_intros moves_modify) (simp add: receipt_issued)

lemma moves_property_service [history_intros]:
  "moves R (\<lambda>s. s) (create_property pc u)" "moves R (\<lambda>s. s) (update_property i pu u)"
  "moves R (\<lambda>s. s) (delete_property i u)" "moves R (\<lambda>s. s) (assign_manager i m u)"
  unfolding create_property_def update_property_def delete_property_def assign_manager_def
  by ((rule history_intros | rule moves_pure, rule atomic_intros)+)

lemma moves_tenant_service [history_intros]:
  "moves R (\<lambda>s. s) (create_tenant tc u)" "moves R (\<lambda>s. s) (update_tenant i tu u)"
  "moves R (\<lambda>s. s) (delete_tenant i u)" "moves R (\<lambda>s. s) (link_user i l u)" "moves R (\<lambda>s. s) (unlink_user i u)"
  unfolding create_tenant_def update_tenant_def delete_tenant_def link_user_def unlink_user_def
  by ((rule history_intros | rule moves_pure, rule atomic_intros)+)

lemma moves_contract_service [history_intros]:
  "moves R (\<lambda>s. s) (create_contract cc u)" "moves R (\<lambda>s. s) (update_contract i cu u)"
  "moves R (\<lambda>s. s) (delete_contract i u)"
  unfolding create_contract_def update_contract_def delete_contract_def sync_property_status_def
  by ((rule history_intros | rule moves_pure, rule atomic_intros)+)

lemma moves_lease_service [history_intros]:
  "moves R (\<lambda>s. s) (create_lease lc u)" "moves R (\<lambda>s. s) (update_lease i lu u)" "moves R (\<lambda>s. s) (delete_lease i u)"
  unfolding create_lease_def update_lease_def delete_lease_def
  by ((rule history_intros | rule moves_pure, rule atomic_intros)+)

lemma moves_collection_service [history_intros]:
  "moves R (\<lambda>s. s) (create_collection kc u)" "moves R (\<lambda>s. s) (update_collection i ku u)"
  "moves R (\<lambda>s. s) (delete_collection i u)"
  unfolding create_collection_def update_collection_def delete_collection_def
  by ((rule history_intros | rule moves_pure, rule atomic_intros)+)

lemma moves_notification [history_intros]: "moves R (\<lambda>s. s) (notify_password_changed [logging_channel] u)"
  by (rule moves_still) (simp add: notify_password_changed_def logging_channel_def still_def bnd_def ret_def)

lemma moves_account_service [history_intros]:
  "moves R (\<lambda>s. s) (create_user pwd uc u)" "moves R (\<lambda>s. s) (update_user pwd [logging_channel] i uu u)"
  "gone i \<Longrightarrow> moves R (\<lambda>s. s) (delete_user i u)"
  unfolding create_user_def update_user_def update_account_def delete_user_def user_repo_create_def user_repo_update_def
    hash_password_def
  by ((rule history_intros | assumption | rule moves_pure, rule atomic_intros)+)

lemma moves_payment_service [history_intros]:
  "moves R (\<lambda>s. s) (update_payment i pu u)" "moves R (\<lambda>s. s) (void_and_correct_payment i pk u)"
  "moves R (\<lambda>s. s) (delete_payment i u)" "moves R (\<lambda>s. s) (resolve_reference_number me re)"
  unfolding update_payment_def void_and_correct_payment_def delete_payment_def resolve_reference_number_def
  by ((rule history_intros | rule moves_pure, rule atomic_intros)+)

lemma moves_template_service [history_intros]:
  "moves R (\<lambda>s. s) (activate_template i u)" "moves R fst (upload_template cfg cl n p u fo)"
  unfolding activate_template_def deactivate_current_def upload_template_def store_template_def insert_template_def Let_def
  by ((rule history_intros | rule moves_pure, rule atomic_intros)+)

lemma moves_document_service [history_intros]:
  "moves R fst (create_document cfg fa dc u)" "moves R (\<lambda>s. s) (update_document i dr u)"
  "moves R fst (replace_document_file cfg cl i dc fo u)" "moves R fst (delete_document cfg st i u)"
  unfolding create_document_def store_document_def insert_document_def update_document_def save_document_def
    replace_document_file_def store_replacement_def commit_file_replacement_def delete_document_def Let_def
  by ((rule history_intros | rule moves_pure, rule atomic_intros)+)

lemma moves_receipt_service [history_intros]:
  "moves R fst (issue_receipt cfg cl eng dflt i u)" "moves R fst (get_receipt_document cfg cl i u)"
  "moves R fst (get_document_content cfg cl i u)"
  unfolding issue_receipt_def store_receipt_pdf_def insert_receipt_def resolve_active_template_html_def
    get_receipt_document_def get_document_content_def
  by ((rule history_intros | rule moves_pure, rule atomic_intros)+)

end

text \<open>
  Billing is where relations differ: one that also tolerates every change of the billing
  records is respected by the billing services without further ado, for the others that is
  an obligation of its own.
\<close>

locale billing_history = history +
  assumes moves_billing [history_intros]:
      "moves R (\<lambda>s. s) (generate_billing_record l u)" "moves R (\<lambda>s. s) (evaluate_overdue i u d)"
      "moves R (\<lambda>s. s) (write_off_billing_record i u)" "moves R (\<lambda>s. s) (correct_late_fee i fc u)"
      "moves R (\<lambda>s. s) (create_payment pc u)"

locale indifferent_history = history +
  assumes records_free: "R t (billing_records_update f t)"
begin

lemma tolerates_records [history_intros]: "tolerates R billing_records_tbl"
  by (simp add: tolerates_def records_free)

lemma moves_flush_record [history_intros]: "moves R (\<lambda>s. s) (flush_record r)"
  unfolding flush_record_def
  by (intro history_intros moves_modify) (simp add: records_free)

lemma moves_billing_service:
  "moves R (\<lambda>s. s) (generate_billing_record l u)" "moves R (\<lambda>s. s) (evaluate_overdue i u d)"
  "moves R (\<lambda>s. s) (write_off_billing_record i u)" "moves R (\<lambda>s. s) (correct_late_fee i fc u)"
  "moves R (\<lambda>s. s) (create_payment pc u)"
  unfolding generate_billing_record_def evaluate_overdue_def write_off_billing_record_def correct_late_fee_def
    create_payment_def apply_payment_to_billing_record_def Let_def
  by ((rule history_intros | rule moves_pure, rule atomic_intros)+)

end

sublocale indifferent_history \<subseteq> billing_history
  by unfold_locales (rule moves_billing_service)+

end
