(* ===== verification/Ledger.thy ===== *)
theory Ledger
  imports History
begin

text \<open>
  What the billing records promise, without the database: a book in which every bill has fixed
  terms and a status that business events move forward. The database refines the book: read
  through \<open>book\<close>, whatever the services commit is a sequence of such events.
\<close>

section \<open>The book\<close>

record bill =
  bill_lease :: uuid
  bill_from :: date
  bill_to :: date
  bill_due :: date
  bill_amount :: money
  bill_status :: br_status

type_synonym bills = "uuid \<Rightarrow> bill option"

text \<open>The events, written down independently of the table of transitions in the code.\<close>

inductive book_step :: "bills \<Rightarrow> bills \<Rightarrow> bool" where
  issued: "b i = None \<Longrightarrow> 0 < bill_amount x \<Longrightarrow> bill_status x = Pending \<Longrightarrow> book_step b (b(i \<mapsto> x))"
| fell_due: "b i = Some x \<Longrightarrow> bill_status x \<in> {Pending, PartiallyPaid} \<Longrightarrow>
    book_step b (b(i \<mapsto> x\<lparr>bill_status := Overdue\<rparr>))"
| part_paid: "b i = Some x \<Longrightarrow> bill_status x \<in> {Pending, Overdue} \<Longrightarrow>
    book_step b (b(i \<mapsto> x\<lparr>bill_status := PartiallyPaid\<rparr>))"
| settled: "b i = Some x \<Longrightarrow> bill_status x \<in> {Pending, PartiallyPaid, Overdue} \<Longrightarrow>
    book_step b (b(i \<mapsto> x\<lparr>bill_status := Paid\<rparr>))"
| given_up: "b i = Some x \<Longrightarrow> bill_status x \<in> {PartiallyPaid, Overdue} \<Longrightarrow>
    book_step b (b(i \<mapsto> x\<lparr>bill_status := WrittenOff\<rparr>))"

inductive_cases book_stepE: "book_step b b'"

definition terms :: "bill \<Rightarrow> uuid \<times> date \<times> date \<times> date \<times> money" where
  "terms x = (bill_lease x, bill_from x, bill_to x, bill_due x, bill_amount x)"

text \<open>Bills never disappear, their terms never change, and a closed bill stays closed.\<close>

definition carried_on :: "bill \<Rightarrow> bill \<Rightarrow> bool" where
  "carried_on x y \<longleftrightarrow> terms y = terms x \<and> (bill_status x \<in> {Paid, WrittenOff} \<longrightarrow> y = x)"

lemma carried_on_trans: "carried_on x y \<Longrightarrow> carried_on y z \<Longrightarrow> carried_on x z"
  by (auto simp: carried_on_def)

lemma book_step_keeps:
  assumes "book_step b b'" "b i = Some x"
  shows "\<exists>y. b' i = Some y \<and> carried_on x y"
  using assms by (cases rule: book_step.cases) (auto simp: carried_on_def terms_def)

lemma book_steps_keep:
  assumes "book_step\<^sup>*\<^sup>* b b'" "b i = Some x"
  shows "\<exists>y. b' i = Some y \<and> carried_on x y"
  using assms
proof (induction rule: rtranclp_induct)
  case base
  then show ?case by (auto simp: carried_on_def)
next
  case (step b1 b2)
  then obtain y where "b1 i = Some y" "carried_on x y" by blast
  with book_step_keeps [OF step.hyps(2)] show ?case by (blast intro: carried_on_trans)
qed

text \<open>Two more facts of the book: new bills start pending, and pending is never left for written off.\<close>

lemma book_steps_new:
  assumes "book_step\<^sup>*\<^sup>* b b'" "b i = None" "b' i = Some y"
  shows "0 < bill_amount y"
  using assms
proof (induction arbitrary: y rule: rtranclp_induct)
  case (step b1 b2)
  show ?case
  proof (cases "b1 i")
    case None
    with step.hyps(2) step.prems(2) show ?thesis by (cases rule: book_step.cases) (auto split: if_splits)
  next
    case (Some z)
    with step.IH step.prems(1) have "0 < bill_amount z" by blast
    with book_step_keeps [OF step.hyps(2) Some] step.prems(2) show ?thesis by (auto simp: carried_on_def terms_def)
  qed
qed simp

section \<open>The book of a database\<close>

definition bill_of :: "billing_record \<Rightarrow> bill" where
  "bill_of r = \<lparr>bill_lease = br_lease_id r, bill_from = period_start r, bill_to = period_end r,
     bill_due = due_date r, bill_amount = amount_due r, bill_status = br_status r\<rparr>"

definition book :: "tables \<Rightarrow> bills" where
  "book t = map_of (map (\<lambda>r. (row_id r, bill_of r)) (billing_records t))"

definition ledger :: "tables \<Rightarrow> tables \<Rightarrow> bool" where
  "ledger t t' \<longleftrightarrow> book_step\<^sup>*\<^sup>* (book t) (book t')"

lemma ledger_same: "billing_records t' = billing_records t \<Longrightarrow> ledger t t'"
  by (simp add: ledger_def book_def)

lemma book_in_ids: "r \<in> set (billing_records t) \<Longrightarrow> distinct (ids (billing_records t)) \<Longrightarrow> book t (row_id r) = Some (bill_of r)"
  by (force simp: book_def ids_def comp_def intro!: map_of_is_SomeI)

lemma book_absent: "i \<notin> set (ids (billing_records t)) \<Longrightarrow> book t i = None"
  by (auto simp: book_def ids_def map_of_eq_None_iff)

lemma ledger_append:
  assumes "billing_records t' = billing_records t @ [r]" "distinct (ids (billing_records t'))"
    and "br_status r = Pending" "0 < amount_due r"
  shows "ledger t t'"
proof -
  have new: "row_id r \<notin> set (ids (billing_records t))" using assms(1,2) by (auto simp: ids_def)
  have "book t' = (book t)(row_id r \<mapsto> bill_of r)"
  proof
    fix i
    show "book t' i = ((book t)(row_id r \<mapsto> bill_of r)) i"
      using book_absent [OF new] by (auto simp: book_def assms(1) map_add_def split: option.split)
  qed
  moreover have "book_step (book t) ((book t)(row_id r \<mapsto> bill_of r))"
    using assms(3,4) book_absent [OF new] by (intro issued) (auto simp: bill_of_def)
  ultimately show ?thesis by (simp add: ledger_def r_into_rtranclp)
qed

text \<open>One record is changed: only its status may move, and only along an event.\<close>

definition event :: "br_status \<Rightarrow> br_status \<Rightarrow> bool" where
  "event x y \<longleftrightarrow> x = y \<or> y = Overdue \<and> x \<in> {Pending, PartiallyPaid} \<or> y = PartiallyPaid \<and> x \<in> {Pending, Overdue} \<or>
     y = Paid \<and> x \<in> {Pending, PartiallyPaid, Overdue} \<or> y = WrittenOff \<and> x \<in> {PartiallyPaid, Overdue}"

lemma event_step:
  assumes "b i = Some x" "event (bill_status x) y"
  shows "book_step\<^sup>*\<^sup>* b (b(i \<mapsto> x\<lparr>bill_status := y\<rparr>))"
proof (cases "y = bill_status x")
  case True
  then have "b(i \<mapsto> x\<lparr>bill_status := y\<rparr>) = b" using assms(1) by (auto intro!: ext)
  then show ?thesis by simp
next
  case False
  with assms(2) have "book_step b (b(i \<mapsto> x\<lparr>bill_status := y\<rparr>))"
    using fell_due [of b i x] part_paid [of b i x] settled [of b i x] given_up [of b i x] assms(1)
    by (auto simp: event_def)
  then show ?thesis by blast
qed

lemma ledger_update:
  assumes "billing_records t' = map_row i (touch n (\<lambda>_. r')) (billing_records t)" "distinct (ids (billing_records t'))"
    and "get_row billing_records_tbl i t = Some r" "row_id r' = i"
    and "bill_of r' = (bill_of r)\<lparr>bill_status := br_status r'\<rparr>" "event (br_status r) (br_status r')"
  shows "ledger t t'"
proof -
  have tr: "bill_of (touch n (\<lambda>_. r') q) = bill_of r'" "row_id (touch n (\<lambda>_. r') q) = i" if "row_id q = i" for q
    using assms(4) that by (simp_all add: touch_def bill_of_def Let_def)
  have "ids (map_row i (touch n (\<lambda>_. r')) qs) = ids qs" for qs using tr(2) by (auto simp: ids_def map_row_def)
  then have d: "distinct (ids (billing_records t))" using assms(1,2) by simp
  from get_row_SomeD [OF assms(3)] have r: "r \<in> set (billing_records t)" "row_id r = i" by simp_all
  have "book t' = (book t)(i \<mapsto> bill_of r')"
  proof
    fix j
    have "map_of (map (\<lambda>q. (row_id q, bill_of q)) (map_row i (touch n (\<lambda>_. r')) qs)) j =
        (if j = i \<and> i \<in> set (ids qs) then Some (bill_of r') else map_of (map (\<lambda>q. (row_id q, bill_of q)) qs) j)" for qs
      using tr by (induction qs) (auto simp: map_row_def ids_def)
    moreover have "i \<in> set (ids (billing_records t))" using r by (auto simp: ids_def)
    ultimately show "book t' j = ((book t)(i \<mapsto> bill_of r')) j" by (simp add: book_def assms(1))
  qed
  moreover have "book t i = Some (bill_of r)" using book_in_ids [OF r(1) d] r(2) by simp
  ultimately show ?thesis
    unfolding ledger_def using event_step [of "book t" i "bill_of r" "br_status r'"] assms(5,6) by (simp add: bill_of_def)
qed

section \<open>Billing follows the book\<close>

lemma moves_atomic:
  assumes "atomic m" "\<And>t. R t t" "\<And>x y z. R x y \<Longrightarrow> R y z \<Longrightarrow> R x z"
    and "\<And>s x s'. m s = (Inr x, s') \<Longrightarrow> schema_ok (working s') \<Longrightarrow> R (working s) (working s')"
  shows "moves R (\<lambda>s. s) m"
  unfolding moves_def
proof (intro allI impI)
  fix s r s'
  assume a: "R (committed s) (working s)" and m: "m s = (r, s')"
  show "leads R (committed s) (committed s') \<and> (\<not> isl r \<longrightarrow> R (committed s') (working s'))"
  proof (cases r)
    case (Inl e)
    with atomic_Inl [OF assms(1)] m assms(2) show ?thesis by (simp add: leads_def)
  next
    case (Inr x)
    with m have m: "m s = (Inr x, s')" by simp
    note c = atomic_Inr [OF assms(1) m]
    from assms(4) [OF m] atomic_schema [OF assms(1) m] c have "R (working s) (working s')" by simp
    with a have "R (committed s) (working s')" by (rule assms(3))
    with c assms(2) atomic_schema [OF assms(1) m] show ?thesis by (simp add: leads_def)
  qed
qed

lemma ledger_refl: "ledger t t" and ledger_trans: "ledger x y \<Longrightarrow> ledger y z \<Longrightarrow> ledger x z"
  by (auto simp: ledger_def)

lemmas ledger_atomic = moves_atomic [of _ ledger, OF _ ledger_refl ledger_trans]

lemma ledger_generate: "moves ledger (\<lambda>s. s) (generate_billing_record l u)"
proof (rule ledger_atomic)
  fix s x s' assume g: "generate_billing_record l u s = (Inr x, s')" and ok: "schema_ok (working s')"
  from generate_Inr [OF g] have p: "br_status (fst x) = Pending"
    and t: "billing_records (working s') = billing_records (working s) @ [fst x]"
    by (auto simp: new_billing_record_def)
  have "0 < amount_due (fst x)" using ok
    by (auto simp: schema_ok_tables billing_records_constraints_def ck_billing_record_def t)
  with p t show "ledger (working s) (working s')"
    using schema_ok_keys(6) [OF ok] by (intro ledger_append)
qed (rule atomic_billing)

lemma flushed_record:
  assumes "billing_context i u s = (Inr (r, l), s)" "flush_record r' s = (Inr r2, s1)" "row_id r' = row_id r"
    and "bill_of r' = (bill_of r)\<lparr>bill_status := br_status r'\<rparr>" "event (br_status r) (br_status r')"
    and "billing_records (working s') = billing_records (working s1)" "schema_ok (working s')"
  shows "ledger (working s) (working s')"
proof -
  have g: "get_row billing_records_tbl i (working s) = Some r" using assms(1) by (simp add: billing_context_Inr)
  then have i: "row_id r' = i" using assms(3) get_row_id by metis
  from assms(2) g i have "working s1 =
      billing_records_update (map_row i (touch (clock s) (\<lambda>_. r'))) (working s)" by (simp add: flush_record_Inr [of _ _ r])
  then show ?thesis
    using assms(4-6) g i schema_ok_keys(6) [OF assms(7)] by (intro ledger_update [of _ i "clock s" r' _ r]) simp_all
qed

lemma ledger_write_off: "moves ledger (\<lambda>s. s) (write_off_billing_record i u)"
proof (rule ledger_atomic)
  fix s x s' assume w: "write_off_billing_record i u s = (Inr x, s')" and ok: "schema_ok (working s')"
  then obtain r l s0 r1 r2 s1 where c: "billing_context i u s = (Inr (r, l), s0)"
    and w: "Inr r1 = transition r WrittenOff" "flush_record r1 s0 = (Inr r2, s1)"
      "billing_records (working s') = billing_records (working s1)"
    by (auto simp: write_off_billing_record_def svc_iffs write_audit_log_iff)
  moreover have "s0 = s" using c by (rule pure_readD [OF pure_read_billing(7)])
  ultimately have "billing_context i u s = (Inr (r, l), s)" "flush_record r1 s = (Inr r2, s1)" by simp_all
  with w ok show "ledger (working s) (working s')"
    by (intro flushed_record [of i u s r l r1 r2 s1 s'])
      (cases "br_status r"; auto simp: transition_def bill_of_def event_def split: if_splits)+
qed (rule atomic_billing)

lemma ledger_correct: "moves ledger (\<lambda>s. s) (correct_late_fee i fc u)"
proof (rule ledger_atomic)
  fix s x s' assume w: "correct_late_fee i fc u s = (Inr x, s')" and ok: "schema_ok (working s')"
  then obtain r l s0 r2 s1 where c: "billing_context i u s = (Inr (r, l), s0)"
    and w: "flush_record (r\<lparr>late_fee_applied := fee_applied fc, late_fee_amount_charged := fee_charged fc\<rparr>) s0 = (Inr r2, s1)"
      "billing_records (working s') = billing_records (working s1)"
    by (fastforce simp: correct_late_fee_def svc_iffs write_audit_log_iff)
  moreover have "s0 = s" using c by (rule pure_readD [OF pure_read_billing(7)])
  ultimately have "billing_context i u s = (Inr (r, l), s)"
    "flush_record (r\<lparr>late_fee_applied := fee_applied fc, late_fee_amount_charged := fee_charged fc\<rparr>) s = (Inr r2, s1)" by simp_all
  with w ok show "ledger (working s) (working s')"
    by (intro flushed_record [of i u s r l
          "r\<lparr>late_fee_applied := fee_applied fc, late_fee_amount_charged := fee_charged fc\<rparr>" r2 s1 s'])
      (auto simp: bill_of_def event_def)
qed (rule atomic_billing)

lemma ledger_evaluate: "moves ledger (\<lambda>s. s) (evaluate_overdue i u d)"
  unfolding moves_def
proof (intro allI impI)
  fix s x s' assume a: "ledger (committed s) (working s)" and e: "evaluate_overdue i u d s = (x, s')"
  show "leads ledger (committed s) (committed s') \<and> (\<not> isl x \<longrightarrow> ledger (committed s') (working s'))"
  proof (cases x)
    case (Inl err)
    with evaluate_Inl e ledger_refl show ?thesis by (auto simp: leads_def)
  next
    case (Inr out)
    with evaluate_Inr [of i u d s out s'] e obtain r l where c: "billing_context i u s = (Inr (r, l), s)"
      and y: "if is_late (eval_date d s) l r
         then billing_records (working s') =
             map_row i (touch (clock s) (\<lambda>_. marked_overdue l r)) (billing_records (working s)) \<and>
           committed s' = working s' \<and> schema_ok (working s')
         else s' = s" by (auto split: if_splits)
    have g: "get_row billing_records_tbl i (working s) = Some r" using c by (simp add: billing_context_Inr)
    show ?thesis
    proof (cases "is_late (eval_date d s) l r")
      case True
      with y have w: "ledger (working s) (working s')"
        using g get_row_id [OF g] schema_ok_keys(6) [of "working s'"]
        by (intro ledger_update [of _ i "clock s" "marked_overdue l r" _ r])
          (auto simp: marked_overdue_def bill_of_def event_def is_late_def)
      with True y a show ?thesis by (auto simp: leads_def intro: ledger_refl ledger_trans)
    next
      case False
      with y a show ?thesis by (auto simp: leads_def intro: ledger_refl)
    qed
  qed
qed

lemma ledger_create_payment: "moves ledger (\<lambda>s. s) (create_payment pc u)"
proof (rule ledger_atomic)
  fix s p s' assume w: "create_payment pc u s = (Inr p, s')" and ok: "schema_ok (working s')"
  from create_payment_Inr [OF w] show "ledger (working s) (working s')"
  proof (cases "pay_c_billing_record_id pc")
    case None
    with create_payment_Inr [OF w] show ?thesis by (simp add: ledger_same)
  next
    case (Some b)
    with create_payment_Inr [OF w] obtain r where g: "get_row billing_records_tbl b (working s) = Some r"
      and m: "billing_records (working s') = map_row b (touch (clock s)
        (\<lambda>_. reconciled r (paid_for b (working s')))) (billing_records (working s))" by auto
    have "bill_of (reconciled r c) = (bill_of r)\<lparr>bill_status := br_status (reconciled r c)\<rparr> \<and>
        event (br_status r) (br_status (reconciled r c))" for c
      by (cases "br_status r") (auto simp: reconciled_def apply_payment_eq bill_of_def event_def)
    with g m get_row_id [OF g] schema_ok_keys(6) [OF ok] show ?thesis
      by (intro ledger_update [of _ b "clock s" "reconciled r (paid_for b (working s'))" _ r]) simp_all
  qed
qed (rule atomic_payments)

interpretation ledger_history: billing_history ledger "\<lambda>_. True"
  by unfold_locales
    (auto simp: user_on_delete_def intro: ledger_refl ledger_trans ledger_same ledger_generate ledger_evaluate
      ledger_write_off ledger_correct ledger_create_payment)

end
