(* ===== verification/Operations.thy ===== *)
theory Operations
  imports Jobs AuthService
begin

text \<open>
  What runs around the application: the scripts that seed the first administrator and the
  scheduler's account (scripts/seed_admin.py, scripts/seed_system_user.py), the manager of
  the Redis client (app/core/redis_client.py) and the set-up of the logging
  (app/core/logging.py). What the scripts print is not modelled; leaving with
  \<open>sys.exit(1)\<close> is the result \<open>SeedFailed\<close>.
\<close>

section \<open>Seeding accounts\<close>

definition get_credentials :: "environ \<Rightarrow> string \<times> string \<times> string \<times> string" where
  "get_credentials env =
     (env_get env ''SEED_USERNAME'' ''admin'', env_get env ''SEED_EMAIL'' ''admin@propnest.com'',
      env_get env ''SEED_FULL_NAME'' ''PropNest Admin'', env_get env ''SEED_PASSWORD'' [])"

text \<open>\<open>_validate\<close>: a missing password and a short one end the script.\<close>

definition accepts_password :: "string \<Rightarrow> bool" where
  "accepts_password password \<longleftrightarrow> password \<noteq> [] \<and> \<not> length password < 8"

text \<open>\<open>scalar_one_or_none()\<close>: more than one row is an error.\<close>

fun one_or_none :: "'a list \<Rightarrow> svc_error + 'a option" where
  "one_or_none [] = Inr None"
| "one_or_none [x] = Inr (Some x)"
| "one_or_none (x # y # zs) = Inl DatabaseError"

definition select_user :: "(user \<Rightarrow> bool) \<Rightarrow> user option svc" where
  "select_user p = bnd (query (\<lambda>t. filter p (users t))) (\<lambda>us. of_result (one_or_none us))"

datatype 'a seeded =
    SeedFailed
  | Skipped user
  | Created 'a

definition seed_account :: "pwd_context \<Rightarrow> string \<Rightarrow> string \<Rightarrow> string \<Rightarrow> string \<Rightarrow> user svc" where
  "seed_account pwd name email full password =
     bnd uuid4 (\<lambda>i.
     bnd (hash_password pwd (Some password)) (\<lambda>h.
     bnd now (\<lambda>n.
     let admin = \<lparr>row_id = i, created_at = n, updated_at = n, username = name, user_email = email,
                  user_full_name = full, password_hash = h, password_changed_at = n, role = ADMIN,
                  user_is_active = True\<rparr>
     in bnd (modify (users_update (\<lambda>us. us @ [admin]))) (\<lambda>_.
        bnd commit (\<lambda>_.
        ret admin)))))"

definition seed_body :: "pwd_context \<Rightarrow> string \<times> string \<times> string \<times> string \<Rightarrow> user seeded svc" where
  "seed_body pwd cred =
     (case cred of (name, email, full, password) \<Rightarrow>
     bnd (select_user (\<lambda>u. username u = name)) (\<lambda>existing_username.
     bnd (select_user (\<lambda>u. user_email u = email)) (\<lambda>existing_email.
     case existing_username of
       Some u \<Rightarrow> ret (Skipped u)
     | None \<Rightarrow>
         (case existing_email of
            Some u \<Rightarrow> ret (Skipped u)
          | None \<Rightarrow> bnd (seed_account pwd name email full password) (\<lambda>u. ret (Created u))))))"

text \<open>The session of a script, and the handler around it.\<close>

definition in_script :: "'a seeded svc \<Rightarrow> 'a seeded svc" where
  "in_script m = fresh_session (try_except m (\<lambda>_. bnd rollback (\<lambda>_. ret SeedFailed)))"

definition seed_admin :: "pwd_context \<Rightarrow> environ \<Rightarrow> user seeded svc" where
  "seed_admin pwd env =
     (let cred = get_credentials env
      in if accepts_password (snd (snd (snd cred))) then in_script (seed_body pwd cred) else ret SeedFailed)"

definition seed_system :: "pwd_context \<Rightarrow> uuid \<Rightarrow> string \<Rightarrow> string \<Rightarrow> (uuid \<Rightarrow> string) \<Rightarrow> user seeded svc" where
  "seed_system pwd system_id name email token =
     in_script (bnd (seed_system_user pwd system_id name email token) (\<lambda>(u, created).
       ret (if created then Created u else Skipped u)))"

lemmas operations_code [code] = fun_cong [OF select_user_def] fun_cong [OF seed_account_def]
  fun_cong [OF seed_body_def] fun_cong [OF in_script_def] fun_cong [OF seed_admin_def] fun_cong [OF seed_system_def]

section \<open>The Redis client\<close>

text \<open>
  The manager creates a client on first use and forgets it when it is closed; \<open>from_url\<close> is the
  constructor of the library, applied to the settings the manager was built with.
\<close>

record ('p, 'c) redis_manager =
  manager_settings :: 'p
  managed_client :: "'c option"

definition RedisClientManager :: "'p \<Rightarrow> ('p, 'c) redis_manager" where
  "RedisClientManager p = \<lparr>manager_settings = p, managed_client = None\<rparr>"

definition get_client :: "('p \<Rightarrow> 'c) \<Rightarrow> ('p, 'c) redis_manager \<Rightarrow> 'c \<times> ('p, 'c) redis_manager" where
  "get_client from_url m =
     (case managed_client m of
        None \<Rightarrow> (let c = from_url (manager_settings m) in (c, m\<lparr>managed_client := Some c\<rparr>))
      | Some c \<Rightarrow> (c, m))"

definition close_client :: "('p, 'c) redis_manager \<Rightarrow> 'c option \<times> ('p, 'c) redis_manager" where
  "close_client m =
     (case managed_client m of None \<Rightarrow> (None, m) | Some c \<Rightarrow> (Some c, m\<lparr>managed_client := None\<rparr>))"

lemma get_client_again: "get_client f m = (c, m') \<Longrightarrow> get_client g m' = (c, m')"
  by (auto simp: get_client_def Let_def split: option.splits)

lemma close_client_again: "close_client m = (c, m') \<Longrightarrow> close_client m' = (None, m')"
  by (auto simp: close_client_def split: option.splits)

section \<open>Logging\<close>

datatype log_level = DEBUG_LEVEL | INFO_LEVEL | WARNING_LEVEL | ERROR_LEVEL | CRITICAL_LEVEL

fun levelno :: "log_level \<Rightarrow> nat" where
  "levelno DEBUG_LEVEL = 10"
| "levelno INFO_LEVEL = 20"
| "levelno WARNING_LEVEL = 30"
| "levelno ERROR_LEVEL = 40"
| "levelno CRITICAL_LEVEL = 50"

datatype log_handler =
    Console log_level
  | Rotating string log_level int int

record logging =
  root_level :: log_level
  root_handlers :: "log_handler list"
  logger_levels :: "string \<Rightarrow> log_level option"

definition LEVEL_MAP :: "string \<Rightarrow> log_level \<times> log_level" where
  "LEVEL_MAP env =
     (if env \<in> {''dev'', ''test'', ''unittest''} then (DEBUG_LEVEL, DEBUG_LEVEL)
      else if env = ''staging'' then (INFO_LEVEL, INFO_LEVEL)
      else if env = ''prod'' then (WARNING_LEVEL, INFO_LEVEL)
      else (INFO_LEVEL, INFO_LEVEL))"

definition min_level :: "log_level \<Rightarrow> log_level \<Rightarrow> log_level" where
  "min_level a b = (if levelno b < levelno a then b else a)"

definition setup_logging :: "string \<Rightarrow> string \<Rightarrow> logging \<Rightarrow> logging" where
  "setup_logging env log_dir l =
     (case LEVEL_MAP env of (console_level, file_level) \<Rightarrow>
        l\<lparr>root_level := min_level console_level file_level,
          root_handlers :=
            [Console console_level, Rotating (log_dir @ ''/propnest.log'') file_level (10 * 1024 * 1024) 5],
          logger_levels := (logger_levels l)
            (''uvicorn.access'' \<mapsto> WARNING_LEVEL,
             ''sqlalchemy.engine'' \<mapsto> (if env \<in> {''dev'', ''unittest''} then INFO_LEVEL else WARNING_LEVEL),
             ''passlib'' \<mapsto> WARNING_LEVEL)\<rparr>)"

fun handler_level :: "log_handler \<Rightarrow> log_level" where
  "handler_level (Console x) = x"
| "handler_level (Rotating path x limit backups) = x"

text \<open>No handler misses a record because of the root level, and setting up twice is setting up once.\<close>

lemma setup_logging_reaches:
  "h \<in> set (root_handlers (setup_logging env d l)) \<Longrightarrow>
     levelno (root_level (setup_logging env d l)) \<le> levelno (handler_level h)"
  by (cases "LEVEL_MAP env") (auto simp: setup_logging_def min_level_def)

lemma setup_logging_again: "setup_logging env d (setup_logging env d l) = setup_logging env d l"
proof (cases "LEVEL_MAP env")
  case (Pair c f)
  have twice: "g(a \<mapsto> x, b \<mapsto> y, k \<mapsto> z, a \<mapsto> x, b \<mapsto> y, k \<mapsto> z) = g(a \<mapsto> x, b \<mapsto> y, k \<mapsto> z)"
    for g :: "string \<Rightarrow> log_level option" and a b k x y z
    by (rule ext) simp
  show ?thesis unfolding setup_logging_def Pair prod.case by (cases l) (simp only: logging.simps twice)
qed

section \<open>Lemmas\<close>

lemma one_or_none_Inr:
  "one_or_none xs = Inr None \<longleftrightarrow> xs = []" "one_or_none xs = Inr (Some x) \<longleftrightarrow> xs = [x]"
  by (cases xs rule: one_or_none.cases; auto)+

lemma select_user_Inr:
  "select_user p s = (Inr r, s') \<longleftrightarrow> s' = s \<and> one_or_none (filter p (users (working s))) = Inr r"
  by (auto simp: select_user_def svc_iffs of_result_def query_def split: sum.splits)

lemma filter_unique:
  assumes "u \<in> set xs" "p u" "\<And>x. x \<in> set xs \<Longrightarrow> p x \<Longrightarrow> x = u" "distinct xs"
  shows "filter p xs = [u]"
proof -
  have one: "distinct ys \<Longrightarrow> set ys = {u} \<Longrightarrow> ys = [u]" for ys
    by (cases ys) (auto simp: subset_singleton_iff)
  have "set (filter p xs) = {u}" using assms(1,2) by (auto dest: assms(3))
  with assms(4) show ?thesis by (intro one distinct_filter)
qed

lemma select_unique: "filter p (users (working s)) = [u] \<Longrightarrow> select_user p s = (Inr (Some u), s)"
  by (simp add: select_user_Inr one_or_none_Inr)

lemma in_script_Inr:
  assumes "in_script m s = (Inr (Created u), s')"
  shows "\<exists>s1. m (s\<lparr>working := committed s\<rparr>) = (Inr (Created u), s1) \<and> s' = s1\<lparr>working := committed s1\<rparr>"
  using assms
  by (auto simp: in_script_def fresh_session_def get_db_Inr try_except_def rollback_def bnd_def ret_def
      split: prod.splits sum.splits)

lemma seed_body_Created:
  assumes "seed_body pwd (name, email, full, password) s = (Inr (Created u), s')"
  shows "username u = name \<and> user_email u = email \<and> user_full_name u = full \<and> role u = ADMIN \<and> user_is_active u \<and>
    (\<exists>salt. password_hash u = pwd_hash pwd salt password) \<and>
    users (working s') = users (working s) @ [u] \<and> committed s' = working s' \<and> schema_ok (working s')"
  using assms
  by (auto simp: seed_body_def svc_iffs select_user_Inr seed_account_def hash_password_def uuid4_def now_def Let_def
      split: option.splits)

lemma schema_ok_users:
  "schema_ok t \<Longrightarrow> distinct (ids (users t)) \<and> distinct (map username (users t)) \<and> distinct (map user_email (users t))"
  by (simp add: schema_ok_tables users_constraints_def)

lemma user_of_name:
  "schema_ok t \<Longrightarrow> u \<in> set (users t) \<Longrightarrow> x \<in> set (users t) \<Longrightarrow> username x = username u \<Longrightarrow> x = u"
  "schema_ok t \<Longrightarrow> u \<in> set (users t) \<Longrightarrow> x \<in> set (users t) \<Longrightarrow> user_email x = user_email u \<Longrightarrow> x = u"
  using schema_ok_users [of t] by (auto simp: distinct_map inj_on_def)

lemma only_user:
  assumes "schema_ok t" "u \<in> set (users t)"
  shows "filter (\<lambda>x. username x = username u) (users t) = [u]" "filter (\<lambda>x. user_email x = user_email u) (users t) = [u]"
proof -
  have d: "distinct (users t)" using schema_ok_users [OF assms(1)] by (simp add: distinct_map)
  show "filter (\<lambda>x. username x = username u) (users t) = [u]"
    by (rule filter_unique [OF assms(2) refl _ d]) (rule user_of_name(1) [OF assms])
  show "filter (\<lambda>x. user_email x = user_email u) (users t) = [u]"
    by (rule filter_unique [OF assms(2) refl _ d]) (rule user_of_name(2) [OF assms])
qed

text \<open>A second run: at most one account has the name, at most one the address.\<close>

lemma one_or_none_distinct:
  "distinct (map f xs) \<Longrightarrow> \<exists>r. one_or_none (filter (\<lambda>x. f x = v) xs) = Inr r \<and> (r = None \<longleftrightarrow> v \<notin> f ` set xs)"
proof (induction xs)
  case (Cons x xs)
  show ?case
  proof (cases "f x = v")
    case True
    with Cons.prems have "v \<notin> f ` set xs" by auto
    then have "filter (\<lambda>x. f x = v) xs = []" by (auto simp: filter_empty_conv)
    with True show ?thesis by simp
  next
    case False
    with Cons show ?thesis by simp
  qed
qed simp

lemma seed_admin_skips:
  assumes "get_credentials env = (name, email, full, password)" "accepts_password password" "schema_ok (committed s)"
    and "x \<in> set (users (committed s))" "username x = name \<or> user_email x = email"
  shows "\<exists>y s'. seed_admin pwd env s = (Inr (Skipped y), s') \<and> committed s' = committed s"
proof -
  let ?s = "s\<lparr>working := committed s\<rparr>"
  from one_or_none_distinct [of username "users (committed s)" name] schema_ok_users [OF assms(3)] obtain a where
    a: "select_user (\<lambda>x. username x = name) ?s = (Inr a, ?s)" "a = None \<longleftrightarrow> name \<notin> username ` set (users (committed s))"
    by (auto simp: select_user_Inr)
  from one_or_none_distinct [of user_email "users (committed s)" email] schema_ok_users [OF assms(3)] obtain b where
    b: "select_user (\<lambda>x. user_email x = email) ?s = (Inr b, ?s)" "b = None \<longleftrightarrow> email \<notin> user_email ` set (users (committed s))"
    by (auto simp: select_user_Inr)
  have "a \<noteq> None \<or> b \<noteq> None" using a(2) b(2) assms(4,5) by auto
  then have "\<exists>y. seed_body pwd (name, email, full, password) ?s = (Inr (Skipped y), ?s)"
    by (auto simp: seed_body_def bnd_def a(1) b(1) ret_def split: option.split)
  then show ?thesis using assms(2)
    by (auto simp: seed_admin_def assms(1) Let_def in_script_def fresh_session_def get_db_def try_except_def)
qed

text \<open>Whom the login finds: names and addresses are lowered and stripped before they are looked up.\<close>

lemma lower_char_at: "CHR ''@'' = lower_char c \<longleftrightarrow> CHR ''@'' = c"
proof (cases "65 \<le> (of_char c :: nat) \<and> (of_char c :: nat) \<le> 90")
  case True
  then have "(of_char (lower_char c) :: nat) = of_char c + 32"
    by (simp add: lower_char_def Let_def of_char_char_of_small)
  moreover have at: "(of_char CHR ''@'' :: nat) = 64" by code_simp
  ultimately have "(of_char (lower_char c) :: nat) \<noteq> of_char CHR ''@''" "(of_char c :: nat) \<noteq> of_char CHR ''@''"
    using True by (simp_all only: at) simp_all
  then show ?thesis by metis
qed (auto simp: lower_char_def Let_def)

lemma at_lower: "CHR ''@'' \<in> set (py_lower s) \<longleftrightarrow> CHR ''@'' \<in> set s"
  by (auto simp: py_lower_def image_iff lower_char_at)

lemma account_iff:
  assumes "schema_ok (working s)"
  shows "account s i = Some u \<longleftrightarrow> i \<noteq> [] \<and> u \<in> set (users (working s)) \<and>
    (if CHR ''@'' \<in> set (py_strip i) then user_email u = normalize_user_email i else username u = normalize_username i)"
proof -
  have found: "first_of (build_query users_tbl (\<lambda>x. f x = v) (working s)) = Some u \<longleftrightarrow> u \<in> set (users (working s)) \<and> f u = v"
    if d: "filter (\<lambda>x. f x = f u) (users (working s)) = [u] \<or> u \<notin> set (users (working s))" for f :: "user \<Rightarrow> string" and v
  proof
    assume "first_of (build_query users_tbl (\<lambda>x. f x = v) (working s)) = Some u"
    from first_of_SomeD [OF this] show "u \<in> set (users (working s)) \<and> f u = v" by simp
  qed (use d in \<open>auto simp: build_query_def\<close>)
  have "filter (\<lambda>x. username x = username u) (users (working s)) = [u] \<or> u \<notin> set (users (working s))"
    "filter (\<lambda>x. user_email x = user_email u) (users (working s)) = [u] \<or> u \<notin> set (users (working s))"
    using only_user [OF assms] by blast+
  note 1 = found [OF this(1)] found [OF this(2)]
  show ?thesis
    by (auto simp: account_def get_by_identifier_def get_by_email_def get_by_username_def repo_first_def query_def
        ret_def Let_def 1 normalize_username_def normalize_user_email_def py_strip_idem)
qed

text \<open>Somebody can be found by some identifier exactly when the name, without an at sign, or the address is normal.\<close>

lemma account_ex:
  assumes "schema_ok (working s)" "u \<in> set (users (working s))"
  shows "(\<exists>i. account s i = Some u) \<longleftrightarrow>
    normalize_username (username u) = username u \<and> CHR ''@'' \<notin> set (username u) \<or>
    normalize_user_email (user_email u) = user_email u \<and> CHR ''@'' \<in> set (user_email u)"
    (is "?l \<longleftrightarrow> ?n \<or> ?e")
proof
  assume ?l
  then obtain i where i: "account s i = Some u" ..
  show "?n \<or> ?e"
  proof (cases "CHR ''@'' \<in> set (py_strip i)")
    case True
    with i have "user_email u = py_lower (py_strip i)" by (simp add: account_iff [OF assms(1)] normalize_user_email_def)
    with True show ?thesis by (simp add: normalize_user_email_def py_strip_lower at_lower)
  next
    case False
    with i have "username u = py_lower (py_strip i)" by (simp add: account_iff [OF assms(1)] normalize_username_def)
    with False show ?thesis by (simp add: normalize_username_def py_strip_lower at_lower)
  qed
next
  assume "?n \<or> ?e"
  then show ?l
  proof
    assume n: ?n
    let ?i = "if username u = [] then '' '' else username u"
    have b: "py_strip '' '' = []" by code_simp
    from n have s: "py_lower (py_strip (username u)) = username u" by (simp add: normalize_username_def)
    then have "CHR ''@'' \<notin> set (py_strip ?i)" using n at_lower [of "py_strip (username u)"] by (simp add: b)
    moreover have "normalize_username ?i = username u" using s by (auto simp: normalize_username_def b py_lower_def)
    ultimately have "account s ?i = Some u" using assms(2) by (simp add: account_iff [OF assms(1)])
    then show ?l ..
  next
    assume e: ?e
    then have s: "py_lower (py_strip (user_email u)) = user_email u" by (simp add: normalize_user_email_def)
    then have "CHR ''@'' \<in> set (py_strip (user_email u))" using e at_lower [of "py_strip (user_email u)"] by simp
    moreover have "user_email u \<noteq> []" using e by auto
    ultimately have "account s (user_email u) = Some u" using e assms(2) by (simp add: account_iff [OF assms(1)])
    then show ?l ..
  qed
qed

section \<open>Properties\<close>

text \<open>
  C35. Seeding the first administrator works once: a run that creates the account leaves an active
  administrator with the given name, address and full name and the given password of at least
  eight characters, and every later run with the same environment, as long as an account with
  that name or that address is there, skips it and changes nothing. But the script stores name
  and address as they are given, while the login lowers and strips what it looks up: the
  password opens the account under some identifier exactly when the name is written without
  capitals, surrounding blanks and an at sign, or the address without capitals and surrounding
  blanks and with one.
\<close>

theorem seeded_admin:
  assumes "seed_admin pwd env s = (Inr (Created u), s')" "verifies_own_hashes pwd"
  shows "users (committed s') = users (committed s) @ [u] \<and> schema_ok (committed s') \<and>
    role u = ADMIN \<and> user_is_active u \<and> username u = env_get env ''SEED_USERNAME'' ''admin'' \<and>
    user_email u = env_get env ''SEED_EMAIL'' ''admin@propnest.com'' \<and>
    user_full_name u = env_get env ''SEED_FULL_NAME'' ''PropNest Admin'' \<and>
    (\<exists>password. env ''SEED_PASSWORD'' = Some password \<and> 8 \<le> length password \<and>
       verify_password pwd password (Some (password_hash u)) \<and>
       ((\<exists>i. opens pwd s' i password u) \<longleftrightarrow>
          normalize_username (username u) = username u \<and> CHR ''@'' \<notin> set (username u) \<or>
          normalize_user_email (user_email u) = user_email u \<and> CHR ''@'' \<in> set (user_email u))) \<and>
    (\<forall>s3 x. schema_ok (committed s3) \<and> x \<in> set (users (committed s3)) \<and>
         (username x = username u \<or> user_email x = user_email u) \<longrightarrow>
       (\<exists>y s4. seed_admin pwd env s3 = (Inr (Skipped y), s4) \<and> committed s4 = committed s3))"
proof -
  obtain name email full password where c: "get_credentials env = (name, email, full, password)"
    by (metis prod_cases4)
  from assms(1) have ok: "accepts_password password" and run: "in_script (seed_body pwd (name, email, full, password)) s = (Inr (Created u), s')"
    by (auto simp: seed_admin_def c Let_def ret_def split: if_splits)
  from in_script_Inr [OF run] obtain s1 where
    b: "seed_body pwd (name, email, full, password) (s\<lparr>working := committed s\<rparr>) = (Inr (Created u), s1)"
    and s': "s' = s1\<lparr>working := committed s1\<rparr>" by blast
  note u = seed_body_Created [OF b]
  have k: "schema_ok (working s')" and us: "users (working s') = users (committed s) @ [u]" using u s' by auto
  have n: "username u = name" "user_email u = email" using u by simp_all
  have env: "name = env_get env ''SEED_USERNAME'' ''admin''" "email = env_get env ''SEED_EMAIL'' ''admin@propnest.com''"
    "full = env_get env ''SEED_FULL_NAME'' ''PropNest Admin''" "password = env_get env ''SEED_PASSWORD'' []"
    using c by (simp_all add: get_credentials_def)
  then have pw: "env ''SEED_PASSWORD'' = Some password" "8 \<le> length password"
    using ok by (auto simp: accepts_password_def env_get_def split: option.splits)
  from u obtain salt where "password_hash u = pwd_hash pwd salt password" by blast
  with assms(2) have v: "verify_password pwd password (Some (password_hash u))"
    by (simp add: verify_password_def verifies_own_hashes_def)
  then have o: "opens pwd s' i password u \<longleftrightarrow> account s' i = Some u" for i using u by (simp add: opens_def)
  have skip: "\<exists>y s4. seed_admin pwd env s3 = (Inr (Skipped y), s4) \<and> committed s4 = committed s3"
    if "schema_ok (committed s3)" "x \<in> set (users (committed s3))" "username x = username u \<or> user_email x = user_email u"
    for s3 x
    by (rule seed_admin_skips [OF c ok that(1,2)]) (use that(3) n in simp)
  have login: "(\<exists>i. opens pwd s' i password u) \<longleftrightarrow>
      normalize_username (username u) = username u \<and> CHR ''@'' \<notin> set (username u) \<or>
      normalize_user_email (user_email u) = user_email u \<and> CHR ''@'' \<in> set (user_email u)"
    unfolding o by (rule account_ex [OF k]) (simp add: us)
  have "committed s' = working s'" using s' by simp
  then show ?thesis
    using u us k n env pw v skip login by (intro conjI allI impI exI [of _ password]) auto
qed

lemma created_run: "(case r of Inr (Created u) \<Rightarrow> True | _ \<Rightarrow> False) \<Longrightarrow> \<exists>u. r = Inr (Created u)"
  by (auto split: sum.splits seeded.splits)

theorem seeded_admin_witness:
  "\<exists>u s'. seed_admin plain_pwd (\<lambda>k. if k = ''SEED_PASSWORD'' then Some ''secret123'' else
       if k = ''SEED_USERNAME'' then Some ''Root'' else if k = ''SEED_EMAIL'' then Some ''Root@x.org'' else None)
       (session_of sample_tables) = (Inr (Created u), s') \<and>
     users (committed s') = users sample_tables @ [u] \<and> (\<forall>i. \<not> opens plain_pwd s' i ''secret123'' u)"
  (is "\<exists>u s'. seed_admin _ ?env ?s = _ \<and> _")
proof -
  have "(case fst (seed_admin plain_pwd ?env ?s) of Inr (Created u) \<Rightarrow> True | _ \<Rightarrow> False)" by code_simp
  from created_run [OF this] obtain u where "fst (seed_admin plain_pwd ?env ?s) = Inr (Created u)" ..
  from run_Inr [of "seed_admin plain_pwd ?env", OF this] obtain s' where
    c: "seed_admin plain_pwd ?env ?s = (Inr (Created u), s')" by blast
  have e: "env_get ?env ''SEED_USERNAME'' ''admin'' = ''Root''"
    "env_get ?env ''SEED_EMAIL'' ''admin@propnest.com'' = ''Root@x.org''" by code_simp+
  have "normalize_username ''Root'' \<noteq> ''Root''" "normalize_user_email ''Root@x.org'' \<noteq> ''Root@x.org''" by code_simp+
  with seeded_admin [OF c verifies_plain_pwd] c show ?thesis unfolding e by auto
qed

end
