(* ===== verification/Server.thy ===== *)
theory Server
  imports Ledger Operations
begin

text \<open>
  The application as a whole: every request that the routers registered in app/main.py accept,
  the session it runs in, and the step relation in which requests, the two billing jobs, the
  start of the worker, the seeding scripts and the passing of time follow one another in any order. Login only reads
  the database and is modelled on its own (AuthService).
\<close>

section \<open>Requests\<close>

datatype account_request =
    Me
  | ListUsers int int
  | GetUser uuid
  | CreateUser user_create
  | UpdateUser uuid user_update
  | DeleteUser uuid

datatype estate_request =
    ListProperties int int
  | GetProperty uuid
  | CreateProperty property_create
  | UpdateProperty uuid property_update
  | DeleteProperty uuid
  | AssignManager uuid uuid

datatype tenant_request =
    ListTenants int int
  | GetTenant uuid
  | CreateTenant tenant_create
  | UpdateTenant uuid tenant_update
  | DeleteTenant uuid
  | LinkTenantUser uuid uuid
  | UnlinkTenantUser uuid

datatype leasing_request =
    ListContracts int int
  | GetContract uuid
  | CreateContract contract_create
  | UpdateContract uuid contract_update
  | DeleteContract uuid
  | ListLeases int int
  | GetLease uuid
  | CreateLease lease_create
  | UpdateLease uuid lease_update
  | DeleteLease uuid

datatype billing_request =
    ListBillingRecords uuid int int
  | GetBillingRecord uuid
  | GenerateBillingRecord uuid
  | EvaluateOverdue uuid "date option"
  | WriteOff uuid
  | CorrectLateFee uuid late_fee_correction

datatype payment_request =
    ListPayments int int
  | GetPayment uuid
  | CreatePayment payment_create
  | UpdatePayment uuid payment_update
  | CorrectPayment uuid payment_correction
  | DeletePayment uuid

datatype receipt_request =
    IssueReceipt uuid
  | ListReceipts uuid
  | GetReceipt uuid
  | DownloadReceipt uuid
  | UploadTemplate string "uuid option" "string upload"
  | ActivateTemplate uuid
  | ListTemplates "uuid option"
  | GetTemplate uuid

datatype collection_request =
    ListCollections int int
  | GetCollection uuid
  | CreateCollection collection_create
  | UpdateCollection uuid collection_update
  | DeleteCollection uuid

datatype document_request =
    ListDocuments int int
  | GetDocument uuid
  | DownloadDocument uuid
  | CreateDocument document_create
  | UploadDocument string string "uuid option" "uuid option" "uuid option" "string upload"
  | ReplaceDocumentFile uuid string string "uuid option" "uuid option" "uuid option" "string upload"
  | UpdateDocument uuid document_relink
  | DeleteDocument uuid

datatype report_request =
    DashboardSummary int int
  | ListAuditLogs "string option" "uuid option" int int
  | PropertyActivity uuid int int

datatype request =
    Accounts account_request
  | Estate estate_request
  | Tenancy tenant_request
  | Letting leasing_request
  | Invoicing billing_request
  | Paying payment_request
  | Receipting receipt_request
  | Collecting collection_request
  | Filing document_request
  | Reports report_request

section \<open>The routers\<close>

text \<open>A reply is given by its route; here only what the request does matters.\<close>

definition replied :: "('s, 'a) prog \<Rightarrow> ('s, unit) prog" where
  "replied m = bnd m (\<lambda>_. ret ())"

fun account_router :: "'w application \<Rightarrow> string \<Rightarrow> account_request \<Rightarrow> unit svc" where
  "account_router app k Me = replied (route_me app k)"
| "account_router app k (ListUsers skip limit) = replied (route_list_users app k skip limit)"
| "account_router app k (GetUser i) = replied (route_get_user app k i)"
| "account_router app k (CreateUser pl) = replied (route_create_user app k pl)"
| "account_router app k (UpdateUser i pl) = replied (route_update_user app k i pl)"
| "account_router app k (DeleteUser i) = replied (route_delete_user app k i)"

fun estate_router :: "'w application \<Rightarrow> string \<Rightarrow> estate_request \<Rightarrow> unit svc" where
  "estate_router app k (ListProperties skip limit) = replied (route_list_properties app k skip limit)"
| "estate_router app k (GetProperty i) = replied (route_get_property app k i)"
| "estate_router app k (CreateProperty pl) = replied (route_create_property app k pl)"
| "estate_router app k (UpdateProperty i pl) = replied (route_update_property app k i pl)"
| "estate_router app k (DeleteProperty i) = replied (route_delete_property app k i)"
| "estate_router app k (AssignManager i m) = replied (route_assign_manager app k i m)"

fun tenant_router :: "'w application \<Rightarrow> string \<Rightarrow> tenant_request \<Rightarrow> unit svc" where
  "tenant_router app k (ListTenants skip limit) = replied (route_list_tenants app k skip limit)"
| "tenant_router app k (GetTenant i) = replied (route_get_tenant app k i)"
| "tenant_router app k (CreateTenant pl) = replied (route_create_tenant app k pl)"
| "tenant_router app k (UpdateTenant i pl) = replied (route_update_tenant app k i pl)"
| "tenant_router app k (DeleteTenant i) = replied (route_delete_tenant app k i)"
| "tenant_router app k (LinkTenantUser i u) = replied (route_link_tenant_user app k i u)"
| "tenant_router app k (UnlinkTenantUser i) = replied (route_unlink_tenant_user app k i)"

fun leasing_router :: "'w application \<Rightarrow> string \<Rightarrow> leasing_request \<Rightarrow> unit svc" where
  "leasing_router app k (ListContracts skip limit) = replied (route_list_contracts app k skip limit)"
| "leasing_router app k (GetContract i) = replied (route_get_contract app k i)"
| "leasing_router app k (CreateContract pl) = replied (route_create_contract app k pl)"
| "leasing_router app k (UpdateContract i pl) = replied (route_update_contract app k i pl)"
| "leasing_router app k (DeleteContract i) = replied (route_delete_contract app k i)"
| "leasing_router app k (ListLeases skip limit) = replied (route_list_leases app k skip limit)"
| "leasing_router app k (GetLease i) = replied (route_get_lease app k i)"
| "leasing_router app k (CreateLease pl) = replied (route_create_lease app k pl)"
| "leasing_router app k (UpdateLease i pl) = replied (route_update_lease app k i pl)"
| "leasing_router app k (DeleteLease i) = replied (route_delete_lease app k i)"

fun billing_router :: "'w application \<Rightarrow> string \<Rightarrow> billing_request \<Rightarrow> unit svc" where
  "billing_router app k (ListBillingRecords l skip limit) = replied (route_list_billing_records app k l skip limit)"
| "billing_router app k (GetBillingRecord i) = replied (route_get_billing_record app k i)"
| "billing_router app k (GenerateBillingRecord l) = replied (route_generate_billing_record app k l)"
| "billing_router app k (EvaluateOverdue i d) = replied (route_evaluate_overdue app k i d)"
| "billing_router app k (WriteOff i) = replied (route_write_off_billing_record app k i)"
| "billing_router app k (CorrectLateFee i pl) = replied (route_correct_late_fee app k i pl)"

fun payment_router :: "'w application \<Rightarrow> string \<Rightarrow> payment_request \<Rightarrow> ('w, unit) stored" where
  "payment_router app k (ListPayments skip limit) = in_db (replied (route_list_payments app k skip limit))"
| "payment_router app k (GetPayment i) = in_db (replied (route_get_payment app k i))"
| "payment_router app k (CreatePayment pl) = replied (route_create_payment app k pl)"
| "payment_router app k (UpdatePayment i pl) = in_db (replied (route_update_payment app k i pl))"
| "payment_router app k (CorrectPayment i pl) = in_db (replied (route_correct_payment app k i pl))"
| "payment_router app k (DeletePayment i) = in_db (replied (route_delete_payment app k i))"

fun receipt_router :: "'w application \<Rightarrow> string \<Rightarrow> receipt_request \<Rightarrow> ('w, unit) stored" where
  "receipt_router app k (IssueReceipt p) = replied (route_issue_receipt app k p)"
| "receipt_router app k (ListReceipts p) = in_db (replied (route_list_receipts app k p))"
| "receipt_router app k (GetReceipt i) = in_db (replied (route_get_receipt app k i))"
| "receipt_router app k (DownloadReceipt i) = replied (route_download_receipt app k i)"
| "receipt_router app k (UploadTemplate n p fo) = replied (route_upload_template app k n p fo)"
| "receipt_router app k (ActivateTemplate i) = in_db (replied (route_activate_template app k i))"
| "receipt_router app k (ListTemplates p) = in_db (replied (route_list_templates app k p))"
| "receipt_router app k (GetTemplate i) = in_db (replied (route_get_template app k i))"

fun collection_router :: "'w application \<Rightarrow> string \<Rightarrow> collection_request \<Rightarrow> unit svc" where
  "collection_router app k (ListCollections skip limit) = replied (route_list_collections app k skip limit)"
| "collection_router app k (GetCollection i) = replied (route_get_collection app k i)"
| "collection_router app k (CreateCollection pl) = replied (route_create_collection app k pl)"
| "collection_router app k (UpdateCollection i pl) = replied (route_update_collection app k i pl)"
| "collection_router app k (DeleteCollection i) = replied (route_delete_collection app k i)"

fun document_router :: "'w application \<Rightarrow> string \<Rightarrow> document_request \<Rightarrow> ('w, unit) stored" where
  "document_router app k (ListDocuments skip limit) = in_db (replied (route_list_documents app k skip limit))"
| "document_router app k (GetDocument i) = in_db (replied (route_get_document app k i))"
| "document_router app k (DownloadDocument i) = replied (route_download_document app k i)"
| "document_router app k (CreateDocument pl) = replied (route_create_document app k pl)"
| "document_router app k (UploadDocument n ft c p t fo) = replied (route_upload_document app k n ft c p t fo)"
| "document_router app k (ReplaceDocumentFile i n ft c p t fo) =
     replied (route_replace_document_file app k i n ft c p t fo)"
| "document_router app k (UpdateDocument i pl) = in_db (replied (route_update_document app k i pl))"
| "document_router app k (DeleteDocument i) = replied (route_delete_document app k i)"

fun report_router :: "'w application \<Rightarrow> string \<Rightarrow> report_request \<Rightarrow> unit svc" where
  "report_router app k (DashboardSummary lookahead limit) = replied (route_dashboard app k lookahead limit)"
| "report_router app k (ListAuditLogs kind i skip limit) = replied (route_list_audit_logs app k kind i skip limit)"
| "report_router app k (PropertyActivity i skip limit) = replied (route_property_activity app k i skip limit)"

fun route :: "'w application \<Rightarrow> string \<Rightarrow> request \<Rightarrow> ('w, unit) stored" where
  "route app k (Accounts q) = in_db (account_router app k q)"
| "route app k (Estate q) = in_db (estate_router app k q)"
| "route app k (Tenancy q) = in_db (tenant_router app k q)"
| "route app k (Letting q) = in_db (leasing_router app k q)"
| "route app k (Invoicing q) = in_db (billing_router app k q)"
| "route app k (Paying q) = payment_router app k q"
| "route app k (Receipting q) = receipt_router app k q"
| "route app k (Collecting q) = in_db (collection_router app k q)"
| "route app k (Filing q) = document_router app k q"
| "route app k (Reports q) = in_db (report_router app k q)"

text \<open>One database session per request: it starts on what is committed and leaves nothing else.\<close>

definition fresh :: "session \<Rightarrow> session" where
  "fresh s = s\<lparr>working := committed s\<rparr>"

fun closing :: "'a result \<times> session \<times> 'w \<Rightarrow> 'a result \<times> session \<times> 'w" where
  "closing (r, s, w) = (r, fresh s, w)"

definition serve :: "'w application \<Rightarrow> string \<Rightarrow> request \<Rightarrow> ('w, unit) stored" where
  "serve app token q sw = closing (route app token q (fresh (fst sw), snd sw))"

section \<open>Histories of requests\<close>

lemma gives_up_answers [history_intros]: "gives_up v (\<lambda>e. raise (g e))"
  by (simp add: gives_up_def)

context billing_history begin

lemma moves_replied [history_intros]:
  "moves R v m \<Longrightarrow> moves R v (replied m)" "moves R v m \<Longrightarrow> moves R v (no_content m)"
  "moves R v m \<Longrightarrow> moves R v (answers g m)" "moves R v m' \<Longrightarrow> moves R v (or_404 d m')"
  unfolding replied_def no_content_def answers_def or_404_def by (intro history_intros; assumption)+

lemma moves_with_body [history_intros]: "moves R (\<lambda>s. s) m \<Longrightarrow> moves R (\<lambda>s. s) (with_body ok m)"
  unfolding with_body_def by (intro history_intros)

lemma moves_dependencies [history_intros]:
  "(\<And>u. moves R (\<lambda>s. s) (h u)) \<Longrightarrow> moves R (\<lambda>s. s) (as_user app k h)"
  "(\<And>u. moves R (\<lambda>s. s) (h u)) \<Longrightarrow> moves R (\<lambda>s. s) (as_manager app k h)"
  "(\<And>u. moves R (\<lambda>s. s) (h u)) \<Longrightarrow> moves R (\<lambda>s. s) (as_admin app k h)"
  "(\<And>u. moves R fst (g u)) \<Longrightarrow> moves R fst (as_storing_manager app k g)"
  unfolding as_user_def as_manager_def as_admin_def as_storing_manager_def
  by (rule moves_bnd, (rule moves_in_db)?, rule moves_pure, rule atomic_intros, assumption)+

lemma moves_accounts: "(\<And>i. q = DeleteUser i \<Longrightarrow> gone i) \<Longrightarrow> moves R (\<lambda>s. s) (account_router app k q)"
  by (cases q; simp add: route_me_def route_list_users_def route_get_user_def route_create_user_def
      route_update_user_def route_delete_user_def)
    ((rule history_intros | assumption | rule moves_pure, rule atomic_intros)+)

lemma moves_estate [history_intros]: "moves R (\<lambda>s. s) (estate_router app k q)"
  by (cases q; simp add: route_list_properties_def route_get_property_def route_create_property_def
      route_update_property_def route_delete_property_def route_assign_manager_def)
    ((rule history_intros | rule moves_pure, rule atomic_intros)+)

lemma moves_tenancy [history_intros]: "moves R (\<lambda>s. s) (tenant_router app k q)"
  by (cases q; simp add: route_list_tenants_def route_get_tenant_def route_create_tenant_def
      route_update_tenant_def route_delete_tenant_def route_link_tenant_user_def route_unlink_tenant_user_def)
    ((rule history_intros | rule moves_pure, rule atomic_intros)+)

lemma moves_letting [history_intros]: "moves R (\<lambda>s. s) (leasing_router app k q)"
  by (cases q; simp add: route_list_contracts_def route_get_contract_def route_create_contract_def
      route_update_contract_def route_delete_contract_def route_list_leases_def route_get_lease_def
      route_create_lease_def route_update_lease_def route_delete_lease_def)
    ((rule history_intros | rule moves_pure, rule atomic_intros)+)

lemma moves_invoicing [history_intros]: "moves R (\<lambda>s. s) (billing_router app k q)"
  by (cases q; simp add: route_list_billing_records_def route_get_billing_record_def route_generate_billing_record_def
      route_evaluate_overdue_def route_write_off_billing_record_def route_correct_late_fee_def)
    ((rule history_intros | rule moves_pure, rule atomic_intros)+)

lemma moves_collecting [history_intros]: "moves R (\<lambda>s. s) (collection_router app k q)"
  by (cases q; simp add: route_list_collections_def route_get_collection_def route_create_collection_def
      route_update_collection_def route_delete_collection_def)
    ((rule history_intros | rule moves_pure, rule atomic_intros)+)

lemma moves_reports [history_intros]: "moves R (\<lambda>s. s) (report_router app k q)"
  by (cases q; simp add: route_dashboard_def route_list_audit_logs_def route_property_activity_def)
    ((rule history_intros | rule moves_pure, rule atomic_intros)+)

lemma moves_receipting [history_intros]: "moves R fst (receipt_router app k q)"
  by (cases q; simp add: route_issue_receipt_def route_list_receipts_def route_get_receipt_def route_download_receipt_def
      route_upload_template_def route_activate_template_def route_list_templates_def route_get_template_def)
    ((rule history_intros | rule moves_pure, rule atomic_intros)+)

lemma moves_filing [history_intros]: "moves R fst (document_router app k q)"
  by (cases q; simp add: route_list_documents_def route_get_document_def route_download_document_def
      route_create_document_def route_upload_document_def route_replace_document_file_def route_update_document_def
      route_delete_document_def)
    ((rule history_intros | rule moves_pure, rule atomic_intros)+)

text \<open>Recording a payment swallows a failure of the receipt, and nothing follows it.\<close>

lemma ends_issue: "ends R fst (issue_automatically app p u)"
  unfolding issue_automatically_def by (intro ends_try ends_of_moves history_intros)

lemma ends_paying: "ends R fst (payment_router app k q)"
proof (cases q)
  case (CreatePayment pl)
  have "ends R fst (route_create_payment app k pl)"
    unfolding route_create_payment_def as_storing_manager_def
    by (intro ends_bnd ends_bnd_still [OF ends_issue] still_ret)
      ((rule history_intros | rule moves_pure, rule atomic_intros)+)
  then show ?thesis
    unfolding CreatePayment payment_router.simps replied_def by (rule ends_bnd_still) (rule still_ret)
qed (simp add: route_list_payments_def route_get_payment_def route_update_payment_def route_correct_payment_def
      route_delete_payment_def; rule ends_of_moves;
    (rule history_intros | rule moves_pure, rule atomic_intros)+)+

lemma ends_route:
  assumes "\<And>i. q = Accounts (DeleteUser i) \<Longrightarrow> gone i"
  shows "ends R fst (route app k q)"
proof (cases q)
  case (Accounts p)
  with assms show ?thesis by (simp add: ends_of_moves moves_in_db moves_accounts)
next
  case (Paying p)
  then show ?thesis using ends_paying by simp
qed (simp; rule ends_of_moves; (rule history_intros)+)+

lemma serve_leads:
  assumes "serve app k q (s, w) = (r, s', w')" "\<And>i. q = Accounts (DeleteUser i) \<Longrightarrow> gone i"
  shows "leads R (committed s) (committed s')"
proof -
  obtain r1 s1 w1 where m: "route app k q (fresh s, w) = (r1, s1, w1)" by (metis prod_cases3)
  with assms(1) have "s' = fresh s1" by (simp add: serve_def)
  moreover have "R (committed (fst (fresh s, w))) (working (fst (fresh s, w)))" by (simp add: fresh_def refl)
  with ends_route [where q = q and app = app and k = k] assms(2) m have "leads R (committed (fresh s)) (committed s1)" unfolding ends_def by fastforce
  ultimately show ?thesis by (simp add: fresh_def)
qed

text \<open>The worker: every lease and every record has a session of its own.\<close>

lemma moves_worker_startup: "moves R (\<lambda>s. s) (worker_startup pwd i name email tok)"
  unfolding worker_startup_def fresh_session_def seed_system_user_def hash_password_def
  by (simp only: Let_def, (rule history_intros ends_of_moves moves_modify free_tables | rule moves_pure, rule atomic_intros)+)

lemma ends_generate_step:
  "ends R (\<lambda>s. s) (try_except (bnd (generate_billing_record l u) (\<lambda>_. ret x)) (\<lambda>e. if c e then ret y else raise e))"
  by (rule ends_try) (rule history_intros ends_of_moves | simp add: still_ret)+

lemma moves_generate_each: "moves R (\<lambda>s. s) (generate_each u c ls)"
  by (induction ls arbitrary: c)
    (auto simp: generate_step_def fresh_session_def intro!: moves_bnd moves_get_db ends_generate_step moves_simple)

lemma moves_today: "moves R (\<lambda>s. s) date_today"
  by (rule moves_still) (simp add: still_def date_today_def)

lemma moves_evaluate_each: "moves R (\<lambda>s. s) (evaluate_each u n rs)"
  by (induction rs arbitrary: n)
    (auto simp: evaluate_step_def fresh_session_def
      intro!: moves_bnd moves_get_db ends_of_moves moves_billing moves_simple moves_today)

lemma moves_jobs: "moves R (\<lambda>s. s) (generate_due_billing_records u)" "moves R (\<lambda>s. s) (evaluate_overdue_billing_records u)"
  unfolding generate_due_billing_records_def evaluate_overdue_billing_records_def fresh_session_def
    get_active_leases_def get_unpaid_with_grace_def repo_all_def
  by ((rule moves_bnd moves_get_db ends_of_moves moves_generate_each moves_evaluate_each moves_simple)+)

text \<open>The seeding scripts swallow every error, after a rollback.\<close>

lemma moves_in_script: "ends R (\<lambda>s. s) m \<Longrightarrow> moves R (\<lambda>s. s) (in_script m)"
  unfolding in_script_def fresh_session_def
  by (intro moves_get_db ends_recover) (auto simp: bnd_def rollback_def ret_def)

lemma moves_seed_admin: "moves R (\<lambda>s. s) (seed_admin pwd env)"
proof -
  have "pure_read (select_user p)" for p by (auto simp: pure_read_def select_user_def query_def of_result_def bnd_def)
  then have "moves R (\<lambda>s. s) (seed_body pwd c)" for c
    unfolding seed_body_def seed_account_def hash_password_def Let_def
    by (cases c) (simp, (rule history_intros moves_modify free_tables | rule moves_pure, assumption)+)
  then show ?thesis unfolding seed_admin_def Let_def by (simp add: moves_in_script ends_of_moves moves_simple)
qed

lemma moves_seed_system_user: "moves R (\<lambda>s. s) (seed_system_user pwd i name email tok)"
  unfolding seed_system_user_def hash_password_def
  by (simp only: Let_def, (rule history_intros moves_modify free_tables)+)

lemma moves_seed_system: "moves R (\<lambda>s. s) (seed_system pwd i name email tok)"
  unfolding seed_system_def
  by (intro moves_in_script ends_of_moves moves_bnd moves_seed_system_user) (simp split: prod.split add: moves_simple)

lemma fresh_leads:
  assumes "moves R (\<lambda>s. s) m" "m (fresh s) = (r, s')"
  shows "leads R (committed s) (committed s')"
  using movesD [OF assms(1) _ assms(2)] by (simp add: fresh_def refl)

end

section \<open>The running system\<close>

inductive system_step :: "'w application \<Rightarrow> session \<times> 'w \<Rightarrow> session \<times> 'w \<Rightarrow> bool" for app where
  request: "serve app token q (s, w) = (r, s', w') \<Longrightarrow> system_step app (s, w) (s', w')"
| worker: "worker_startup (pwd_lib app) i name email tok (fresh s) = (r, s') \<Longrightarrow> system_step app (s, w) (s', w)"
| billing_run: "generate_due_billing_records system_user (fresh s) = (r, s') \<Longrightarrow> system_step app (s, w) (s', w)"
| evaluation_run: "evaluate_overdue_billing_records system_user (fresh s) = (r, s') \<Longrightarrow> system_step app (s, w) (s', w)"
| seeding: "seed_admin (pwd_lib app) env (fresh s) = (r, s') \<Longrightarrow> system_step app (s, w) (s', w)"
| system_seeding: "seed_system (pwd_lib app) i name email tok (fresh s) = (r, s') \<Longrightarrow> system_step app (s, w) (s', w)"
| outside: "system_step app (s, w) (s\<lparr>clock := n, local_today := d\<rparr>, w')"

text \<open>The step in which a request removes an account: every other request to delete one changes nothing.\<close>

definition account_removed :: "'w application \<Rightarrow> uuid \<Rightarrow> session \<times> 'w \<Rightarrow> session \<times> 'w \<Rightarrow> bool" where
  "account_removed app i x y \<longleftrightarrow>
     (\<exists>token r. serve app token (Accounts (DeleteUser i)) x = (r, y)) \<and>
     i \<in> set (ids (users (committed (fst x)))) \<and> i \<notin> set (ids (users (committed (fst y))))"

lemma deletion_request:
  assumes "serve app k (Accounts (DeleteUser i)) (s, w) = (r, s', w')"
  shows "committed s' = committed s \<or> account_removed app i (s, w) (s', w')"
proof -
  obtain r1 s1 where m: "route_delete_user app k i (fresh s) = (r1, s1)" by fastforce
  then obtain r2 where "route app k (Accounts (DeleteUser i)) (fresh s, w) = (r2, s1, w)"
    by (cases r1) (simp_all add: replied_def bnd_def ret_def)
  with assms have "closing (r2, s1, w) = (r, s', w')" by (simp only: serve_def fst_conv snd_conv)
  then have c: "committed s' = committed s1" by (auto simp: fresh_def)
  show ?thesis
  proof (cases "\<exists>u x s2. delete_user i u (fresh s) = (Inr x, s2) \<and> s1 = s2")
    case True
    then obtain u x where d: "delete_user i u (fresh s) = (Inr x, s1)" by blast
    note 1 = delete_user_Inr [OF d]
    then have "row_id x = i" "x \<in> set (users (committed s))"
      using get_row_SomeD [of users_tbl i "committed s" x] by (simp_all add: fresh_def)
    then have "i \<in> set (ids (users (committed s)))" by (auto simp: ids_def)
    moreover from 1 have "i \<notin> set (ids (users (committed s1)))"
      by (auto simp: user_on_delete_def ids_def)
    ultimately show ?thesis using assms c by (auto simp: account_removed_def)
  next
    case False
    have "committed s1 = committed s"
    proof (cases "require_admin (conf app) (jwt app) k (fresh s)")
      case (Pair q s2)
      have "pure_read (require_admin (conf app) (jwt app) k)" by (rule atomic_intros)
      with Pair have s2: "s2 = fresh s" by (simp add: pure_readD)
      show ?thesis
      proof (cases q)
        case (Inl e)
        with m Pair s2 show ?thesis by (auto simp: route_delete_user_def as_admin_def bnd_def fresh_def)
      next
        case (Inr u)
        obtain q' s3 where d: "delete_user i u (fresh s) = (q', s3)" by fastforce
        with m Pair s2 Inr have "s1 = s3"
          by (auto simp: route_delete_user_def as_admin_def no_content_def answers_def try_except_def bnd_def
              ret_def raise_def split: sum.splits)
        with False d obtain e where "q' = Inl e" by (cases q') auto
        with d \<open>s1 = s3\<close> atomic_Inl [of "delete_user i u"] show ?thesis
          by (auto simp: atomic_user_service fresh_def)
      qed
    qed
    with c show ?thesis by simp
  qed
qed

context billing_history begin

lemma step_leads:
  assumes "system_step app x y" "\<And>i. account_removed app i x y \<Longrightarrow> gone i"
  shows "leads R (committed (fst x)) (committed (fst y))"
  using assms(1)
proof cases
  case (request k q s w r s' w')
  show ?thesis
  proof (cases "\<exists>i. q = Accounts (DeleteUser i) \<and> \<not> gone i")
    case True
    then obtain i where i: "q = Accounts (DeleteUser i)" "\<not> gone i" by blast
    from deletion_request [of app k i s w r s' w'] request i assms(2) show ?thesis by auto
  next
    case False
    with request serve_leads [of app k q s w r s' w'] show ?thesis by auto
  qed
next
  case (worker i name email tok s r s' w)
  then show ?thesis using fresh_leads [OF moves_worker_startup] by simp
next
  case (billing_run u s r s' w)
  then show ?thesis using fresh_leads [OF moves_jobs(1)] by simp
next
  case (evaluation_run u s r s' w)
  then show ?thesis using fresh_leads [OF moves_jobs(2)] by simp
next
  case (seeding env s r s' w)
  then show ?thesis using fresh_leads [OF moves_seed_admin] by simp
next
  case (system_seeding i name email tok s r s' w)
  then show ?thesis using fresh_leads [OF moves_seed_system] by simp
qed simp

text \<open>The accounts removed along a history: those with a step of their own in it.\<close>

lemma steps_lead:
  assumes "(system_step app)\<^sup>*\<^sup>* x y"
    and "\<And>i x1 y1. (system_step app)\<^sup>*\<^sup>* x x1 \<Longrightarrow> account_removed app i x1 y1 \<Longrightarrow> (system_step app)\<^sup>*\<^sup>* y1 y \<Longrightarrow> gone i"
  shows "leads R (committed (fst x)) (committed (fst y))"
  using assms
proof (induction rule: rtranclp_induct)
  case (step y z)
  have "leads R (committed (fst x)) (committed (fst y))"
    using step.hyps(2) step.prems by (intro step.IH) (meson rtranclp.rtrancl_into_rtrancl)
  moreover have "leads R (committed (fst y)) (committed (fst z))"
    using step.hyps step.prems by (intro step_leads) (assumption, blast)
  ultimately show ?case by (rule leads_trans)
qed simp

end

section \<open>Relations that every history respects\<close>

text \<open>Nothing in particular: what is committed then still satisfies every constraint.\<close>

interpretation any_history: indifferent_history "\<lambda>_ _. True" "\<lambda>_. True"
  by unfold_locales simp_all

text \<open>
  Receipts are only added. Audit entries are only added too, and an entry stays as it is, or
  its actor, whose account is deleted, is blanked.
\<close>

definition kept_entry :: "(uuid \<Rightarrow> bool) \<Rightarrow> audit_log \<Rightarrow> audit_log \<Rightarrow> bool" where
  "kept_entry gone a b \<longleftrightarrow> b = a \<or> b = a\<lparr>actor_id := None\<rparr> \<and> (\<exists>i. actor_id a = Some i \<and> gone i)"

definition only_adds :: "(uuid \<Rightarrow> bool) \<Rightarrow> tables \<Rightarrow> tables \<Rightarrow> bool" where
  "only_adds gone t t' \<longleftrightarrow>
     (\<exists>rs. receipts t' = receipts t @ rs) \<and>
     (\<exists>kept new. audit_logs t' = kept @ new \<and> list_all2 (kept_entry gone) (audit_logs t) kept)"

lemma kept_entry_refl [simp]: "kept_entry gone a a"
  by (simp add: kept_entry_def)

lemma kept_entry_trans: "kept_entry gone a b \<Longrightarrow> kept_entry gone b c \<Longrightarrow> kept_entry gone a c"
  by (auto simp: kept_entry_def)

lemma only_adds_same:
  assumes "receipts t' = receipts t" "audit_logs t' = audit_logs t @ new"
  shows "only_adds gone t t'"
  using assms unfolding only_adds_def
  by (intro conjI exI [of _ "[]"] exI [of _ "audit_logs t"] exI [of _ new]) (simp_all add: list_all2_refl)

lemma only_adds_issued: "only_adds gone t (receipts_update (\<lambda>rs. rs @ [r]) t)"
  unfolding only_adds_def
  by (intro conjI exI [of _ "[r]"] exI [of _ "audit_logs t"] exI [of _ "[]"]) (simp_all add: list_all2_refl)

lemma only_adds_trans:
  assumes "only_adds gone x y" "only_adds gone y z"
  shows "only_adds gone x z"
proof -
  from assms(1) obtain k1 n1 where 1: "audit_logs y = k1 @ n1" "list_all2 (kept_entry gone) (audit_logs x) k1"
    by (auto simp: only_adds_def)
  from assms(2) obtain k2 n2 where 2: "audit_logs z = k2 @ n2" "list_all2 (kept_entry gone) (audit_logs y) k2"
    by (auto simp: only_adds_def)
  from 1(1) 2(2) obtain k m where k: "k2 = k @ m" "list_all2 (kept_entry gone) k1 k"
    by (auto simp: list_all2_append1)
  have "list_all2 (kept_entry gone) (audit_logs x) k"
    by (rule list_all2_trans [OF kept_entry_trans 1(2) k(2)])
  with 2(1) k(1) assms show ?thesis by (auto simp: only_adds_def)
qed

lemma only_adds_deletion:
  assumes "gone i"
  shows "only_adds gone t (user_on_delete i t)"
proof -
  let ?f = "\<lambda>a. if actor_id a = Some i then a\<lparr>actor_id := None\<rparr> else a"
  have "list_all2 (kept_entry gone) as (map ?f as)" for as
    by (induction as) (use assms in \<open>auto simp: kept_entry_def\<close>)
  then show ?thesis by (auto simp: only_adds_def user_on_delete_def)
qed

interpretation additions_history: indifferent_history "only_adds gone" gone for gone
proof unfold_locales
  fix x y z :: tables
  show "only_adds gone x y \<Longrightarrow> only_adds gone y z \<Longrightarrow> only_adds gone x z" by (rule only_adds_trans)
qed (auto simp: only_adds_same only_adds_deletion only_adds_issued)

end
