(* ===== verification/Guarantees.thy ===== *)
theory Guarantees
  imports Server
begin

text \<open>
  What holds of the application as a whole: whatever requests arrive in whatever order, between
  runs of the jobs. The relations proved of every service (History, Ledger, Server) are put
  together here; access control is stated for the table of all requests.
\<close>

section \<open>Who may send a request\<close>

fun clearance :: "request \<Rightarrow> user_role set" where
  "clearance (Accounts Me) = UNIV"
| "clearance (Accounts (GetUser i)) = UNIV"
| "clearance (Accounts (UpdateUser i pl)) = UNIV"
| "clearance (Accounts _) = {ADMIN}"
| "clearance (Estate (ListProperties skip limit)) = {ADMIN, MANAGER}"
| "clearance (Estate (GetProperty i)) = {ADMIN, MANAGER}"
| "clearance (Estate _) = {ADMIN}"
| "clearance (Reports (ListAuditLogs kind i skip limit)) = {ADMIN}"
| "clearance _ = {ADMIN, MANAGER}"

definition refusal :: "user_role set \<Rightarrow> svc_error" where
  "refusal rs = HTTPException 403 (if MANAGER \<in> rs then ''Manager access required'' else ''Admin access required'')"

text \<open>A program that answers a caller it does not let in at once, and changes nothing.\<close>

definition guarded :: "('s \<Rightarrow> session) \<Rightarrow> 'w application \<Rightarrow> string \<Rightarrow> user_role set \<Rightarrow> ('s, 'a) prog \<Rightarrow> bool" where
  "guarded v app k rs m \<longleftrightarrow> (\<forall>s. case fst (get_current_user (conf app) (jwt app) k (v s)) of
     Inl e \<Rightarrow> m s = (Inl e, s)
   | Inr u \<Rightarrow> role u \<in> rs \<or> m s = (Inl (refusal rs), s))"

named_theorems guard_intros

lemma current_user_runs: "get_current_user cfg lib k s = (fst (get_current_user cfg lib k s), s)"
proof -
  have "pure_read (get_current_user cfg lib k)" by (rule atomic_intros)
  then show ?thesis by (metis prod.collapse pure_read_def)
qed

lemma bnd_current_user:
  "bnd (get_current_user cfg lib k) f s =
     (case fst (get_current_user cfg lib k s) of Inl e \<Rightarrow> (Inl e, s) | Inr u \<Rightarrow> f u s)"
  using current_user_runs [of cfg lib k s] by (cases "fst (get_current_user cfg lib k s)") (simp_all add: bnd_def)

lemma guarded_dependencies:
  "guarded (\<lambda>s. s) app k UNIV (get_current_user (conf app) (jwt app) k)"
  "guarded (\<lambda>s. s) app k {ADMIN, MANAGER} (require_manager_or_above (conf app) (jwt app) k)"
  "guarded (\<lambda>s. s) app k {ADMIN} (require_admin (conf app) (jwt app) k)"
  unfolding guarded_def require_admin_def require_manager_or_above_def refusal_def bnd_current_user
  by (subst current_user_runs, simp split: sum.split) (simp_all add: bnd_raise_if raise_def split: sum.split)

lemma guarded_bnd: "guarded v app k rs m \<Longrightarrow> guarded v app k rs (bnd m f)"
  unfolding guarded_def bnd_def by (fastforce split: sum.splits)

lemma guarded_in_db [guard_intros]: "guarded (\<lambda>s. s) app k rs m \<Longrightarrow> guarded fst app k rs (in_db m)"
  unfolding guarded_def in_db_def by (fastforce split: sum.splits)

lemma guarded_as [guard_intros]:
  "guarded (\<lambda>s. s) app k UNIV (as_user app k h)"
  "guarded (\<lambda>s. s) app k {ADMIN, MANAGER} (as_manager app k h)"
  "guarded (\<lambda>s. s) app k {ADMIN} (as_admin app k h)"
  "guarded fst app k {ADMIN, MANAGER} (as_storing_manager app k g)"
  unfolding as_user_def as_manager_def as_admin_def as_storing_manager_def
  by (intro guarded_bnd guarded_in_db guarded_dependencies)+

lemma guarded_replied [guard_intros]: "guarded v app k rs m \<Longrightarrow> guarded v app k rs (replied m)"
  unfolding replied_def by (rule guarded_bnd)

lemmas guarded_routes = route_me_def route_list_users_def route_get_user_def route_create_user_def
  route_update_user_def route_delete_user_def route_list_properties_def route_get_property_def
  route_create_property_def route_update_property_def route_delete_property_def route_assign_manager_def
  route_list_tenants_def route_get_tenant_def route_create_tenant_def route_update_tenant_def
  route_delete_tenant_def route_link_tenant_user_def route_unlink_tenant_user_def
  route_list_contracts_def route_get_contract_def route_create_contract_def route_update_contract_def
  route_delete_contract_def route_list_leases_def route_get_lease_def route_create_lease_def
  route_update_lease_def route_delete_lease_def route_list_billing_records_def route_get_billing_record_def
  route_generate_billing_record_def route_evaluate_overdue_def route_write_off_billing_record_def
  route_correct_late_fee_def route_list_payments_def route_get_payment_def route_create_payment_def
  route_update_payment_def route_correct_payment_def route_delete_payment_def route_issue_receipt_def
  route_list_receipts_def route_get_receipt_def route_download_receipt_def route_upload_template_def
  route_activate_template_def route_list_templates_def route_get_template_def route_list_collections_def
  route_get_collection_def route_create_collection_def route_update_collection_def route_delete_collection_def
  route_list_documents_def route_get_document_def route_download_document_def route_create_document_def
  route_upload_document_def route_replace_document_file_def route_update_document_def route_delete_document_def
  route_dashboard_def route_list_audit_logs_def route_property_activity_def

lemma guarded_accounts: "guarded fst app k (clearance (Accounts q)) (route app k (Accounts q))"
  by (cases q) (simp_all add: guarded_routes guard_intros)

lemma guarded_estate: "guarded fst app k (clearance (Estate q)) (route app k (Estate q))"
  by (cases q) (simp_all add: guarded_routes guard_intros)

lemma guarded_reports: "guarded fst app k (clearance (Reports q)) (route app k (Reports q))"
  by (cases q) (simp_all add: guarded_routes guard_intros)

lemma guarded_lettings:
  "guarded fst app k {ADMIN, MANAGER} (in_db (tenant_router app k q1))"
  "guarded fst app k {ADMIN, MANAGER} (in_db (leasing_router app k q2))"
  "guarded fst app k {ADMIN, MANAGER} (in_db (billing_router app k q3))"
  "guarded fst app k {ADMIN, MANAGER} (in_db (collection_router app k q4))"
  subgoal by (cases q1) (simp_all add: guarded_routes guard_intros)
  subgoal by (cases q2) (simp_all add: guarded_routes guard_intros)
  subgoal by (cases q3) (simp_all add: guarded_routes guard_intros)
  subgoal by (cases q4) (simp_all add: guarded_routes guard_intros)
  done

lemma guarded_stores:
  "guarded fst app k {ADMIN, MANAGER} (payment_router app k q1)"
  "guarded fst app k {ADMIN, MANAGER} (receipt_router app k q2)"
  "guarded fst app k {ADMIN, MANAGER} (document_router app k q3)"
  subgoal by (cases q1) (simp_all add: guarded_routes guard_intros)
  subgoal by (cases q2) (simp_all add: guarded_routes guard_intros)
  subgoal by (cases q3) (simp_all add: guarded_routes guard_intros)
  done

lemma guarded_route: "guarded fst app k (clearance q) (route app k q)"
  by (cases q) (use guarded_accounts guarded_estate guarded_reports guarded_lettings guarded_stores in auto)

text \<open>
  C3. Access control is complete: a request whose token identifies nobody is answered with the
  error of the token check, and one from an account without the role its route requires with
  403, whatever the request is; in both cases nothing has been changed in the database or in
  the storage, and no identifier or number has been drawn.
\<close>

theorem no_request_passes_unauthorized:
  "case fst (get_current_user (conf app) (jwt app) token (fresh s)) of
     Inl e \<Rightarrow> serve app token q (s, w) = (Inl e, fresh s, w)
   | Inr u \<Rightarrow> role u \<in> clearance q \<or> serve app token q (s, w) = (Inl (refusal (clearance q)), fresh s, w)"
proof -
  have "fresh (fresh s) = fresh s" by (simp add: fresh_def)
  with guarded_route [of app token q] show ?thesis
    unfolding guarded_def serve_def by (fastforce dest: spec [of _ "(fresh s, w)"] split: sum.splits)
qed

section \<open>Every history of the system\<close>

text \<open>An application to try the properties out: its libraries do the least they are allowed to.\<close>

definition sample_app :: "objects application" where
  "sample_app = \<lparr>conf = BaseConfig, pwd_lib = plain_pwd, jwt = unary_jwt, storage = mem_store,
     engine = plain_engine, default_template = ''<p></p>''\<rparr>"

definition after_evaluation :: session where
  "after_evaluation = snd (evaluate_overdue_billing_records ann (fresh (session_of sample_tables)))"

lemma sample_run: "(system_step sample_app)\<^sup>*\<^sup>* (session_of sample_tables, w) (after_evaluation, w)"
  unfolding after_evaluation_def
  by (rule r_into_rtranclp) (rule evaluation_run [OF prod.collapse [symmetric]])

text \<open>
  C5. The records of what happened only grow: over any history the receipts of the beginning
  are still there, unchanged and in their order. So are the entries of the audit log, followed
  by new ones: each of them is what it was, or its actor is blanked and nothing else, and then
  the history has a step in which a request removed the account of that actor.
\<close>

theorem receipts_and_audit_log_only_grow:
  assumes "(system_step app)\<^sup>*\<^sup>* x y"
  shows "(\<exists>new. receipts (committed (fst y)) = receipts (committed (fst x)) @ new) \<and>
    (\<exists>kept new. audit_logs (committed (fst y)) = kept @ new \<and>
      list_all2 (\<lambda>a b. b = a \<or> b = a\<lparr>actor_id := None\<rparr> \<and>
          (\<exists>i x1 y1. actor_id a = Some i \<and>
             (system_step app)\<^sup>*\<^sup>* x x1 \<and> account_removed app i x1 y1 \<and> (system_step app)\<^sup>*\<^sup>* y1 y))
        (audit_logs (committed (fst x))) kept)"
proof -
  let ?gone = "\<lambda>i. \<exists>x1 y1. (system_step app)\<^sup>*\<^sup>* x x1 \<and> account_removed app i x1 y1 \<and> (system_step app)\<^sup>*\<^sup>* y1 y"
  have "leads (only_adds ?gone) (committed (fst x)) (committed (fst y))"
    by (rule additions_history.steps_lead [OF assms]) blast
  then show ?thesis by (simp add: leads_def only_adds_def kept_entry_def [abs_def])
qed

theorem receipts_and_audit_log_only_grow_witness:
  "\<exists>kept new. audit_logs (committed after_evaluation) = kept @ new \<and> length kept = length (audit_logs sample_tables)"
proof -
  note grown = conjunct2 [OF receipts_and_audit_log_only_grow [OF sample_run [of "\<lambda>_. None"]], unfolded fst_conv session_of_simps(1)]
  from grown obtain kept new where 1: "audit_logs (committed after_evaluation) = kept @ new"
    and 2: "list_all2 (\<lambda>a b. b = a \<or> b = a\<lparr>actor_id := None\<rparr> \<and> (\<exists>i x1 y1. actor_id a = Some i \<and>
        (system_step sample_app)\<^sup>*\<^sup>* (session_of sample_tables, \<lambda>_. None) x1 \<and> account_removed sample_app i x1 y1 \<and>
        (system_step sample_app)\<^sup>*\<^sup>* y1 (after_evaluation, \<lambda>_. None))) (audit_logs sample_tables) kept"
    by (elim exE conjE)
  from 1 list_all2_lengthD [OF 2] show ?thesis by (intro exI [of _ kept] exI [of _ new]) simp
qed

text \<open>
  C1. The application refines the book of bills: whatever is done to the billing records over
  any history, read as a book it is a sequence of the five events - a bill is issued, falls
  due, is paid in part, is settled, is given up.
\<close>

theorem application_refines_book:
  assumes "(system_step app)\<^sup>*\<^sup>* x y"
  shows "book_step\<^sup>*\<^sup>* (book (committed (fst x))) (book (committed (fst y)))"
  using ledger_history.steps_lead [OF assms] by (simp add: leads_def ledger_def)

theorem application_refines_book_witness:
  "book_step\<^sup>*\<^sup>* (book sample_tables) (book (committed after_evaluation)) \<and>
   map_option bill_status (book sample_tables 50) = Some Pending \<and>
   map_option bill_status (book (committed after_evaluation) 50) = Some Overdue"
proof -
  have "map_option bill_status (book sample_tables 50) = Some Pending"
    "map_option bill_status (book (committed after_evaluation) 50) = Some Overdue" by code_simp+
  with application_refines_book [OF sample_run] show ?thesis by simp
qed

text \<open>
  C2. No bill is lost, rewritten or reopened: over any history a billing record keeps its lease,
  its period, its due date and its amount, and once it is paid or written off it stays exactly
  that; a record that was not there at the beginning is for a positive amount.
\<close>

theorem bills_carry_on:
  assumes "(system_step app)\<^sup>*\<^sup>* x y"
  shows "case book (committed (fst x)) i of
      Some b \<Rightarrow> (\<exists>b'. book (committed (fst y)) i = Some b' \<and> carried_on b b')
    | None \<Rightarrow> (\<forall>b'. book (committed (fst y)) i = Some b' \<longrightarrow> 0 < bill_amount b')"
proof -
  have "book_step\<^sup>*\<^sup>* (book (committed (fst x))) (book (committed (fst y)))"
    using ledger_history.steps_lead [OF assms] by (simp add: leads_def ledger_def)
  then show ?thesis by (auto dest: book_steps_keep book_steps_new split: option.split)
qed

theorem bills_carry_on_witness:
  "\<exists>b b'. book sample_tables 50 = Some b \<and> book (committed after_evaluation) 50 = Some b' \<and> carried_on b b'"
proof -
  have "book sample_tables 50 \<noteq> None" by code_simp
  with bills_carry_on [OF sample_run, where i = 50] show ?thesis by auto
qed

section \<open>A payment and its automatic receipt\<close>

text \<open>Issuing a receipt leaves payments and billing records alone, however it ends.\<close>

definition same_payments :: "tables \<Rightarrow> tables \<Rightarrow> bool" where
  "same_payments t t' \<longleftrightarrow> payments t' = payments t \<and> billing_records t' = billing_records t"

interpretation payments_order: commit_order same_payments
  by unfold_locales (auto simp: same_payments_def)

lemma receipt_tables_kept:
  "tolerates same_payments documents_tbl" "tolerates same_payments receipts_tbl"
  "moves same_payments (\<lambda>s. s) (write_audit_log u a k i)"
  by (auto simp: tolerates_def same_payments_def intro!: payments_order.moves_entry)

lemma issue_receipt_keeps: "moves same_payments fst (issue_receipt cfg cl eng dflt i u)"
  unfolding issue_receipt_def store_receipt_pdf_def insert_receipt_def resolve_active_template_html_def
    create_document_def store_document_def insert_document_def Let_def
  by ((rule receipt_tables_kept history_intros | rule payments_order.moves_pure, rule atomic_intros)+)

lemma issue_automatically_runs: "\<exists>s' w'. issue_automatically app p u (s, w) = (Inr (), s', w')"
  unfolding issue_automatically_def try_except_def ret_def
  by (cases "no_content (issue_receipt (conf app) (storage app) (engine app) (default_template app) (row_id p) u) (s, w)")
    (auto split: sum.split prod.split)

lemma issue_automatically_keeps: "ends same_payments fst (issue_automatically app p u)"
  unfolding issue_automatically_def no_content_def
  by (intro payments_order.ends_try ends_of_moves payments_order.moves_bnd
      payments_order.moves_simple issue_receipt_keeps still_ret)

text \<open>
  C6. Recording a payment does not depend on its receipt: once the service has recorded a valid
  payment of an authorized caller, the route answers with that payment, whatever the template,
  the engines and the storage do to the automatic receipt, and the committed payments and
  billing records are exactly those the service left.
\<close>

theorem payment_survives_failed_receipt:
  assumes "require_manager_or_above (conf app) (jwt app) token s = (Inr u, s)"
    and "validate_payment_create payload = Inr valid" "create_payment valid u s = (Inr p, s1)"
  shows "\<exists>s' w'. route_create_payment app token payload (s, w) = (Inr p, s', w') \<and>
    payments (committed s') = payments (working s) @ [p] \<and>
    billing_records (committed s') = billing_records (working s1)"
proof -
  note c = atomic_Inr [OF atomic_payments(1) assms(3)]
  obtain s' w' where i: "issue_automatically app p u (s1, w) = (Inr (), s', w')"
    using issue_automatically_runs [of app p u s1 w] by blast
  have "same_payments (committed s1) (working s1)" using c by (simp add: same_payments_def)
  with issue_automatically_keeps [of app p u] i have "same_payments (committed s1) (committed s')"
    unfolding ends_def leads_def by fastforce
  moreover have "route_create_payment app token payload (s, w) = (Inr p, s', w')"
    unfolding route_create_payment_def as_storing_manager_def
    using assms i by (simp add: bnd_def in_db_def of_result_def ret_def)
  ultimately show ?thesis using create_payment_Inr [OF assms(3)] c by (auto simp: same_payments_def)
qed

text \<open>An engine that renders nothing.\<close>

theorem payment_survives_failed_receipt_witness:
  "\<exists>p s w. route_create_payment (sample_app\<lparr>engine := \<lambda>html c. Inl ReceiptCreationError\<rparr>)
       (issue_token BaseConfig unary_jwt 1000 mgr)
       \<lparr>pay_c_contract_id = 30, pay_c_billing_record_id = Some 50, pay_c_amount = 100000, pay_c_paid_at = 1,
        pay_c_method = Some ''cash'', pay_c_status = PAID, pay_c_reference = None\<rparr>
       (session_of sample_tables, \<lambda>_. None) = (Inr p, s, w) \<and> payments (committed s) = [p]"
  (is "\<exists>p s w. route_create_payment ?app ?k ?pl (?s, _) = _ \<and> _")
proof -
  have v: "get_row users_tbl (row_id mgr) (working ?s) = Some mgr" by code_simp
  have "get_current_user BaseConfig unary_jwt ?k ?s = (Inr mgr, ?s)"
    using current_user_of_token [OF unary_jwt_roundtrip, of mgr ?s 1000 BaseConfig] v
    by (simp add: mgr_def sample_user_def timestamp_def BaseConfig_def)
  then have m: "require_manager_or_above (conf ?app) (jwt ?app) ?k ?s = (Inr mgr, ?s)"
    by (simp add: require_manager_or_above_def sample_app_def bnd_def raise_if_def ret_def) (simp add: mgr_def sample_user_def)
  have b: "validate_payment_create ?pl = Inr (?pl\<lparr>pay_c_method := Some ''cash''\<rparr>)" by code_simp
  have "\<not> isl (fst (create_payment (?pl\<lparr>pay_c_method := Some ''cash''\<rparr>) mgr ?s))" by code_simp
  then obtain p s1 where c: "create_payment (?pl\<lparr>pay_c_method := Some ''cash''\<rparr>) mgr ?s = (Inr p, s1)"
    by (blast dest: run_ok)
  have e: "payments (working ?s) = []" by code_simp
  obtain s w where "route_create_payment ?app ?k ?pl (?s, \<lambda>_. None) = (Inr p, s, w)"
    and "payments (committed s) = payments (working ?s) @ [p]"
    using payment_survives_failed_receipt [OF m b c, of "\<lambda>_. None"] by blast
  with e show ?thesis by (intro exI conjI) (assumption, simp)
qed

end
