(* ===== verification/Responses.thy ===== *)
theory Responses
  imports Guarantees
begin

text \<open>
  The replies: the response models of app/*/schemas, which the framework fills from the rows
  the services return and validates again, and the login route, which returns a token. A
  reply whose values the model rejects is an internal error; email addresses are checked by
  a library, which is a parameter.
\<close>

section \<open>Response models\<close>

record user_reply =
  ur_id :: uuid
  ur_username :: string
  ur_email :: string
  ur_full_name :: string
  ur_role :: user_role
  ur_is_active :: bool
  ur_created_at :: instant
  ur_updated_at :: instant

definition user_response :: "(string \<Rightarrow> bool) \<Rightarrow> user \<Rightarrow> user_reply option" where
  "user_response email_ok u =
     (if email_ok (user_email u)
      then Some \<lparr>ur_id = row_id u, ur_username = username u, ur_email = user_email u, ur_full_name = user_full_name u,
             ur_role = role u, ur_is_active = user_is_active u, ur_created_at = created_at u, ur_updated_at = updated_at u\<rparr>
      else None)"

record token_reply =
  access_token :: string
  token_type :: string

record property_reply =
  pr_id :: uuid
  pr_name :: string
  pr_address :: string
  pr_description :: "string option"
  pr_status :: property_status
  pr_is_active :: bool
  pr_manager_id :: "uuid option"
  pr_created_at :: instant
  pr_updated_at :: instant

definition property_response :: "property \<Rightarrow> property_reply option" where
  "property_response p =
     Some \<lparr>pr_id = row_id p, pr_name = prop_name p, pr_address = prop_address p, pr_description = prop_description p,
       pr_status = prop_status p, pr_is_active = prop_is_active p, pr_manager_id = manager_id p,
       pr_created_at = created_at p, pr_updated_at = updated_at p\<rparr>"

record tenant_reply =
  nr_id :: uuid
  nr_full_name :: string
  nr_email :: string
  nr_phone_number :: string
  nr_date_of_birth :: date
  nr_current_address :: string
  nr_occupation :: "string option"
  nr_notes :: "string option"
  nr_is_active :: bool
  nr_user_id :: "uuid option"
  nr_created_at :: instant
  nr_updated_at :: instant

definition tenant_response :: "(string \<Rightarrow> bool) \<Rightarrow> tenant \<Rightarrow> tenant_reply option" where
  "tenant_response email_ok n =
     (if email_ok (tenant_email n)
      then Some \<lparr>nr_id = row_id n, nr_full_name = tenant_full_name n, nr_email = tenant_email n,
             nr_phone_number = phone_number n, nr_date_of_birth = date_of_birth n,
             nr_current_address = current_address n, nr_occupation = occupation n, nr_notes = tenant_notes n,
             nr_is_active = tenant_is_active n, nr_user_id = tenant_user_id n, nr_created_at = created_at n,
             nr_updated_at = updated_at n\<rparr>
      else None)"

record contract_reply =
  cr_id :: uuid
  cr_property_id :: uuid
  cr_tenant_id :: uuid
  cr_rental_type :: rental_type
  cr_start :: date
  cr_end :: "date option"
  cr_rent :: money
  cr_deposit :: "money option"
  cr_booking_source :: string
  cr_status :: contract_status
  cr_created_at :: instant
  cr_updated_at :: instant

definition contract_response :: "contract \<Rightarrow> contract_reply option" where
  "contract_response c =
     (if 0 < rent_amount c \<and> opt_pos (deposit c)
      then Some \<lparr>cr_id = row_id c, cr_property_id = contract_property_id c, cr_tenant_id = contract_tenant_id c,
             cr_rental_type = contract_rental_type c, cr_start = contract_start c, cr_end = contract_end c,
             cr_rent = rent_amount c, cr_deposit = deposit c, cr_booking_source = booking_source c,
             cr_status = contract_status c, cr_created_at = created_at c, cr_updated_at = updated_at c\<rparr>
      else None)"

record lease_reply =
  lr_id :: uuid
  lr_contract_id :: uuid
  lr_monthly_rent :: money
  lr_due_day :: int
  lr_billing_cycle :: billing_cycle
  lr_security_deposit :: "money option"
  lr_advance_payment :: "money option"
  lr_late_fee_amount :: "money option"
  lr_late_fee_percent :: "int option"
  lr_grace_period_days :: int
  lr_renewal_option :: renewal_option
  lr_status :: lease_status
  lr_start :: date
  lr_end :: "date option"
  lr_created_at :: instant
  lr_updated_at :: instant

definition lease_response :: "lease \<Rightarrow> lease_reply option" where
  "lease_response l =
     (if 0 < monthly_rent l \<and> 1 \<le> due_day l \<and> due_day l \<le> 31 \<and> opt_pos (security_deposit l) \<and>
        opt_pos (advance_payment l) \<and> opt_pos (late_fee_amount l) \<and>
        (case late_fee_percent l of None \<Rightarrow> True | Some p \<Rightarrow> 0 < p \<and> p \<le> 10000) \<and> 0 \<le> grace_period_days l
      then Some \<lparr>lr_id = row_id l, lr_contract_id = lease_contract_id l, lr_monthly_rent = monthly_rent l,
             lr_due_day = due_day l, lr_billing_cycle = billing_cycle l, lr_security_deposit = security_deposit l,
             lr_advance_payment = advance_payment l, lr_late_fee_amount = late_fee_amount l,
             lr_late_fee_percent = late_fee_percent l, lr_grace_period_days = grace_period_days l,
             lr_renewal_option = renewal_option l, lr_status = lease_status l, lr_start = lease_start l,
             lr_end = lease_end l, lr_created_at = created_at l, lr_updated_at = updated_at l\<rparr>
      else None)"

record billing_record_reply =
  br_id :: uuid
  br_lease :: uuid
  br_start :: date
  br_end :: date
  br_due :: date
  br_amount :: money
  br_fee_applied :: bool
  br_fee :: "money option"
  br_state :: br_status
  br_overpaid :: "money option"
  br_remaining :: money
  br_created_at :: instant
  br_updated_at :: instant

definition billing_record_response :: "billed \<Rightarrow> billing_record_reply option" where
  "billing_record_response = (\<lambda>(r, left).
     if 0 < amount_due r \<and> opt_pos (late_fee_amount_charged r)
     then Some \<lparr>br_id = row_id r, br_lease = br_lease_id r, br_start = period_start r, br_end = period_end r,
            br_due = due_date r, br_amount = amount_due r, br_fee_applied = late_fee_applied r,
            br_fee = late_fee_amount_charged r, br_state = br_status r, br_overpaid = overpaid_amount r,
            br_remaining = left, br_created_at = created_at r, br_updated_at = updated_at r\<rparr>
     else None)"

record payment_reply =
  yr_id :: uuid
  yr_contract_id :: uuid
  yr_billing_record_id :: "uuid option"
  yr_amount :: money
  yr_paid_at :: instant
  yr_method :: "string option"
  yr_status :: payment_status
  yr_reference :: "string option"
  yr_corrects :: "uuid option"
  yr_created_at :: instant
  yr_updated_at :: instant

definition payment_response :: "payment \<Rightarrow> payment_reply option" where
  "payment_response p =
     (if 0 < pay_amount p
      then Some \<lparr>yr_id = row_id p, yr_contract_id = pay_contract_id p, yr_billing_record_id = billing_record_id p,
             yr_amount = pay_amount p, yr_paid_at = paid_at p, yr_method = payment_method p, yr_status = pay_status p,
             yr_reference = reference_number p, yr_corrects = corrects_payment_id p, yr_created_at = created_at p,
             yr_updated_at = updated_at p\<rparr>
      else None)"

record document_reply =
  dr_id :: uuid
  dr_file_name :: string
  dr_file_type :: string
  dr_file_url :: string
  dr_contract_id :: "uuid option"
  dr_property_id :: "uuid option"
  dr_tenant_id :: "uuid option"
  dr_collection_id :: "uuid option"
  dr_created_at :: instant
  dr_updated_at :: instant

definition document_response :: "document \<Rightarrow> document_reply option" where
  "document_response d =
     Some \<lparr>dr_id = row_id d, dr_file_name = file_name d, dr_file_type = file_type d, dr_file_url = file_url d,
       dr_contract_id = doc_contract_id d, dr_property_id = doc_property_id d, dr_tenant_id = doc_tenant_id d,
       dr_collection_id = doc_collection_id d, dr_created_at = created_at d, dr_updated_at = updated_at d\<rparr>"

record collection_reply =
  kr_id :: uuid
  kr_name :: string
  kr_description :: "string option"
  kr_property_id :: uuid
  kr_contract_id :: "uuid option"
  kr_created_at :: instant
  kr_updated_at :: instant

definition collection_response :: "collection \<Rightarrow> collection_reply option" where
  "collection_response k =
     Some \<lparr>kr_id = row_id k, kr_name = coll_name k, kr_description = coll_description k,
       kr_property_id = coll_property_id k, kr_contract_id = coll_contract_id k, kr_created_at = created_at k,
       kr_updated_at = updated_at k\<rparr>"

record receipt_reply =
  rr_id :: uuid
  rr_number :: nat
  rr_payment_id :: uuid
  rr_document_id :: uuid
  rr_created_at :: instant
  rr_updated_at :: instant

definition receipt_response :: "receipt \<Rightarrow> receipt_reply option" where
  "receipt_response r =
     Some \<lparr>rr_id = row_id r, rr_number = receipt_number r, rr_payment_id = rcpt_payment_id r,
       rr_document_id = rcpt_document_id r, rr_created_at = created_at r, rr_updated_at = updated_at r\<rparr>"

text \<open>The key of the stored file is not in the reply, the storage reference is.\<close>

record template_reply =
  tr_id :: uuid
  tr_name :: string
  tr_property_id :: "uuid option"
  tr_file_url :: string
  tr_is_active :: bool
  tr_created_at :: instant
  tr_updated_at :: instant

definition template_response :: "receipt_template \<Rightarrow> template_reply option" where
  "template_response t =
     Some \<lparr>tr_id = row_id t, tr_name = tmpl_name t, tr_property_id = tmpl_property_id t, tr_file_url = tmpl_file_url t,
       tr_is_active = tmpl_is_active t, tr_created_at = created_at t, tr_updated_at = updated_at t\<rparr>"

record audit_log_reply =
  ar_id :: uuid
  ar_actor_id :: "uuid option"
  ar_action :: audit_action
  ar_entity_type :: string
  ar_entity_id :: uuid
  ar_diff :: "(string \<times> string) list option"
  ar_created_at :: instant

definition audit_log_response :: "audit_log \<Rightarrow> audit_log_reply option" where
  "audit_log_response a =
     Some \<lparr>ar_id = row_id a, ar_actor_id = actor_id a, ar_action = action a, ar_entity_type = entity_type a,
       ar_entity_id = entity_id a, ar_diff = diff a, ar_created_at = created_at a\<rparr>"

section \<open>Serialising\<close>

text \<open>A page of replies, a single one, and the encoder of instants.\<close>

fun all_some :: "'a option list \<Rightarrow> 'a list option" where
  "all_some [] = Some []"
| "all_some (None # xs) = None"
| "all_some (Some x # xs) = map_option ((#) x) (all_some xs)"

definition paginated_response :: "('r \<Rightarrow> 'a option) \<Rightarrow> 'r paginated \<Rightarrow> 'a paginated option" where
  "paginated_response ser pg = map_option (\<lambda>xs. \<lparr>items = xs, total = total pg\<rparr>) (all_some (map ser (items pg)))"

definition replying :: "('r \<Rightarrow> 'a option) \<Rightarrow> ('s, 'r) prog \<Rightarrow> ('s, 'a) prog" where
  "replying ser m = bnd m (\<lambda>x. case ser x of None \<Rightarrow> raise TypeError | Some y \<Rightarrow> ret y)"

definition encode_datetime :: "instant \<Rightarrow> string" where
  "encode_datetime n = date_iso (day_of n) @ '' '' @ time_iso (second_of n)"

text \<open>The dashboard: a figure, or a list of replies.\<close>

record dashboard_reply =
  collected_total :: money
  outstanding_total :: money
  credits_total :: money
  late_list :: "billing_record_reply list"
  vacant_total :: nat
  expiring_list :: "lease_reply list"
  recent_list :: "payment_reply list"

definition dashboard_response :: "dashboard_summary \<Rightarrow> dashboard_reply option" where
  "dashboard_response d =
     (case (all_some (map billing_record_response (late d)), all_some (map lease_response (expiring_soon d)),
        all_some (map payment_response (recent d))) of
        (Some bs, Some ls, Some ps) \<Rightarrow>
          Some \<lparr>collected_total = sum_collected_this_month d, outstanding_total = sum_owed d,
            credits_total = sum_credit d, late_list = bs, vacant_total = vacant d, expiring_list = ls, recent_list = ps\<rparr>
      | _ \<Rightarrow> None)"

text \<open>The login route.\<close>

definition route_login ::
  "'w application \<Rightarrow> 'r redis \<Rightarrow> session \<Rightarrow> string \<Rightarrow> string \<Rightarrow> string option \<Rightarrow> ('r, token_reply) prog" where
  "route_login app cl s identifier password client_ip =
     bnd (answers login_route_error (login (conf app) (pwd_lib app) (jwt app) cl s identifier password client_ip)) (\<lambda>t.
     ret \<lparr>access_token = t, token_type = ''bearer''\<rparr>)"

section \<open>Lemmas\<close>

lemma all_some_iff: "all_some xs \<noteq> None \<longleftrightarrow> None \<notin> set xs"
  by (induction xs rule: all_some.induct) auto

lemma paginated_accepted:
  "list_all (\<lambda>r. ser r \<noteq> None) (items pg) \<Longrightarrow> \<exists>q. paginated_response ser pg = Some q \<and> total q = total pg"
  using all_some_iff [of "map ser (items pg)"] by (auto simp: paginated_response_def list_all_iff)

text \<open>Nothing in a reply depends on the password of an account.\<close>

lemma user_response_hides:
  "user_response email_ok (u\<lparr>password_hash := h, password_changed_at := n\<rparr>) = user_response email_ok u"
  by (simp add: user_response_def)

lemma rows_accepted:
  assumes "schema_ok t"
  shows "list_all (\<lambda>c. contract_response c \<noteq> None) (contracts t)" "list_all (\<lambda>l. lease_response l \<noteq> None) (leases t)"
    "list_all (\<lambda>r. billing_record_response (r, left) \<noteq> None) (billing_records t)"
  using assms
  by (auto simp: schema_ok_tables contracts_constraints_def leases_constraints_def billing_records_constraints_def
      ck_contract_def ck_lease_def ck_billing_record_def contract_response_def lease_response_def
      billing_record_response_def list_all_iff)

section \<open>Properties\<close>

text \<open>
  C36. No stored row is ever refused by its own reply: the response models validate again what
  the requests validated once, but over any history from a well-formed database every
  contract, lease and billing record that is committed passes, whatever its remaining balance,
  so that reading it never ends in an internal error. (For payments no constraint of the
  database says that the amount is positive; that rests on the validators of the requests.)
\<close>

theorem replies_never_rejected:
  assumes "(system_step app)\<^sup>*\<^sup>* x y" "schema_ok (committed (fst x))"
  shows "list_all (\<lambda>c. contract_response c \<noteq> None) (contracts (committed (fst y))) \<and>
    list_all (\<lambda>l. lease_response l \<noteq> None) (leases (committed (fst y))) \<and>
    list_all (\<lambda>r. billing_record_response (r, left) \<noteq> None) (billing_records (committed (fst y)))"
proof -
  have "schema_ok (committed (fst y))"
    using any_history.steps_lead [OF assms(1)] assms(2) by (auto simp: leads_def)
  then show ?thesis by (intro conjI rows_accepted)
qed

theorem replies_never_rejected_witness:
  "list_all (\<lambda>r. billing_record_response (r, 0) \<noteq> None) (billing_records (committed after_evaluation)) \<and>
   length (billing_records (committed after_evaluation)) = 1"
proof -
  have "length (billing_records (committed after_evaluation)) = 1" by code_simp
  with replies_never_rejected [OF sample_run, where left = 0] schema_ok_sample show ?thesis by simp
qed

end
