(* ===== verification/Wiring.thy ===== *)
theory Wiring
  imports PropertyService TenantService Leasing
begin

text \<open>
  How the services get their repositories: the attributes of ResourceAuthorizationMixin
  (app/core/services/base.py), the constructors of the services and the functions
  \<open>get_..._service\<close> of app/core/dependencies.py. A service may be built without a repository,
  and then its lookups raise a \<open>RuntimeError\<close>, as do the two methods of the services that test
  an attribute themselves. The checks of theory Authorization and the services take every
  repository for granted; here they are written down over the attributes of a service, and
  the services that the application builds are compared with them.
\<close>

section \<open>Services and their attributes\<close>

text \<open>The repositories are created once, at the end of their modules.\<close>

datatype repository =
    UserRepo
  | PropertyRepo
  | TenantRepo
  | ContractRepo
  | LeaseRepo
  | BillingRecordRepo
  | PaymentRepo
  | DocumentRepo
  | CollectionRepo

record service =
  self_property_repo :: "repository option"
  self_contract_repo :: "repository option"
  self_tenant_repo :: "repository option"
  self_document_repo :: "repository option"
  self_collection_repo :: "repository option"
  self_user_repo :: "repository option"
  self_lease_repo :: "repository option"
  self_billing_record_repo :: "repository option"
  self_payment_repo :: "repository option"

text \<open>The class attributes of the mixin.\<close>

definition ResourceAuthorizationMixin :: service where
  "ResourceAuthorizationMixin =
     \<lparr>self_property_repo = None, self_contract_repo = None, self_tenant_repo = None, self_document_repo = None,
      self_collection_repo = None, self_user_repo = None, self_lease_repo = None, self_billing_record_repo = None,
      self_payment_repo = None\<rparr>"

text \<open>The constructors.\<close>

definition PropertyService_init :: "repository \<Rightarrow> repository option \<Rightarrow> service" where
  "PropertyService_init property_rp user_rp =
     ResourceAuthorizationMixin\<lparr>self_property_repo := Some property_rp, self_user_repo := user_rp\<rparr>"

definition TenantService_init :: "repository \<Rightarrow> repository option \<Rightarrow> service" where
  "TenantService_init tenant_rp user_rp =
     ResourceAuthorizationMixin\<lparr>self_tenant_repo := Some tenant_rp, self_user_repo := user_rp\<rparr>"

definition ContractService_init :: "repository \<Rightarrow> repository option \<Rightarrow> repository option \<Rightarrow> service" where
  "ContractService_init contract_rp property_rp tenant_rp =
     ResourceAuthorizationMixin\<lparr>self_contract_repo := Some contract_rp, self_property_repo := property_rp,
       self_tenant_repo := tenant_rp\<rparr>"

definition LeaseService_init :: "repository \<Rightarrow> repository option \<Rightarrow> repository option \<Rightarrow> service" where
  "LeaseService_init lease_rp contract_rp property_rp =
     ResourceAuthorizationMixin\<lparr>self_lease_repo := Some lease_rp, self_contract_repo := contract_rp,
       self_property_repo := property_rp\<rparr>"

definition LeaseBillingService_init ::
  "repository \<Rightarrow> repository \<Rightarrow> repository option \<Rightarrow> repository option \<Rightarrow> repository option \<Rightarrow> service" where
  "LeaseBillingService_init record_rp lease_rp contract_rp property_rp payment_rp =
     ResourceAuthorizationMixin\<lparr>self_billing_record_repo := Some record_rp, self_lease_repo := Some lease_rp,
       self_contract_repo := contract_rp, self_property_repo := property_rp, self_payment_repo := payment_rp\<rparr>"

definition PaymentService_init ::
  "repository \<Rightarrow> repository option \<Rightarrow> repository option \<Rightarrow> repository option \<Rightarrow> repository option \<Rightarrow> service" where
  "PaymentService_init payment_rp contract_rp property_rp record_rp lease_rp =
     ResourceAuthorizationMixin\<lparr>self_payment_repo := Some payment_rp, self_contract_repo := contract_rp,
       self_property_repo := property_rp, self_billing_record_repo := record_rp, self_lease_repo := lease_rp\<rparr>"

definition DocumentService_init ::
  "repository \<Rightarrow> repository option \<Rightarrow> repository option \<Rightarrow> repository option \<Rightarrow> repository option \<Rightarrow> service" where
  "DocumentService_init document_rp property_rp contract_rp tenant_rp collection_rp =
     ResourceAuthorizationMixin\<lparr>self_document_repo := Some document_rp, self_property_repo := property_rp,
       self_contract_repo := contract_rp, self_tenant_repo := tenant_rp, self_collection_repo := collection_rp\<rparr>"

definition CollectionService_init :: "repository \<Rightarrow> repository option \<Rightarrow> repository option \<Rightarrow> service" where
  "CollectionService_init collection_rp property_rp contract_rp =
     ResourceAuthorizationMixin\<lparr>self_collection_repo := Some collection_rp, self_property_repo := property_rp,
       self_contract_repo := contract_rp\<rparr>"

definition ReceiptTemplateService_init :: "repository option \<Rightarrow> service" where
  "ReceiptTemplateService_init property_rp = ResourceAuthorizationMixin\<lparr>self_property_repo := property_rp\<rparr>"

definition ReceiptService_init ::
  "repository \<Rightarrow> repository option \<Rightarrow> repository option \<Rightarrow> repository option \<Rightarrow> repository option \<Rightarrow>
     repository option \<Rightarrow> service" where
  "ReceiptService_init payment_rp contract_rp property_rp tenant_rp record_rp user_rp =
     ResourceAuthorizationMixin\<lparr>self_payment_repo := Some payment_rp, self_contract_repo := contract_rp,
       self_property_repo := property_rp, self_tenant_repo := tenant_rp, self_billing_record_repo := record_rp,
       self_user_repo := user_rp\<rparr>"

text \<open>The dependencies of the routes.\<close>

definition get_property_service :: service where
  "get_property_service = PropertyService_init PropertyRepo (Some UserRepo)"

definition get_contract_service :: service where
  "get_contract_service = ContractService_init ContractRepo (Some PropertyRepo) (Some TenantRepo)"

definition get_tenant_service :: service where
  "get_tenant_service = TenantService_init TenantRepo (Some UserRepo)"

definition get_document_service :: service where
  "get_document_service =
     DocumentService_init DocumentRepo (Some PropertyRepo) (Some ContractRepo) (Some TenantRepo) (Some CollectionRepo)"

definition get_payment_service :: service where
  "get_payment_service =
     PaymentService_init PaymentRepo (Some ContractRepo) (Some PropertyRepo) (Some BillingRecordRepo) (Some LeaseRepo)"

definition get_receipt_template_service :: service where
  "get_receipt_template_service = ReceiptTemplateService_init (Some PropertyRepo)"

definition get_receipt_service :: service where
  "get_receipt_service =
     ReceiptService_init PaymentRepo (Some ContractRepo) (Some PropertyRepo) (Some TenantRepo) (Some BillingRecordRepo)
       (Some UserRepo)"

definition get_collection_service :: service where
  "get_collection_service = CollectionService_init CollectionRepo (Some PropertyRepo) (Some ContractRepo)"

definition get_lease_service :: service where
  "get_lease_service = LeaseService_init LeaseRepo (Some ContractRepo) (Some PropertyRepo)"

definition get_lease_billing_service :: service where
  "get_lease_billing_service =
     LeaseBillingService_init BillingRecordRepo LeaseRepo (Some ContractRepo) (Some PropertyRepo) (Some PaymentRepo)"

section \<open>The checks over the attributes\<close>

definition injected :: "repository option \<Rightarrow> 'a svc \<Rightarrow> 'a svc" where
  "injected attribute m = (case attribute of None \<Rightarrow> raise RuntimeError | Some _ \<Rightarrow> m)"

definition get_property_of :: "service \<Rightarrow> uuid \<Rightarrow> property option svc" where
  "get_property_of self i = injected (self_property_repo self) (repo_get_by_id properties_tbl i)"

definition get_contract_of :: "service \<Rightarrow> uuid \<Rightarrow> contract option svc" where
  "get_contract_of self i = injected (self_contract_repo self) (repo_get_by_id contracts_tbl i)"

definition get_tenant_of :: "service \<Rightarrow> uuid \<Rightarrow> tenant option svc" where
  "get_tenant_of self i = injected (self_tenant_repo self) (repo_get_by_id tenants_tbl i)"

definition get_document_of :: "service \<Rightarrow> uuid \<Rightarrow> document option svc" where
  "get_document_of self i = injected (self_document_repo self) (repo_get_by_id documents_tbl i)"

definition get_collection_of :: "service \<Rightarrow> uuid \<Rightarrow> collection option svc" where
  "get_collection_of self i = injected (self_collection_repo self) (repo_get_by_id collections_tbl i)"

definition resolve_property_of ::
  "service \<Rightarrow> uuid option \<Rightarrow> uuid option \<Rightarrow> contract option \<Rightarrow> property option svc" where
  "resolve_property_of self property_id contract_id given =
     (case contract_id of
        Some cid \<Rightarrow>
          bnd (case given of None \<Rightarrow> get_contract_of self cid | Some c \<Rightarrow> ret (Some c)) (\<lambda>contract.
          case contract of
            None \<Rightarrow> raise (RelatedResourceNotFoundError ''Contract'' cid)
          | Some c \<Rightarrow>
              bnd (found_or (RelatedResourceNotFoundError ''Property'' (contract_property_id c))
                     (get_property_of self (contract_property_id c))) (\<lambda>prop.
              ret (Some prop)))
      | None \<Rightarrow>
          (case property_id of
             Some pid \<Rightarrow>
               bnd (found_or (RelatedResourceNotFoundError ''Property'' pid) (get_property_of self pid)) (\<lambda>prop.
               ret (Some prop))
           | None \<Rightarrow> ret None))"

definition check_found :: "string \<Rightarrow> (uuid \<Rightarrow> 'a option svc) \<Rightarrow> uuid option \<Rightarrow> unit svc" where
  "check_found kind get k =
     (case k of
        None \<Rightarrow> ret ()
      | Some i \<Rightarrow> bnd (found_or (RelatedResourceNotFoundError kind i) (get i)) (\<lambda>_. ret ()))"

definition validate_related_of ::
  "service \<Rightarrow> uuid option \<Rightarrow> uuid option \<Rightarrow> uuid option \<Rightarrow> uuid option \<Rightarrow> unit svc" where
  "validate_related_of self property_id contract_id tenant_id collection_id =
     bnd (check_found ''Property'' (get_property_of self) property_id) (\<lambda>_.
     bnd (check_found ''Contract'' (get_contract_of self) contract_id) (\<lambda>_.
     bnd (check_found ''Tenant'' (get_tenant_of self) tenant_id) (\<lambda>_.
     check_found ''Collection'' (get_collection_of self) collection_id)))"

definition authorize_of ::
  "service \<Rightarrow> forbidden_kind \<Rightarrow> user \<Rightarrow> uuid option \<Rightarrow> uuid option \<Rightarrow> contract option \<Rightarrow> unit svc" where
  "authorize_of self forbidden current_user property_id contract_id given =
     (if role current_user = ADMIN then ret ()
      else if role current_user \<noteq> MANAGER then raise (ResourceForbiddenError forbidden not_authorized)
      else
        bnd (resolve_property_of self property_id contract_id given) (\<lambda>prop.
        case prop of
          None \<Rightarrow> raise (ResourceForbiddenError forbidden not_authorized)
        | Some p \<Rightarrow>
            (case manager_id p of
               None \<Rightarrow> raise (ResourceForbiddenError forbidden no_manager_assigned)
             | Some m \<Rightarrow>
                 raise_if (m \<noteq> row_id current_user) (ResourceForbiddenError forbidden not_authorized))))"

text \<open>The two methods that test an attribute before they do anything else.\<close>

definition assign_manager_of :: "service \<Rightarrow> uuid \<Rightarrow> uuid \<Rightarrow> user \<Rightarrow> property option svc" where
  "assign_manager_of self prop_id manager current_user =
     injected (self_user_repo self) (assign_manager prop_id manager current_user)"

definition sync_property_status_of :: "service \<Rightarrow> uuid \<Rightarrow> property_status option \<Rightarrow> unit svc" where
  "sync_property_status_of self property_id st =
     (case st of
        None \<Rightarrow> ret ()
      | Some v \<Rightarrow>
          injected (self_property_repo self)
            (bnd (repo_update properties_tbl property_id [] (\<lambda>p. p\<lparr>prop_status := v\<rparr>)) (\<lambda>_. ret ())))"

section \<open>Lemmas\<close>

lemmas service_classes = PropertyService_init_def TenantService_init_def ContractService_init_def LeaseService_init_def
  LeaseBillingService_init_def PaymentService_init_def DocumentService_init_def CollectionService_init_def
  ReceiptTemplateService_init_def ReceiptService_init_def ResourceAuthorizationMixin_def

lemmas wired_services = get_property_service_def get_contract_service_def get_tenant_service_def
  get_document_service_def get_payment_service_def get_receipt_template_service_def get_receipt_service_def
  get_collection_service_def get_lease_service_def get_lease_billing_service_def

lemma injected_simps [simp]: "injected None m = raise RuntimeError" "injected (Some r) m = m"
  by (simp_all add: injected_def)

text \<open>What has to be injected for a check never to miss a repository.\<close>

lemma lookups_injected:
  "self_property_repo sv \<noteq> None \<Longrightarrow> get_property_of sv = repo_get_by_id properties_tbl"
  "self_contract_repo sv \<noteq> None \<Longrightarrow> get_contract_of sv = repo_get_by_id contracts_tbl"
  "self_tenant_repo sv \<noteq> None \<Longrightarrow> get_tenant_of sv = repo_get_by_id tenants_tbl"
  "self_collection_repo sv \<noteq> None \<Longrightarrow> get_collection_of sv = repo_get_by_id collections_tbl"
  by (auto simp: get_property_of_def get_contract_of_def get_tenant_of_def get_collection_of_def fun_eq_iff)

lemma check_found_eq: "check_found kind (repo_get_by_id T) = require_exists T kind"
  by (simp add: check_found_def require_exists_def fun_eq_iff)

lemma check_found_None [simp]: "check_found kind get None = ret ()"
  by (simp add: check_found_def)

lemma require_exists_None [simp]: "require_exists T kind None = ret ()"
  by (simp add: require_exists_def)

lemma resolve_injected:
  assumes "self_property_repo sv \<noteq> None" "c = None \<or> g \<noteq> None \<or> self_contract_repo sv \<noteq> None"
  shows "resolve_property_of sv p c g = resolve_property p c g"
  using assms(2)
  by (auto simp: resolve_property_of_def resolve_property_def lookups_injected(1) [OF assms(1)] lookups_injected(2)
      split: option.split)

lemma authorize_injected:
  assumes "self_property_repo sv \<noteq> None" "c = None \<or> g \<noteq> None \<or> self_contract_repo sv \<noteq> None"
  shows "authorize_of sv f u p c g = authorize_user_to_property f u p c g"
  by (simp add: authorize_of_def authorize_user_to_property_def resolve_injected [OF assms])

lemma validate_injected:
  assumes "p = None \<or> self_property_repo sv \<noteq> None" "c = None \<or> self_contract_repo sv \<noteq> None"
    and "t = None \<or> self_tenant_repo sv \<noteq> None" "k = None \<or> self_collection_repo sv \<noteq> None"
  shows "validate_related_of sv p c t k = validate_related_resources p c t k"
  using assms
  by (auto simp: validate_related_of_def validate_related_resources_def lookups_injected check_found_eq)

text \<open>The methods that test an attribute themselves.\<close>

lemma methods_injected:
  "self_user_repo sv \<noteq> None \<Longrightarrow> assign_manager_of sv = assign_manager"
  "self_property_repo sv \<noteq> None \<Longrightarrow> sync_property_status_of sv = sync_property_status"
  by (auto simp: assign_manager_of_def sync_property_status_of_def sync_property_status_def fun_eq_iff split: option.split)

section \<open>Properties\<close>


end
