(* ===== verification/Catalogue.thy ===== *)
theory Catalogue
  imports Samples
begin

text \<open>
  The catalogue of a database server: tables with their columns and constraints, indexes,
  enumeration types and sequences. The statements the migrations are made of change it; each
  has the effect PostgreSQL documents for it, and fails where PostgreSQL refuses it: a name
  that exists, a table or column that does not, a type in use, an index predicate over a
  column whose type changes. CHECK expressions are evaluated in three-valued logic. The last
  section shows which statements take back which.
\<close>

section \<open>Values and conditions of SQL\<close>

text \<open>Numbers are counted in hundredths, the scale of every \<open>Numeric\<close> column.\<close>

datatype sql_value =
    VNull
  | VUuid uuid
  | VText string
  | VNumber int
  | VBool bool
  | VDate date
  | VTime instant
  | VJson "(string \<times> string) list"

definition number :: "int \<Rightarrow> sql_value" where
  "number n = VNumber (100 * n)"

type_synonym sql_row = "string \<Rightarrow> sql_value"

datatype sql_expr = Column string | Literal sql_value

datatype sql_cond =
    Greater sql_expr sql_expr
  | AtLeast sql_expr sql_expr
  | AtMost sql_expr sql_expr
  | Equal sql_expr sql_expr
  | IsNull sql_expr
  | IsNotNull sql_expr
  | Both sql_cond sql_cond
  | Either sql_cond sql_cond
  | Differ sql_cond sql_cond
  | OneOf sql_expr "string list"

text \<open>\<open>sql_in_clause\<close> renders a membership test.\<close>

definition sql_in_clause :: "string \<Rightarrow> string list \<Rightarrow> sql_cond" where
  "sql_in_clause column_name values = OneOf (Column column_name) values"

text \<open>The truth values: \<open>None\<close> is unknown.\<close>

type_synonym truth = "bool option"

fun sql_and :: "truth \<Rightarrow> truth \<Rightarrow> truth" where
  "sql_and (Some False) b = Some False"
| "sql_and (Some True) b = b"
| "sql_and None (Some False) = Some False"
| "sql_and None b = None"

fun sql_or :: "truth \<Rightarrow> truth \<Rightarrow> truth" where
  "sql_or (Some True) b = Some True"
| "sql_or (Some False) b = b"
| "sql_or None (Some True) = Some True"
| "sql_or None b = None"

fun sql_le :: "sql_value \<Rightarrow> sql_value \<Rightarrow> truth" where
  "sql_le (VNumber a) (VNumber b) = Some (a \<le> b)"
| "sql_le (VDate a) (VDate b) = Some (a \<le> b)"
| "sql_le _ _ = None"

definition sql_not :: "truth \<Rightarrow> truth" where
  "sql_not = map_option Not"

fun sql_eq :: "sql_value \<Rightarrow> sql_value \<Rightarrow> truth" where
  "sql_eq VNull b = None"
| "sql_eq a VNull = None"
| "sql_eq a b = Some (a = b)"

fun expr_value :: "sql_row \<Rightarrow> sql_expr \<Rightarrow> sql_value" where
  "expr_value r (Column c) = r c"
| "expr_value r (Literal v) = v"

fun cond_value :: "sql_row \<Rightarrow> sql_cond \<Rightarrow> truth" where
  "cond_value r (Greater a b) = sql_not (sql_le (expr_value r a) (expr_value r b))"
| "cond_value r (AtLeast a b) = sql_le (expr_value r b) (expr_value r a)"
| "cond_value r (AtMost a b) = sql_le (expr_value r a) (expr_value r b)"
| "cond_value r (Equal a b) = sql_eq (expr_value r a) (expr_value r b)"
| "cond_value r (IsNull a) = Some (expr_value r a = VNull)"
| "cond_value r (IsNotNull a) = Some (expr_value r a \<noteq> VNull)"
| "cond_value r (Both c d) = sql_and (cond_value r c) (cond_value r d)"
| "cond_value r (Either c d) = sql_or (cond_value r c) (cond_value r d)"
| "cond_value r (Differ c d) =
     (case (cond_value r c, cond_value r d) of (Some a, Some b) \<Rightarrow> Some (a \<noteq> b) | _ \<Rightarrow> None)"
| "cond_value r (OneOf a vs) =
     (case expr_value r a of VNull \<Rightarrow> None | VText s \<Rightarrow> Some (s \<in> set vs) | _ \<Rightarrow> Some False)"

section \<open>The catalogue\<close>

text \<open>The flag of \<open>SqlEnum\<close> says whether creating the table also creates the type.\<close>

datatype sql_type =
    Uuid
  | Varchar nat
  | SqlText
  | SqlDate
  | Timestamp
  | SqlBool
  | Integer
  | Json
  | Numeric nat nat
  | SqlEnum string "string list" bool

datatype on_delete = NoAction | Restrict | SetNull

text \<open>Every foreign key refers to the column \<open>id\<close> of its table.\<close>

datatype rule =
    Primary "string list"
  | Unique "string list"
  | Foreign "string list" string on_delete
  | Check sql_cond

datatype index_keys = Columns "string list" | Coalesced string

record column_entry =
  col_name :: string
  col_type :: sql_type
  col_nullable :: bool
  col_default :: "string option"

definition column :: "string \<Rightarrow> sql_type \<Rightarrow> bool \<Rightarrow> string option \<Rightarrow> column_entry" where
  "column n ty null d = \<lparr>col_name = n, col_type = ty, col_nullable = null, col_default = d\<rparr>"

lemma column_simps [simp]:
  "col_name (column n ty b v) = n" "col_type (column n ty b v) = ty"
  "col_nullable (column n ty b v) = b" "col_default (column n ty b v) = v"
  by (simp_all add: column_def)

record relation =
  rel_name :: string
  rel_columns :: "column_entry list"
  rel_rules :: "(string \<times> rule) list"

record index_entry =
  idx_name :: string
  idx_table :: string
  idx_keys :: index_keys
  idx_unique :: bool
  idx_where :: "sql_cond option"

record catalogue =
  relations :: "relation list"
  indexes :: "index_entry list"
  enums :: "(string \<times> string list) list"
  sequences :: "string list"

definition empty_catalogue :: catalogue where
  "empty_catalogue = \<lparr>relations = [], indexes = [], enums = [], sequences = []\<rparr>"

type_synonym migration = "catalogue \<Rightarrow> catalogue option"

text \<open>The statements of a revision, in order, until one fails.\<close>

fun run :: "migration list \<Rightarrow> migration" where
  "run [] c = Some c"
| "run (m # ms) c = (case m c of None \<Rightarrow> None | Some d \<Rightarrow> run ms d)"

subsection \<open>Lookups\<close>

definition relation_of :: "catalogue \<Rightarrow> string \<Rightarrow> relation option" where
  "relation_of c t = find (\<lambda>r. rel_name r = t) (relations c)"

definition column_names :: "relation \<Rightarrow> string list" where
  "column_names r = map col_name (rel_columns r)"

definition has_columns :: "catalogue \<Rightarrow> string \<Rightarrow> string list \<Rightarrow> bool" where
  "has_columns c t cs =
     (case relation_of c t of None \<Rightarrow> False | Some r \<Rightarrow> list_all (\<lambda>k. List.member (column_names r) k) cs)"

definition index_names :: "catalogue \<Rightarrow> string list" where
  "index_names c = map idx_name (indexes c)"

definition set_relation :: "relation \<Rightarrow> catalogue \<Rightarrow> catalogue" where
  "set_relation r c =
     c\<lparr>relations := map (\<lambda>x. if rel_name x = rel_name r then r else x) (relations c)\<rparr>"

fun expr_columns :: "sql_expr \<Rightarrow> string list" where
  "expr_columns (Column c) = [c]"
| "expr_columns (Literal v) = []"

fun cond_columns :: "sql_cond \<Rightarrow> string list" where
  "cond_columns (Greater a b) = expr_columns a @ expr_columns b"
| "cond_columns (AtLeast a b) = expr_columns a @ expr_columns b"
| "cond_columns (AtMost a b) = expr_columns a @ expr_columns b"
| "cond_columns (Equal a b) = expr_columns a @ expr_columns b"
| "cond_columns (IsNull a) = expr_columns a"
| "cond_columns (IsNotNull a) = expr_columns a"
| "cond_columns (Both c d) = cond_columns c @ cond_columns d"
| "cond_columns (Either c d) = cond_columns c @ cond_columns d"
| "cond_columns (Differ c d) = cond_columns c @ cond_columns d"
| "cond_columns (OneOf a vs) = expr_columns a"

fun rule_columns :: "rule \<Rightarrow> string list" where
  "rule_columns (Primary cs) = cs"
| "rule_columns (Unique cs) = cs"
| "rule_columns (Foreign cs t d) = cs"
| "rule_columns (Check b) = cond_columns b"

fun key_columns :: "index_keys \<Rightarrow> string list" where
  "key_columns (Columns cs) = cs"
| "key_columns (Coalesced c) = [c]"

definition predicate_columns :: "index_entry \<Rightarrow> string list" where
  "predicate_columns i = (case idx_where i of None \<Rightarrow> [] | Some b \<Rightarrow> cond_columns b)"

definition index_columns :: "index_entry \<Rightarrow> string list" where
  "index_columns i = key_columns (idx_keys i) @ predicate_columns i"

fun refers_to :: "string \<Rightarrow> rule \<Rightarrow> bool" where
  "refers_to t (Foreign cs u d) = (u = t)"
| "refers_to t _ = False"

text \<open>Whether a table other than \<open>t\<close> has a foreign key to \<open>t\<close>.\<close>

definition referenced :: "catalogue \<Rightarrow> string \<Rightarrow> bool" where
  "referenced c t =
     list_ex (\<lambda>r. rel_name r \<noteq> t \<and> list_ex (\<lambda>(n, k). refers_to t k) (rel_rules r)) (relations c)"

definition uses_type :: "string \<Rightarrow> column_entry \<Rightarrow> bool" where
  "uses_type n k = (case col_type k of SqlEnum m ls new \<Rightarrow> m = n | _ \<Rightarrow> False)"

subsection \<open>Statements\<close>

text \<open>
  A rule fits a table when its columns exist and the table it refers to is among \<open>ts\<close>; it may
  be added under a name that is new in the table.
\<close>

definition rule_fits :: "string list \<Rightarrow> string list \<Rightarrow> rule \<Rightarrow> bool" where
  "rule_fits ts cs k =
     (list_all (List.member cs) (rule_columns k) \<and>
      (case k of Foreign ks u d \<Rightarrow> List.member ts u | _ \<Rightarrow> True))"

definition relation_names :: "catalogue \<Rightarrow> string list" where
  "relation_names c = map rel_name (relations c)"

definition add_rule :: "string \<Rightarrow> string \<Rightarrow> rule \<Rightarrow> migration" where
  "add_rule t n k c =
     (case relation_of c t of
        None \<Rightarrow> None
      | Some r \<Rightarrow>
          if \<not> List.member (map fst (rel_rules r)) n \<and> rule_fits (relation_names c) (column_names r) k
          then Some (set_relation (r\<lparr>rel_rules := rel_rules r @ [(n, k)]\<rparr>) c) else None)"

text \<open>\<open>drop_constraint\<close> without a name is an error of Alembic.\<close>

definition drop_rule :: "string \<Rightarrow> string option \<Rightarrow> migration" where
  "drop_rule t name c =
     (case (name, relation_of c t) of
        (Some n, Some r) \<Rightarrow>
          if List.member (map fst (rel_rules r)) n
          then Some (set_relation (r\<lparr>rel_rules := filter (\<lambda>k. fst k \<noteq> n) (rel_rules r)\<rparr>) c)
          else None
      | _ \<Rightarrow> None)"

text \<open>The types of an explicit \<open>create(..., checkfirst=True)\<close> may exist already.\<close>

definition create_type :: "string \<Rightarrow> string list \<Rightarrow> migration" where
  "create_type n ls c =
     Some (if List.member (map fst (enums c)) n then c else c\<lparr>enums := enums c @ [(n, ls)]\<rparr>)"

definition drop_type :: "string \<Rightarrow> migration" where
  "drop_type n c =
     (if list_ex (\<lambda>r. list_ex (uses_type n) (rel_columns r)) (relations c) then None
      else Some (c\<lparr>enums := filter (\<lambda>e. fst e \<noteq> n) (enums c)\<rparr>))"

definition add_value :: "string \<Rightarrow> string \<Rightarrow> migration" where
  "add_value n l c =
     (if List.member (map fst (enums c)) n
      then Some (c\<lparr>enums := map (\<lambda>(m, ls). (m, if m = n \<and> \<not> List.member ls l then ls @ [l] else ls)) (enums c)\<rparr>)
      else None)"

text \<open>
  The types new columns need: an \<open>sa.Enum\<close> of a new table is created with it and must not
  exist, any other enumeration must exist.
\<close>

fun need_types :: "sql_type list \<Rightarrow> (string \<times> string list) list \<Rightarrow> (string \<times> string list) list option" where
  "need_types [] es = Some es"
| "need_types (SqlEnum n ls new # tys) es =
     (if List.member (map fst es) n = new then None
      else need_types tys (if new then es @ [(n, ls)] else es))"
| "need_types (ty # tys) es = need_types tys es"

definition create_table :: "string \<Rightarrow> column_entry list \<Rightarrow> (string \<times> rule) list \<Rightarrow> migration" where
  "create_table t ks rs c =
     (if List.member (relation_names c) t \<or> \<not> distinct (map col_name ks) \<or> \<not> distinct (map fst rs) \<or>
         \<not> list_all (\<lambda>(n, k). rule_fits (t # relation_names c) (map col_name ks) k) rs
      then None
      else map_option (\<lambda>es. c\<lparr>relations := relations c @ [\<lparr>rel_name = t, rel_columns = ks, rel_rules = rs\<rparr>],
                              enums := es\<rparr>) (need_types (map col_type ks) (enums c)))"

definition drop_table :: "string \<Rightarrow> migration" where
  "drop_table t c =
     (if \<not> List.member (relation_names c) t \<or> referenced c t then None
      else Some (c\<lparr>relations := filter (\<lambda>r. rel_name r \<noteq> t) (relations c),
                   indexes := filter (\<lambda>i. idx_table i \<noteq> t) (indexes c)\<rparr>))"

definition add_column :: "string \<Rightarrow> column_entry \<Rightarrow> migration" where
  "add_column t k c =
     (case relation_of c t of
        None \<Rightarrow> None
      | Some r \<Rightarrow>
          if List.member (column_names r) (col_name k) then None
          else map_option (\<lambda>es. set_relation (r\<lparr>rel_columns := rel_columns r @ [k]\<rparr>) (c\<lparr>enums := es\<rparr>))
                 (need_types [col_type k] (enums c)))"

text \<open>Dropping a column drops the constraints and the indexes it occurs in.\<close>

definition drop_column :: "string \<Rightarrow> string \<Rightarrow> migration" where
  "drop_column t k c =
     (case relation_of c t of
        None \<Rightarrow> None
      | Some r \<Rightarrow>
          if \<not> List.member (column_names r) k \<or> (k = ''id'' \<and> referenced c t) then None
          else Some (set_relation
                 (r\<lparr>rel_columns := filter (\<lambda>x. col_name x \<noteq> k) (rel_columns r),
                    rel_rules := filter (\<lambda>x. \<not> List.member (rule_columns (snd x)) k) (rel_rules r)\<rparr>)
                 (c\<lparr>indexes := filter (\<lambda>i. idx_table i \<noteq> t \<or> \<not> List.member (index_columns i) k) (indexes c)\<rparr>)))"

definition alter_column :: "string \<Rightarrow> string \<Rightarrow> (column_entry \<Rightarrow> column_entry) \<Rightarrow> migration" where
  "alter_column t k f c =
     (if has_columns c t [k]
      then map_option (\<lambda>r. set_relation
             (r\<lparr>rel_columns := map (\<lambda>x. if col_name x = k then f x else x) (rel_columns r)\<rparr>) c) (relation_of c t)
      else None)"

definition alter_default :: "string \<Rightarrow> string \<Rightarrow> string option \<Rightarrow> migration" where
  "alter_default t k d = alter_column t k (\<lambda>x. x\<lparr>col_default := d\<rparr>)"

text \<open>
  A type change is refused while a partial index mentions the column in its predicate or
  while the column has a default of the old type.
\<close>

definition alter_type :: "string \<Rightarrow> string \<Rightarrow> sql_type \<Rightarrow> migration" where
  "alter_type t k ty c =
     (if list_ex (\<lambda>i. idx_table i = t \<and> List.member (predicate_columns i) k) (indexes c) \<or>
         (case relation_of c t of
            None \<Rightarrow> True
          | Some r \<Rightarrow> list_ex (\<lambda>x. col_name x = k \<and> col_default x \<noteq> None) (rel_columns r)) \<or>
         need_types [ty] (enums c) = None
      then None else alter_column t k (\<lambda>x. x\<lparr>col_type := ty\<rparr>) c)"

definition create_index :: "string \<Rightarrow> string \<Rightarrow> index_keys \<Rightarrow> bool \<Rightarrow> sql_cond option \<Rightarrow> migration" where
  "create_index n t ks u w c =
     (let i = \<lparr>idx_name = n, idx_table = t, idx_keys = ks, idx_unique = u, idx_where = w\<rparr>
      in if List.member (index_names c) n \<or> \<not> has_columns c t (index_columns i) then None
         else Some (c\<lparr>indexes := indexes c @ [i]\<rparr>))"

definition drop_index :: "string \<Rightarrow> migration" where
  "drop_index n c =
     (if List.member (index_names c) n
      then Some (c\<lparr>indexes := filter (\<lambda>i. idx_name i \<noteq> n) (indexes c)\<rparr>) else None)"

definition create_sequence :: "string \<Rightarrow> migration" where
  "create_sequence n c =
     (if List.member (sequences c) n then None else Some (c\<lparr>sequences := sequences c @ [n]\<rparr>))"

definition drop_sequence :: "string \<Rightarrow> migration" where
  "drop_sequence n c =
     (if List.member (sequences c) n then Some (c\<lparr>sequences := filter (\<lambda>m. m \<noteq> n) (sequences c)\<rparr>) else None)"

section \<open>Undoing statements\<close>

text \<open>
  The invariant of a catalogue: names of tables are unique, every constraint fits its table,
  the columns of an index exist, and so does the type of every column.
\<close>

fun type_known :: "string list \<Rightarrow> sql_type \<Rightarrow> bool" where
  "type_known es (SqlEnum n ls new) = (n \<in> set es)"
| "type_known es _ = True"

definition relation_ok :: "string list \<Rightarrow> string list \<Rightarrow> relation \<Rightarrow> bool" where
  "relation_ok ts es r =
     ((\<forall>(n, k)\<in>set (rel_rules r). rule_fits ts (column_names r) k) \<and>
      (\<forall>k\<in>set (rel_columns r). type_known es (col_type k)))"

definition index_ok :: "catalogue \<Rightarrow> index_entry \<Rightarrow> bool" where
  "index_ok c i =
     (\<exists>r\<in>set (relations c). rel_name r = idx_table i \<and> set (index_columns i) \<subseteq> set (column_names r))"

definition catalogue_ok :: "catalogue \<Rightarrow> bool" where
  "catalogue_ok c =
     (distinct (relation_names c) \<and>
      (\<forall>r\<in>set (relations c). relation_ok (relation_names c) (map fst (enums c)) r) \<and>
      (\<forall>i\<in>set (indexes c). index_ok c i))"

text \<open>
  \<open>g\<close> takes back \<open>f\<close>: after a run of \<open>f\<close> that succeeds, \<open>g\<close> succeeds and restores the
  catalogue as it was.
\<close>

definition undoes :: "migration \<Rightarrow> migration \<Rightarrow> bool" where
  "undoes g f =
     (\<forall>c d. catalogue_ok c \<longrightarrow> f c = Some d \<longrightarrow> catalogue_ok d \<and> g d = Some c)"

lemma undoesI:
  assumes "\<And>c d. catalogue_ok c \<Longrightarrow> f c = Some d \<Longrightarrow> catalogue_ok d"
    and "\<And>c d. catalogue_ok c \<Longrightarrow> f c = Some d \<Longrightarrow> g d = Some c"
  shows "undoes g f"
  using assms by (simp add: undoes_def)

lemma undoesD: "undoes g f \<Longrightarrow> catalogue_ok c \<Longrightarrow> f c = Some d \<Longrightarrow> g d = Some c"
  by (simp add: undoes_def)

lemma run_append: "run (xs @ ys) c = (case run xs c of None \<Rightarrow> None | Some d \<Rightarrow> run ys d)"
  by (induction xs arbitrary: c) (auto split: option.split)

lemma undoes_Nil: "undoes (run []) (run [])"
  by (simp add: undoes_def)

text \<open>A run is taken back from its end.\<close>

lemma undoes_Cons:
  assumes "undoes (run gs) (run fs)" and "undoes (run hs) f"
  shows "undoes (run (gs @ hs)) (run (f # fs))"
proof -
  have "catalogue_ok d \<and> run (gs @ hs) d = Some c" if c: "catalogue_ok c" and r: "run (f # fs) c = Some d" for c d
  proof -
    from r obtain e where e: "f c = Some e" and d: "run fs e = Some d" by (auto split: option.splits)
    from assms(2) c e have "catalogue_ok e" and h: "run hs e = Some c" by (auto simp: undoes_def)
    with assms(1) d show ?thesis by (auto simp: undoes_def run_append)
  qed
  then show ?thesis by (simp add: undoes_def)
qed

lemma undoes_run1: "undoes g f \<Longrightarrow> undoes (run [g]) f"
  by (auto simp: undoes_def split: option.split)

lemma undoes_snoc:
  assumes "undoes (run gs) (run fs)" and "undoes g f"
  shows "undoes (run (gs @ [g])) (run (f # fs))"
  by (rule undoes_Cons [OF assms(1) undoes_run1 [OF assms(2)]])

lemma undoes_all: "list_all2 undoes gs fs \<Longrightarrow> undoes (run (rev gs)) (run fs)"
  by (induction rule: list_all2_induct) (simp_all add: undoes_Nil undoes_snoc del: run.simps)

subsection \<open>Lookups and updates\<close>

lemma column_names_iff: "k \<in> set (column_names r) \<longleftrightarrow> (\<exists>x\<in>set (rel_columns r). col_name x = k)"
  by (auto simp: column_names_def)

lemma relation_names_iff: "t \<in> set (relation_names c) \<longleftrightarrow> (\<exists>r\<in>set (relations c). rel_name r = t)"
  by (auto simp: relation_names_def)

lemma relation_of_Some: "relation_of c t = Some r \<Longrightarrow> r \<in> set (relations c) \<and> rel_name r = t"
  by (auto simp: relation_of_def find_Some_iff)

lemma relation_of_None: "relation_of c t = None \<longleftrightarrow> t \<notin> set (relation_names c)"
  by (auto simp: relation_of_def relation_names_def find_None_iff)

lemma relation_names_set [simp]: "relation_names (set_relation r c) = relation_names c"
  by (auto simp: relation_names_def set_relation_def)

lemma set_relation_other [simp]:
  "indexes (set_relation r c) = indexes c" "enums (set_relation r c) = enums c"
  "sequences (set_relation r c) = sequences c"
  by (simp_all add: set_relation_def)

lemma distinct_names_eq:
  "catalogue_ok c \<Longrightarrow> r \<in> set (relations c) \<Longrightarrow> s \<in> set (relations c) \<Longrightarrow> rel_name r = rel_name s \<Longrightarrow> r = s"
  by (auto simp: catalogue_ok_def relation_names_def distinct_map inj_on_def)

lemma set_relation_undone:
  assumes "catalogue_ok c" and "relation_of c (rel_name r) = Some r" and "rel_name q = rel_name r"
  shows "set_relation r (set_relation q c) = c"
proof -
  have "map (\<lambda>x. if rel_name x = rel_name r then r else x)
           (map (\<lambda>x. if rel_name x = rel_name q then q else x) (relations c)) = map (\<lambda>x. x) (relations c)"
    unfolding map_map
  proof (rule map_cong)
    fix x assume "x \<in> set (relations c)"
    with assms distinct_names_eq [OF assms(1)] show
      "((\<lambda>x. if rel_name x = rel_name r then r else x) \<circ> (\<lambda>x. if rel_name x = rel_name q then q else x)) x = x"
      by (auto dest: relation_of_Some)
  qed simp
  then show ?thesis by (simp add: set_relation_def)
qed

lemma relation_of_set:
  assumes "relation_of c t = Some r" and "rel_name q = t"
  shows "relation_of (set_relation q c) t = Some q"
proof -
  have "find (\<lambda>x. rel_name x = t) (map (\<lambda>x. if rel_name x = rel_name q then q else x) xs) = Some q"
    if "find (\<lambda>x. rel_name x = t) xs = Some r" for xs
    using that assms(2) by (induction xs) (auto split: if_splits)
  with assms show ?thesis by (simp add: relation_of_def set_relation_def)
qed

lemma relations_set:
  "relations (set_relation q c) = map (\<lambda>x. if rel_name x = rel_name q then q else x) (relations c)"
  by (simp add: set_relation_def)

text \<open>Replacing a table by one with more columns and fitting rules keeps the invariant.\<close>

lemma catalogue_ok_set:
  assumes "catalogue_ok c" and "relation_of c t = Some r" and "rel_name q = t"
    and "relation_ok (relation_names c) (map fst (enums c)) q"
    and "set (column_names r) \<subseteq> set (column_names q)"
  shows "catalogue_ok (set_relation q c)"
proof -
  have i: "index_ok (set_relation q c) i" if "index_ok c i" for i
  proof -
    from that obtain x where x: "x \<in> set (relations c)" "rel_name x = idx_table i"
      "set (index_columns i) \<subseteq> set (column_names x)" by (auto simp: index_ok_def)
    show ?thesis
    proof (cases "rel_name x = t")
      case True
      with x relation_of_Some [OF assms(2)] have "x = r"
        by (intro distinct_names_eq [OF assms(1)]) simp_all
      with x True assms(3,5) show ?thesis by (auto simp: index_ok_def relations_set)
    next
      case False
      with x assms(3) show ?thesis by (force simp: index_ok_def relations_set)
    qed
  qed
  with assms show ?thesis by (auto simp: catalogue_ok_def relations_set)
qed

lemma rule_fits_mono:
  "rule_fits ts cs k \<Longrightarrow> set cs \<subseteq> set ds \<Longrightarrow> set ts \<subseteq> set us \<Longrightarrow> rule_fits us ds k"
  by (auto simp: rule_fits_def list_all_iff split: rule.splits)

lemma type_known_mono: "type_known es ty \<Longrightarrow> set es \<subseteq> set fs \<Longrightarrow> type_known fs ty"
  by (cases ty) auto

subsection \<open>The statements that are taken back\<close>

lemma create_sequence_undone: "undoes (drop_sequence n) (create_sequence n)"
  by (rule undoesI)
    (auto simp: create_sequence_def drop_sequence_def catalogue_ok_def index_ok_def relation_names_def
      intro!: catalogue.equality filter_True split: if_splits)

lemma has_columns_iff:
  "has_columns c t cs \<longleftrightarrow> (\<exists>r. relation_of c t = Some r \<and> set cs \<subseteq> set (column_names r))"
  by (auto simp: has_columns_def list_all_iff split: option.splits)

lemma create_index_undone: "undoes (drop_index n) (create_index n t ks u w)"
proof (rule undoesI)
  fix c d assume c: "catalogue_ok c" and r: "create_index n t ks u w c = Some d"
  define i where "i = \<lparr>idx_name = n, idx_table = t, idx_keys = ks, idx_unique = u, idx_where = w\<rparr>"
  from r have d: "d = c\<lparr>indexes := indexes c @ [i]\<rparr>" and n: "n \<notin> set (index_names c)"
    and h: "has_columns c t (index_columns i)"
    by (auto simp: create_index_def i_def Let_def split: if_splits)
  from h have "index_ok d i"
    by (auto simp: has_columns_iff index_ok_def d i_def dest!: relation_of_Some)
  with c show "catalogue_ok d"
    by (auto simp: d catalogue_ok_def relation_names_def index_ok_def)
  from n show "drop_index n d = Some c"
    by (auto simp: drop_index_def d index_names_def i_def intro!: catalogue.equality filter_True)
qed

lemma add_rule_undone: "undoes (drop_rule t (Some n)) (add_rule t n k)"
proof (rule undoesI)
  fix c d assume c: "catalogue_ok c" and a: "add_rule t n k c = Some d"
  then obtain r where r: "relation_of c t = Some r" and n: "n \<notin> fst ` set (rel_rules r)"
    and k: "rule_fits (relation_names c) (column_names r) k"
    and d: "d = set_relation (r\<lparr>rel_rules := rel_rules r @ [(n, k)]\<rparr>) c"
    by (auto simp: add_rule_def split: option.splits if_splits)
  let ?q = "r\<lparr>rel_rules := rel_rules r @ [(n, k)]\<rparr>"
  from relation_of_Some [OF r] have t: "rel_name r = t" and in_c: "r \<in> set (relations c)" by simp_all
  from c in_c k have "relation_ok (relation_names c) (map fst (enums c)) ?q"
    by (auto simp: catalogue_ok_def relation_ok_def column_names_def)
  with c r t show "catalogue_ok d"
    unfolding d by (intro catalogue_ok_set) (auto simp: column_names_def)
  have "filter (\<lambda>k. fst k \<noteq> n) (rel_rules r) = rel_rules r"
    using n by (auto intro!: filter_True)
  then have "r = ?q\<lparr>rel_rules := filter (\<lambda>k. fst k \<noteq> n) (rel_rules ?q)\<rparr>" by simp
  moreover have "set_relation r d = c"
    unfolding d using c r t by (intro set_relation_undone) simp_all
  moreover have "relation_of d t = Some ?q" unfolding d using r t by (intro relation_of_set) simp_all
  ultimately show "drop_rule t (Some n) d = Some c" by (simp add: drop_rule_def)
qed

text \<open>A new column occurs in no constraint and in no index.\<close>

lemma need_types_old:
  assumes "\<forall>n ls. ty \<noteq> SqlEnum n ls True" and "need_types [ty] es = Some fs"
  shows "fs = es \<and> type_known (map fst es) ty"
  using assms by (cases ty) (auto split: if_splits)

lemma add_column_undone:
  assumes new: "col_name x \<noteq> ''id''" "\<forall>n ls. col_type x \<noteq> SqlEnum n ls True"
  shows "undoes (drop_column t (col_name x)) (add_column t x)"
proof (rule undoesI)
  fix c d assume c: "catalogue_ok c" and a: "add_column t x c = Some d"
  then obtain r fs where r: "relation_of c t = Some r" and k: "col_name x \<notin> set (column_names r)"
    and fs: "need_types [col_type x] (enums c) = Some fs"
    and d: "d = set_relation (r\<lparr>rel_columns := rel_columns r @ [x]\<rparr>) (c\<lparr>enums := fs\<rparr>)"
    by (auto simp: add_column_def simp del: need_types.simps split: option.splits if_splits)
  let ?q = "r\<lparr>rel_columns := rel_columns r @ [x]\<rparr>"
  from need_types_old [OF new(2) fs] d have d: "d = set_relation ?q c"
    and known: "type_known (map fst (enums c)) (col_type x)" by simp_all
  from relation_of_Some [OF r] have t: "rel_name r = t" and in_c: "r \<in> set (relations c)" by simp_all
  with c have ok: "relation_ok (relation_names c) (map fst (enums c)) r" by (simp add: catalogue_ok_def)
  have "set (column_names r) \<subseteq> set (column_names ?q)" by (auto simp: column_names_def)
  with ok known have "relation_ok (relation_names c) (map fst (enums c)) ?q"
    by (auto simp: relation_ok_def elim!: rule_fits_mono)
  with c r t show "catalogue_ok d"
    unfolding d by (intro catalogue_ok_set) (auto simp: column_names_def)
  have cols: "filter (\<lambda>y. col_name y \<noteq> col_name x) (rel_columns r) = rel_columns r"
    using k by (intro filter_True) (auto simp: column_names_iff)
  have rules: "filter (\<lambda>y. col_name x \<notin> set (rule_columns (snd y))) (rel_rules r) = rel_rules r"
    using ok k by (fastforce simp: relation_ok_def rule_fits_def list_all_iff intro!: filter_True)
  have "idx_table i \<noteq> t \<or> col_name x \<notin> set (index_columns i)" if "i \<in> set (indexes c)" for i
  proof -
    from c that have "index_ok c i" by (simp add: catalogue_ok_def)
    then obtain s where s: "s \<in> set (relations c)" "rel_name s = idx_table i"
      "set (index_columns i) \<subseteq> set (column_names s)" by (auto simp: index_ok_def)
    with distinct_names_eq [OF c in_c, of s] t k show ?thesis by auto
  qed
  then have "filter (\<lambda>i. idx_table i \<noteq> t \<or> col_name x \<notin> set (index_columns i)) (indexes c) = indexes c"
    by (auto intro!: filter_True)
  moreover have "set_relation r (d\<lparr>indexes := indexes c\<rparr>) = c"
  proof -
    have "d\<lparr>indexes := indexes c\<rparr> = d" by (simp add: d)
    moreover have "set_relation r d = c" unfolding d using c r t by (intro set_relation_undone) simp_all
    ultimately show ?thesis by (rule ssubst)
  qed
  moreover have "relation_of d t = Some ?q" unfolding d using r t by (intro relation_of_set) simp_all
  moreover have "indexes d = indexes c" by (simp add: d)
  ultimately show "drop_column t (col_name x) d = Some c"
    using new(1) by (simp add: drop_column_def column_names_def cols rules)
qed

text \<open>Clearing the default of a column just added gives the column without it.\<close>

lemma set_relation_twice:
  "rel_name q = rel_name r \<Longrightarrow> set_relation q (set_relation r c) = set_relation q c"
  by (auto simp: set_relation_def)

lemma add_column_default:
  "run [add_column t x, alter_default t (col_name x) v] c = add_column t (x\<lparr>col_default := v\<rparr>) c"
proof (cases "relation_of c t")
  case (Some r)
  show ?thesis
  proof (cases "col_name x \<in> set (column_names r)")
    case False
    then have *: "map (\<lambda>y. if col_name y = col_name x then y\<lparr>col_default := v\<rparr> else y) (rel_columns r) = rel_columns r"
      by (intro map_idI) (auto simp: column_names_iff)
    have r: "relation_of (c\<lparr>enums := fs\<rparr>) t = Some r" for fs using Some by (simp add: relation_of_def)
    from relation_of_Some [OF Some] have t: "rel_name r = t" by simp
    have q: "relation_of (set_relation (r\<lparr>rel_columns := rel_columns r @ [x]\<rparr>) (c\<lparr>enums := fs\<rparr>)) t =
        Some (r\<lparr>rel_columns := rel_columns r @ [x]\<rparr>)" for fs
      using r t by (intro relation_of_set) simp_all
    show ?thesis
      using False Some * t q
      by (auto simp: add_column_def alter_default_def alter_column_def has_columns_iff column_names_def
          set_relation_twice simp del: need_types.simps split: option.split)
  qed (use Some in \<open>simp add: add_column_def\<close>)
qed (simp add: add_column_def)

text \<open>A new table, with the types created for it.\<close>

fun new_types :: "sql_type list \<Rightarrow> string list" where
  "new_types [] = []"
| "new_types (SqlEnum n ls True # tys) = n # new_types tys"
| "new_types (ty # tys) = new_types tys"

lemma need_types_Some:
  assumes "need_types tys es = Some fs"
  shows "\<exists>as. fs = es @ as \<and> map fst as = new_types tys \<and> set (new_types tys) \<inter> fst ` set es = {}
     \<and> (\<forall>ty\<in>set tys. type_known (map fst fs) ty)"
  using assms
proof (induction tys arbitrary: es)
  case (Cons ty tys)
  show ?case
  proof (cases "\<exists>n ls new. ty = SqlEnum n ls new")
    case True
    then obtain n ls new where ty: "ty = SqlEnum n ls new" by blast
    from Cons.prems ty have m: "(n \<in> fst ` set es) \<noteq> new"
      and f: "need_types tys (if new then es @ [(n, ls)] else es) = Some fs" by (auto split: if_splits)
    show ?thesis
    proof (cases new)
      case True
      with Cons.IH [OF f] obtain as where "fs = es @ (n, ls) # as" "map fst as = new_types tys"
        "set (new_types tys) \<inter> insert n (fst ` set es) = {}" "\<forall>ty\<in>set tys. type_known (map fst fs) ty" by auto
      with True m ty show ?thesis by (intro exI [of _ "(n, ls) # as"]) auto
    next
      case False
      with Cons.IH [OF f] obtain as where "fs = es @ as" "map fst as = new_types tys"
        "set (new_types tys) \<inter> fst ` set es = {}" "\<forall>ty\<in>set tys. type_known (map fst fs) ty" by auto
      with False m ty show ?thesis by (intro exI [of _ as]) simp
    qed
  next
    case False
    then have "need_types (ty # tys) es = need_types tys es" "new_types (ty # tys) = new_types tys"
      "\<forall>es. type_known es ty" by (cases ty; simp)+
    with Cons.IH [of es] Cons.prems show ?thesis by simp
  qed
qed simp

lemma drop_types:
  assumes "\<forall>r\<in>set (relations c). \<forall>k\<in>set (rel_columns r). type_known es (col_type k)"
    and "set ns \<inter> set es = {}"
  shows "run (map drop_type ns) c = Some (c\<lparr>enums := filter (\<lambda>e. fst e \<notin> set ns) (enums c)\<rparr>)"
  using assms
proof (induction ns arbitrary: c)
  case (Cons n ns)
  from Cons.prems have "\<not> uses_type n k" if "r \<in> set (relations c)" "k \<in> set (rel_columns r)" for r k
    using that by (cases "col_type k") (force simp: uses_type_def)+
  then have "drop_type n c = Some (c\<lparr>enums := filter (\<lambda>e. fst e \<noteq> n) (enums c)\<rparr>)"
    by (auto simp: drop_type_def list_ex_iff)
  with Cons.IH [of "c\<lparr>enums := filter (\<lambda>e. fst e \<noteq> n) (enums c)\<rparr>"] Cons.prems show ?case
    by (simp add: conj_commute)
qed simp

lemma create_table_undone:
  assumes ns: "set ns = set (new_types (map col_type ks))"
  shows "undoes (run (drop_table t # map drop_type ns)) (create_table t ks rs)"
proof (rule undoesI)
  fix c d assume c: "catalogue_ok c" and a: "create_table t ks rs c = Some d"
  let ?r = "\<lparr>rel_name = t, rel_columns = ks, rel_rules = rs\<rparr>"
  from a obtain fs where t: "t \<notin> set (relation_names c)"
    and rs: "\<forall>(n, k)\<in>set rs. rule_fits (t # relation_names c) (map col_name ks) k"
    and fs: "need_types (map col_type ks) (enums c) = Some fs"
    and d: "d = c\<lparr>relations := relations c @ [?r], enums := fs\<rparr>"
    by (auto simp: create_table_def list_all_iff split: if_splits)
  from need_types_Some [OF fs] obtain as where as: "fs = enums c @ as" "map fst as = new_types (map col_type ks)"
    and fresh: "set (new_types (map col_type ks)) \<inter> fst ` set (enums c) = {}"
    and known: "\<forall>k\<in>set ks. type_known (map fst fs) (col_type k)" by auto
  have old: "relation_ok (relation_names d) (map fst (enums d)) r" if "r \<in> set (relations c)" for r
    using c that as(1) by (fastforce simp: catalogue_ok_def relation_ok_def d relation_names_def
        elim!: rule_fits_mono type_known_mono)
  have new: "relation_ok (relation_names d) (map fst (enums d)) ?r"
    using rs known by (fastforce simp: relation_ok_def d relation_names_def column_names_def elim!: rule_fits_mono)
  have "index_ok d i" if "index_ok c i" for i using that by (auto simp: index_ok_def d)
  with c t old new show "catalogue_ok d" by (auto simp: catalogue_ok_def d relation_names_def)
  have rel: "filter (\<lambda>r. rel_name r \<noteq> t) (relations c) = relations c"
    using t by (auto simp: relation_names_def intro!: filter_True)
  have idx: "filter (\<lambda>i. idx_table i \<noteq> t) (indexes c) = indexes c"
    using c t by (intro filter_True) (auto simp: catalogue_ok_def index_ok_def relation_names_iff)
  have "\<not> refers_to t k" if "r \<in> set (relations c)" "(n, k) \<in> set (rel_rules r)" for r n k
    using c t that by (cases k) (force simp: catalogue_ok_def relation_ok_def rule_fits_def)+
  then have "\<not> referenced d t" by (auto simp: referenced_def d list_ex_iff)
  then have drop: "drop_table t d = Some (c\<lparr>enums := fs\<rparr>)"
    by (simp add: drop_table_def d relation_names_def rel idx)
  have "\<forall>r\<in>set (relations c). \<forall>k\<in>set (rel_columns r). type_known (map fst (enums c)) (col_type k)"
    using c by (simp add: catalogue_ok_def relation_ok_def)
  then have "run (map drop_type ns) (c\<lparr>enums := fs\<rparr>) = Some (c\<lparr>enums := filter (\<lambda>e. fst e \<notin> set ns) fs\<rparr>)"
    using fresh ns drop_types [of "c\<lparr>enums := fs\<rparr>" "map fst (enums c)" ns] by simp
  moreover have "filter (\<lambda>e. fst e \<notin> set ns) fs = enums c"
  proof -
    have "filter (\<lambda>e. fst e \<notin> set ns) as = []" using as(2) ns by (auto simp: filter_empty_conv simp flip: as(2))
    moreover have "filter (\<lambda>e. fst e \<notin> set ns) (enums c) = enums c"
      using fresh ns by (auto intro!: filter_True)
    ultimately show ?thesis by (simp add: as(1))
  qed
  ultimately show "run (drop_table t # map drop_type ns) d = Some c" by (simp add: drop)
qed

subsection \<open>Revisions\<close>

text \<open>The laws in the form the revisions use them.\<close>

lemma run_single: "run [g] = g"
  by (rule ext) (simp split: option.split)

lemma undoes_rev: "list_all2 undoes (rev gs) fs \<Longrightarrow> undoes (run gs) (run fs)"
  using undoes_all [of "rev gs" fs] by simp

lemma add_column_undone' [simp]:
  "n \<noteq> ''id'' \<Longrightarrow> \<forall>m ls. ty \<noteq> SqlEnum m ls True \<Longrightarrow> undoes (drop_column t n) (add_column t (column n ty b v))"
  using add_column_undone [of "column n ty b v" t] by (simp add: column_def)

lemma add_column_default' [simp]:
  "run [add_column t (column n ty b v), alter_default t n w] = add_column t (column n ty b w)"
  using add_column_default [of t "column n ty b v" w] by (intro ext) (simp add: column_def del: run.simps)

lemma undoes_table:
  assumes "set ns = set (new_types (map col_type ks))" and "list_all2 undoes (rev gs) fs"
    and "hs = gs @ drop_table t # map drop_type ns"
  shows "undoes (run hs) (run (create_table t ks rs # fs))"
  unfolding assms(3) by (rule undoes_Cons [OF undoes_rev [OF assms(2)] create_table_undone [OF assms(1)]])

lemma create_table_alone [simp]:
  "new_types (map col_type ks) = [] \<Longrightarrow> undoes (drop_table t) (create_table t ks rs)"
  using create_table_undone [of "[]" ks t rs] by (simp add: run_single del: run.simps)

declare create_sequence_undone [simp] create_index_undone [simp] add_rule_undone [simp]

end
