(* ===== verification/Migrations.thy ===== *)
theory Migrations
  imports Catalogue
begin

text \<open>
  The Alembic scripts of \<open>alembic/versions\<close>: for each revision its links and the statements
  of its \<open>upgrade\<close> and its \<open>downgrade\<close> in their order. A revision is one transaction, so a
  failing statement undoes it as a whole. The last section shows which downgrades take back
  their upgrade.
\<close>

record revision =
  revision_id :: string
  down_revision :: "string option"
  upgrade :: migration
  downgrade :: migration

text \<open>Initial schema (1dce13f082b1).\<close>

definition upgrade_1dce13f082b1 :: migration where
  "upgrade_1dce13f082b1 = run
     [create_table ''tenants''
        [column ''id'' Uuid False None,
         column ''full_name'' (Varchar 255) False None,
         column ''email'' (Varchar 255) False None,
         column ''phone_number'' (Varchar 20) False None,
         column ''current_address'' (Varchar 500) False None,
         column ''date_of_birth'' SqlDate False None,
         column ''occupation'' (Varchar 255) True None,
         column ''notes'' SqlText True None,
         column ''is_active'' SqlBool False None,
         column ''created_at'' Timestamp False None,
         column ''updated_at'' Timestamp False None]
        [(''tenants_pkey'', Primary [''id''])],
      create_index ''ix_tenants_email'' ''tenants'' (Columns [''email'']) False None,
      create_index ''ix_tenants_full_name'' ''tenants'' (Columns [''full_name'']) False None,
      create_table ''users''
        [column ''id'' Uuid False None,
         column ''username'' (Varchar 50) False None,
         column ''email'' (Varchar 255) False None,
         column ''full_name'' (Varchar 255) False None,
         column ''password_hash'' (Varchar 255) False None,
         column ''role'' (SqlEnum ''userrole'' [''ADMIN'', ''MANAGER'', ''USER''] True) False None,
         column ''is_active'' SqlBool False None,
         column ''created_at'' Timestamp False None,
         column ''updated_at'' Timestamp False None]
        [(''users_pkey'', Primary [''id''])],
      create_index ''ix_users_email'' ''users'' (Columns [''email'']) True None,
      create_index ''ix_users_username'' ''users'' (Columns [''username'']) True None,
      create_table ''properties''
        [column ''id'' Uuid False None,
         column ''name'' (Varchar 255) False None,
         column ''address'' (Varchar 500) False None,
         column ''description'' SqlText True None,
         column ''manager_id'' Uuid True None,
         column ''status'' (SqlEnum ''propertystatus'' [''vacant'', ''occupied''] True) False None,
         column ''is_active'' SqlBool False None,
         column ''created_at'' Timestamp False None,
         column ''updated_at'' Timestamp False None]
        [(''properties_manager_id_fkey'', Foreign [''manager_id''] ''users'' NoAction),
         (''properties_pkey'', Primary [''id''])],
      create_table ''contracts''
        [column ''id'' Uuid False None,
         column ''property_id'' Uuid False None,
         column ''tenant_id'' Uuid False None,
         column ''rental_type'' (SqlEnum ''rental_type_enum'' [''long_term'', ''short_term''] True) False None,
         column ''start_date'' SqlDate False None,
         column ''end_date'' SqlDate True None,
         column ''rent_amount'' (Numeric 12 2) False None,
         column ''deposit'' (Numeric 12 2) True None,
         column ''booking_source'' (Varchar 50) False (Some ''direct''),
         column ''status'' (Varchar 10) False (Some ''ACTIVE''),
         column ''created_at'' Timestamp False None,
         column ''updated_at'' Timestamp False None]
        [(''ck_contract_booking_source'', Check (OneOf (Column ''booking_source'') [''direct'', ''airbnb'', ''booking'', ''agoda''])),
         (''ck_contract_deposit_positive'', Check (Either (IsNull (Column ''deposit'')) (Greater (Column ''deposit'') (Literal (number 0))))),
         (''ck_contract_dates'', Check (Either (IsNull (Column ''end_date'')) (Greater (Column ''end_date'') (Column ''start_date'')))),
         (''ck_contract_rent_positive'', Check (Greater (Column ''rent_amount'') (Literal (number 0)))),
         (''contracts_property_id_fkey'', Foreign [''property_id''] ''properties'' Restrict),
         (''contracts_tenant_id_fkey'', Foreign [''tenant_id''] ''tenants'' Restrict),
         (''contracts_pkey'', Primary [''id''])],
      create_index ''ix_contracts_property_id'' ''contracts'' (Columns [''property_id'']) False None,
      create_index ''ix_contracts_tenant_id'' ''contracts'' (Columns [''tenant_id'']) False None,
      create_index ''uq_active_contract_property'' ''contracts'' (Columns [''property_id'']) True (Some (Equal (Column ''status'') (Literal (VText ''ACTIVE'')))),
      create_table ''documents''
        [column ''id'' Uuid False None,
         column ''file_name'' (Varchar 255) False None,
         column ''file_url'' (Varchar 255) False None,
         column ''file_type'' (Varchar 100) False None,
         column ''contract_id'' Uuid True None,
         column ''property_id'' Uuid True None,
         column ''tenant_id'' Uuid True None,
         column ''created_at'' Timestamp False None,
         column ''updated_at'' Timestamp False None]
        [(''documents_contract_id_fkey'', Foreign [''contract_id''] ''contracts'' NoAction),
         (''documents_property_id_fkey'', Foreign [''property_id''] ''properties'' NoAction),
         (''documents_tenant_id_fkey'', Foreign [''tenant_id''] ''tenants'' NoAction),
         (''documents_pkey'', Primary [''id''])],
      create_table ''payments''
        [column ''id'' Uuid False None,
         column ''contract_id'' Uuid False None,
         column ''amount'' (Numeric 12 2) False None,
         column ''paid_at'' Timestamp False None,
         column ''payment_method'' (Varchar 50) True None,
         column ''status'' (Varchar 10) False None,
         column ''created_at'' Timestamp False None,
         column ''updated_at'' Timestamp False None]
        [(''ck_payment_method'', Check (OneOf (Column ''payment_method'') [''cash'', ''bank transfer'', ''gcash'', ''maya''])),
         (''payments_contract_id_fkey'', Foreign [''contract_id''] ''contracts'' NoAction),
         (''payments_pkey'', Primary [''id''])],
      create_index ''ix_payments_contract_id'' ''payments'' (Columns [''contract_id'']) False None]"

definition downgrade_1dce13f082b1 :: migration where
  "downgrade_1dce13f082b1 = run
     [drop_index ''ix_payments_contract_id'',
      drop_table ''payments'',
      drop_table ''documents'',
      drop_index ''uq_active_contract_property'',
      drop_index ''ix_contracts_tenant_id'',
      drop_index ''ix_contracts_property_id'',
      drop_table ''contracts'',
      drop_table ''properties'',
      drop_index ''ix_users_username'',
      drop_index ''ix_users_email'',
      drop_table ''users'',
      drop_index ''ix_tenants_full_name'',
      drop_index ''ix_tenants_email'',
      drop_table ''tenants'']"

definition revision_1dce13f082b1 :: revision where
  "revision_1dce13f082b1 = \<lparr>revision_id = ''1dce13f082b1'', down_revision = None,
     upgrade = upgrade_1dce13f082b1, downgrade = downgrade_1dce13f082b1\<rparr>"

text \<open>Add property name and address constraint (48ca82ac12a2).\<close>

definition upgrade_48ca82ac12a2 :: migration where
  "upgrade_48ca82ac12a2 = run
     [add_rule ''properties'' ''uq_property_name_address'' (Unique [''name'', ''address''])]"

definition downgrade_48ca82ac12a2 :: migration where
  "downgrade_48ca82ac12a2 = run
     [drop_rule ''properties'' (Some ''uq_property_name_address'')]"

definition revision_48ca82ac12a2 :: revision where
  "revision_48ca82ac12a2 = \<lparr>revision_id = ''48ca82ac12a2'', down_revision = (Some ''1dce13f082b1''),
     upgrade = upgrade_48ca82ac12a2, downgrade = downgrade_48ca82ac12a2\<rparr>"

text \<open>Add tenant-user link (0e914e712c11).\<close>

definition upgrade_0e914e712c11 :: migration where
  "upgrade_0e914e712c11 = run
     [add_column ''tenants'' (column ''user_id'' Uuid True None),
      create_index ''ix_tenants_user_id'' ''tenants'' (Columns [''user_id'']) True None,
      add_rule ''tenants'' ''tenants_user_id_fkey'' (Foreign [''user_id''] ''users'' SetNull)]"

definition downgrade_0e914e712c11 :: migration where
  "downgrade_0e914e712c11 = run
     [drop_rule ''tenants'' None,
      drop_index ''ix_tenants_user_id'',
      drop_column ''tenants'' ''user_id'']"

definition revision_0e914e712c11 :: revision where
  "revision_0e914e712c11 = \<lparr>revision_id = ''0e914e712c11'', down_revision = (Some ''48ca82ac12a2''),
     upgrade = upgrade_0e914e712c11, downgrade = downgrade_0e914e712c11\<rparr>"

text \<open>Add password changed at in User model (399e380aa827).\<close>

definition upgrade_399e380aa827 :: migration where
  "upgrade_399e380aa827 = run
     [add_column ''users'' (column ''password_changed_at'' Timestamp False (Some ''now()'')),
      alter_default ''users'' ''password_changed_at'' None]"

definition downgrade_399e380aa827 :: migration where
  "downgrade_399e380aa827 = run
     [drop_column ''users'' ''password_changed_at'']"

definition revision_399e380aa827 :: revision where
  "revision_399e380aa827 = \<lparr>revision_id = ''399e380aa827'', down_revision = (Some ''0e914e712c11''),
     upgrade = upgrade_399e380aa827, downgrade = downgrade_399e380aa827\<rparr>"

text \<open>Add email uniqueness constraint for Tenant model (20dc3a8be02c).\<close>

definition upgrade_20dc3a8be02c :: migration where
  "upgrade_20dc3a8be02c = run
     [drop_index ''ix_tenants_email'',
      create_index ''ix_tenants_email'' ''tenants'' (Columns [''email'']) True None]"

definition downgrade_20dc3a8be02c :: migration where
  "downgrade_20dc3a8be02c = run
     [drop_index ''ix_tenants_email'',
      create_index ''ix_tenants_email'' ''tenants'' (Columns [''email'']) False None]"

definition revision_20dc3a8be02c :: revision where
  "revision_20dc3a8be02c = \<lparr>revision_id = ''20dc3a8be02c'', down_revision = (Some ''399e380aa827''),
     upgrade = upgrade_20dc3a8be02c, downgrade = downgrade_20dc3a8be02c\<rparr>"

text \<open>Add server default now() to created at across all tables (a1f3c9e07d42).\<close>

definition TABLES_a1f3c9e07d42 :: "string list" where
  "TABLES_a1f3c9e07d42 = [''users'', ''properties'', ''tenants'', ''contracts'', ''documents'', ''payments'']"

definition upgrade_a1f3c9e07d42 :: migration where
  "upgrade_a1f3c9e07d42 = run (map (\<lambda>t. alter_default t ''created_at'' (Some ''now()'')) TABLES_a1f3c9e07d42)"

definition downgrade_a1f3c9e07d42 :: migration where
  "downgrade_a1f3c9e07d42 = run (map (\<lambda>t. alter_default t ''created_at'' None) TABLES_a1f3c9e07d42)"

definition revision_a1f3c9e07d42 :: revision where
  "revision_a1f3c9e07d42 = \<lparr>revision_id = ''a1f3c9e07d42'', down_revision = (Some ''20dc3a8be02c''),
     upgrade = upgrade_a1f3c9e07d42, downgrade = downgrade_a1f3c9e07d42\<rparr>"

text \<open>enforce contract and payment status enums (e946b8cb5e39).\<close>

definition upgrade_e946b8cb5e39 :: migration where
  "upgrade_e946b8cb5e39 = run
     [create_type ''contract_status_enum'' [''ACTIVE'', ''EXPIRED'', ''TERMINATED''],
      create_type ''payment_status_enum'' [''PAID'', ''PENDING'', ''REFUNDED''],
      drop_index ''uq_active_contract_property'',
      alter_default ''contracts'' ''status'' None,
      alter_type ''contracts'' ''status'' (SqlEnum ''contract_status_enum'' [''ACTIVE'', ''EXPIRED'', ''TERMINATED''] False),
      alter_default ''contracts'' ''status'' (Some ''ACTIVE''),
      create_index ''uq_active_contract_property'' ''contracts'' (Columns [''property_id'']) True (Some (Equal (Column ''status'') (Literal (VText ''ACTIVE'')))),
      alter_type ''payments'' ''status'' (SqlEnum ''payment_status_enum'' [''PAID'', ''PENDING'', ''REFUNDED''] False)]"

definition downgrade_e946b8cb5e39 :: migration where
  "downgrade_e946b8cb5e39 = run
     [alter_type ''payments'' ''status'' (Varchar 10),
      drop_index ''uq_active_contract_property'',
      alter_default ''contracts'' ''status'' None,
      alter_type ''contracts'' ''status'' (Varchar 10),
      alter_default ''contracts'' ''status'' (Some ''ACTIVE''),
      create_index ''uq_active_contract_property'' ''contracts'' (Columns [''property_id'']) True (Some (Equal (Column ''status'') (Literal (VText ''ACTIVE'')))),
      drop_type ''payment_status_enum'',
      drop_type ''contract_status_enum'']"

definition revision_e946b8cb5e39 :: revision where
  "revision_e946b8cb5e39 = \<lparr>revision_id = ''e946b8cb5e39'', down_revision = (Some ''a1f3c9e07d42''),
     upgrade = upgrade_e946b8cb5e39, downgrade = downgrade_e946b8cb5e39\<rparr>"

text \<open>extend payment reference check void (1e9348aa4d61).\<close>

definition upgrade_1e9348aa4d61 :: migration where
  "upgrade_1e9348aa4d61 = run
     [add_column ''payments'' (column ''reference_number'' (Varchar 100) True None),
      add_column ''payments'' (column ''corrects_payment_id'' Uuid True None),
      add_rule ''payments'' ''payments_corrects_payment_id_fkey'' (Foreign [''corrects_payment_id''] ''payments'' NoAction),
      add_value ''payment_status_enum'' ''VOIDED'',
      drop_rule ''payments'' (Some ''ck_payment_method''),
      add_rule ''payments'' ''ck_payment_method'' (Check (sql_in_clause ''payment_method'' [''cash'', ''bank transfer'', ''gcash'', ''maya'', ''check'']))]"

definition downgrade_1e9348aa4d61 :: migration where
  "downgrade_1e9348aa4d61 = run
     [drop_rule ''payments'' (Some ''ck_payment_method''),
      add_rule ''payments'' ''ck_payment_method'' (Check (sql_in_clause ''payment_method'' [''cash'', ''bank transfer'', ''gcash'', ''maya''])),
      drop_rule ''payments'' (Some ''payments_corrects_payment_id_fkey''),
      drop_column ''payments'' ''corrects_payment_id'',
      drop_column ''payments'' ''reference_number'']"

definition revision_1e9348aa4d61 :: revision where
  "revision_1e9348aa4d61 = \<lparr>revision_id = ''1e9348aa4d61'', down_revision = (Some ''e946b8cb5e39''),
     upgrade = upgrade_1e9348aa4d61, downgrade = downgrade_1e9348aa4d61\<rparr>"

text \<open>add collections module (953edb35f418).\<close>

definition upgrade_953edb35f418 :: migration where
  "upgrade_953edb35f418 = run
     [create_table ''collections''
        [column ''id'' Uuid False None,
         column ''name'' (Varchar 255) False None,
         column ''description'' SqlText True None,
         column ''property_id'' Uuid False None,
         column ''contract_id'' Uuid True None,
         column ''created_at'' Timestamp False (Some ''now()''),
         column ''updated_at'' Timestamp False None]
        [(''collections_property_id_fkey'', Foreign [''property_id''] ''properties'' NoAction),
         (''collections_contract_id_fkey'', Foreign [''contract_id''] ''contracts'' NoAction),
         (''collections_pkey'', Primary [''id''])],
      create_index ''ix_collections_name'' ''collections'' (Columns [''name'']) False None,
      create_index ''ix_collections_property_id'' ''collections'' (Columns [''property_id'']) False None,
      create_index ''ix_collections_contract_id'' ''collections'' (Columns [''contract_id'']) False None,
      add_column ''documents'' (column ''collection_id'' Uuid True None),
      add_rule ''documents'' ''documents_collection_id_fkey'' (Foreign [''collection_id''] ''collections'' SetNull)]"

definition downgrade_953edb35f418 :: migration where
  "downgrade_953edb35f418 = run
     [drop_rule ''documents'' (Some ''documents_collection_id_fkey''),
      drop_column ''documents'' ''collection_id'',
      drop_index ''ix_collections_contract_id'',
      drop_index ''ix_collections_property_id'',
      drop_index ''ix_collections_name'',
      drop_table ''collections'']"

definition revision_953edb35f418 :: revision where
  "revision_953edb35f418 = \<lparr>revision_id = ''953edb35f418'', down_revision = (Some ''1e9348aa4d61''),
     upgrade = upgrade_953edb35f418, downgrade = downgrade_953edb35f418\<rparr>"

text \<open>add audit logs table (7916842c18d3).\<close>

definition upgrade_7916842c18d3 :: migration where
  "upgrade_7916842c18d3 = run
     [create_type ''auditaction'' [''CREATE'', ''UPDATE'', ''DELETE''],
      create_table ''audit_logs''
        [column ''id'' Uuid False None,
         column ''actor_id'' Uuid True None,
         column ''action'' (SqlEnum ''auditaction'' [''CREATE'', ''UPDATE'', ''DELETE''] False) False None,
         column ''entity_type'' (Varchar 100) False None,
         column ''entity_id'' Uuid False None,
         column ''diff'' Json True None,
         column ''created_at'' Timestamp False (Some ''now()'')]
        [(''audit_logs_actor_id_fkey'', Foreign [''actor_id''] ''users'' SetNull),
         (''audit_logs_pkey'', Primary [''id''])],
      create_index ''ix_audit_logs_actor_id'' ''audit_logs'' (Columns [''actor_id'']) False None,
      create_index ''ix_audit_logs_entity_type'' ''audit_logs'' (Columns [''entity_type'']) False None,
      create_index ''ix_audit_logs_entity_id'' ''audit_logs'' (Columns [''entity_id'']) False None]"

definition downgrade_7916842c18d3 :: migration where
  "downgrade_7916842c18d3 = run
     [drop_index ''ix_audit_logs_entity_id'',
      drop_index ''ix_audit_logs_entity_type'',
      drop_index ''ix_audit_logs_actor_id'',
      drop_table ''audit_logs'',
      drop_type ''auditaction'']"

definition revision_7916842c18d3 :: revision where
  "revision_7916842c18d3 = \<lparr>revision_id = ''7916842c18d3'', down_revision = (Some ''953edb35f418''),
     upgrade = upgrade_7916842c18d3, downgrade = downgrade_7916842c18d3\<rparr>"

text \<open>add lease table (c64a1551612c).\<close>

definition upgrade_c64a1551612c :: migration where
  "upgrade_c64a1551612c = run
     [create_table ''leases''
        [column ''id'' Uuid False None,
         column ''contract_id'' Uuid False None,
         column ''monthly_rent'' (Numeric 12 2) False None,
         column ''due_day'' Integer False None,
         column ''billing_cycle'' (SqlEnum ''lease_billing_cycle_enum'' [''monthly''] True) False (Some ''monthly''),
         column ''security_deposit'' (Numeric 12 2) True None,
         column ''advance_payment'' (Numeric 12 2) True None,
         column ''late_fee_amount'' (Numeric 12 2) True None,
         column ''late_fee_percent'' (Numeric 5 2) True None,
         column ''grace_period_days'' Integer False (Some ''0''),
         column ''renewal_option'' (SqlEnum ''lease_renewal_option_enum'' [''auto'', ''manual'', ''none''] True) False (Some ''none''),
         column ''status'' (SqlEnum ''lease_status_enum'' [''ACTIVE'', ''ENDED''] True) False (Some ''ACTIVE''),
         column ''start_date'' SqlDate False None,
         column ''end_date'' SqlDate True None,
         column ''created_at'' Timestamp False (Some ''now()''),
         column ''updated_at'' Timestamp False None]
        [(''leases_contract_id_fkey'', Foreign [''contract_id''] ''contracts'' Restrict),
         (''leases_pkey'', Primary [''id'']),
         (''uq_lease_contract_id'', Unique [''contract_id'']),
         (''ck_lease_monthly_rent_positive'', Check (Greater (Column ''monthly_rent'') (Literal (number 0)))),
         (''ck_lease_due_day_range'', Check (Both (AtLeast (Column ''due_day'') (Literal (number 1))) (AtMost (Column ''due_day'') (Literal (number 31))))),
         (''ck_lease_security_deposit_positive'', Check (Either (IsNull (Column ''security_deposit'')) (Greater (Column ''security_deposit'') (Literal (number 0))))),
         (''ck_lease_advance_payment_positive'', Check (Either (IsNull (Column ''advance_payment'')) (Greater (Column ''advance_payment'') (Literal (number 0))))),
         (''ck_lease_grace_period_days_nonnegative'', Check (AtLeast (Column ''grace_period_days'') (Literal (number 0)))),
         (''ck_lease_late_fee_exactly_one'', Check (Differ (IsNull (Column ''late_fee_amount'')) (IsNull (Column ''late_fee_percent'')))),
         (''ck_lease_late_fee_amount_positive'', Check (Either (IsNull (Column ''late_fee_amount'')) (Greater (Column ''late_fee_amount'') (Literal (number 0))))),
         (''ck_lease_late_fee_percent_range'', Check (Either (IsNull (Column ''late_fee_percent'')) (Both (Greater (Column ''late_fee_percent'') (Literal (number 0))) (AtMost (Column ''late_fee_percent'') (Literal (number 100)))))),
         (''ck_lease_dates'', Check (Either (IsNull (Column ''end_date'')) (Greater (Column ''end_date'') (Column ''start_date''))))],
      create_index ''ix_leases_contract_id'' ''leases'' (Columns [''contract_id'']) True None]"

definition downgrade_c64a1551612c :: migration where
  "downgrade_c64a1551612c = run
     [drop_index ''ix_leases_contract_id'',
      drop_table ''leases'',
      drop_type ''lease_status_enum'',
      drop_type ''lease_renewal_option_enum'',
      drop_type ''lease_billing_cycle_enum'']"

definition revision_c64a1551612c :: revision where
  "revision_c64a1551612c = \<lparr>revision_id = ''c64a1551612c'', down_revision = (Some ''7916842c18d3''),
     upgrade = upgrade_c64a1551612c, downgrade = downgrade_c64a1551612c\<rparr>"

text \<open>add billing record table (f8d16c31acef).\<close>

definition upgrade_f8d16c31acef :: migration where
  "upgrade_f8d16c31acef = run
     [create_table ''billing_records''
        [column ''id'' Uuid False None,
         column ''lease_id'' Uuid False None,
         column ''period_start'' SqlDate False None,
         column ''period_end'' SqlDate False None,
         column ''due_date'' SqlDate False None,
         column ''amount_due'' (Numeric 12 2) False None,
         column ''late_fee_applied'' SqlBool False (Some ''false''),
         column ''late_fee_amount_charged'' (Numeric 12 2) True None,
         column ''status'' (SqlEnum ''billing_record_status_enum'' [''pending'', ''partially_paid'', ''paid'', ''overdue'', ''written_off''] True) False (Some ''pending''),
         column ''created_at'' Timestamp False (Some ''now()''),
         column ''updated_at'' Timestamp False None]
        [(''billing_records_lease_id_fkey'', Foreign [''lease_id''] ''leases'' Restrict),
         (''billing_records_pkey'', Primary [''id'']),
         (''uq_billing_record_lease_id_period_start'', Unique [''lease_id'', ''period_start'']),
         (''ck_billing_record_amount_due_positive'', Check (Greater (Column ''amount_due'') (Literal (number 0)))),
         (''ck_billing_record_late_fee_amount_positive'', Check (Either (IsNull (Column ''late_fee_amount_charged'')) (Greater (Column ''late_fee_amount_charged'') (Literal (number 0))))),
         (''ck_billing_record_late_fee_consistency'', Check (Either (Both (Equal (Column ''late_fee_applied'') (Literal (VBool False))) (IsNull (Column ''late_fee_amount_charged''))) (Both (Equal (Column ''late_fee_applied'') (Literal (VBool True))) (IsNotNull (Column ''late_fee_amount_charged''))))),
         (''ck_billing_record_period_dates'', Check (Greater (Column ''period_end'') (Column ''period_start''))),
         (''ck_billing_record_due_date_after_period_start'', Check (AtLeast (Column ''due_date'') (Column ''period_start'')))],
      create_index ''ix_billing_records_lease_id'' ''billing_records'' (Columns [''lease_id'']) False None]"

definition downgrade_f8d16c31acef :: migration where
  "downgrade_f8d16c31acef = run
     [drop_index ''ix_billing_records_lease_id'',
      drop_table ''billing_records'',
      drop_type ''billing_record_status_enum'']"

definition revision_f8d16c31acef :: revision where
  "revision_f8d16c31acef = \<lparr>revision_id = ''f8d16c31acef'', down_revision = (Some ''c64a1551612c''),
     upgrade = upgrade_f8d16c31acef, downgrade = downgrade_f8d16c31acef\<rparr>"

text \<open>link payment to billing record (a3f7c92e1b6d).\<close>

definition upgrade_a3f7c92e1b6d :: migration where
  "upgrade_a3f7c92e1b6d = run
     [add_column ''payments'' (column ''billing_record_id'' Uuid True None),
      create_index ''ix_payments_billing_record_id'' ''payments'' (Columns [''billing_record_id'']) False None,
      add_rule ''payments'' ''payments_billing_record_id_fkey'' (Foreign [''billing_record_id''] ''billing_records'' NoAction),
      add_column ''billing_records'' (column ''overpaid_amount'' (Numeric 12 2) True None),
      add_rule ''billing_records'' ''ck_billing_record_overpaid_amount_positive'' (Check (Either (IsNull (Column ''overpaid_amount'')) (Greater (Column ''overpaid_amount'') (Literal (number 0)))))]"

definition downgrade_a3f7c92e1b6d :: migration where
  "downgrade_a3f7c92e1b6d = run
     [drop_rule ''billing_records'' (Some ''ck_billing_record_overpaid_amount_positive''),
      drop_column ''billing_records'' ''overpaid_amount'',
      drop_rule ''payments'' (Some ''payments_billing_record_id_fkey''),
      drop_index ''ix_payments_billing_record_id'',
      drop_column ''payments'' ''billing_record_id'']"

definition revision_a3f7c92e1b6d :: revision where
  "revision_a3f7c92e1b6d = \<lparr>revision_id = ''a3f7c92e1b6d'', down_revision = (Some ''f8d16c31acef''),
     upgrade = upgrade_a3f7c92e1b6d, downgrade = downgrade_a3f7c92e1b6d\<rparr>"

text \<open>add receipts table (fbd272996f88).\<close>

definition upgrade_fbd272996f88 :: migration where
  "upgrade_fbd272996f88 = run
     [create_table ''receipts''
        [column ''id'' Uuid False None,
         column ''receipt_number'' Integer False (Some ''identity''),
         column ''payment_id'' Uuid False None,
         column ''document_id'' Uuid False None,
         column ''created_at'' Timestamp False (Some ''now()''),
         column ''updated_at'' Timestamp False (Some ''now()'')]
        [(''pk_receipts'', Primary [''id''])],
      create_index ''ix_receipts_receipt_number'' ''receipts'' (Columns [''receipt_number'']) True None,
      create_index ''ix_receipts_payment_id'' ''receipts'' (Columns [''payment_id'']) False None,
      add_rule ''receipts'' ''uq_receipts_document_id'' (Unique [''document_id'']),
      add_rule ''receipts'' ''receipts_payment_id_fkey'' (Foreign [''payment_id''] ''payments'' NoAction),
      add_rule ''receipts'' ''receipts_document_id_fkey'' (Foreign [''document_id''] ''documents'' NoAction)]"

definition downgrade_fbd272996f88 :: migration where
  "downgrade_fbd272996f88 = run
     [drop_rule ''receipts'' (Some ''receipts_document_id_fkey''),
      drop_rule ''receipts'' (Some ''receipts_payment_id_fkey''),
      drop_rule ''receipts'' (Some ''uq_receipts_document_id''),
      drop_index ''ix_receipts_payment_id'',
      drop_index ''ix_receipts_receipt_number'',
      drop_table ''receipts'']"

definition revision_fbd272996f88 :: revision where
  "revision_fbd272996f88 = \<lparr>revision_id = ''fbd272996f88'', down_revision = (Some ''a3f7c92e1b6d''),
     upgrade = upgrade_fbd272996f88, downgrade = downgrade_fbd272996f88\<rparr>"

text \<open>add receipt templates table (9a07b1630d76).\<close>

definition upgrade_9a07b1630d76 :: migration where
  "upgrade_9a07b1630d76 = run
     [create_table ''receipt_templates''
        [column ''id'' Uuid False None,
         column ''name'' (Varchar 255) False None,
         column ''property_id'' Uuid True None,
         column ''storage_key'' (Varchar 500) False None,
         column ''file_url'' (Varchar 500) False None,
         column ''is_active'' SqlBool False None,
         column ''created_at'' Timestamp False (Some ''now()''),
         column ''updated_at'' Timestamp False (Some ''now()'')]
        [(''pk_receipt_templates'', Primary [''id''])],
      create_index ''ix_receipt_templates_property_id'' ''receipt_templates'' (Columns [''property_id'']) False None,
      add_rule ''receipt_templates'' ''receipt_templates_property_id_fkey'' (Foreign [''property_id''] ''properties'' NoAction),
      create_index ''uq_active_receipt_template_scope'' ''receipt_templates'' (Coalesced ''property_id'') True (Some (Equal (Column ''is_active'') (Literal (VBool True))))]"

definition downgrade_9a07b1630d76 :: migration where
  "downgrade_9a07b1630d76 = run
     [drop_index ''uq_active_receipt_template_scope'',
      drop_rule ''receipt_templates'' (Some ''receipt_templates_property_id_fkey''),
      drop_index ''ix_receipt_templates_property_id'',
      drop_table ''receipt_templates'']"

definition revision_9a07b1630d76 :: revision where
  "revision_9a07b1630d76 = \<lparr>revision_id = ''9a07b1630d76'', down_revision = (Some ''fbd272996f88''),
     upgrade = upgrade_9a07b1630d76, downgrade = downgrade_9a07b1630d76\<rparr>"

text \<open>add composite index to audit logs (967935f1428a).\<close>

definition upgrade_967935f1428a :: migration where
  "upgrade_967935f1428a = run
     [create_index ''ix_audit_logs_entity_type_entity_id'' ''audit_logs'' (Columns [''entity_type'', ''entity_id'']) False None]"

definition downgrade_967935f1428a :: migration where
  "downgrade_967935f1428a = run
     [drop_index ''ix_audit_logs_entity_type_entity_id'']"

definition revision_967935f1428a :: revision where
  "revision_967935f1428a = \<lparr>revision_id = ''967935f1428a'', down_revision = (Some ''9a07b1630d76''),
     upgrade = upgrade_967935f1428a, downgrade = downgrade_967935f1428a\<rparr>"

text \<open>add cash reference number seq (c401d5c30a92).\<close>

definition upgrade_c401d5c30a92 :: migration where
  "upgrade_c401d5c30a92 = run
     [create_sequence ''cash_reference_number_seq'']"

definition downgrade_c401d5c30a92 :: migration where
  "downgrade_c401d5c30a92 = run
     [drop_sequence ''cash_reference_number_seq'']"

definition revision_c401d5c30a92 :: revision where
  "revision_c401d5c30a92 = \<lparr>revision_id = ''c401d5c30a92'', down_revision = (Some ''967935f1428a''),
     upgrade = upgrade_c401d5c30a92, downgrade = downgrade_c401d5c30a92\<rparr>"


section \<open>Going back\<close>

text \<open>
  The revisions whose downgrade takes the upgrade back on every catalogue. Of the others, the
  initial schema leaves the types of its tables behind, 0e914e712c11 drops a constraint
  without a name, 1e9348aa4d61 leaves a value of an enumeration, and 20dc3a8be02c,
  a1f3c9e07d42, e946b8cb5e39 and 7916842c18d3 assume what they replace: the old index, default
  or type, or that a type is new.
\<close>

definition reversible :: "revision list" where
  "reversible =
     [revision_48ca82ac12a2, revision_399e380aa827, revision_953edb35f418, revision_c64a1551612c,
      revision_f8d16c31acef, revision_a3f7c92e1b6d, revision_fbd272996f88, revision_9a07b1630d76,
      revision_967935f1428a, revision_c401d5c30a92]"

lemmas upgrade_defs =
  upgrade_48ca82ac12a2_def upgrade_953edb35f418_def upgrade_a3f7c92e1b6d_def
  upgrade_fbd272996f88_def upgrade_9a07b1630d76_def upgrade_967935f1428a_def upgrade_c401d5c30a92_def

lemmas downgrade_defs =
  downgrade_48ca82ac12a2_def downgrade_953edb35f418_def downgrade_a3f7c92e1b6d_def
  downgrade_fbd272996f88_def downgrade_9a07b1630d76_def downgrade_967935f1428a_def downgrade_c401d5c30a92_def

lemma undone_one_by_one:
  "undoes downgrade_48ca82ac12a2 upgrade_48ca82ac12a2"
  "undoes downgrade_953edb35f418 upgrade_953edb35f418"
  "undoes downgrade_a3f7c92e1b6d upgrade_a3f7c92e1b6d"
  "undoes downgrade_fbd272996f88 upgrade_fbd272996f88"
  "undoes downgrade_9a07b1630d76 upgrade_9a07b1630d76"
  "undoes downgrade_967935f1428a upgrade_967935f1428a"
  "undoes downgrade_c401d5c30a92 upgrade_c401d5c30a92"
  unfolding upgrade_defs downgrade_defs
  by (rule undoes_rev, simp)+

lemma undone_399e380aa827: "undoes downgrade_399e380aa827 upgrade_399e380aa827"
  by (simp add: upgrade_399e380aa827_def downgrade_399e380aa827_def run_single del: run.simps)

text \<open>The tables that come with types of their own.\<close>

lemma undone_c64a1551612c: "undoes downgrade_c64a1551612c upgrade_c64a1551612c"
  unfolding upgrade_c64a1551612c_def downgrade_c64a1551612c_def
  by (rule undoes_table [where gs = "[drop_index ''ix_leases_contract_id'']"
        and ns = "[''lease_status_enum'', ''lease_renewal_option_enum'', ''lease_billing_cycle_enum'']"])
    auto

lemma undone_f8d16c31acef: "undoes downgrade_f8d16c31acef upgrade_f8d16c31acef"
  unfolding upgrade_f8d16c31acef_def downgrade_f8d16c31acef_def
  by (rule undoes_table [where gs = "[drop_index ''ix_billing_records_lease_id'']"
        and ns = "[''billing_record_status_enum'']"])
    auto

text \<open>
  C40. Rolling a migration back restores the catalogue: for each of ten revisions, on every
  well-formed catalogue where its upgrade succeeds, its downgrade succeeds on the result and
  gives back the tables, columns, constraints, indexes, types and sequences as they were, in
  their order.
\<close>

theorem downgrade_undoes_upgrade:
  assumes "catalogue_ok c" and "r \<in> set reversible" and "upgrade r c = Some d"
  shows "downgrade r d = Some c"
proof -
  from assms(2) have "undoes (downgrade r) (upgrade r)"
    by (auto simp: reversible_def revision_48ca82ac12a2_def revision_399e380aa827_def revision_953edb35f418_def
        revision_c64a1551612c_def revision_f8d16c31acef_def revision_a3f7c92e1b6d_def revision_fbd272996f88_def
        revision_9a07b1630d76_def revision_967935f1428a_def revision_c401d5c30a92_def
        undone_one_by_one undone_399e380aa827 undone_c64a1551612c undone_f8d16c31acef)
  from undoesD [OF this assms(1,3)] show ?thesis .
qed

text \<open>The catalogue of a single table with a property's name and address.\<close>

definition small_catalogue :: "(string \<times> rule) list \<Rightarrow> catalogue" where
  "small_catalogue rs = empty_catalogue\<lparr>relations :=
     [\<lparr>rel_name = ''properties'',
       rel_columns = [column ''name'' (Varchar 255) False None, column ''address'' (Varchar 500) False None],
       rel_rules = rs\<rparr>]\<rparr>"

lemma small_upgraded:
  "upgrade revision_48ca82ac12a2 (small_catalogue []) =
     Some (small_catalogue [(''uq_property_name_address'', Unique [''name'', ''address''])])"
  by code_simp

theorem downgrade_undoes_upgrade_witness:
  "downgrade revision_48ca82ac12a2 (small_catalogue [(''uq_property_name_address'', Unique [''name'', ''address''])]) =
     Some (small_catalogue [])"
  by (rule downgrade_undoes_upgrade [OF _ _ small_upgraded])
    (simp_all add: small_catalogue_def empty_catalogue_def catalogue_ok_def relation_ok_def relation_names_def
      column_names_def reversible_def)

text \<open>
  Two of the others cannot be taken back at all: the downgrade that drops a constraint without
  a name always fails, and after a rollback to the empty database the types the initial schema
  created are still there, so that it cannot be applied again.
\<close>

lemma nameless_drop_fails: "downgrade revision_0e914e712c11 c = None"
  by (simp add: revision_0e914e712c11_def downgrade_0e914e712c11_def drop_rule_def)

lemma initial_schema_leaves_types:
  "map_option enums (run [upgrade_1dce13f082b1, downgrade_1dce13f082b1] empty_catalogue) =
     Some [(''userrole'', [''ADMIN'', ''MANAGER'', ''USER'']), (''propertystatus'', [''vacant'', ''occupied'']),
           (''rental_type_enum'', [''long_term'', ''short_term''])]"
  by code_simp

lemma initial_schema_not_reapplied:
  "upgrade_1dce13f082b1 (empty_catalogue\<lparr>enums := [(''userrole'', [''ADMIN'', ''MANAGER'', ''USER''])]\<rparr>) = None"
  by code_simp

end
