(* ===== verification/Provisioning.thy ===== *)
theory Provisioning
  imports Migrations
begin

text \<open>
  How a database gets its schema: \<open>app/db/provisioning.py\<close>, \<open>scripts/run_migrations.py\<close> and the
  walk of Alembic along the revisions up to the head. The catalogue at the head is written out
  and given its meaning over the rows of the mapped classes, and compared with what the
  models declare.
\<close>

section \<open>Migrating to the head\<close>

text \<open>The scripts Alembic finds, in no order that matters: it follows the links.\<close>

definition revisions :: "revision list" where
  "revisions =
     [revision_0e914e712c11, revision_1dce13f082b1, revision_1e9348aa4d61, revision_20dc3a8be02c,
      revision_399e380aa827, revision_48ca82ac12a2, revision_7916842c18d3, revision_953edb35f418,
      revision_967935f1428a, revision_9a07b1630d76, revision_a1f3c9e07d42, revision_a3f7c92e1b6d,
      revision_c401d5c30a92, revision_c64a1551612c, revision_e946b8cb5e39, revision_f8d16c31acef,
      revision_fbd272996f88]"

definition next_revision :: "string option \<Rightarrow> revision option" where
  "next_revision v = find (\<lambda>r. down_revision r = v) revisions"

text \<open>The revisions after \<open>v\<close>, at most \<open>n\<close> of them.\<close>

fun pending :: "nat \<Rightarrow> string option \<Rightarrow> revision list" where
  "pending 0 v = []"
| "pending (Suc n) v =
     (case next_revision v of None \<Rightarrow> [] | Some r \<Rightarrow> r # pending n (Some (revision_id r)))"

definition upgrades_after :: "string option \<Rightarrow> revision list" where
  "upgrades_after v = pending (length revisions) v"

text \<open>
  A database remembers its revision. \<open>alembic upgrade head\<close> applies what follows it, and the
  run is one transaction: a failing statement leaves the database as it was. (The
  blocks of 1e9348aa4d61 and 967935f1428a that commit on their own are left out: they matter
  only when a later statement of the same run fails.)
\<close>

record database =
  version :: "string option"
  schema :: catalogue

definition new_database :: database where
  "new_database = \<lparr>version = None, schema = empty_catalogue\<rparr>"

fun apply_revisions :: "revision list \<Rightarrow> database \<Rightarrow> database option" where
  "apply_revisions [] d = Some d"
| "apply_revisions (r # rs) d =
     (case upgrade r (schema d) of
        None \<Rightarrow> None
      | Some c \<Rightarrow> apply_revisions rs (d\<lparr>version := Some (revision_id r), schema := c\<rparr>))"

definition upgrade_head :: "database \<Rightarrow> database option" where
  "upgrade_head d = apply_revisions (upgrades_after (version d)) d"

subsection \<open>Provisioning\<close>

text \<open>A database server: its databases by name.\<close>

type_synonym server = "string \<rightharpoonup> database"

definition ensure_database_exists :: "string \<Rightarrow> server \<Rightarrow> server" where
  "ensure_database_exists DB_NAME srv =
     (case srv DB_NAME of None \<Rightarrow> srv(DB_NAME \<mapsto> new_database) | Some d \<Rightarrow> srv)"

definition run_migrations :: "string \<Rightarrow> server \<Rightarrow> server option" where
  "run_migrations DB_NAME srv =
     (case srv DB_NAME of
        None \<Rightarrow> None
      | Some d \<Rightarrow> map_option (\<lambda>e. srv(DB_NAME \<mapsto> e)) (upgrade_head d))"

text \<open>The script: both, in this order.\<close>

definition provision :: "string \<Rightarrow> server \<Rightarrow> server option" where
  "provision DB_NAME srv = run_migrations DB_NAME (ensure_database_exists DB_NAME srv)"

section \<open>The head\<close>

text \<open>The catalogue all revisions lead to.\<close>

definition head_catalogue :: catalogue where
  "head_catalogue = \<lparr>relations = [
      \<lparr>rel_name = ''tenants'',
        rel_columns = [
          column ''id'' Uuid False None,
          column ''full_name'' (Varchar 255) False None,
          column ''email'' (Varchar 255) False None,
          column ''phone_number'' (Varchar 20) False None,
          column ''current_address'' (Varchar 500) False None,
          column ''date_of_birth'' SqlDate False None,
          column ''occupation'' (Varchar 255) True None,
          column ''notes'' SqlText True None,
          column ''is_active'' SqlBool False None,
          column ''created_at'' Timestamp False (Some ''now()''),
          column ''updated_at'' Timestamp False None,
          column ''user_id'' Uuid True None],
        rel_rules = [
          (''tenants_pkey'', Primary [''id'']),
          (''tenants_user_id_fkey'', Foreign [''user_id''] ''users'' SetNull)]\<rparr>,
      \<lparr>rel_name = ''users'',
        rel_columns = [
          column ''id'' Uuid False None,
          column ''username'' (Varchar 50) False None,
          column ''email'' (Varchar 255) False None,
          column ''full_name'' (Varchar 255) False None,
          column ''password_hash'' (Varchar 255) False None,
          column ''role'' (SqlEnum ''userrole'' [''ADMIN'', ''MANAGER'', ''USER''] True) False None,
          column ''is_active'' SqlBool False None,
          column ''created_at'' Timestamp False (Some ''now()''),
          column ''updated_at'' Timestamp False None,
          column ''password_changed_at'' Timestamp False None],
        rel_rules = [
          (''users_pkey'', Primary [''id''])]\<rparr>,
      \<lparr>rel_name = ''properties'',
        rel_columns = [
          column ''id'' Uuid False None,
          column ''name'' (Varchar 255) False None,
          column ''address'' (Varchar 500) False None,
          column ''description'' SqlText True None,
          column ''manager_id'' Uuid True None,
          column ''status'' (SqlEnum ''propertystatus'' [''vacant'', ''occupied''] True) False None,
          column ''is_active'' SqlBool False None,
          column ''created_at'' Timestamp False (Some ''now()''),
          column ''updated_at'' Timestamp False None],
        rel_rules = [
          (''properties_manager_id_fkey'', Foreign [''manager_id''] ''users'' NoAction),
          (''properties_pkey'', Primary [''id'']),
          (''uq_property_name_address'', Unique [''name'', ''address''])]\<rparr>,
      \<lparr>rel_name = ''contracts'',
        rel_columns = [
          column ''id'' Uuid False None,
          column ''property_id'' Uuid False None,
          column ''tenant_id'' Uuid False None,
          column ''rental_type'' (SqlEnum ''rental_type_enum'' [''long_term'', ''short_term''] True) False None,
          column ''start_date'' SqlDate False None,
          column ''end_date'' SqlDate True None,
          column ''rent_amount'' (Numeric 12 2) False None,
          column ''deposit'' (Numeric 12 2) True None,
          column ''booking_source'' (Varchar 50) False (Some ''direct''),
          column ''status'' (SqlEnum ''contract_status_enum'' [''ACTIVE'', ''EXPIRED'', ''TERMINATED''] False) False (Some ''ACTIVE''),
          column ''created_at'' Timestamp False (Some ''now()''),
          column ''updated_at'' Timestamp False None],
        rel_rules = [
          (''ck_contract_booking_source'', Check (OneOf (Column ''booking_source'') [''direct'', ''airbnb'', ''booking'', ''agoda''])),
          (''ck_contract_deposit_positive'', Check (Either (IsNull (Column ''deposit'')) (Greater (Column ''deposit'') (Literal (number 0))))),
          (''ck_contract_dates'', Check (Either (IsNull (Column ''end_date'')) (Greater (Column ''end_date'') (Column ''start_date'')))),
          (''ck_contract_rent_positive'', Check (Greater (Column ''rent_amount'') (Literal (number 0)))),
          (''contracts_property_id_fkey'', Foreign [''property_id''] ''properties'' Restrict),
          (''contracts_tenant_id_fkey'', Foreign [''tenant_id''] ''tenants'' Restrict),
          (''contracts_pkey'', Primary [''id''])]\<rparr>,
      \<lparr>rel_name = ''documents'',
        rel_columns = [
          column ''id'' Uuid False None,
          column ''file_name'' (Varchar 255) False None,
          column ''file_url'' (Varchar 255) False None,
          column ''file_type'' (Varchar 100) False None,
          column ''contract_id'' Uuid True None,
          column ''property_id'' Uuid True None,
          column ''tenant_id'' Uuid True None,
          column ''created_at'' Timestamp False (Some ''now()''),
          column ''updated_at'' Timestamp False None,
          column ''collection_id'' Uuid True None],
        rel_rules = [
          (''documents_contract_id_fkey'', Foreign [''contract_id''] ''contracts'' NoAction),
          (''documents_property_id_fkey'', Foreign [''property_id''] ''properties'' NoAction),
          (''documents_tenant_id_fkey'', Foreign [''tenant_id''] ''tenants'' NoAction),
          (''documents_pkey'', Primary [''id'']),
          (''documents_collection_id_fkey'', Foreign [''collection_id''] ''collections'' SetNull)]\<rparr>,
      \<lparr>rel_name = ''payments'',
        rel_columns = [
          column ''id'' Uuid False None,
          column ''contract_id'' Uuid False None,
          column ''amount'' (Numeric 12 2) False None,
          column ''paid_at'' Timestamp False None,
          column ''payment_method'' (Varchar 50) True None,
          column ''status'' (SqlEnum ''payment_status_enum'' [''PAID'', ''PENDING'', ''REFUNDED''] False) False None,
          column ''created_at'' Timestamp False (Some ''now()''),
          column ''updated_at'' Timestamp False None,
          column ''reference_number'' (Varchar 100) True None,
          column ''corrects_payment_id'' Uuid True None,
          column ''billing_record_id'' Uuid True None],
        rel_rules = [
          (''payments_contract_id_fkey'', Foreign [''contract_id''] ''contracts'' NoAction),
          (''payments_pkey'', Primary [''id'']),
          (''payments_corrects_payment_id_fkey'', Foreign [''corrects_payment_id''] ''payments'' NoAction),
          (''ck_payment_method'', Check (OneOf (Column ''payment_method'') [''cash'', ''bank transfer'', ''gcash'', ''maya'', ''check''])),
          (''payments_billing_record_id_fkey'', Foreign [''billing_record_id''] ''billing_records'' NoAction)]\<rparr>,
      \<lparr>rel_name = ''collections'',
        rel_columns = [
          column ''id'' Uuid False None,
          column ''name'' (Varchar 255) False None,
          column ''description'' SqlText True None,
          column ''property_id'' Uuid False None,
          column ''contract_id'' Uuid True None,
          column ''created_at'' Timestamp False (Some ''now()''),
          column ''updated_at'' Timestamp False None],
        rel_rules = [
          (''collections_property_id_fkey'', Foreign [''property_id''] ''properties'' NoAction),
          (''collections_contract_id_fkey'', Foreign [''contract_id''] ''contracts'' NoAction),
          (''collections_pkey'', Primary [''id''])]\<rparr>,
      \<lparr>rel_name = ''audit_logs'',
        rel_columns = [
          column ''id'' Uuid False None,
          column ''actor_id'' Uuid True None,
          column ''action'' (SqlEnum ''auditaction'' [''CREATE'', ''UPDATE'', ''DELETE''] False) False None,
          column ''entity_type'' (Varchar 100) False None,
          column ''entity_id'' Uuid False None,
          column ''diff'' Json True None,
          column ''created_at'' Timestamp False (Some ''now()'')],
        rel_rules = [
          (''audit_logs_actor_id_fkey'', Foreign [''actor_id''] ''users'' SetNull),
          (''audit_logs_pkey'', Primary [''id''])]\<rparr>,
      \<lparr>rel_name = ''leases'',
        rel_columns = [
          column ''id'' Uuid False None,
          column ''contract_id'' Uuid False None,
          column ''monthly_rent'' (Numeric 12 2) False None,
          column ''due_day'' Integer False None,
          column ''billing_cycle'' (SqlEnum ''lease_billing_cycle_enum'' [''monthly''] True) False (Some ''monthly''),
          column ''security_deposit'' (Numeric 12 2) True None,
          column ''advance_payment'' (Numeric 12 2) True None,
          column ''late_fee_amount'' (Numeric 12 2) True None,
          column ''late_fee_percent'' (Numeric 5 2) True None,
          column ''grace_period_days'' Integer False (Some ''0''),
          column ''renewal_option'' (SqlEnum ''lease_renewal_option_enum'' [''auto'', ''manual'', ''none''] True) False (Some ''none''),
          column ''status'' (SqlEnum ''lease_status_enum'' [''ACTIVE'', ''ENDED''] True) False (Some ''ACTIVE''),
          column ''start_date'' SqlDate False None,
          column ''end_date'' SqlDate True None,
          column ''created_at'' Timestamp False (Some ''now()''),
          column ''updated_at'' Timestamp False None],
        rel_rules = [
          (''leases_contract_id_fkey'', Foreign [''contract_id''] ''contracts'' Restrict),
          (''leases_pkey'', Primary [''id'']),
          (''uq_lease_contract_id'', Unique [''contract_id'']),
          (''ck_lease_monthly_rent_positive'', Check (Greater (Column ''monthly_rent'') (Literal (number 0)))),
          (''ck_lease_due_day_range'', Check (Both (AtLeast (Column ''due_day'') (Literal (number 1))) (AtMost (Column ''due_day'') (Literal (number 31))))),
          (''ck_lease_security_deposit_positive'', Check (Either (IsNull (Column ''security_deposit'')) (Greater (Column ''security_deposit'') (Literal (number 0))))),
          (''ck_lease_advance_payment_positive'', Check (Either (IsNull (Column ''advance_payment'')) (Greater (Column ''advance_payment'') (Literal (number 0))))),
          (''ck_lease_grace_period_days_nonnegative'', Check (AtLeast (Column ''grace_period_days'') (Literal (number 0)))),
          (''ck_lease_late_fee_exactly_one'', Check (Differ (IsNull (Column ''late_fee_amount'')) (IsNull (Column ''late_fee_percent'')))),
          (''ck_lease_late_fee_amount_positive'', Check (Either (IsNull (Column ''late_fee_amount'')) (Greater (Column ''late_fee_amount'') (Literal (number 0))))),
          (''ck_lease_late_fee_percent_range'', Check (Either (IsNull (Column ''late_fee_percent'')) (Both (Greater (Column ''late_fee_percent'') (Literal (number 0))) (AtMost (Column ''late_fee_percent'') (Literal (number 100)))))),
          (''ck_lease_dates'', Check (Either (IsNull (Column ''end_date'')) (Greater (Column ''end_date'') (Column ''start_date''))))]\<rparr>,
      \<lparr>rel_name = ''billing_records'',
        rel_columns = [
          column ''id'' Uuid False None,
          column ''lease_id'' Uuid False None,
          column ''period_start'' SqlDate False None,
          column ''period_end'' SqlDate False None,
          column ''due_date'' SqlDate False None,
          column ''amount_due'' (Numeric 12 2) False None,
          column ''late_fee_applied'' SqlBool False (Some ''false''),
          column ''late_fee_amount_charged'' (Numeric 12 2) True None,
          column ''status'' (SqlEnum ''billing_record_status_enum'' [''pending'', ''partially_paid'', ''paid'', ''overdue'', ''written_off''] True) False (Some ''pending''),
          column ''created_at'' Timestamp False (Some ''now()''),
          column ''updated_at'' Timestamp False None,
          column ''overpaid_amount'' (Numeric 12 2) True None],
        rel_rules = [
          (''billing_records_lease_id_fkey'', Foreign [''lease_id''] ''leases'' Restrict),
          (''billing_records_pkey'', Primary [''id'']),
          (''uq_billing_record_lease_id_period_start'', Unique [''lease_id'', ''period_start'']),
          (''ck_billing_record_amount_due_positive'', Check (Greater (Column ''amount_due'') (Literal (number 0)))),
          (''ck_billing_record_late_fee_amount_positive'', Check (Either (IsNull (Column ''late_fee_amount_charged'')) (Greater (Column ''late_fee_amount_charged'') (Literal (number 0))))),
          (''ck_billing_record_late_fee_consistency'', Check (Either (Both (Equal (Column ''late_fee_applied'') (Literal (VBool False))) (IsNull (Column ''late_fee_amount_charged''))) (Both (Equal (Column ''late_fee_applied'') (Literal (VBool True))) (IsNotNull (Column ''late_fee_amount_charged''))))),
          (''ck_billing_record_period_dates'', Check (Greater (Column ''period_end'') (Column ''period_start''))),
          (''ck_billing_record_due_date_after_period_start'', Check (AtLeast (Column ''due_date'') (Column ''period_start''))),
          (''ck_billing_record_overpaid_amount_positive'', Check (Either (IsNull (Column ''overpaid_amount'')) (Greater (Column ''overpaid_amount'') (Literal (number 0)))))]\<rparr>,
      \<lparr>rel_name = ''receipts'',
        rel_columns = [
          column ''id'' Uuid False None,
          column ''receipt_number'' Integer False (Some ''identity''),
          column ''payment_id'' Uuid False None,
          column ''document_id'' Uuid False None,
          column ''created_at'' Timestamp False (Some ''now()''),
          column ''updated_at'' Timestamp False (Some ''now()'')],
        rel_rules = [
          (''pk_receipts'', Primary [''id'']),
          (''uq_receipts_document_id'', Unique [''document_id'']),
          (''receipts_payment_id_fkey'', Foreign [''payment_id''] ''payments'' NoAction),
          (''receipts_document_id_fkey'', Foreign [''document_id''] ''documents'' NoAction)]\<rparr>,
      \<lparr>rel_name = ''receipt_templates'',
        rel_columns = [
          column ''id'' Uuid False None,
          column ''name'' (Varchar 255) False None,
          column ''property_id'' Uuid True None,
          column ''storage_key'' (Varchar 500) False None,
          column ''file_url'' (Varchar 500) False None,
          column ''is_active'' SqlBool False None,
          column ''created_at'' Timestamp False (Some ''now()''),
          column ''updated_at'' Timestamp False (Some ''now()'')],
        rel_rules = [
          (''pk_receipt_templates'', Primary [''id'']),
          (''receipt_templates_property_id_fkey'', Foreign [''property_id''] ''properties'' NoAction)]\<rparr>],
    indexes = [
      \<lparr>idx_name = ''ix_tenants_full_name'', idx_table = ''tenants'', idx_keys = Columns [''full_name''], idx_unique = False, idx_where = None\<rparr>,
      \<lparr>idx_name = ''ix_users_email'', idx_table = ''users'', idx_keys = Columns [''email''], idx_unique = True, idx_where = None\<rparr>,
      \<lparr>idx_name = ''ix_users_username'', idx_table = ''users'', idx_keys = Columns [''username''], idx_unique = True, idx_where = None\<rparr>,
      \<lparr>idx_name = ''ix_contracts_property_id'', idx_table = ''contracts'', idx_keys = Columns [''property_id''], idx_unique = False, idx_where = None\<rparr>,
      \<lparr>idx_name = ''ix_contracts_tenant_id'', idx_table = ''contracts'', idx_keys = Columns [''tenant_id''], idx_unique = False, idx_where = None\<rparr>,
      \<lparr>idx_name = ''ix_payments_contract_id'', idx_table = ''payments'', idx_keys = Columns [''contract_id''], idx_unique = False, idx_where = None\<rparr>,
      \<lparr>idx_name = ''ix_tenants_user_id'', idx_table = ''tenants'', idx_keys = Columns [''user_id''], idx_unique = True, idx_where = None\<rparr>,
      \<lparr>idx_name = ''ix_tenants_email'', idx_table = ''tenants'', idx_keys = Columns [''email''], idx_unique = True, idx_where = None\<rparr>,
      \<lparr>idx_name = ''uq_active_contract_property'', idx_table = ''contracts'', idx_keys = Columns [''property_id''], idx_unique = True, idx_where = Some (Equal (Column ''status'') (Literal (VText ''ACTIVE'')))\<rparr>,
      \<lparr>idx_name = ''ix_collections_name'', idx_table = ''collections'', idx_keys = Columns [''name''], idx_unique = False, idx_where = None\<rparr>,
      \<lparr>idx_name = ''ix_collections_property_id'', idx_table = ''collections'', idx_keys = Columns [''property_id''], idx_unique = False, idx_where = None\<rparr>,
      \<lparr>idx_name = ''ix_collections_contract_id'', idx_table = ''collections'', idx_keys = Columns [''contract_id''], idx_unique = False, idx_where = None\<rparr>,
      \<lparr>idx_name = ''ix_audit_logs_actor_id'', idx_table = ''audit_logs'', idx_keys = Columns [''actor_id''], idx_unique = False, idx_where = None\<rparr>,
      \<lparr>idx_name = ''ix_audit_logs_entity_type'', idx_table = ''audit_logs'', idx_keys = Columns [''entity_type''], idx_unique = False, idx_where = None\<rparr>,
      \<lparr>idx_name = ''ix_audit_logs_entity_id'', idx_table = ''audit_logs'', idx_keys = Columns [''entity_id''], idx_unique = False, idx_where = None\<rparr>,
      \<lparr>idx_name = ''ix_leases_contract_id'', idx_table = ''leases'', idx_keys = Columns [''contract_id''], idx_unique = True, idx_where = None\<rparr>,
      \<lparr>idx_name = ''ix_billing_records_lease_id'', idx_table = ''billing_records'', idx_keys = Columns [''lease_id''], idx_unique = False, idx_where = None\<rparr>,
      \<lparr>idx_name = ''ix_payments_billing_record_id'', idx_table = ''payments'', idx_keys = Columns [''billing_record_id''], idx_unique = False, idx_where = None\<rparr>,
      \<lparr>idx_name = ''ix_receipts_receipt_number'', idx_table = ''receipts'', idx_keys = Columns [''receipt_number''], idx_unique = True, idx_where = None\<rparr>,
      \<lparr>idx_name = ''ix_receipts_payment_id'', idx_table = ''receipts'', idx_keys = Columns [''payment_id''], idx_unique = False, idx_where = None\<rparr>,
      \<lparr>idx_name = ''ix_receipt_templates_property_id'', idx_table = ''receipt_templates'', idx_keys = Columns [''property_id''], idx_unique = False, idx_where = None\<rparr>,
      \<lparr>idx_name = ''uq_active_receipt_template_scope'', idx_table = ''receipt_templates'', idx_keys = Coalesced ''property_id'', idx_unique = True, idx_where = Some (Equal (Column ''is_active'') (Literal (VBool True)))\<rparr>,
      \<lparr>idx_name = ''ix_audit_logs_entity_type_entity_id'', idx_table = ''audit_logs'', idx_keys = Columns [''entity_type'', ''entity_id''], idx_unique = False, idx_where = None\<rparr>],
    enums = [
      (''userrole'', [''ADMIN'', ''MANAGER'', ''USER'']),
      (''propertystatus'', [''vacant'', ''occupied'']),
      (''rental_type_enum'', [''long_term'', ''short_term'']),
      (''contract_status_enum'', [''ACTIVE'', ''EXPIRED'', ''TERMINATED'']),
      (''payment_status_enum'', [''PAID'', ''PENDING'', ''REFUNDED'', ''VOIDED'']),
      (''auditaction'', [''CREATE'', ''UPDATE'', ''DELETE'']),
      (''lease_billing_cycle_enum'', [''monthly'']),
      (''lease_renewal_option_enum'', [''auto'', ''manual'', ''none'']),
      (''lease_status_enum'', [''ACTIVE'', ''ENDED'']),
      (''billing_record_status_enum'', [''pending'', ''partially_paid'', ''paid'', ''overdue'', ''written_off''])],
    sequences = [''cash_reference_number_seq'']\<rparr>"

definition head_database :: database where
  "head_database = \<lparr>version = Some ''c401d5c30a92'', schema = head_catalogue\<rparr>"

text \<open>Alembic walks the revisions along their links, each once.\<close>

lemma revision_walk:
  "map revision_id (upgrades_after None) =
     [''1dce13f082b1'', ''48ca82ac12a2'', ''0e914e712c11'', ''399e380aa827'', ''20dc3a8be02c'', ''a1f3c9e07d42'',
      ''e946b8cb5e39'', ''1e9348aa4d61'', ''953edb35f418'', ''7916842c18d3'', ''c64a1551612c'', ''f8d16c31acef'',
      ''a3f7c92e1b6d'', ''fbd272996f88'', ''9a07b1630d76'', ''967935f1428a'', ''c401d5c30a92'']"
  by code_simp

lemma head_reached: "upgrade_head new_database = Some head_database"
  by code_simp

lemma head_final: "upgrade_head head_database = Some head_database"
  by code_simp

section \<open>Rows\<close>

text \<open>
  The columns each mapped class stores its attributes in: an attribute has the name of its
  column, and an enumeration is stored by the name of its member.
\<close>

definition row_of :: "(string \<times> sql_value) list \<Rightarrow> sql_row" where
  "row_of vs k = (case map_of vs k of None \<Rightarrow> VNull | Some v \<Rightarrow> v)"

definition nullable :: "('a \<Rightarrow> sql_value) \<Rightarrow> 'a option \<Rightarrow> sql_value" where
  "nullable f x = (case x of None \<Rightarrow> VNull | Some v \<Rightarrow> f v)"

fun role_name :: "user_role \<Rightarrow> string" where
  "role_name ADMIN = ''ADMIN''"
| "role_name MANAGER = ''MANAGER''"
| "role_name USER = ''USER''"

fun property_status_name :: "property_status \<Rightarrow> string" where
  "property_status_name Vacant = ''vacant''"
| "property_status_name Occupied = ''occupied''"

fun rental_type_name :: "rental_type \<Rightarrow> string" where
  "rental_type_name LongTerm = ''long_term''"
| "rental_type_name ShortTerm = ''short_term''"

fun contract_status_name :: "contract_status \<Rightarrow> string" where
  "contract_status_name ContractActive = ''ACTIVE''"
| "contract_status_name ContractExpired = ''EXPIRED''"
| "contract_status_name ContractTerminated = ''TERMINATED''"

fun billing_cycle_name :: "billing_cycle \<Rightarrow> string" where
  "billing_cycle_name Monthly = ''monthly''"

fun renewal_option_name :: "renewal_option \<Rightarrow> string" where
  "renewal_option_name RenewAuto = ''auto''"
| "renewal_option_name RenewManual = ''manual''"
| "renewal_option_name RenewNone = ''none''"

fun lease_status_name :: "lease_status \<Rightarrow> string" where
  "lease_status_name LeaseActive = ''ACTIVE''"
| "lease_status_name LeaseEnded = ''ENDED''"

fun br_status_name :: "br_status \<Rightarrow> string" where
  "br_status_name Pending = ''pending''"
| "br_status_name PartiallyPaid = ''partially_paid''"
| "br_status_name Paid = ''paid''"
| "br_status_name Overdue = ''overdue''"
| "br_status_name WrittenOff = ''written_off''"

fun payment_status_name :: "payment_status \<Rightarrow> string" where
  "payment_status_name PAID = ''PAID''"
| "payment_status_name PENDING = ''PENDING''"
| "payment_status_name VOIDED = ''VOIDED''"
| "payment_status_name REFUNDED = ''REFUNDED''"

fun audit_action_name :: "audit_action \<Rightarrow> string" where
  "audit_action_name CREATE = ''CREATE''"
| "audit_action_name UPDATE = ''UPDATE''"
| "audit_action_name DELETE = ''DELETE''"

definition base_columns :: "'a row_scheme \<Rightarrow> (string \<times> sql_value) list" where
  "base_columns r = [(''id'', VUuid (row_id r)), (''created_at'', VTime (created_at r))]"

definition stamped_columns :: "'a stamped_scheme \<Rightarrow> (string \<times> sql_value) list" where
  "stamped_columns r =
     [(''id'', VUuid (row_id r)), (''created_at'', VTime (created_at r)), (''updated_at'', VTime (updated_at r))]"

definition user_row :: "user \<Rightarrow> sql_row" where
  "user_row u = row_of (stamped_columns u @
     [(''username'', VText (username u)),
      (''email'', VText (user_email u)),
      (''full_name'', VText (user_full_name u)),
      (''password_hash'', VText (password_hash u)),
      (''password_changed_at'', VTime (password_changed_at u)),
      (''role'', VText (role_name (role u))),
      (''is_active'', VBool (user_is_active u))])"

definition property_row :: "property \<Rightarrow> sql_row" where
  "property_row p = row_of (stamped_columns p @
     [(''name'', VText (prop_name p)),
      (''address'', VText (prop_address p)),
      (''description'', nullable VText (prop_description p)),
      (''manager_id'', nullable VUuid (manager_id p)),
      (''status'', VText (property_status_name (prop_status p))),
      (''is_active'', VBool (prop_is_active p))])"

definition tenant_row :: "tenant \<Rightarrow> sql_row" where
  "tenant_row n = row_of (stamped_columns n @
     [(''full_name'', VText (tenant_full_name n)),
      (''email'', VText (tenant_email n)),
      (''phone_number'', VText (phone_number n)),
      (''current_address'', VText (current_address n)),
      (''date_of_birth'', VDate (date_of_birth n)),
      (''occupation'', nullable VText (occupation n)),
      (''notes'', nullable VText (tenant_notes n)),
      (''is_active'', VBool (tenant_is_active n)),
      (''user_id'', nullable VUuid (tenant_user_id n))])"

definition contract_row :: "contract \<Rightarrow> sql_row" where
  "contract_row c = row_of (stamped_columns c @
     [(''property_id'', VUuid (contract_property_id c)),
      (''tenant_id'', VUuid (contract_tenant_id c)),
      (''rental_type'', VText (rental_type_name (contract_rental_type c))),
      (''start_date'', VDate (contract_start c)),
      (''end_date'', nullable VDate (contract_end c)),
      (''rent_amount'', VNumber (rent_amount c)),
      (''deposit'', nullable VNumber (deposit c)),
      (''booking_source'', VText (booking_source c)),
      (''status'', VText (contract_status_name (contract_status c)))])"

definition lease_row :: "lease \<Rightarrow> sql_row" where
  "lease_row l = row_of (stamped_columns l @
     [(''contract_id'', VUuid (lease_contract_id l)),
      (''monthly_rent'', VNumber (monthly_rent l)),
      (''due_day'', number (due_day l)),
      (''billing_cycle'', VText (billing_cycle_name (billing_cycle l))),
      (''security_deposit'', nullable VNumber (security_deposit l)),
      (''advance_payment'', nullable VNumber (advance_payment l)),
      (''late_fee_amount'', nullable VNumber (late_fee_amount l)),
      (''late_fee_percent'', nullable VNumber (late_fee_percent l)),
      (''grace_period_days'', number (grace_period_days l)),
      (''renewal_option'', VText (renewal_option_name (renewal_option l))),
      (''status'', VText (lease_status_name (lease_status l))),
      (''start_date'', VDate (lease_start l)),
      (''end_date'', nullable VDate (lease_end l))])"

definition billing_record_row :: "billing_record \<Rightarrow> sql_row" where
  "billing_record_row r = row_of (stamped_columns r @
     [(''lease_id'', VUuid (br_lease_id r)),
      (''period_start'', VDate (period_start r)),
      (''period_end'', VDate (period_end r)),
      (''due_date'', VDate (due_date r)),
      (''amount_due'', VNumber (amount_due r)),
      (''late_fee_applied'', VBool (late_fee_applied r)),
      (''late_fee_amount_charged'', nullable VNumber (late_fee_amount_charged r)),
      (''overpaid_amount'', nullable VNumber (overpaid_amount r)),
      (''status'', VText (br_status_name (br_status r)))])"

definition payment_row :: "payment \<Rightarrow> sql_row" where
  "payment_row p = row_of (stamped_columns p @
     [(''contract_id'', VUuid (pay_contract_id p)),
      (''billing_record_id'', nullable VUuid (billing_record_id p)),
      (''amount'', VNumber (pay_amount p)),
      (''paid_at'', VTime (paid_at p)),
      (''payment_method'', nullable VText (payment_method p)),
      (''status'', VText (payment_status_name (pay_status p))),
      (''reference_number'', nullable VText (reference_number p)),
      (''corrects_payment_id'', nullable VUuid (corrects_payment_id p))])"

definition document_row :: "document \<Rightarrow> sql_row" where
  "document_row d = row_of (stamped_columns d @
     [(''file_name'', VText (file_name d)),
      (''file_url'', VText (file_url d)),
      (''file_type'', VText (file_type d)),
      (''contract_id'', nullable VUuid (doc_contract_id d)),
      (''property_id'', nullable VUuid (doc_property_id d)),
      (''tenant_id'', nullable VUuid (doc_tenant_id d)),
      (''collection_id'', nullable VUuid (doc_collection_id d))])"

definition collection_row :: "collection \<Rightarrow> sql_row" where
  "collection_row c = row_of (stamped_columns c @
     [(''name'', VText (coll_name c)),
      (''description'', nullable VText (coll_description c)),
      (''property_id'', VUuid (coll_property_id c)),
      (''contract_id'', nullable VUuid (coll_contract_id c))])"

definition receipt_row :: "receipt \<Rightarrow> sql_row" where
  "receipt_row r = row_of (stamped_columns r @
     [(''receipt_number'', number (int (receipt_number r))),
      (''payment_id'', VUuid (rcpt_payment_id r)),
      (''document_id'', VUuid (rcpt_document_id r))])"

definition receipt_template_row :: "receipt_template \<Rightarrow> sql_row" where
  "receipt_template_row r = row_of (stamped_columns r @
     [(''name'', VText (tmpl_name r)),
      (''property_id'', nullable VUuid (tmpl_property_id r)),
      (''storage_key'', VText (storage_key r)),
      (''file_url'', VText (tmpl_file_url r)),
      (''is_active'', VBool (tmpl_is_active r))])"

definition audit_log_row :: "audit_log \<Rightarrow> sql_row" where
  "audit_log_row a = row_of (base_columns a @
     [(''actor_id'', nullable VUuid (actor_id a)),
      (''action'', VText (audit_action_name (action a))),
      (''entity_type'', VText (entity_type a)),
      (''entity_id'', VUuid (entity_id a)),
      (''diff'', nullable VJson (diff a))])"

text \<open>The rows of each table, under its \<open>__tablename__\<close>.\<close>

definition stored :: "tables \<Rightarrow> string \<Rightarrow> sql_row list" where
  "stored t name =
     (case map_of
        [(''users'', map user_row (users t)),
         (''properties'', map property_row (properties t)),
         (''tenants'', map tenant_row (tenants t)),
         (''contracts'', map contract_row (contracts t)),
         (''leases'', map lease_row (leases t)),
         (''billing_records'', map billing_record_row (billing_records t)),
         (''payments'', map payment_row (payments t)),
         (''documents'', map document_row (documents t)),
         (''collections'', map collection_row (collections t)),
         (''receipts'', map receipt_row (receipts t)),
         (''receipt_templates'', map receipt_template_row (receipt_templates t)),
         (''audit_logs'', map audit_log_row (audit_logs t))] name of
        None \<Rightarrow> [] | Some rs \<Rightarrow> rs)"

section \<open>What a catalogue enforces\<close>

definition row_key :: "string list \<Rightarrow> sql_row \<Rightarrow> sql_value list" where
  "row_key cs r = map r cs"

text \<open>Keys with a null are never equal to each other.\<close>

definition unique_keys :: "sql_value list list \<Rightarrow> bool" where
  "unique_keys ks = distinct (filter (\<lambda>k. VNull \<notin> set k) ks)"

text \<open>A condition is broken when it is false; unknown passes.\<close>

fun rule_holds :: "(string \<Rightarrow> sql_row list) \<Rightarrow> string \<Rightarrow> rule \<Rightarrow> bool" where
  "rule_holds st t (Primary cs) =
     (list_all (\<lambda>r. VNull \<notin> set (row_key cs r)) (st t) \<and> distinct (map (row_key cs) (st t)))"
| "rule_holds st t (Unique cs) = unique_keys (map (row_key cs) (st t))"
| "rule_holds st t (Foreign cs u d) =
     list_all (\<lambda>r. VNull \<in> set (row_key cs r) \<or> row_key cs r \<in> set (map (row_key [''id'']) (st u))) (st t)"
| "rule_holds st t (Check c) = list_all (\<lambda>r. cond_value r c \<noteq> Some False) (st t)"

text \<open>
  \<open>COALESCE(property_id, '00000000-0000-0000-0000-000000000000')\<close>; the identifier of zeros is
  number 0.
\<close>

fun coalesce :: "sql_value \<Rightarrow> sql_value \<Rightarrow> sql_value" where
  "coalesce VNull v = v"
| "coalesce u v = u"

fun index_key :: "index_keys \<Rightarrow> sql_row \<Rightarrow> sql_value list" where
  "index_key (Columns cs) r = row_key cs r"
| "index_key (Coalesced c) r = [coalesce (r c) (VUuid 0)]"

definition index_holds :: "(string \<Rightarrow> sql_row list) \<Rightarrow> index_entry \<Rightarrow> bool" where
  "index_holds st i =
     (idx_unique i \<longrightarrow> unique_keys (map (index_key (idx_keys i)) (filter
        (\<lambda>r. case idx_where i of None \<Rightarrow> True | Some c \<Rightarrow> cond_value r c = Some True) (st (idx_table i)))))"

definition table_accepts :: "catalogue \<Rightarrow> (string \<Rightarrow> sql_row list) \<Rightarrow> string \<Rightarrow> bool" where
  "table_accepts c st t =
     (list_all (\<lambda>r. rel_name r = t \<longrightarrow> list_all (\<lambda>(n, k). rule_holds st t k) (rel_rules r)) (relations c) \<and>
      list_all (\<lambda>i. idx_table i = t \<longrightarrow> index_holds st i) (indexes c))"

definition accepts :: "catalogue \<Rightarrow> tables \<Rightarrow> bool" where
  "accepts c t = list_all (table_accepts c (stored t)) (relation_names c)"

text \<open>
  Whether a value fits the type of its column: an enumeration by the labels the type has now.
  The lengths and precisions are not compared.
\<close>

fun fits_type :: "(string \<times> string list) list \<Rightarrow> sql_type \<Rightarrow> sql_value \<Rightarrow> bool" where
  "fits_type es Uuid v = (case v of VUuid _ \<Rightarrow> True | _ \<Rightarrow> False)"
| "fits_type es (Varchar n) v = (case v of VText _ \<Rightarrow> True | _ \<Rightarrow> False)"
| "fits_type es SqlText v = (case v of VText _ \<Rightarrow> True | _ \<Rightarrow> False)"
| "fits_type es SqlDate v = (case v of VDate _ \<Rightarrow> True | _ \<Rightarrow> False)"
| "fits_type es Timestamp v = (case v of VTime _ \<Rightarrow> True | _ \<Rightarrow> False)"
| "fits_type es SqlBool v = (case v of VBool _ \<Rightarrow> True | _ \<Rightarrow> False)"
| "fits_type es Integer v = (case v of VNumber n \<Rightarrow> n mod 100 = 0 | _ \<Rightarrow> False)"
| "fits_type es Json v = (case v of VJson _ \<Rightarrow> True | _ \<Rightarrow> False)"
| "fits_type es (Numeric i j) v = (case v of VNumber _ \<Rightarrow> True | _ \<Rightarrow> False)"
| "fits_type es (SqlEnum n ls new) v =
     (case v of VText s \<Rightarrow> (case map_of es n of None \<Rightarrow> False | Some ms \<Rightarrow> s \<in> set ms) | _ \<Rightarrow> False)"

definition fits_column :: "(string \<times> string list) list \<Rightarrow> sql_row \<Rightarrow> column_entry \<Rightarrow> bool" where
  "fits_column es r k =
     (if r (col_name k) = VNull then col_nullable k else fits_type es (col_type k) (r (col_name k)))"

definition table_stores :: "catalogue \<Rightarrow> (string \<Rightarrow> sql_row list) \<Rightarrow> string \<Rightarrow> bool" where
  "table_stores c st t =
     list_all (\<lambda>r. rel_name r = t \<longrightarrow>
       list_all (\<lambda>row. list_all (fits_column (enums c) row) (rel_columns r)) (st t)) (relations c)"

definition stores :: "catalogue \<Rightarrow> tables \<Rightarrow> bool" where
  "stores c t = list_all (table_stores c (stored t)) (relation_names c)"

section \<open>The head and the models\<close>

named_theorems row_simps

lemma row_of_Nil [row_simps]: "row_of [] k = VNull"
  by (simp add: row_of_def)

lemma row_of_Cons [row_simps]: "row_of ((j, v) # vs) k = (if j = k then v else row_of vs k)"
  by (simp add: row_of_def)

lemma nullable_simps [simp]: "nullable f None = VNull" "nullable f (Some v) = f v"
  by (simp_all add: nullable_def)

lemma number_not_null [simp]: "number n \<noteq> VNull" "VNull \<noteq> number n" "(number m = number n) = (m = n)"
  by (simp_all add: number_def)

lemmas row_defs [row_simps] =
  stamped_columns_def base_columns_def user_row_def property_row_def tenant_row_def contract_row_def lease_row_def
  billing_record_row_def payment_row_def document_row_def collection_row_def receipt_row_def
  receipt_template_row_def audit_log_row_def row_key_def

lemma stored_rows [simp]:
  "stored t ''users'' = map user_row (users t)"
  "stored t ''properties'' = map property_row (properties t)"
  "stored t ''tenants'' = map tenant_row (tenants t)"
  "stored t ''contracts'' = map contract_row (contracts t)"
  "stored t ''leases'' = map lease_row (leases t)"
  "stored t ''billing_records'' = map billing_record_row (billing_records t)"
  "stored t ''payments'' = map payment_row (payments t)"
  "stored t ''documents'' = map document_row (documents t)"
  "stored t ''collections'' = map collection_row (collections t)"
  "stored t ''receipts'' = map receipt_row (receipts t)"
  "stored t ''receipt_templates'' = map receipt_template_row (receipt_templates t)"
  "stored t ''audit_logs'' = map audit_log_row (audit_logs t)"
  by (simp_all add: stored_def)

text \<open>Keys of one or two columns.\<close>

lemma distinct_inj: "inj f \<Longrightarrow> distinct (map (\<lambda>x. f (g x)) xs) = distinct (map g xs)"
  by (auto simp: distinct_map inj_on_def)

lemma unique_total: "(\<And>x. VNull \<notin> set (f x)) \<Longrightarrow> unique_keys (map f xs) = distinct (map f xs)"
  by (simp add: unique_keys_def filter_map comp_def)

lemma unique_null:
  "unique_keys (map (\<lambda>x. [nullable VUuid (g x)]) xs) = distinct (non_null g xs)"
proof -
  have "filter (\<lambda>k. VNull \<notin> set k) (map (\<lambda>x. [nullable VUuid (g x)]) xs) = map (\<lambda>i. [VUuid i]) (non_null g xs)"
    by (induction xs) (simp_all split: option.split)
  then show ?thesis by (simp add: unique_keys_def distinct_map inj_on_def)
qed

lemma distinct_keys [row_simps]:
  "distinct (map (\<lambda>x. [VUuid (f x)]) xs) = distinct (map f xs)"
  "distinct (map (\<lambda>x. [VText (g x)]) xs) = distinct (map g xs)"
  "distinct (map (\<lambda>x. [number (int (n x))]) xs) = distinct (map n xs)"
  "distinct (map (\<lambda>x. [VText (g x), VText (h x)]) xs) = distinct (map (\<lambda>x. (g x, h x)) xs)"
  "distinct (map (\<lambda>x. [VUuid (f x), VDate (d x)]) xs) = distinct (map (\<lambda>x. (f x, d x)) xs)"
  by (auto simp: distinct_map inj_on_def)

lemma unique_key_simps [row_simps]:
  "unique_keys (map (\<lambda>x. [VUuid (f x)]) xs) = distinct (map f xs)"
  "unique_keys (map (\<lambda>x. [VText (g x)]) xs) = distinct (map g xs)"
  "unique_keys (map (\<lambda>x. [number (int (n x))]) xs) = distinct (map n xs)"
  "unique_keys (map (\<lambda>x. [VText (g x), VText (h x)]) xs) = distinct (map (\<lambda>x. (g x, h x)) xs)"
  "unique_keys (map (\<lambda>x. [VUuid (f x), VDate (d x)]) xs) = distinct (map (\<lambda>x. (f x, d x)) xs)"
  "unique_keys (map (\<lambda>x. [nullable VUuid (u x)]) xs) = distinct (non_null u xs)"
  by (simp_all add: unique_total distinct_keys unique_null)

text \<open>The conditions of the CHECK constraints over nullable columns.\<close>

lemma truth_simps [simp]:
  "sql_not (Some a) = Some (\<not> a)" "sql_and (Some a) (Some b) = Some (a \<and> b)"
  "sql_or (Some a) (Some b) = Some (a \<or> b)"
  by (cases a; cases b; simp add: sql_not_def)+

lemma number_le [simp]:
  "sql_le (VNumber a) (number b) = Some (a \<le> 100 * b)" "sql_le (number a) (number b) = Some (a \<le> b)"
  by (simp_all add: number_def)

lemma nullable_null [simp]:
  "(\<And>x. f x \<noteq> VNull) \<Longrightarrow> (nullable f v = VNull) = (v = None)"
  "(\<And>x. VNull \<noteq> f x) \<Longrightarrow> (VNull = nullable f v) = (v = None)"
  by (auto simp: nullable_def split: option.split)

lemma case_option_all [row_simps]: "(case v of None \<Rightarrow> True | Some x \<Rightarrow> P x) = (\<forall>x. v = Some x \<longrightarrow> P x)"
  by (simp split: option.split)

lemma check_positive [row_simps]:
  "(sql_or (Some (v = None)) (sql_not (sql_le (nullable VNumber v) (number 0))) = Some False) = (\<not> opt_pos v)"
  by (cases v) auto

lemma check_end_date [row_simps]:
  "(sql_or (Some (v = None)) (sql_not (sql_le (nullable VDate v) (VDate s))) = Some False) =
     (\<not> (case v of None \<Rightarrow> True | Some e \<Rightarrow> s < e))"
  by (cases v) auto

lemma check_percent [row_simps]:
  "(sql_or (Some (v = None)) (sql_and (sql_not (sql_le (nullable VNumber v) (number 0)))
       (sql_le (nullable VNumber v) (number 100))) = Some False) =
     (\<not> (case v of None \<Rightarrow> True | Some p \<Rightarrow> 0 < p \<and> p \<le> 10000))"
  by (cases v) auto

lemma check_method [row_simps]:
  "((case nullable VText v of VNull \<Rightarrow> None | VText s \<Rightarrow> Some (s \<in> set vs) | _ \<Rightarrow> Some False) = Some False) =
     (\<not> (case v of None \<Rightarrow> True | Some m \<Rightarrow> m \<in> set vs))"
  by (cases v) auto

text \<open>Foreign keys and partial indexes.\<close>

lemma key_in [row_simps]:
  "([VUuid i] \<in> (\<lambda>x. [VUuid (f x)]) ` A) = (i \<in> f ` A)"
  "([nullable VUuid v] \<in> (\<lambda>x. [VUuid (f x)]) ` A) = (\<exists>i. v = Some i \<and> i \<in> f ` A)"
  by (cases v; auto)+

lemma opt_in_iff [row_simps]: "opt_in v xs = (v = None \<or> (\<exists>i. v = Some i \<and> i \<in> set xs))"
  by (cases v) auto

lemma contract_status_name_active [simp]: "(contract_status_name s = ''ACTIVE'') = (s = ContractActive)"
  by (cases s) auto

lemmas accepted_simps =
  row_simps index_holds_def list_all_iff table_constraints_defs ids_def comp_def filter_map
  ck_contract_def ck_lease_def ck_billing_record_def ck_payment_def BOOKING_SOURCE_def PAYMENT_METHODS_def
  active_contracts_def ball_conj_distrib

lemmas head_split = table_accepts_def head_catalogue_def

lemma users_accepted: "table_accepts head_catalogue (stored t) ''users'' = holds_all (users_constraints t)"
  by (simp add: head_split del: rule_holds.simps, auto simp: accepted_simps)

lemma properties_accepted:
  "table_accepts head_catalogue (stored t) ''properties'' = holds_all (properties_constraints t)"
  by (simp add: head_split del: rule_holds.simps, auto simp: accepted_simps)

lemma tenants_accepted:
  "table_accepts head_catalogue (stored t) ''tenants'' = holds_all (tenants_constraints t)"
  by (simp add: head_split del: rule_holds.simps, auto simp: accepted_simps)

lemma contracts_accepted:
  "table_accepts head_catalogue (stored t) ''contracts'' = holds_all (contracts_constraints t)"
  by (simp add: head_split del: rule_holds.simps, auto simp: accepted_simps)

lemma leases_accepted:
  "table_accepts head_catalogue (stored t) ''leases'' = holds_all (leases_constraints t)"
  by (simp add: head_split del: rule_holds.simps, auto simp: accepted_simps)

lemma billing_records_accepted:
  "table_accepts head_catalogue (stored t) ''billing_records'' = holds_all (billing_records_constraints t)"
  by (simp add: head_split del: rule_holds.simps, auto simp: accepted_simps)

lemma payments_accepted:
  "table_accepts head_catalogue (stored t) ''payments'' = holds_all (payments_constraints t)"
  by (simp add: head_split del: rule_holds.simps, auto simp: accepted_simps)

lemma documents_accepted:
  "table_accepts head_catalogue (stored t) ''documents'' = holds_all (documents_constraints t)"
  by (simp add: head_split del: rule_holds.simps, auto simp: accepted_simps)

lemma collections_accepted:
  "table_accepts head_catalogue (stored t) ''collections'' = holds_all (collections_constraints t)"
  by (simp add: head_split del: rule_holds.simps, auto simp: accepted_simps)

lemma receipts_accepted:
  "table_accepts head_catalogue (stored t) ''receipts'' = holds_all (receipts_constraints t)"
  by (simp add: head_split del: rule_holds.simps, auto simp: accepted_simps)

lemma audit_logs_accepted:
  "table_accepts head_catalogue (stored t) ''audit_logs'' = holds_all (audit_logs_constraints t)"
  by (simp add: head_split del: rule_holds.simps, auto simp: accepted_simps)

text \<open>The scope of a template: the identifier of zeros stands for no property.\<close>

definition scope_id :: "uuid option \<Rightarrow> uuid" where
  "scope_id v = (case v of None \<Rightarrow> 0 | Some i \<Rightarrow> i)"

lemma coalesce_scope [row_simps]: "coalesce (nullable VUuid v) (VUuid 0) = VUuid (scope_id v)"
  by (simp add: scope_id_def split: option.split)

lemma scope_keys:
  assumes "\<forall>x\<in>set xs. g x \<noteq> Some 0"
  shows "distinct (map (\<lambda>x. scope_id (g x)) xs) = distinct (map g xs)"
proof -
  have "g x = g y" if "x \<in> set xs" "y \<in> set xs" "scope_id (g x) = scope_id (g y)" for x y
    using that assms by (cases "g x"; cases "g y") (auto simp: scope_id_def)
  then show ?thesis by (auto simp: distinct_map inj_on_def)
qed

lemma receipt_templates_accepted:
  assumes "0 \<notin> set (ids (properties t))"
  shows "table_accepts head_catalogue (stored t) ''receipt_templates'' = holds_all (receipt_templates_constraints t)"
proof -
  let ?fk = "\<forall>r\<in>set (receipt_templates t). opt_in (tmpl_property_id r) (ids (properties t))"
  have a: "table_accepts head_catalogue (stored t) ''receipt_templates'' =
      (distinct (ids (receipt_templates t)) \<and> ?fk \<and>
       distinct (map (\<lambda>r. scope_id (tmpl_property_id r)) (active_templates t)))"
    by (simp add: head_split del: rule_holds.simps, auto simp: accepted_simps coalesce_scope active_templates_def)
  have "distinct (map (\<lambda>r. scope_id (tmpl_property_id r)) (active_templates t)) =
      distinct (map tmpl_property_id (active_templates t))" if ?fk
    using that assms by (intro scope_keys) (auto simp: active_templates_def opt_in_iff)
  with a show ?thesis by (auto simp: receipt_templates_constraints_def list_all_iff)
qed

lemma head_names:
  "relation_names head_catalogue = [''tenants'', ''users'', ''properties'', ''contracts'', ''documents'',
     ''payments'', ''collections'', ''audit_logs'', ''leases'', ''billing_records'', ''receipts'', ''receipt_templates'']"
  by (simp add: relation_names_def head_catalogue_def)

text \<open>
  C37. The migrations and the models declare the same database: migrating a new database to the
  head succeeds, and a set of tables satisfies every primary key, unique constraint, unique
  index, foreign key and CHECK of the resulting catalogue exactly when it satisfies the
  constraints of the models. The only assumption is that no property has the identifier of
  zeros, which the index over the scope of the templates uses for no property.
\<close>

theorem migrated_database_enforces_models:
  assumes "0 \<notin> set (ids (properties t))"
  shows "\<exists>d. upgrade_head new_database = Some d \<and> accepts (schema d) t = schema_ok t"
proof -
  have "accepts head_catalogue t = schema_ok t"
    by (auto simp: accepts_def head_names schema_ok_tables users_accepted properties_accepted tenants_accepted
        contracts_accepted leases_accepted billing_records_accepted payments_accepted documents_accepted
        collections_accepted receipts_accepted audit_logs_accepted receipt_templates_accepted [OF assms])
  then show ?thesis by (simp add: head_reached head_database_def)
qed

theorem migrated_database_enforces_models_witness:
  "\<exists>d. upgrade_head new_database = Some d \<and> accepts (schema d) sample_tables = schema_ok sample_tables"
  by (rule migrated_database_enforces_models) (simp add: sample_tables_def sample_property_def empty_tables_def)

subsection \<open>Types of the columns\<close>

lemma member_names [simp]:
  "role_name r = ''ADMIN'' \<or> role_name r = ''MANAGER'' \<or> role_name r = ''USER''"
  "property_status_name p = ''vacant'' \<or> property_status_name p = ''occupied''"
  "rental_type_name y = ''long_term'' \<or> rental_type_name y = ''short_term''"
  "s = ContractActive \<or> contract_status_name s = ''EXPIRED'' \<or> contract_status_name s = ''TERMINATED''"
  "billing_cycle_name b = ''monthly''"
  "renewal_option_name w = ''auto'' \<or> renewal_option_name w = ''manual'' \<or> renewal_option_name w = ''none''"
  "lease_status_name l = ''ACTIVE'' \<or> lease_status_name l = ''ENDED''"
  "br_status_name q = ''pending'' \<or> br_status_name q = ''partially_paid'' \<or> br_status_name q = ''paid'' \<or>
   br_status_name q = ''overdue'' \<or> br_status_name q = ''written_off''"
  "payment_status_name m = ''PAID'' \<or> payment_status_name m = ''PENDING'' \<or> payment_status_name m = ''REFUNDED'' \<or>
   payment_status_name m = ''VOIDED''"
  "audit_action_name a = ''CREATE'' \<or> audit_action_name a = ''UPDATE'' \<or> audit_action_name a = ''DELETE''"
  by (-, (cases r; simp), (cases p; simp), (cases y; simp), (cases s; simp), (cases b; simp), (cases w; simp),
      (cases l; simp), (cases q; simp), (cases m; simp), (cases a; simp))

lemma fits_nullable [simp]:
  "(case nullable VUuid u of VUuid _ \<Rightarrow> True | _ \<Rightarrow> False) = (u \<noteq> None)"
  "(case nullable VText s of VText _ \<Rightarrow> True | _ \<Rightarrow> False) = (s \<noteq> None)"
  "(case nullable VDate d of VDate _ \<Rightarrow> True | _ \<Rightarrow> False) = (d \<noteq> None)"
  "(case nullable VNumber x of VNumber _ \<Rightarrow> True | _ \<Rightarrow> False) = (x \<noteq> None)"
  "(case nullable VJson y of VJson _ \<Rightarrow> True | _ \<Rightarrow> False) = (y \<noteq> None)"
  "(case number k of VNumber n \<Rightarrow> n mod 100 = 0 | _ \<Rightarrow> False)"
  by (-, (cases u; simp), (cases s; simp), (cases d; simp), (cases x; simp), (cases y; simp), simp add: number_def)

text \<open>The labels of the types, kept apart from the tables.\<close>

definition head_enums :: "(string \<times> string list) list" where
  "head_enums = enums head_catalogue"

lemma head_labels [simp]:
  "map_of head_enums ''userrole'' = Some [''ADMIN'', ''MANAGER'', ''USER'']"
  "map_of head_enums ''propertystatus'' = Some [''vacant'', ''occupied'']"
  "map_of head_enums ''rental_type_enum'' = Some [''long_term'', ''short_term'']"
  "map_of head_enums ''contract_status_enum'' = Some [''ACTIVE'', ''EXPIRED'', ''TERMINATED'']"
  "map_of head_enums ''payment_status_enum'' = Some [''PAID'', ''PENDING'', ''REFUNDED'', ''VOIDED'']"
  "map_of head_enums ''auditaction'' = Some [''CREATE'', ''UPDATE'', ''DELETE'']"
  "map_of head_enums ''lease_billing_cycle_enum'' = Some [''monthly'']"
  "map_of head_enums ''lease_renewal_option_enum'' = Some [''auto'', ''manual'', ''none'']"
  "map_of head_enums ''lease_status_enum'' = Some [''ACTIVE'', ''ENDED'']"
  "map_of head_enums ''billing_record_status_enum'' =
     Some [''pending'', ''partially_paid'', ''paid'', ''overdue'', ''written_off'']"
  by (simp_all add: head_enums_def head_catalogue_def)

lemma table_stores_head:
  "table_stores head_catalogue st t =
     list_all (\<lambda>r. rel_name r = t \<longrightarrow> list_all (\<lambda>k. list_all (\<lambda>row. fits_column head_enums row k) (st t)) (rel_columns r))
       (relations head_catalogue)"
  by (auto simp: table_stores_def head_enums_def list_all_iff)

lemmas fit_simps = row_simps fits_column_def list_all_iff comp_def

lemma people_fit:
  "table_stores head_catalogue (stored t) ''users''"
  "table_stores head_catalogue (stored t) ''tenants''"
  "table_stores head_catalogue (stored t) ''audit_logs''"
  unfolding table_stores_head by (simp_all add: head_catalogue_def del: stored_rows) (simp_all add: fit_simps)

lemma letting_fits:
  "table_stores head_catalogue (stored t) ''properties''"
  "table_stores head_catalogue (stored t) ''contracts''"
  "table_stores head_catalogue (stored t) ''leases''"
  unfolding table_stores_head by (simp_all add: head_catalogue_def del: stored_rows) (simp_all add: fit_simps)

lemma billing_fits:
  "table_stores head_catalogue (stored t) ''billing_records''"
  "table_stores head_catalogue (stored t) ''payments''"
  "table_stores head_catalogue (stored t) ''receipts''"
  unfolding table_stores_head by (simp_all add: head_catalogue_def del: stored_rows) (simp_all add: fit_simps)

lemma papers_fit:
  "table_stores head_catalogue (stored t) ''documents''"
  "table_stores head_catalogue (stored t) ''collections''"
  "table_stores head_catalogue (stored t) ''receipt_templates''"
  unfolding table_stores_head by (simp_all add: head_catalogue_def del: stored_rows) (simp_all add: fit_simps)


section \<open>Resuming\<close>

definition final :: "string option \<Rightarrow> revision list \<Rightarrow> string option" where
  "final v rs = (if rs = [] then v else Some (revision_id (last rs)))"

lemma pending_more: "next_revision (final v (pending n v)) = None \<Longrightarrow> pending (n + j) v = pending n v"
proof (induction n arbitrary: v)
  case 0
  then show ?case by (cases j) (simp_all add: final_def)
next
  case (Suc n)
  show ?case
  proof (cases "next_revision v")
    case (Some r)
    with Suc.prems have "next_revision (final (Some (revision_id r)) (pending n (Some (revision_id r)))) = None"
      by (simp add: final_def split: if_splits)
    from Suc.IH [OF this] Some show ?thesis by simp
  qed simp
qed

lemma drop_pending: "k \<le> length (pending n v) \<Longrightarrow> drop k (pending n v) = pending (n - k) (final v (take k (pending n v)))"
proof (induction k arbitrary: n v)
  case (Suc k)
  then obtain m r where "n = Suc m" "next_revision v = Some r" by (cases n) (auto split: option.splits)
  with Suc show ?case by (auto simp: final_def)
qed (simp add: final_def)

lemma final_append: "final v (xs @ ys) = final (final v xs) ys"
  by (simp add: final_def)

lemma final_simps [simp]: "final v [] = v" "final v (r # rs) = final (Some (revision_id r)) rs"
  by (simp_all add: final_def)

lemma apply_version: "apply_revisions rs d = Some e \<Longrightarrow> version e = final (version d) rs"
  by (induction rs arbitrary: d) (auto split: option.splits)

lemma apply_append:
  "apply_revisions (xs @ ys) d = (case apply_revisions xs d of None \<Rightarrow> None | Some e \<Rightarrow> apply_revisions ys e)"
  by (induction xs arbitrary: d) (auto split: option.split)

lemma next_of_head: "next_revision (final None (pending (length revisions) None)) = None"
proof -
  have "map revision_id (pending (length revisions) None) \<noteq> []" "last (map revision_id (pending (length revisions) None)) = ''c401d5c30a92''"
    using revision_walk by (simp_all add: upgrades_after_def)
  then have "final None (pending (length revisions) None) = Some ''c401d5c30a92''"
    by (simp add: final_def last_map)
  moreover have "map_option revision_id (next_revision (Some ''c401d5c30a92'')) = None" by code_simp
  ultimately show ?thesis by simp
qed

lemma upgrades_resume:
  assumes "k \<le> length (upgrades_after None)"
  shows "upgrades_after (final None (take k (upgrades_after None))) = drop k (upgrades_after None)"
proof -
  let ?n = "length revisions" and ?v = "final None (take k (pending (length revisions) None))"
  have d: "drop k (pending ?n None) = pending (?n - k) ?v"
    using assms by (intro drop_pending) (simp add: upgrades_after_def)
  have "final ?v (pending (?n - k) ?v) = final None (pending ?n None)"
    by (simp flip: d final_append)
  with pending_more [of ?v "?n - k" k] next_of_head have "pending (?n - k + k) ?v = pending (?n - k) ?v" by simp
  moreover have "k \<le> ?n"
    using assms arg_cong [OF revision_walk, of length] by (simp add: revisions_def)
  ultimately show ?thesis by (simp add: upgrades_after_def d)
qed

text \<open>
  C39. Provisioning always ends at the head, wherever it starts: for a database that does not
  exist yet, and for one that an earlier run left after any number of revisions, the head
  included, the script succeeds and leaves the database with exactly the schema of the head,
  the other databases of the server untouched. Running it again changes nothing.
\<close>

theorem provisioning_reaches_head:
  assumes "apply_revisions (take k (upgrades_after None)) new_database = Some d"
    and "srv DB_NAME = Some d \<or> k = 0 \<and> srv DB_NAME = None"
  shows "provision DB_NAME srv = Some (srv(DB_NAME \<mapsto> head_database))"
proof -
  let ?rs = "upgrades_after None"
  have "version d = final None (take k ?rs)"
    using apply_version [OF assms(1)] by (simp add: new_database_def)
  then have "upgrades_after (version d) = drop k ?rs"
    using upgrades_resume [of k] upgrades_resume [of "length ?rs"] by (cases "k \<le> length ?rs") simp_all
  then have "upgrade_head d = apply_revisions (take k ?rs @ drop k ?rs) new_database"
    unfolding apply_append assms(1) by (simp add: upgrade_head_def)
  also have "\<dots> = Some head_database"
    using head_reached by (simp add: upgrade_head_def new_database_def)
  finally have d: "upgrade_head d = Some head_database" .
  with assms show ?thesis
    by (auto simp: provision_def run_migrations_def ensure_database_exists_def)
qed

theorem provisioning_reaches_head_witness:
  "provision ''propnest'' (\<lambda>_. None) = Some [''propnest'' \<mapsto> head_database]"
  by (rule provisioning_reaches_head [of 0 new_database]) simp_all

end
