(* ===== verification/Spec2Isabelle.thy ===== *)
theory Spec2Isabelle
  imports Responses Wiring Provisioning
begin

text \<open>
  PropNest API: a verification development for the backend of a property management system
  (a FastAPI application over PostgreSQL, Redis and MinIO, with an ARQ worker).

  \<^bold>\<open>The program.\<close> A request goes through a route (app/*/routes), which authenticates and
  authorises the caller (app/core/dependencies.py), to a service (app/*/services), which
  checks ownership through the mixin of app/core/services/base.py, reads and writes through
  repositories (app/*/repositories over app/core/repositories/base.py), appends to the audit
  log and commits. Services raise domain exceptions (app/core/services/exceptions.py), which
  the routes and the handlers of app/main.py turn into replies. A worker generates billing
  records and marks them overdue once a day (app/jobs); scripts seed the first accounts.

  \<^bold>\<open>The model.\<close> One theory per part, in the order of the calls:

  \<^item> Prelude: types (money in cents, percentages in hundredths, dates as day numbers, instants in
    microseconds, identifiers as numbers), the patch fields of partial updates, and what the
    program uses of Python's strings; Calendar: the dates of the standard library.
  \<^item> Exceptions, Schema, Session, BaseRepository: the exceptions as values with their HTTP
    status; the rows as records and every constraint of the tables as an executable test;
    the transaction of a session over committed and working tables, where \<open>flush\<close> and
    \<open>commit\<close> fail with the name of a violated constraint; the generic repository as queries
    and updates on a table given by a lens (locale \<open>table_lens\<close>), and the audit trail.
  \<^item> Authorization: ownership checks and the listing restricted to a manager's properties
    (locales \<open>manager_scope\<close> and \<open>scoped_resource\<close>); Wiring: the same checks over the
    repositories a service was built with, and how the application builds its services.
  \<^item> PropertyService, TenantService, Leasing, Billing, Payments, Collections, Dashboard,
    UserService: the services of these names with their repositories and schemas.
  \<^item> Storage, Documents, ReceiptTemplates, ReceiptRender, Receipts: files in the object store
    and what is kept in the database about them; the store is a client with laws
    (\<open>storage_spec\<close>), and programs over it run on a pair of session and store.
  \<^item> AuthService: login with its two throttles in Redis, tokens, and the dependencies that
    identify the caller; Startup: the configuration classes and the start of the application;
    Jobs: the worker; Operations: seeding scripts, Redis client, logging.
  \<^item> Reporting: audit log and activity feed; Routes: the handler of every route; Server: all
    requests as one datatype, a session per request, and the step relation of the system.
  \<^item> Responses: the response models with the validation of replies, and the login route.
  \<^item> Catalogue, Migrations, Provisioning: the catalogue of a database with the statements that
    change it, every revision of alembic/versions as the statements of its upgrade and its
    downgrade, and how a database is brought to the head. The check constraints of the head are
    evaluated in three-valued logic over the rows of the mapped classes, which ties the
    migrations to Schema.
  \<^item> History, Ledger, Guarantees: what a relation between database states must satisfy to hold
    along every history (locales \<open>commit_order\<close>, \<open>history\<close>, \<open>billing_history\<close>,
    \<open>indifferent_history\<close>), the book of bills as the abstract specification of billing, and
    the properties of the application as a whole. Samples: the data of the witnesses.

  Names are those of the source; where several classes share a method name, the theory's
  subject is added (\<open>create_payment\<close>, \<open>create_contract\<close>). A method is a state transformer
  that ends in a value or an exception; everything it changed before an exception stays
  changed in the working tables, and the committed ones change by \<open>commit\<close> only.

  \<^bold>\<open>What the lemmas show.\<close> Each theory has the outcome of its operations on every branch
  (lemmas \<open>..._Inr\<close>, \<open>..._Inl\<close>), that reads change nothing (\<open>pure_read\<close>) and that a write
  changes the committed data at most by one commit at its end (\<open>atomic\<close>), collected in named
  theorems. On these rest the properties: the refinement of the book of bills and what follows
  for every bill, access control over the table of all requests, growth of receipts and
  audit trail along every history, where only the deletion of an account blanks an actor;
  invariants of single services (occupancy, managers, links of documents and tenants); the functional behaviour of billing,
  payments, receipts, templates and the dashboard; round trips (accounts, tokens, uploads,
  receipts, amounts in words); the bounds of the login lockout and of months; the error
  behaviour of uploads and jobs; equivalence of validators and constraints, of chunked and
  whole reading, of the figures of managers and administrators, and of the wired checks
  with the unrestricted ones. The migrated database accepts exactly the tables that satisfy the
  constraints of the models and has a place for every row of them; provisioning ends at the
  head from every earlier revision, and ten downgrades take back their upgrades.

  \<^bold>\<open>Parameters and hypotheses.\<close> Third-party code is an argument: password hashing, token
  encoding, Redis, the object store, the template and PDF engines, uploaded streams, the
  environment, random identifiers. What is assumed of them is a predicate named in the theorem
  (\<open>verifies_own_hashes\<close>, \<open>jwt_roundtrip\<close>, \<open>redis_spec\<close>, \<open>storage_spec\<close>, \<open>reader_spec\<close>), and an
  instance that satisfies it is in the witness. PostgreSQL is modelled by what the program uses
  of it: the constraints it enforces at \<open>flush\<close> and \<open>commit\<close>, and the documented effect of the
  statements of the migrations.

  \<^bold>\<open>Bounds.\<close> Only the walk along the revisions has fuel, their number, and lemma \<open>revision_walk\<close>
  shows that it visits all of them; other loops run over lists that a query returned, over the
  chunks of a stream that has an end, or up to a number of attempts with a proved measure.
  Python's integers are unbounded, as in the model; decimals have two digits in the schema.
  Strings are ASCII.

  \<^bold>\<open>Not modelled.\<close> Parsing of requests and serialising of replies (the framework), beyond the
  fields and validators of the schemas; the wording of messages beyond what distinguishes
  cases; expiry of ORM objects after a rollback; concurrent interleaving inside one request:
  requests and jobs run one after the other, each on its own session, and what a concurrent
  request would see is what the constraints enforce; lengths of strings and precision of numbers
  in the columns; the data a migration converts, and the commits in the middle of the revisions
  1e9348aa4d61 and 967935f1428a; the configuration of Alembic (alembic/env.py) and the rendering of SQL text in
  app/db/constraints.py; the colours of the console log; docker and templates.
\<close>

end
